(* ===== verification/Prelude.thy ===== *)
theory Prelude
  imports Complex_Main "HOL-Library.Word" "HOL-Library.Char_ord" "HOL-Library.List_Lexorder"
begin

text \<open>
  Shared vocabulary of the development: the C++ types the components use, the failures a
  C++ call can have, decimal printing as \<^verbatim>\<open>operator<<\<close> does it, and generic lemmas on lists,
  strings and 64-bit words.

  A \<^verbatim>\<open>std::string\<close> is a \<^typ>\<open>string\<close>; its \<^verbatim>\<open>operator<\<close> compares bytes as unsigned numbers,
  which is the order of \<open>List_Lexorder\<close> over \<open>Char_ord\<close>. A \<^verbatim>\<open>double\<close> is a rational: a finite
  double denotes one, and rounding is a parameter where the code computes with doubles.
\<close>

type_synonym u64 = "64 word"
type_synonym i64 = "64 word"
type_synonym u32 = "32 word"
type_synonym i32 = "32 word"
type_synonym microsecond_t = "64 word"
type_synonym double = rat

text \<open>How a C++ operation can fail to return: an exception, or the end of the process.\<close>

datatype cpp_error =
    BadLexicalCast            \<comment> \<open>boost::bad\_lexical\_cast\<close>
  | OutOfRange                \<comment> \<open>std::out\_of\_range\<close>
  | LengthError               \<comment> \<open>std::length\_error or bad\_alloc for an impossible size\<close>
  | DivisionByZero            \<comment> \<open>SIGFPE\<close>
  | MemoryFault               \<comment> \<open>a read or write outside an array\<close>
  | NullDereference
  | ZmqError nat              \<comment> \<open>zmq::error\_t with its errno\<close>
  | RuntimeErr string         \<comment> \<open>IBAPI::RuntimeError\<close>
  | UserException             \<comment> \<open>whatever a callback throws\<close>
  | SystemError               \<comment> \<open>boost::system::system\_error\<close>
  | FatalLog                  \<comment> \<open>LOG(FATAL) and assert: the process ends\<close>

type_synonym 'a cpp = "cpp_error + 'a"

named_theorems str_simps \<open>facts about printing, splitting and comparing strings\<close>
named_theorems word_nat \<open>conversions from words to natural numbers\<close>

section \<open>Sequencing fallible calls\<close>

definition cpp_bind :: "'a cpp \<Rightarrow> ('a \<Rightarrow> 'b cpp) \<Rightarrow> 'b cpp" where
  "cpp_bind m f = (case m of Inl e \<Rightarrow> Inl e | Inr x \<Rightarrow> f x)"

lemma cpp_bind_simps [simp]:
  "cpp_bind (Inl e) f = Inl e"
  "cpp_bind (Inr x) f = f x"
  by (simp_all add: cpp_bind_def)

lemma cpp_bind_Inr_iff: "cpp_bind m f = Inr y \<longleftrightarrow> (\<exists>x. m = Inr x \<and> f x = Inr y)"
  by (cases m) auto

text \<open>
  \<open>cpp_post t A m\<close>: when the call returns, its result satisfies \<open>A\<close>; when \<open>t\<close> holds it returns.
\<close>

definition cpp_post :: "bool \<Rightarrow> ('a \<Rightarrow> bool) \<Rightarrow> 'a cpp \<Rightarrow> bool" where
  "cpp_post t A m = (case m of Inl e \<Rightarrow> \<not> t | Inr x \<Rightarrow> A x)"

lemma cpp_post_simps [simp]:
  "cpp_post t A (Inl e) = (\<not> t)"
  "cpp_post t A (Inr x) = A x"
  by (simp_all add: cpp_post_def)

lemma cpp_post_bind:
  "cpp_post t A m \<Longrightarrow> (\<And>x. m = Inr x \<Longrightarrow> A x \<Longrightarrow> cpp_post t B (f x)) \<Longrightarrow> cpp_post t B (cpp_bind m f)"
  by (cases m) auto

lemma cpp_post_returns: "cpp_post True A m \<longleftrightarrow> (\<exists>x. m = Inr x \<and> A x)"
  by (cases m) auto

primrec cpp_map :: "('a \<Rightarrow> 'b cpp) \<Rightarrow> 'a list \<Rightarrow> 'b list cpp" where
  "cpp_map f [] = Inr []"
| "cpp_map f (x # xs) = cpp_bind (f x) (\<lambda>y. cpp_bind (cpp_map f xs) (\<lambda>ys. Inr (y # ys)))"

lemma cpp_map_Inr: "(\<And>x. x \<in> set xs \<Longrightarrow> f x = Inr (g x)) \<Longrightarrow> cpp_map f xs = Inr (map g xs)"
  by (induction xs) simp_all

section \<open>Decimal numbers\<close>

definition digit_char :: "nat \<Rightarrow> char" where
  "digit_char d = char_of (48 + d)"

definition is_digit :: "char \<Rightarrow> bool" where
  "is_digit c \<longleftrightarrow> 48 \<le> (of_char c :: nat) \<and> (of_char c :: nat) \<le> 57"

definition digit_val :: "char \<Rightarrow> nat" where
  "digit_val c = of_char c - 48"

text \<open>\<^verbatim>\<open>operator<<\<close> of an unsigned integer, in base ten without padding.\<close>

fun show_nat :: "nat \<Rightarrow> string" where
  "show_nat n =
     (if n < 10 then [digit_char n] else show_nat (n div 10) @ [digit_char (n mod 10)])"

declare show_nat.simps [simp del]

definition show_int :: "int \<Rightarrow> string" where
  "show_int i = (if i < 0 then CHR ''-'' # show_nat (nat (- i)) else show_nat (nat i))"

definition show_u64 :: "u64 \<Rightarrow> string" where
  "show_u64 w = show_nat (unat w)"

primrec nat_of_digits :: "string \<Rightarrow> nat" where
  "nat_of_digits [] = 0"
| "nat_of_digits (c # cs) = digit_val c * 10 ^ length cs + nat_of_digits cs"

lemma digit_char_props [simp]:
  assumes "d < 10"
  shows "is_digit (digit_char d)" "digit_val (digit_char d) = d"
  using assms by (simp_all add: is_digit_def digit_val_def digit_char_def of_char_of)

lemma digit_char_inj: "a < 10 \<Longrightarrow> b < 10 \<Longrightarrow> digit_char a = digit_char b \<longleftrightarrow> a = b"
  by (metis digit_char_props(2))

lemma show_nat_digits [str_simps]: "\<forall>c \<in> set (show_nat n). is_digit c"
proof (induction n rule: show_nat.induct)
  case (1 n)
  then show ?case by (subst show_nat.simps) auto
qed

lemma show_nat_nonempty [simp]: "show_nat n \<noteq> []"
  by (subst show_nat.simps) simp

lemma nat_of_digits_snoc: "nat_of_digits (cs @ [c]) = 10 * nat_of_digits cs + digit_val c"
  by (induction cs) (simp_all add: algebra_simps)

lemma nat_of_digits_append:
  "nat_of_digits (xs @ ys) = nat_of_digits xs * 10 ^ length ys + nat_of_digits ys"
  by (induction xs) (simp_all add: algebra_simps power_add)

lemma nat_of_digits_show_nat [simp]: "nat_of_digits (show_nat n) = n"
proof (induction n rule: show_nat.induct)
  case (1 n)
  then show ?case by (subst show_nat.simps) (simp add: nat_of_digits_snoc)
qed

lemma show_nat_inj [simp]: "show_nat m = show_nat n \<longleftrightarrow> m = n"
  by (metis nat_of_digits_show_nat)

lemma show_u64_inj [simp]: "show_u64 a = show_u64 b \<longleftrightarrow> a = b"
  by (simp add: show_u64_def word_unat_eq_iff)

lemma nat_of_digits_bound:
  "\<forall>c \<in> set cs. is_digit c \<Longrightarrow> nat_of_digits cs < 10 ^ length cs"
proof (induction cs)
  case (Cons c cs)
  then have d: "digit_val c \<le> 9" and IH: "nat_of_digits cs < 10 ^ length cs"
    by (auto simp: is_digit_def digit_val_def)
  have "digit_val c * 10 ^ length cs \<le> 9 * 10 ^ length cs"
    using d by (rule mult_le_mono1)
  then have "digit_val c * 10 ^ length cs + nat_of_digits cs < 9 * 10 ^ length cs + 10 ^ length cs"
    using IH by linarith
  then show ?case by simp
qed simp

lemma length_show_nat_le: "0 < k \<Longrightarrow> length (show_nat n) \<le> k \<longleftrightarrow> n < 10 ^ k"
proof (induction n arbitrary: k rule: show_nat.induct)
  case (1 n)
  show ?case
  proof (cases "n < 10")
    case True
    have "(10::nat) ^ 1 \<le> 10 ^ k" using "1.prems" by (intro power_increasing) auto
    with True "1.prems" show ?thesis by (subst show_nat.simps) auto
  next
    case False
    show ?thesis
    proof (cases "k = 1")
      case True
      with False show ?thesis by (subst show_nat.simps) simp
    next
      case k: False
      then obtain j where j: "k = Suc j" "0 < j"
        using "1.prems" by (cases k) auto
      have "length (show_nat n) \<le> k \<longleftrightarrow> length (show_nat (n div 10)) \<le> j"
        using False j by (subst show_nat.simps) simp
      also have "\<dots> \<longleftrightarrow> n div 10 < 10 ^ j"
        using "1.IH" [OF False] j(2) by simp
      also have "\<dots> \<longleftrightarrow> n < 10 ^ k"
        using j(1) by (simp add: div_less_iff_less_mult mult.commute)
      finally show ?thesis .
    qed
  qed
qed

lemma length_show_nat_eq:
  "0 < k \<Longrightarrow> 10 ^ k \<le> n \<Longrightarrow> n < 10 ^ Suc k \<Longrightarrow> length (show_nat n) = Suc k"
  by (metis length_show_nat_le le_antisym not_less not_less_eq_eq zero_less_Suc)

text \<open>
  On digit strings of the same length, the byte order of \<^verbatim>\<open>std::string\<close> is the order of the
  numbers. On different lengths it is not: \<open>''10'' < ''9''\<close>.
\<close>

lemma digits_less_iff:
  assumes "length xs = length ys" "\<forall>c \<in> set xs. is_digit c" "\<forall>c \<in> set ys. is_digit c"
  shows "xs < ys \<longleftrightarrow> nat_of_digits xs < nat_of_digits ys"
  using assms
proof (induction xs ys rule: list_induct2)
  case (Cons x xs y ys)
  have bx: "nat_of_digits xs < 10 ^ length xs" and "by": "nat_of_digits ys < 10 ^ length xs"
    using Cons.prems nat_of_digits_bound [of xs] nat_of_digits_bound [of ys] Cons.hyps
    by auto
  have IH: "xs < ys \<longleftrightarrow> nat_of_digits xs < nat_of_digits ys"
    using Cons by simp
  have dx: "of_char x = digit_val x + 48" and dy: "of_char y = digit_val y + 48"
    using Cons.prems by (simp_all add: is_digit_def digit_val_def)
  have xy: "x < y \<longleftrightarrow> digit_val x < digit_val y" "x = y \<longleftrightarrow> digit_val x = digit_val y"
    using dx dy by (simp_all add: less_char_def) (metis char_of_char)
  have lt: "a * (10::nat) ^ length xs + u < b * 10 ^ length xs + v"
    if "a < b" "u < 10 ^ length xs" for a b u v :: nat
  proof -
    have "a * (10::nat) ^ length xs + u < Suc a * 10 ^ length xs" using that(2) by simp
    also have "\<dots> \<le> b * 10 ^ length xs" using that(1) by (intro mult_le_mono1) simp
    finally show ?thesis by simp
  qed
  consider "digit_val x < digit_val y" | "digit_val x = digit_val y" | "digit_val y < digit_val x"
    by linarith
  then show ?case
  proof cases
    case 1
    then show ?thesis using lt [OF 1 bx] xy Cons.hyps by simp
  next
    case 2
    then show ?thesis using IH xy Cons.hyps by simp
  next
    case 3
    then show ?thesis using lt [OF 3 "by"] xy Cons.hyps by (auto dest: order.asym)
  qed
qed simp

lemma show_nat_less_iff:
  "length (show_nat a) = length (show_nat b) \<Longrightarrow> show_nat a < show_nat b \<longleftrightarrow> a < b"
  by (simp add: digits_less_iff show_nat_digits)

lemma digit_not [simp]:
  "\<not> is_digit (CHR '':'')" "\<not> is_digit (CHR ''.'')" "\<not> is_digit (CHR '','')"
  "\<not> is_digit (CHR ''='')" "\<not> is_digit (CHR '';'')" "\<not> is_digit (CHR ''-'')"
  "\<not> is_digit (CHR ''+'')"
  by (simp_all add: is_digit_def)

lemma not_in_show_nat [str_simps]: "\<not> is_digit c \<Longrightarrow> c \<notin> set (show_nat n)"
  using show_nat_digits by blast

lemma append_less_cancel [simp]: "(p @ xs < p @ ys) = (xs < (ys :: 'a :: linorder list))"
  by (induction p) auto

lemma append_le_cancel [simp]: "(p @ xs \<le> p @ ys) = (xs \<le> (ys :: 'a :: linorder list))"
  by (induction p) auto

text \<open>A separator that occurs in neither prefix cuts a string in one way.\<close>

lemma cut_at_sep:
  "c \<notin> set a \<Longrightarrow> c \<notin> set a' \<Longrightarrow> a @ c # b = a' @ c # b' \<longleftrightarrow> a = a' \<and> b = b'"
proof (induction a arbitrary: a')
  case Nil
  then show ?case by (cases a') auto
next
  case (Cons x a)
  then show ?case by (cases a') auto
qed

lemma cut_at_last_sep:
  assumes "c \<notin> set b" "c \<notin> set b'"
  shows "a @ c # b = a' @ c # b' \<longleftrightarrow> a = a' \<and> b = b'"
proof -
  have "a @ c # b = a' @ c # b' \<longleftrightarrow> rev b @ c # rev a = rev b' @ c # rev a'"
    by (metis append.assoc append_Cons append_Nil rev.simps(2) rev_append rev_rev_ident)
  then show ?thesis using assms cut_at_sep [of c "rev b" "rev b'" "rev a" "rev a'"] by auto
qed

section \<open>Lists and options\<close>

lemma take_last_append: "drop (length xs) (xs @ ys) = ys"
  by simp

definition last_n :: "nat \<Rightarrow> 'a list \<Rightarrow> 'a list" where
  "last_n n xs = drop (length xs - n) xs"

lemma length_last_n [simp]: "length (last_n n xs) = min n (length xs)"
  by (simp add: last_n_def)

lemma last_n_all [simp]: "length xs \<le> n \<Longrightarrow> last_n n xs = xs"
  by (simp add: last_n_def)

lemma last_n_0 [simp]: "last_n 0 xs = []"
  by (simp add: last_n_def)

lemma last_n_Suc_snoc [simp]: "last_n (Suc n) (xs @ [x]) = last_n n xs @ [x]"
  by (simp add: last_n_def)

lemma last_n_append_last_n: "last_n n (last_n n xs @ ys) = last_n n (xs @ ys)"
proof (cases "length xs \<le> n")
  case False
  then have "drop (n + length ys - n) (drop (length xs - n) xs) = drop (length xs + length ys - n) xs"
    by (simp add: add.commute)
  with False show ?thesis by (simp add: last_n_def)
qed simp

lemma last_n_nth: "n \<le> length xs \<Longrightarrow> i < n \<Longrightarrow> last_n n xs ! i = xs ! (length xs - n + i)"
  by (simp add: last_n_def)

section \<open>Words\<close>

lemma unat_sub_le [word_nat]: "b \<le> a \<Longrightarrow> unat (a - b) = unat a - unat (b :: 'a :: len word)"
  by (simp add: unat_sub)

lemma unat_mod_le [simp]: "(a :: 'a :: len word) mod b \<le> a"
  by (simp add: word_le_nat_alt unat_mod)

lemma sint_of_int32 [word_nat]: "- (2 ^ 31) \<le> i \<Longrightarrow> i < 2 ^ 31 \<Longrightarrow> sint (of_int i :: 32 word) = i"
  by (simp add: signed_of_int signed_take_bit_int_eq_self)

lemma sint_of_nat32 [word_nat]: "n < 2 ^ 31 \<Longrightarrow> sint (of_nat n :: 32 word) = int n"
  using sint_of_int32 [of "int n"] by simp

lemma sint_of_int64 [word_nat]: "- (2 ^ 63) \<le> i \<Longrightarrow> i < 2 ^ 63 \<Longrightarrow> sint (of_int i :: 64 word) = i"
  by (simp add: signed_of_int signed_take_bit_int_eq_self)

lemma sint_of_nat64 [word_nat]: "n < 2 ^ 63 \<Longrightarrow> sint (of_nat n :: 64 word) = int n"
  using sint_of_int64 [of "int n"] by simp

end
