(* ===== verification/Ring_Buffer.thy ===== *)
theory Ring_Buffer
  imports Prelude
begin

text \<open>
  \<^verbatim>\<open>boost::circular_buffer\<close>, the store behind every moving window, is library code: the model
  takes its operations as a parameter, the record below, and the locale \<open>circular_buffer_laws\<close>
  states what the library documents of them. The array implementation at the end satisfies the
  laws, wraps around as the library's does, and is what the concrete evaluations run on.
\<close>

section \<open>The interface\<close>

record ('e, 'b) circular_buffer =
  cb_make :: "nat \<Rightarrow> 'b"                      \<comment> \<open>circular\_buffer(capacity)\<close>
  cb_push_back :: "'b \<Rightarrow> 'e \<Rightarrow> 'b"
  cb_capacity :: "'b \<Rightarrow> nat"
  cb_contents :: "'b \<Rightarrow> 'e list"             \<comment> \<open>the elements, operator[](0) first\<close>
  cb_array_one :: "'b \<Rightarrow> 'e list"            \<comment> \<open>array\_one(): pointer and size\<close>
  cb_array_two :: "'b \<Rightarrow> 'e list"

definition cb_size :: "('e, 'b) circular_buffer \<Rightarrow> 'b \<Rightarrow> nat" where
  "cb_size cb b = length (cb_contents cb b)"

text \<open>Reads through \<^verbatim>\<open>operator[]\<close> outside the elements are undefined behaviour.\<close>

definition cb_at :: "('e, 'b) circular_buffer \<Rightarrow> 'b \<Rightarrow> int \<Rightarrow> 'e cpp" where
  "cb_at cb b i =
     (if 0 \<le> i \<and> nat i < cb_size cb b then Inr (cb_contents cb b ! nat i) else Inl MemoryFault)"

primrec cb_push_n :: "('e, 'b) circular_buffer \<Rightarrow> nat \<Rightarrow> 'e \<Rightarrow> 'b \<Rightarrow> 'b" where
  "cb_push_n cb 0 x b = b"
| "cb_push_n cb (Suc n) x b = cb_push_n cb n x (cb_push_back cb b x)"

locale circular_buffer_laws =
  fixes cb :: "('e, 'b) circular_buffer"
    and ok :: "'b \<Rightarrow> bool"
  assumes make_ok: "ok (cb_make cb n)"
    and make_capacity: "cb_capacity cb (cb_make cb n) = n"
    and make_contents: "cb_contents cb (cb_make cb n) = []"
    and push_ok: "ok b \<Longrightarrow> ok (cb_push_back cb b x)"
    and push_capacity: "ok b \<Longrightarrow> cb_capacity cb (cb_push_back cb b x) = cb_capacity cb b"
    and push_contents:
      "ok b \<Longrightarrow> cb_contents cb (cb_push_back cb b x) = last_n (cb_capacity cb b) (cb_contents cb b @ [x])"
    and arrays: "ok b \<Longrightarrow> cb_array_one cb b @ cb_array_two cb b = cb_contents cb b"
begin

lemma push_n_ok: "ok b \<Longrightarrow> ok (cb_push_n cb n x b)"
  by (induction n arbitrary: b) (simp_all add: push_ok)

lemma push_n_capacity: "ok b \<Longrightarrow> cb_capacity cb (cb_push_n cb n x b) = cb_capacity cb b"
  by (induction n arbitrary: b) (simp_all add: push_ok push_capacity)

lemma push_n_contents:
  assumes "ok b" "length (cb_contents cb b) \<le> cb_capacity cb b"
  shows "cb_contents cb (cb_push_n cb n x b) =
           last_n (cb_capacity cb b) (cb_contents cb b @ replicate n x)"
  using assms
proof (induction n arbitrary: b)
  case (Suc n)
  let ?b = "cb_push_back cb b x"
  have "cb_contents cb (cb_push_n cb n x ?b) =
          last_n (cb_capacity cb ?b) (cb_contents cb ?b @ replicate n x)"
    by (rule Suc.IH) (use Suc.prems in \<open>simp_all add: push_ok push_capacity push_contents\<close>)
  then show ?case
    using Suc.prems by (simp add: push_capacity push_contents last_n_append_last_n)
qed simp

lemma push_n_full:
  assumes "ok b" "length (cb_contents cb b) = cb_capacity cb b"
  shows "length (cb_contents cb (cb_push_n cb n x b)) = cb_capacity cb b"
  using assms by (simp add: push_n_contents)

lemma filled:
  "cb_contents cb (cb_push_n cb n x (cb_make cb n)) = replicate n x"
  by (simp add: push_n_contents make_ok make_contents make_capacity)

lemmas push_n_laws = push_n_ok push_n_capacity push_n_contents

end

section \<open>An array implementation\<close>

record 'e ring =
  rb_slots :: "'e option list"
  rb_first :: nat
  rb_count :: nat

definition ring_make :: "nat \<Rightarrow> 'e ring" where
  "ring_make n = \<lparr>rb_slots = replicate n None, rb_first = 0, rb_count = 0\<rparr>"

definition ring_push :: "'e ring \<Rightarrow> 'e \<Rightarrow> 'e ring" where
  "ring_push r x =
     (let n = length (rb_slots r) in
      if n = 0 then r
      else if rb_count r = n
        then r\<lparr>rb_slots := (rb_slots r)[rb_first r := Some x], rb_first := (rb_first r + 1) mod n\<rparr>
        else r\<lparr>rb_slots := (rb_slots r)[(rb_first r + rb_count r) mod n := Some x],
               rb_count := rb_count r + 1\<rparr>)"

definition ring_one :: "'e ring \<Rightarrow> 'e list" where
  "ring_one r = map the (take (rb_count r) (drop (rb_first r) (rb_slots r)))"

definition ring_two :: "'e ring \<Rightarrow> 'e list" where
  "ring_two r = map the (take (rb_count r - (length (rb_slots r) - rb_first r)) (rb_slots r))"

definition ring_cb :: "('e, 'e ring) circular_buffer" where
  "ring_cb = \<lparr>cb_make = ring_make, cb_push_back = ring_push,
              cb_capacity = (\<lambda>r. length (rb_slots r)), cb_contents = (\<lambda>r. ring_one r @ ring_two r),
              cb_array_one = ring_one, cb_array_two = ring_two\<rparr>"

definition ring_ok :: "'e ring \<Rightarrow> bool" where
  "ring_ok r \<longleftrightarrow> rb_count r \<le> length (rb_slots r) \<and>
     (rb_slots r \<noteq> [] \<longrightarrow> rb_first r < length (rb_slots r))"

definition ring_list :: "'e ring \<Rightarrow> 'e list" where
  "ring_list r = ring_one r @ ring_two r"

lemma ring_list_length: "ring_ok r \<Longrightarrow> length (ring_list r) = rb_count r"
  by (auto simp: ring_list_def ring_one_def ring_two_def ring_ok_def min_def)

text \<open>The element at logical position \<open>i\<close> sits in the slot \<open>(first + i) mod n\<close>.\<close>

lemma ring_list_nth:
  assumes "ring_ok r" "i < rb_count r"
  shows "ring_list r ! i = the (rb_slots r ! ((rb_first r + i) mod length (rb_slots r)))"
proof (cases "i < length (rb_slots r) - rb_first r")
  case True
  then show ?thesis using assms by (simp add: ring_list_def ring_one_def ring_ok_def nth_append)
next
  case False
  have f: "rb_first r < length (rb_slots r)" using assms by (auto simp: ring_ok_def)
  then have "length (rb_slots r) \<le> rb_first r + i" "rb_first r + i < 2 * length (rb_slots r)"
    using False assms by (auto simp: ring_ok_def)
  then have m: "(rb_first r + i) mod length (rb_slots r) = rb_first r + i - length (rb_slots r)"
    by (simp add: mod_if)
  have one: "length (ring_one r) = length (rb_slots r) - rb_first r"
    using False assms by (simp add: ring_one_def)
  have "i - length (ring_one r) = rb_first r + i - length (rb_slots r)"
    using f one by simp
  then show ?thesis
    using False assms f m one by (auto simp: ring_list_def ring_two_def ring_ok_def nth_append)
qed

lemma ring_push_ok: "ring_ok r \<Longrightarrow> ring_ok (ring_push r x)"
  by (auto simp: ring_push_def ring_ok_def Let_def)

lemma ring_push_slots [simp]: "length (rb_slots (ring_push r x)) = length (rb_slots r)"
  by (simp add: ring_push_def Let_def)

lemma mod_shift_neq: "i < (n::nat) \<Longrightarrow> j < n \<Longrightarrow> i \<noteq> j \<Longrightarrow> (f + i) mod n \<noteq> (f + j) mod n"
  unfolding mod_eq_iff_dvd_symdiff_nat using zdvd_not_zless [of "\<bar>int i - int j\<bar>" "int n"] by auto

lemma ring_push_full:
  assumes ok: "ring_ok r" and full: "rb_count r = length (rb_slots r)" and ne: "rb_slots r \<noteq> []"
  shows "ring_list (ring_push r x) = tl (ring_list r) @ [x]"
proof (rule nth_equalityI)
  let ?n = "length (rb_slots r)"
  have len: "length (ring_list r) = ?n" using ok full by (simp add: ring_list_length)
  have cnt: "rb_count (ring_push r x) = ?n" using full ne by (simp add: ring_push_def)
  have n: "0 < ?n" "rb_first r < ?n" using ok ne by (auto simp: ring_ok_def)
  show l: "length (ring_list (ring_push r x)) = length (tl (ring_list r) @ [x])"
    using ring_push_ok [OF ok, of x] cnt len n by (simp add: ring_list_length)
  fix i assume "i < length (ring_list (ring_push r x))"
  then have i: "i < ?n" using l len n by simp
  have "ring_list (ring_push r x) ! i =
      the ((rb_slots r)[rb_first r := Some x] ! ((rb_first r + Suc i) mod ?n))"
    using ring_list_nth [OF ring_push_ok [OF ok, of x], of i] i cnt full ne
    by (simp add: ring_push_def mod_add_left_eq)
  also have "\<dots> = (tl (ring_list r) @ [x]) ! i"
  proof (cases "Suc i = ?n")
    case True
    then have "tl (ring_list r) @ [x] = tl (ring_list r) @ [x] \<and> i = length (tl (ring_list r))"
      using len by simp
    then show ?thesis using n True by (simp add: nth_append)
  next
    case False
    then have "(rb_first r + Suc i) mod ?n \<noteq> rb_first r"
      using i n mod_shift_neq [of "Suc i" ?n 0 "rb_first r"] by simp
    moreover have "(tl (ring_list r) @ [x]) ! i = ring_list r ! Suc i"
      using False i len by (auto simp: nth_append nth_tl)
    ultimately show ?thesis
      using ring_list_nth [OF ok, of "Suc i"] False i full by simp
  qed
  finally show "ring_list (ring_push r x) ! i = (tl (ring_list r) @ [x]) ! i" .
qed

lemma ring_push_room:
  assumes ok: "ring_ok r" and room: "rb_count r < length (rb_slots r)"
  shows "ring_list (ring_push r x) = ring_list r @ [x]"
proof (rule nth_equalityI)
  let ?n = "length (rb_slots r)"
  have ne: "rb_slots r \<noteq> []" using room by auto
  have len: "length (ring_list r) = rb_count r" using ok by (simp add: ring_list_length)
  have cnt: "rb_count (ring_push r x) = Suc (rb_count r)"
    using room ne by (simp add: ring_push_def)
  show l: "length (ring_list (ring_push r x)) = length (ring_list r @ [x])"
    using ring_push_ok [OF ok, of x] cnt len by (simp add: ring_list_length)
  fix i assume "i < length (ring_list (ring_push r x))"
  then have i: "i \<le> rb_count r" using l len by simp
  have eq: "ring_list (ring_push r x) ! i =
      the ((rb_slots r)[(rb_first r + rb_count r) mod ?n := Some x] ! ((rb_first r + i) mod ?n))"
    using ring_list_nth [OF ring_push_ok [OF ok, of x], of i] i cnt room ne
    by (simp add: ring_push_def)
  show "ring_list (ring_push r x) ! i = (ring_list r @ [x]) ! i"
  proof (cases "i = rb_count r")
    case True
    have "(rb_first r + rb_count r) mod ?n < ?n" using ne by (intro mod_less_divisor) simp
    then show ?thesis using eq len True by (simp add: nth_append)
  next
    case False
    then show ?thesis
      using eq len room i ring_list_nth [OF ok, of i] mod_shift_neq [of i ?n "rb_count r" "rb_first r"]
      by (simp add: nth_append)
  qed
qed

lemma ring_push_contents:
  assumes ok: "ring_ok r"
  shows "ring_list (ring_push r x) = last_n (length (rb_slots r)) (ring_list r @ [x])"
proof -
  have len: "length (ring_list r) = rb_count r" using ok by (simp add: ring_list_length)
  consider "rb_slots r = []" | "rb_slots r \<noteq> []" "rb_count r = length (rb_slots r)"
    | "rb_count r < length (rb_slots r)"
    using ok by (fastforce simp: ring_ok_def)
  then show ?thesis
  proof cases
    case 1
    then show ?thesis by (simp add: ring_push_def ring_list_def ring_one_def ring_two_def)
  next
    case 2
    then show ?thesis using ring_push_full [OF ok 2(2) 2(1), of x] len
      by (cases "ring_list r") (simp_all add: last_n_def)
  next
    case 3
    then show ?thesis using ring_push_room [OF ok 3, of x] len by simp
  qed
qed

interpretation ring: circular_buffer_laws ring_cb ring_ok
proof (unfold_locales, goal_cases)
  case (6 b x)
  then show ?case using ring_push_contents [of b x] by (simp add: ring_cb_def ring_list_def)
qed (auto simp: ring_cb_def ring_make_def ring_ok_def ring_one_def ring_two_def ring_push_def Let_def)

lemmas ring_laws = ring.circular_buffer_laws_axioms

end
