(* ===== verification/Time_Policy.thy ===== *)
theory Time_Policy
  imports Prelude
begin

text \<open>
  Time: \<^verbatim>\<open>common/time_utils.hpp\<close> and \<^verbatim>\<open>time_utils.cpp\<close> (conversion between microseconds and
  \<^verbatim>\<open>boost::posix_time::ptime\<close>, trading hours), and \<^verbatim>\<open>common/moving_window_interval_policy.hpp\<close>
  (the policy that aligns sampling periods at zero). The date library is a parameter, the record
  \<open>posix_time\<close>; its laws are what its documentation says of the proleptic calendar between the
  epoch and the year 10000.
\<close>

section \<open>The date library\<close>

record 'pt posix_time =
  pt_from_time_t :: "int \<Rightarrow> 'pt"                \<comment> \<open>from\_time\_t(seconds)\<close>
  pt_add_micros :: "'pt \<Rightarrow> int \<Rightarrow> 'pt"         \<comment> \<open>t += time\_duration(0,0,0,micros)\<close>
  pt_days :: "'pt \<Rightarrow> int"                        \<comment> \<open>(t.date() - EPOCH.date()).days()\<close>
  pt_tod :: "'pt \<Rightarrow> int"                         \<comment> \<open>t.time\_of\_day().total\_microseconds()\<close>
  pt_utc_to_eastern :: "'pt \<Rightarrow> 'pt"
  pt_eastern_to_utc :: "'pt \<Rightarrow> 'pt"
  pt_from_string :: "string \<Rightarrow> 'pt cpp"         \<comment> \<open>time\_from\_string, which may throw\<close>
  pt_default :: 'pt                             \<comment> \<open>ptime(): not a date time\<close>

definition micros_per_day :: int where
  "micros_per_day = 24 * 60 * 60 * 1000000"

definition max_ptime_seconds :: int where
  "max_ptime_seconds = 253402300800"            \<comment> \<open>the first second of the year 10000\<close>

locale posix_time_laws =
  fixes P :: "'pt posix_time"
  assumes days_from_time_t:
      "0 \<le> s \<Longrightarrow> s < max_ptime_seconds \<Longrightarrow> 0 \<le> m \<Longrightarrow> m < 1000000 \<Longrightarrow>
         pt_days P (pt_add_micros P (pt_from_time_t P s) m) = (s * 1000000 + m) div micros_per_day"
    and tod_from_time_t:
      "0 \<le> s \<Longrightarrow> s < max_ptime_seconds \<Longrightarrow> 0 \<le> m \<Longrightarrow> m < 1000000 \<Longrightarrow>
         pt_tod P (pt_add_micros P (pt_from_time_t P s) m) = (s * 1000000 + m) mod micros_per_day"

section \<open>time\_utils\<close>

definition RTH_START_EST :: int where "RTH_START_EST = (9 * 60 + 30) * 60 * 1000000"
definition RTH_END_EST :: int where "RTH_END_EST = 16 * 60 * 60 * 1000000"
definition EXT_START :: int where "EXT_START = 4 * 60 * 60 * 1000000"
definition EXT_END :: int where "EXT_END = 20 * 60 * 60 * 1000000"

definition as_ptime :: "'pt posix_time \<Rightarrow> u64 \<Rightarrow> 'pt" where
  "as_ptime P ts =
     pt_add_micros P (pt_from_time_t P (sint (ts div 1000000))) (uint (ts mod 1000000))"

definition as_micros :: "'pt posix_time \<Rightarrow> 'pt \<Rightarrow> u64" where
  "as_micros P pt =
     (let d = of_int (pt_days P pt * 24 * 60 * 60 * 1000000) :: u64
      in d + of_int (pt_tod P pt))"

definition to_est :: "'pt posix_time \<Rightarrow> 'pt \<Rightarrow> 'pt" where
  "to_est P t = pt_utc_to_eastern P t"

definition checkRTH :: "'pt posix_time \<Rightarrow> 'pt \<Rightarrow> bool" where
  "checkRTH P t =
     (let eastern = pt_tod P (pt_utc_to_eastern P t)
      in RTH_START_EST \<le> eastern \<and> eastern < RTH_END_EST)"

definition checkEXT :: "'pt posix_time \<Rightarrow> 'pt \<Rightarrow> bool" where
  "checkEXT P t =
     (let eastern = pt_tod P (pt_utc_to_eastern P t)
      in EXT_START \<le> eastern \<and> eastern < EXT_END)"

text \<open>\<open>parse\<close> writes through its output pointer only when it returns true: \<open>Inr (Some t)\<close>.\<close>

definition time_parse ::
  "'pt posix_time \<Rightarrow> string \<Rightarrow> bool \<Rightarrow> 'pt option cpp" where
  "time_parse P input est =
     cpp_bind (pt_from_string P input) (\<lambda>pt.
       if pt \<noteq> pt_default P
       then Inr (Some (if \<not> est then pt else pt_eastern_to_utc P pt))
       else Inr None)"

context posix_time_laws
begin

lemma seconds_split:
  assumes "uint ts < max_ptime_seconds * 1000000"
  shows "sint (ts div 1000000) = uint (ts :: u64) div 1000000" "uint (ts mod 1000000) = uint ts mod 1000000"
    "0 \<le> uint ts div 1000000" "uint ts div 1000000 < max_ptime_seconds" "0 \<le> uint ts mod 1000000" "uint ts mod 1000000 < 1000000"
proof -
  let ?s = "uint ts div 1000000"
  have "uint (ts div 1000000) = ?s" by (simp add: uint_div)
  moreover have "?s < 2 ^ 63" "0 \<le> ?s"
    using assms by (simp_all add: max_ptime_seconds_def pos_imp_zdiv_nonneg_iff)
  ultimately show "sint (ts div 1000000) = ?s"
    by (simp add: sint_uint signed_take_bit_int_eq_self_iff)
qed (use assms in \<open>simp_all add: uint_mod max_ptime_seconds_def pos_imp_zdiv_nonneg_iff\<close>)

lemma as_micros_as_ptime:
  assumes "uint ts < max_ptime_seconds * 1000000"
  shows "as_micros P (as_ptime P ts) = ts"
proof -
  let ?s = "uint ts div 1000000" and ?m = "uint ts mod 1000000"
  note s = seconds_split(1,2) [OF assms] and r = seconds_split(3-) [OF assms]
  have eq: "?s * 1000000 + ?m = uint ts" by simp
  have "as_micros P (as_ptime P ts) =
      of_int (uint ts div micros_per_day * 24 * 60 * 60 * 1000000) + of_int (uint ts mod micros_per_day)"
    using days_from_time_t [OF r] tod_from_time_t [OF r]
    unfolding eq as_micros_def as_ptime_def s Let_def by simp
  also have "\<dots> = of_int (uint ts div micros_per_day * micros_per_day + uint ts mod micros_per_day)"
    unfolding micros_per_day_def by (simp only: of_int_add mult.assoc)
  finally show ?thesis by simp
qed

end

text \<open>Microseconds since the epoch are a model of \<^verbatim>\<open>ptime\<close>; local time is five hours behind.\<close>

definition int_ptime :: "int posix_time" where
  "int_ptime = \<lparr>pt_from_time_t = (\<lambda>s. s * 1000000), pt_add_micros = (+),
     pt_days = (\<lambda>t. t div micros_per_day), pt_tod = (\<lambda>t. t mod micros_per_day),
     pt_utc_to_eastern = (\<lambda>t. t - 5 * 60 * 60 * 1000000),
     pt_eastern_to_utc = (\<lambda>t. t + 5 * 60 * 60 * 1000000),
     pt_from_string = (\<lambda>s. Inl OutOfRange), pt_default = -1\<rparr>"

interpretation int_time: posix_time_laws int_ptime
  by unfold_locales (simp_all add: int_ptime_def)

lemma checkRTH_imp_checkEXT: "checkRTH P t \<Longrightarrow> checkEXT P t"
  by (auto simp: checkRTH_def checkEXT_def RTH_START_EST_def RTH_END_EST_def
      EXT_START_def EXT_END_def Let_def)

section \<open>align\_at\_zero\<close>

text \<open>The start of the sampling period that holds a time stamp.\<close>

definition align_floor :: "u64 \<Rightarrow> u64 \<Rightarrow> u64" where
  "align_floor window_size ts = ts - (ts mod window_size)"

definition align_get_time :: "u64 \<Rightarrow> u64 \<Rightarrow> u64 \<Rightarrow> u64 cpp" where
  "align_get_time window_size curr_ts offset =
     (if window_size = 0 then Inl DivisionByZero
      else Inr (align_floor window_size curr_ts - offset * window_size))"

text \<open>The quotient is 64 bits wide and is returned as an \<^verbatim>\<open>int\<close> of 32.\<close>

definition align_count_windows :: "u64 \<Rightarrow> u64 \<Rightarrow> u64 \<Rightarrow> i32 cpp" where
  "align_count_windows window_size last_ts timestamp =
     (if timestamp < last_ts then Inr 0
      else if window_size = 0 then Inl DivisionByZero
      else
        let m1 = align_floor window_size last_ts;
            m2 = align_floor window_size timestamp
        in Inr (ucast ((m2 - m1) div window_size)))"

definition align_is_new_window :: "u64 \<Rightarrow> u64 \<Rightarrow> u64 \<Rightarrow> bool cpp" where
  "align_is_new_window window_size last_ts timestamp =
     cpp_bind (align_count_windows window_size last_ts timestamp) (\<lambda>n. Inr (0 <s n))"

text \<open>The number of the period a time stamp falls in.\<close>

definition period :: "u64 \<Rightarrow> u64 \<Rightarrow> nat" where
  "period window_size ts = unat ts div unat window_size"

lemma unat_align_floor [word_nat]: "unat (align_floor w ts) = period w ts * unat w"
  proof -
  have "unat (ts - ts mod w) = unat ts - unat ts mod unat w"
    by (simp only: unat_sub unat_mod unat_mod_le)
  then show ?thesis by (simp add: align_floor_def period_def minus_mod_eq_div_mult)
qed

lemma period_mono: "a \<le> b \<Longrightarrow> period w a \<le> period w b"
  by (simp add: period_def div_le_mono word_le_nat_alt)

lemma align_count_windows_nat:
  assumes "w \<noteq> 0" "a \<le> b"
  shows "align_count_windows w a b = Inr (of_nat (period w b - period w a))"
proof -
  have le: "align_floor w a \<le> align_floor w b"
    using period_mono [OF assms(2)] by (simp add: word_le_nat_alt unat_align_floor)
  have "unat ((align_floor w b - align_floor w a) div w) = period w b - period w a"
    using assms le
    by (simp add: unat_div unat_sub unat_align_floor diff_mult_distrib [symmetric] unat_eq_0)
  then have "ucast ((align_floor w b - align_floor w a) div w) = (of_nat (period w b - period w a) :: i32)"
    by (metis of_nat_unat)
  then show ?thesis
    using assms by (simp add: align_count_windows_def Let_def not_less)
qed

section \<open>Properties\<close>

text \<open>
  Microseconds survive the conversion to \<^verbatim>\<open>ptime\<close> and back, for every time stamp up to the
  year 10000.
\<close>

theorem micros_ptime_roundtrip:
  assumes "posix_time_laws P" "uint ts < max_ptime_seconds * 1000000"
  shows "as_micros P (as_ptime P ts) = ts"
  by (rule posix_time_laws.as_micros_as_ptime [OF assms])

theorem micros_ptime_roundtrip_witness:
  "as_micros int_ptime (as_ptime int_ptime 1334683810012345) = 1334683810012345"
  by (rule micros_ptime_roundtrip [OF int_time.posix_time_laws_axioms]) (simp add: max_ptime_seconds_def)

text \<open>
  C38. Counting sampling periods. For time stamps in order, \<^verbatim>\<open>count_windows\<close> is the difference of the
  period numbers reduced to 32 bits, so it is exact as long as fewer than \<open>2 ^ 31\<close> periods have
  passed; for a time stamp before the last one it is zero.
\<close>

theorem count_windows_exact:
  assumes "w \<noteq> 0"
  shows "(b < a \<longrightarrow> align_count_windows w a b = Inr 0) \<and>
     (a \<le> b \<longrightarrow> (\<exists>n. align_count_windows w a b = Inr n \<and> unat n = (period w b - period w a) mod 2 ^ 32 \<and>
        (period w b - period w a < 2 ^ 31 \<longrightarrow> sint n = int (period w b - period w a))))"
proof (intro conjI impI)
  assume "a \<le> b"
  let ?d = "period w b - period w a"
  have "sint (of_nat ?d :: i32) = int ?d" if "?d < 2 ^ 31"
    using that by (simp add: sint_uint uint_nat unat_of_nat take_bit_nat_eq_self
        signed_take_bit_int_eq_self_iff)
  then show "\<exists>n. align_count_windows w a b = Inr n \<and> unat n = ?d mod 2 ^ 32 \<and>
      (?d < 2 ^ 31 \<longrightarrow> sint n = int ?d)"
    using align_count_windows_nat [OF assms \<open>a \<le> b\<close>] by (simp add: unat_of_nat take_bit_eq_mod)
qed (simp add: align_count_windows_def)

theorem count_windows_exact_witness:
  "(\<exists>n. align_count_windows 10 15 38 = Inr n \<and> sint n = 2) \<and> align_count_windows 10 38 15 = Inr 0"
  using count_windows_exact [of 10 38 15] count_windows_exact [of 10 15 38] by (auto simp: period_def)

end
