(* ===== verification/Samplers.thy ===== *)
theory Samplers
  imports Prelude
begin

text \<open>
  The samplers of \<^verbatim>\<open>common/moving_window_samplers.hpp\<close>. A sampler is a function object with a
  state: from its state, the current value of the window, the new observation and whether a new
  sampling period has begun, it gives the new current value. The locale \<open>period_sampler\<close> is the
  contract the windows rely on: within one period a sampler computes an aggregate of the
  observations of that period alone.
\<close>

type_synonym ('e, 's) sampler = "'s \<Rightarrow> 'e \<Rightarrow> 'e \<Rightarrow> bool \<Rightarrow> 'e \<times> 's"

section \<open>The function objects\<close>

definition sampler_latest :: "('e, unit) sampler" where
  "sampler_latest s lst now new_period = (now, s)"

definition sampler_close :: "('e, unit) sampler" where
  "sampler_close s lst now new_period = (now, s)"

definition sampler_max :: "('e :: linorder, unit) sampler" where
  "sampler_max s lst now new_period = (if new_period then now else max lst now, s)"

definition sampler_min :: "('e :: linorder, unit) sampler" where
  "sampler_min s lst now new_period = (if new_period then now else min lst now, s)"

text \<open>\<open>sum\<close> and \<open>open_\<close> are uninitialised until the first call, which assigns them.\<close>

record 'e avg_state =
  avg_count :: nat
  avg_sum :: 'e

record 'e open_state =
  open_value :: 'e
  open_init :: bool

definition sampler_avg :: "('e :: field_char_0, 'e avg_state) sampler" where
  "sampler_avg s lst now new_period =
     (let s1 = (if new_period then \<lparr>avg_count = 0, avg_sum = now\<rparr> else s);
          sum = (if avg_count s1 = 0 then now else avg_sum s1 + now);
          count = avg_count s1 + 1
      in (sum / of_nat count, \<lparr>avg_count = count, avg_sum = sum\<rparr>))"

definition sampler_open :: "('e, 'e open_state) sampler" where
  "sampler_open s lst now new_period =
     (let s1 = (if new_period then \<lparr>open_value = now, open_init = True\<rparr> else s);
          s2 = (if \<not> open_init s1 then \<lparr>open_value = now, open_init = True\<rparr> else s1)
      in (open_value s2, s2))"

section \<open>The contract\<close>

text \<open>
  \<open>rep g s\<close>: the state \<open>s\<close> is one the sampler can have after the observations \<open>g\<close> of the
  current period.
\<close>

locale period_sampler =
  fixes smp :: "('e, 's) sampler"
    and agg :: "'e list \<Rightarrow> 'e"
    and rep :: "'e list \<Rightarrow> 's \<Rightarrow> bool"
  assumes starts: "smp s lst now True = (v, s') \<Longrightarrow> v = agg [now] \<and> rep [now] s'"
    and continues:
      "g \<noteq> [] \<Longrightarrow> rep g s \<Longrightarrow> smp s (agg g) now False = (v, s') \<Longrightarrow>
         v = agg (g @ [now]) \<and> rep (g @ [now]) s'"
begin

primrec sample_all :: "'s \<Rightarrow> 'e \<Rightarrow> 'e list \<Rightarrow> 'e \<times> 's" where
  "sample_all s cur [] = (cur, s)"
| "sample_all s cur (x # xs) = (let (v, s') = smp s cur x False in sample_all s' v xs)"

lemma sample_all_agg:
  "g \<noteq> [] \<Longrightarrow> rep g s \<Longrightarrow> fst (sample_all s (agg g) xs) = agg (g @ xs)"
proof (induction xs arbitrary: g s)
  case (Cons x xs)
  obtain v s' where step: "smp s (agg g) x False = (v, s')" by fastforce
  show ?case using continues [OF Cons.prems step] Cons.IH [of "g @ [x]" s'] step by simp
qed simp

end

definition agg_max :: "'e :: linorder list \<Rightarrow> 'e" where "agg_max g = Max (set g)"
definition agg_min :: "'e :: linorder list \<Rightarrow> 'e" where "agg_min g = Min (set g)"
definition agg_mean :: "'e :: field_char_0 list \<Rightarrow> 'e" where
  "agg_mean g = sum_list g / of_nat (length g)"

lemma agg_max_snoc: "g \<noteq> [] \<Longrightarrow> agg_max (g @ [x]) = max (agg_max g) x"
  by (simp add: agg_max_def max.commute)

lemma agg_min_snoc: "g \<noteq> [] \<Longrightarrow> agg_min (g @ [x]) = min (agg_min g) x"
  by (simp add: agg_min_def min.commute)

interpretation latest: period_sampler sampler_latest last "\<lambda>g s. True"
  by unfold_locales (auto simp: sampler_latest_def)

interpretation closing: period_sampler sampler_close last "\<lambda>g s. True"
  by unfold_locales (auto simp: sampler_close_def)

interpretation highest: period_sampler sampler_max agg_max "\<lambda>g s. True"
  by unfold_locales (auto simp: sampler_max_def agg_max_def max.commute)

interpretation lowest: period_sampler sampler_min agg_min "\<lambda>g s. True"
  by unfold_locales (auto simp: sampler_min_def agg_min_def min.commute)

interpretation opened: period_sampler sampler_open hd "\<lambda>g s. open_init s \<and> open_value s = hd g"
  by unfold_locales (auto simp: sampler_open_def Let_def)

interpretation average: period_sampler sampler_avg agg_mean
  "\<lambda>g s. avg_count s = length g \<and> avg_sum s = sum_list g"
  by unfold_locales (auto simp: sampler_avg_def agg_mean_def Let_def add_ac)

end
