(* ===== verification/Proto_Types.thy ===== *)
theory Proto_Types
  imports Prelude
begin

text \<open>
  The protocol buffer messages of \<^verbatim>\<open>proto/*.proto\<close> as records: an optional or required field of
  proto2 is an \<open>option\<close> (a required field can be absent until \<^verbatim>\<open>IsInitialized()\<close> is asked), a
  repeated one a list. The accessors \<open>get_*\<close> give the default a C++ getter returns for an absent
  field. Serialisation is library code: \<open>proto_codec\<close> is its interface.
\<close>

section \<open>common.proto\<close>

datatype Currency = OTHER | USD
datatype Value_Type = Value_Type_DOUBLE | Value_Type_INT | Value_Type_STRING | Value_Type_TIMESTAMP

record Money =
  money_amount :: "double option"
  money_currency :: "Currency option"

record Date =
  date_year :: "i32 option"
  date_month :: "i32 option"
  date_day :: "i32 option"

record Value =
  val_type :: "Value_Type option"
  string_value :: "string option"
  double_value :: "double option"
  int_value :: "i64 option"
  timestamp_value :: "i64 option"

abbreviation Value_default :: Value where
  "Value_default \<equiv> \<lparr>val_type = None, string_value = None, double_value = None, int_value = None,
                    timestamp_value = None\<rparr>"

text \<open>A proto2 getter of an absent field: the first enumerator, zero or the empty string.\<close>

definition get_value_type :: "Value \<Rightarrow> Value_Type" where
  "get_value_type v = case_option Value_Type_DOUBLE id (val_type v)"
definition get_string_value :: "Value \<Rightarrow> string" where
  "get_string_value v = case_option [] id (string_value v)"
definition get_double_value :: "Value \<Rightarrow> double" where
  "get_double_value v = case_option 0 id (double_value v)"
definition get_int_value :: "Value \<Rightarrow> i64" where
  "get_int_value v = case_option 0 id (int_value v)"

definition value_initialized :: "Value \<Rightarrow> bool" where
  "value_initialized v \<longleftrightarrow> val_type v \<noteq> None"

section \<open>ib.proto\<close>

datatype Side = ASK | BID
datatype Operation = INSERT | UPDATE | DELETE
datatype ContractType = INDEX | STOCK | OPTION
datatype Right = PUT | CALL
datatype Action = BUY | SELL | SSHORT
datatype TimeInForce = DAY | GTC | IOC

record MarketData =
  md_timestamp :: "u64 option"
  md_symbol :: "string option"
  md_event :: "string option"
  md_value :: "Value option"
  md_contract_id :: "u64 option"

abbreviation MarketData_default :: MarketData where
  "MarketData_default \<equiv> \<lparr>md_timestamp = None, md_symbol = None, md_event = None, md_value = None,
                         md_contract_id = None\<rparr>"

record MarketDepth =
  dp_timestamp :: "u64 option"
  dp_symbol :: "string option"
  dp_side :: "Side option"
  dp_price :: "double option"
  dp_size :: "u64 option"
  dp_operation :: "Operation option"
  dp_level :: "u32 option"
  dp_mm :: "string option"
  dp_contract_id :: "u64 option"

abbreviation MarketDepth_default :: MarketDepth where
  "MarketDepth_default \<equiv> \<lparr>dp_timestamp = None, dp_symbol = None, dp_side = None, dp_price = None,
     dp_size = None, dp_operation = None, dp_level = None, dp_mm = None, dp_contract_id = None\<rparr>"

definition get_md_timestamp :: "MarketData \<Rightarrow> u64" where
  "get_md_timestamp m = case_option 0 id (md_timestamp m)"
definition get_md_symbol :: "MarketData \<Rightarrow> string" where
  "get_md_symbol m = case_option [] id (md_symbol m)"
definition get_md_event :: "MarketData \<Rightarrow> string" where
  "get_md_event m = case_option [] id (md_event m)"
definition get_md_value :: "MarketData \<Rightarrow> Value" where
  "get_md_value m = case_option Value_default id (md_value m)"
definition get_dp_timestamp :: "MarketDepth \<Rightarrow> u64" where
  "get_dp_timestamp m = case_option 0 id (dp_timestamp m)"
definition get_dp_symbol :: "MarketDepth \<Rightarrow> string" where
  "get_dp_symbol m = case_option [] id (dp_symbol m)"

definition marketdata_initialized :: "MarketData \<Rightarrow> bool" where
  "marketdata_initialized m \<longleftrightarrow>
     md_timestamp m \<noteq> None \<and> md_symbol m \<noteq> None \<and> md_event m \<noteq> None \<and>
     (\<exists>v. md_value m = Some v \<and> value_initialized v) \<and> md_contract_id m \<noteq> None"

lemma marketdata_initialized_code [code]:
  "marketdata_initialized m \<longleftrightarrow>
     md_timestamp m \<noteq> None \<and> md_symbol m \<noteq> None \<and> md_event m \<noteq> None \<and>
     case_option False value_initialized (md_value m) \<and> md_contract_id m \<noteq> None"
  by (auto simp: marketdata_initialized_def split: option.splits)

definition marketdepth_initialized :: "MarketDepth \<Rightarrow> bool" where
  "marketdepth_initialized m \<longleftrightarrow>
     dp_timestamp m \<noteq> None \<and> dp_symbol m \<noteq> None \<and> dp_side m \<noteq> None \<and> dp_price m \<noteq> None \<and>
     dp_size m \<noteq> None \<and> dp_operation m \<noteq> None \<and> dp_level m \<noteq> None \<and> dp_contract_id m \<noteq> None"

record Contract =
  ct_id :: "u64 option"
  ct_symbol :: "string option"
  ct_type :: "ContractType option"
  ct_exchange :: "string option"
  ct_local_symbol :: "string option"
  ct_right :: "Right option"
  ct_strike :: "Money option"
  ct_expiry :: "Date option"
  ct_multiplier :: "i32 option"

abbreviation Contract_default :: Contract where
  "Contract_default \<equiv> \<lparr>ct_id = None, ct_symbol = None, ct_type = None, ct_exchange = None,
     ct_local_symbol = None, ct_right = None, ct_strike = None, ct_expiry = None, ct_multiplier = None\<rparr>"

definition get_ct_id :: "Contract \<Rightarrow> u64" where
  "get_ct_id c = case_option 0 id (ct_id c)"
definition get_ct_symbol :: "Contract \<Rightarrow> string" where
  "get_ct_symbol c = case_option [] id (ct_symbol c)"
definition get_ct_type :: "Contract \<Rightarrow> ContractType" where
  "get_ct_type c = case_option STOCK id (ct_type c)"
definition get_ct_exchange :: "Contract \<Rightarrow> string" where
  "get_ct_exchange c = case_option ''SMART'' id (ct_exchange c)"
definition get_ct_local_symbol :: "Contract \<Rightarrow> string" where
  "get_ct_local_symbol c = case_option [] id (ct_local_symbol c)"
definition get_ct_right :: "Contract \<Rightarrow> Right" where
  "get_ct_right c = case_option PUT id (ct_right c)"
definition get_ct_multiplier :: "Contract \<Rightarrow> i32" where
  "get_ct_multiplier c = case_option 100 id (ct_multiplier c)"
definition get_money_amount :: "Money \<Rightarrow> double" where
  "get_money_amount m = case_option 0 id (money_amount m)"
definition get_money_currency :: "Money \<Rightarrow> Currency" where
  "get_money_currency m = case_option OTHER id (money_currency m)"
definition get_ct_strike :: "Contract \<Rightarrow> Money" where
  "get_ct_strike c = case_option \<lparr>money_amount = None, money_currency = None\<rparr> id (ct_strike c)"
definition get_date_year :: "Date \<Rightarrow> i32" where
  "get_date_year d = case_option 0 id (date_year d)"
definition get_date_month :: "Date \<Rightarrow> i32" where
  "get_date_month d = case_option 0 id (date_month d)"
definition get_date_day :: "Date \<Rightarrow> i32" where
  "get_date_day d = case_option 0 id (date_day d)"
definition get_ct_expiry :: "Contract \<Rightarrow> Date" where
  "get_ct_expiry c = case_option \<lparr>date_year = None, date_month = None, date_day = None\<rparr> id (ct_expiry c)"

record Order =
  or_id :: "u64 option"
  or_ref :: "string option"
  or_action :: "Action option"
  or_contract :: "Contract option"
  or_quantity :: "u32 option"
  or_all_or_none :: "bool option"
  or_min_quantity :: "u32 option"
  or_outside_rth :: "bool option"
  or_time_in_force :: "TimeInForce option"

record OrderStatus =
  os_timestamp :: "u64 option"
  os_message_id :: "u64 option"
  os_order_id :: "u64 option"
  os_status :: "string option"
  os_filled :: "u32 option"
  os_remaining :: "u32 option"
  os_avg_fill_price :: "Money option"
  os_last_fill_price :: "Money option"
  os_client_id :: "u32 option"
  os_perm_id :: "u32 option"
  os_parent_id :: "u32 option"
  os_why_held :: "string option"

definition get_os_order_id :: "OrderStatus \<Rightarrow> u64" where
  "get_os_order_id s = case_option 0 id (os_order_id s)"

section \<open>historian.proto\<close>

datatype RecordType = INDEXED_VALUE | SESSION_LOG | IB_MARKET_DATA | IB_MARKET_DEPTH

record SessionLog =
  sl_symbol :: "string option"
  sl_start_timestamp :: "u64 option"
  sl_stop_timestamp :: "u64 option"
  sl_source :: "string option"

abbreviation SessionLog_default :: SessionLog where
  "SessionLog_default \<equiv> \<lparr>sl_symbol = None, sl_start_timestamp = None, sl_stop_timestamp = None,
                         sl_source = None\<rparr>"

definition get_sl_symbol :: "SessionLog \<Rightarrow> string" where
  "get_sl_symbol l = case_option [] id (sl_symbol l)"
definition get_sl_start_timestamp :: "SessionLog \<Rightarrow> u64" where
  "get_sl_start_timestamp l = case_option 0 id (sl_start_timestamp l)"
definition get_sl_stop_timestamp :: "SessionLog \<Rightarrow> u64" where
  "get_sl_stop_timestamp l = case_option 0 id (sl_stop_timestamp l)"

definition sessionlog_initialized :: "SessionLog \<Rightarrow> bool" where
  "sessionlog_initialized l \<longleftrightarrow>
     sl_symbol l \<noteq> None \<and> sl_start_timestamp l \<noteq> None \<and> sl_stop_timestamp l \<noteq> None \<and> sl_source l \<noteq> None"

record IndexedValue =
  iv_timestamp :: "u64 option"
  iv_value :: "Value option"

abbreviation IndexedValue_default :: IndexedValue where
  "IndexedValue_default \<equiv> \<lparr>iv_timestamp = None, iv_value = None\<rparr>"

definition get_iv_timestamp :: "IndexedValue \<Rightarrow> u64" where
  "get_iv_timestamp v = case_option 0 id (iv_timestamp v)"
definition get_iv_value :: "IndexedValue \<Rightarrow> Value" where
  "get_iv_value v = case_option Value_default id (iv_value v)"

definition indexedvalue_initialized :: "IndexedValue \<Rightarrow> bool" where
  "indexedvalue_initialized v \<longleftrightarrow>
     iv_timestamp v \<noteq> None \<and> (\<exists>x. iv_value v = Some x \<and> value_initialized x)"

lemma indexedvalue_initialized_code [code]:
  "indexedvalue_initialized v \<longleftrightarrow> iv_timestamp v \<noteq> None \<and> case_option False value_initialized (iv_value v)"
  by (auto simp: indexedvalue_initialized_def split: option.splits)

record Record =
  rec_type :: "RecordType option"
  rec_key :: "string option"
  indexed_value :: "IndexedValue option"
  session_log :: "SessionLog option"
  ib_marketdata :: "MarketData option"
  ib_marketdepth :: "MarketDepth option"

abbreviation Record_default :: Record where
  "Record_default \<equiv> \<lparr>rec_type = None, rec_key = None, indexed_value = None, session_log = None,
                     ib_marketdata = None, ib_marketdepth = None\<rparr>"

definition get_rec_type :: "Record \<Rightarrow> RecordType" where
  "get_rec_type r = case_option INDEXED_VALUE id (rec_type r)"

definition record_initialized :: "Record \<Rightarrow> bool" where
  "record_initialized r \<longleftrightarrow>
     rec_type r \<noteq> None \<and>
     (case indexed_value r of None \<Rightarrow> True | Some v \<Rightarrow> indexedvalue_initialized v) \<and>
     (case session_log r of None \<Rightarrow> True | Some v \<Rightarrow> sessionlog_initialized v) \<and>
     (case ib_marketdata r of None \<Rightarrow> True | Some v \<Rightarrow> marketdata_initialized v) \<and>
     (case ib_marketdepth r of None \<Rightarrow> True | Some v \<Rightarrow> marketdepth_initialized v)"

record QueryByRange =
  qr_type :: "RecordType option"
  qr_first :: "string option"
  qr_last :: "string option"
  qr_index :: "string option"

record QueryBySymbol =
  qs_type :: "RecordType option"
  qs_symbol :: "string option"
  qs_utc_first_micros :: "u64 option"
  qs_utc_last_micros :: "u64 option"
  qs_index :: "string option"

section \<open>platform.proto\<close>

record Id =
  id_name :: "string option"
  id_variant :: "string option"
  id_source :: "string option"
  id_event :: "string option"
  id_label :: "string list"

abbreviation Id_default :: Id where
  "Id_default \<equiv> \<lparr>id_name = None, id_variant = None, id_source = None, id_event = None, id_label = []\<rparr>"

text \<open>\<^verbatim>\<open>label(i)\<close> of a repeated field reads its array without a bounds test.\<close>

definition get_id_label :: "Id \<Rightarrow> nat \<Rightarrow> string cpp" where
  "get_id_label v i = (if i < length (id_label v) then Inr (id_label v ! i) else Inl MemoryFault)"

definition add_label :: "Id \<Rightarrow> string \<Rightarrow> Id" where
  "add_label v l = v\<lparr>id_label := id_label v @ [l]\<rparr>"

section \<open>Serialisation\<close>

text \<open>
  \<^verbatim>\<open>SerializeToString\<close> (success and the bytes written) and \<^verbatim>\<open>ParseFromString\<close> of one message
  type: parsing what was serialised from an initialised message gives the message back, and
  parsing fails on bytes that lack a required field. Nothing is assumed of serialising an
  uninitialised message.
\<close>

record ('m, 'b) codec =
  pb_serialize :: "'m \<Rightarrow> bool \<times> 'b"
  pb_parse :: "'b \<Rightarrow> 'm option"

locale proto_codec =
  fixes initialized :: "'m \<Rightarrow> bool"
    and codec :: "('m, 'b) codec"
  assumes serialize_ok: "initialized m \<Longrightarrow> fst (pb_serialize codec m)"
    and parse_serialize: "initialized m \<Longrightarrow> pb_parse codec (snd (pb_serialize codec m)) = Some m"
    and parse_initialized: "pb_parse codec b = Some m \<Longrightarrow> initialized m"
begin

lemma serialize_inj:
  "initialized m \<Longrightarrow> initialized m' \<Longrightarrow>
     snd (pb_serialize codec m) = snd (pb_serialize codec m') \<Longrightarrow> m = m'"
  by (metis parse_serialize option.inject)

end

text \<open>The simplest instance: the bytes are the message.\<close>

definition plain_codec :: "('m \<Rightarrow> bool) \<Rightarrow> ('m, 'm) codec" where
  "plain_codec init = \<lparr>pb_serialize = (\<lambda>m. (init m, m)), pb_parse = (\<lambda>m. if init m then Some m else None)\<rparr>"

interpretation plain: proto_codec init "plain_codec init" for init
  by unfold_locales (auto simp: plain_codec_def split: if_splits)

end
