(* ===== verification/Moving_Window.thy ===== *)
theory Moving_Window
  imports Ring_Buffer Time_Policy Samplers Proto_Types "HOL-Library.Signed_Division"
begin

text \<open>
  \<^verbatim>\<open>common/moving_window.hpp\<close>: a window of values sampled at fixed periods, with derived windows
  recomputed from it at every observation. The data members are the record \<open>mw_core\<close>; a window
  with its derived series is a tree \<open>series_node\<close> (\<^verbatim>\<open>apply\<close>, \<^verbatim>\<open>apply2\<close> and \<^verbatim>\<open>apply3\<close> add the
  three kinds of children, every child again a window with the sampler \<^verbatim>\<open>latest\<close>); the sampler
  and its state are passed beside it. Calls of the post process callback are the trace an
  operation returns. After an exception the object is not modelled further.
\<close>

section \<open>Arrays\<close>

definition arr_set :: "'a list \<Rightarrow> nat \<Rightarrow> 'a \<Rightarrow> 'a list cpp" where
  "arr_set a i x = (if i < length a then Inr (a[i := x]) else Inl MemoryFault)"

definition memcpy :: "'a list \<Rightarrow> nat \<Rightarrow> 'a list \<Rightarrow> nat \<Rightarrow> nat \<Rightarrow> 'a list cpp" where
  "memcpy dst doff src soff n =
     (if doff + n \<le> length dst \<and> soff + n \<le> length src
      then Inr (take doff dst @ take n (drop soff src) @ drop (doff + n) dst)
      else Inl MemoryFault)"

section \<open>The window\<close>

record ('e, 'b) mw_core =
  history_duration :: int                 \<comment> \<open>in microseconds\<close>
  interval :: int
  buffer :: 'b
  init_value :: 'e
  current_value :: 'e
  current_ts :: u64
  collected :: u64
  window_size :: u64                      \<comment> \<open>of the time interval policy\<close>
  post_process :: bool                    \<comment> \<open>the callback pointer is not NULL\<close>
  mw_id :: Id

type_synonym ('e, 'b) cb = "('e, 'b) circular_buffer"

text \<open>
  The quotient of the durations becomes the capacity, an unsigned number: a negative one exceeds
  every size the buffer can have.
\<close>

definition moving_window_new :: "('e, 'b) cb \<Rightarrow> int \<Rightarrow> int \<Rightarrow> 'e \<Rightarrow> ('e, 'b) mw_core cpp" where
  "moving_window_new cb h i ini =
     (if i = 0 then Inl DivisionByZero
      else if h sdiv i < 0 then Inl LengthError
      else let b = cb_make cb (nat (h sdiv i))
           in Inr \<lparr>history_duration = h, interval = i,
                   buffer = cb_push_n cb (cb_capacity cb b) ini b,
                   init_value = ini, current_value = ini, current_ts = 0, collected = 0,
                   window_size = of_int i, post_process = False, mw_id = Id_default\<rparr>)"

definition total_events :: "('e, 'b) mw_core \<Rightarrow> u64" where
  "total_events c = collected c"

definition mw_capacity :: "('e, 'b) cb \<Rightarrow> ('e, 'b) mw_core \<Rightarrow> nat" where
  "mw_capacity cb c = cb_capacity cb (buffer c) + 1"

definition mw_size :: "('e, 'b) cb \<Rightarrow> ('e, 'b) mw_core \<Rightarrow> nat" where
  "mw_size cb c = cb_size cb (buffer c) + 1"

definition mw_at :: "('e, 'b) cb \<Rightarrow> ('e, 'b) mw_core \<Rightarrow> int \<Rightarrow> 'e cpp" where
  "mw_at cb c index =
     (if index = 0 then Inr (current_value c)
      else if index < 0 then cb_at cb (buffer c) (int (cb_size cb (buffer c)) + index)
      else Inr (init_value c))"

definition mw_get_time :: "('e, 'b) mw_core \<Rightarrow> int \<Rightarrow> u64 cpp" where
  "mw_get_time c offset = align_get_time (window_size c) (current_ts c) (of_int (- offset))"

text \<open>The constant interface \<^verbatim>\<open>time_series\<close> a functor or a callback sees.\<close>

record 'e series_view =
  sv_at :: "int \<Rightarrow> 'e cpp"
  sv_time :: "int \<Rightarrow> u64 cpp"
  sv_size :: nat
  sv_period :: int
  sv_id :: Id

definition mw_view :: "('e, 'b) cb \<Rightarrow> ('e, 'b) mw_core \<Rightarrow> 'e series_view" where
  "mw_view cb c = \<lparr>sv_at = mw_at cb c, sv_time = mw_get_time c, sv_size = mw_size cb c,
                   sv_period = interval c, sv_id = mw_id c\<rparr>"

section \<open>Copying out\<close>

text \<open>
  \<open>copy_last_data\<close> fills the caller's array from the two segments of the ring. Its result is the
  array and the number of elements copied.
\<close>

definition copy_last_data ::
  "('e, 'b) cb \<Rightarrow> ('e, 'b) mw_core \<Rightarrow> 'e list \<Rightarrow> nat \<Rightarrow> ('e list \<times> nat) cpp" where
  "copy_last_data cb c array len =
     (if mw_capacity cb c < len then Inr (array, 0)
      else if len = 0 then Inl MemoryFault
      else
        cpp_bind (arr_set array (len - 1) (current_value c)) (\<lambda>a0.
        let two = cb_array_two cb (buffer c);
            one = cb_array_one cb (buffer c);
            remain = len - 1;
            to_copy2 = min (length two) remain;
            to_copy1 = remain - to_copy2;
            dest_offset2 = remain - to_copy2;
            src_offset2 = max 0 (length two - to_copy2);
            src_offset1 = max 0 (length one - to_copy1)
        in cpp_bind (if 0 < to_copy2 then memcpy a0 dest_offset2 two src_offset2 to_copy2 else Inr a0)
             (\<lambda>a1. cpp_bind (if 0 < to_copy1 then memcpy a1 0 one src_offset1 to_copy1 else Inr a1)
             (\<lambda>a2. Inr (a2, to_copy2 + to_copy1 + 1)))))"

function time_array_loop ::
  "('e, 'b) mw_core \<Rightarrow> nat \<Rightarrow> nat \<Rightarrow> u64 list \<Rightarrow> u64 list cpp" where
  "time_array_loop c len to_copy ts =
     (if to_copy < len - 1
      then cpp_bind (align_get_time (window_size c) (current_ts c) (of_nat (to_copy + 1))) (\<lambda>t.
             cpp_bind (arr_set ts (len - to_copy - 2) t) (\<lambda>ts'.
               time_array_loop c len (to_copy + 1) ts'))
      else Inr ts)"
  by pat_completeness auto
termination by (relation "measure (\<lambda>(c, len, k, ts). len - k)") auto

declare time_array_loop.simps [simp del]

definition generate_time_array ::
  "('e, 'b) cb \<Rightarrow> ('e, 'b) mw_core \<Rightarrow> u64 list \<Rightarrow> nat \<Rightarrow> (u64 list \<times> nat) cpp" where
  "generate_time_array cb c timestamp len =
     (if mw_capacity cb c < len then Inr (timestamp, 0)
      else if len = 0 then Inl MemoryFault
      else cpp_bind (align_get_time (window_size c) (current_ts c) 0) (\<lambda>t.
           cpp_bind (arr_set timestamp (len - 1) t) (\<lambda>ts.
           cpp_bind (time_array_loop c len 0 ts) (\<lambda>ts'. Inr (ts', len)))))"

text \<open>\<open>copy_last\<close> asserts that both copies agree: the process ends when they do not.\<close>

definition copy_last ::
  "('e, 'b) cb \<Rightarrow> ('e, 'b) mw_core \<Rightarrow> u64 list \<Rightarrow> 'e list \<Rightarrow> nat \<Rightarrow> (u64 list \<times> 'e list \<times> nat) cpp" where
  "copy_last cb c timestamp array len =
     (if mw_capacity cb c < len then Inr (timestamp, array, 0)
      else cpp_bind (copy_last_data cb c array len) (\<lambda>(a, copied1).
           cpp_bind (generate_time_array cb c timestamp len) (\<lambda>(ts, copied2).
             if copied1 = copied2 then Inr (ts, a, copied1) else Inl FatalLog)))"

text \<open>The slow variant walks the reverse iterator of the buffer.\<close>

fun copy_slow_loop ::
  "('e, 'b) mw_core \<Rightarrow> nat \<Rightarrow> 'e list \<Rightarrow> nat \<Rightarrow> nat \<Rightarrow> u64 list \<Rightarrow> 'e list \<Rightarrow>
     (u64 list \<times> 'e list \<times> nat) cpp" where
  "copy_slow_loop c len (r # rs) (Suc to_copy) copied ts a =
     cpp_bind (arr_set a (len - 1 - copied) r) (\<lambda>a'.
     cpp_bind (align_get_time (window_size c) (current_ts c) (of_nat copied)) (\<lambda>t.
     cpp_bind (arr_set ts (len - 1 - copied) t) (\<lambda>ts'.
       copy_slow_loop c len rs to_copy (copied + 1) ts' a')))"
| "copy_slow_loop c len _ _ copied ts a = Inr (ts, a, copied)"

definition copy_last_slow ::
  "('e, 'b) cb \<Rightarrow> ('e, 'b) mw_core \<Rightarrow> u64 list \<Rightarrow> 'e list \<Rightarrow> nat \<Rightarrow> (u64 list \<times> 'e list \<times> nat) cpp" where
  "copy_last_slow cb c timestamp array len =
     (if mw_capacity cb c < len then Inr (timestamp, array, 0)
      else if len = 0 then Inl MemoryFault
      else cpp_bind (arr_set array (len - 1) (current_value c)) (\<lambda>a.
           cpp_bind (align_get_time (window_size c) (current_ts c) 0) (\<lambda>t.
           cpp_bind (arr_set timestamp (len - 1) t) (\<lambda>ts.
             copy_slow_loop c len (rev (cb_contents cb (buffer c))) (len - 1) 1 ts a))))"

section \<open>Observations\<close>

text \<open>
  The first part of \<^verbatim>\<open>operator()\<close>: close the periods that have ended, then sample. The count of
  periods is a signed 32-bit number and bounds the loop that fills the buffer.
\<close>

definition mw_sample ::
  "('e, 'b) cb \<Rightarrow> ('e, 's) sampler \<Rightarrow> 's \<Rightarrow> ('e, 'b) mw_core \<Rightarrow> u64 \<Rightarrow> 'e \<Rightarrow>
     (('e, 'b) mw_core \<times> 's \<times> i32) cpp" where
  "mw_sample cb smp s c timestamp v =
     cpp_bind (align_count_windows (window_size c) (current_ts c) timestamp) (\<lambda>n.
       let windows = (if 0 < current_ts c then n else 0);
           pushes = nat (sint windows);
           (v', s') = smp s (current_value c) v (0 <s windows \<or> current_ts c = 0)
       in Inr (c\<lparr>buffer := cb_push_n cb pushes (current_value c) (buffer c),
                 collected := collected c + of_nat pushes,
                 current_value := v', current_ts := timestamp\<rparr>, s', windows))"

type_synonym 'e series_operation = "'e series_view \<Rightarrow> 'e cpp"
type_synonym 'e sample_array_operation = "u64 list \<Rightarrow> 'e list \<Rightarrow> nat \<Rightarrow> 'e cpp"
type_synonym 'e value_array_operation = "u64 \<Rightarrow> 'e list \<Rightarrow> nat \<Rightarrow> 'e cpp"

text \<open>A derived series: its name, the functor, the minimum of samples, and its window.\<close>

datatype ('e, 'b) series_node =
  Node "('e, 'b) mw_core" "('e, 'b) series_op list" "('e, 'b) sample_op list" "('e, 'b) value_op list"
and ('e, 'b) series_op = SeriesOp string "'e series_operation" nat "('e, 'b) series_node"
and ('e, 'b) sample_op = SampleOp string "'e sample_array_operation" nat "('e, 'b) series_node"
and ('e, 'b) value_op = ValueOp string "'e value_array_operation" nat "('e, 'b) series_node"

primrec node_core :: "('e, 'b) series_node \<Rightarrow> ('e, 'b) mw_core" where
  "node_core (Node c ss as vs) = c"

type_synonym ('e, 'b) pp_trace = "(u64 \<times> Id \<times> ('e, 'b) mw_core) list"

text \<open>The end of \<^verbatim>\<open>operator()\<close>: the count as a \<^verbatim>\<open>size_t\<close>, and the callback when it is positive.\<close>

definition mw_count :: "i32 \<Rightarrow> u64" where
  "mw_count windows = scast windows"

definition mw_post :: "('e, 'b) mw_core \<Rightarrow> i32 \<Rightarrow> ('e, 'b) pp_trace" where
  "mw_post c windows =
     (let p = mw_count windows in if post_process c \<and> 0 < p then [(p, mw_id c, c)] else [])"

function (sequential)
  node_on :: "('e, 'b) cb \<Rightarrow> ('e, 'b) series_node \<Rightarrow> u64 \<Rightarrow> 'e \<Rightarrow>
      (('e, 'b) series_node \<times> u64 \<times> ('e, 'b) pp_trace) cpp"
  and derive_on :: "('e, 'b) cb \<Rightarrow> ('e, 'b) mw_core \<Rightarrow> ('e, 'b) series_op list \<Rightarrow>
      ('e, 'b) sample_op list \<Rightarrow> ('e, 'b) value_op list \<Rightarrow>
      (('e, 'b) series_node \<times> ('e, 'b) pp_trace) cpp"
  and series_ops_on :: "('e, 'b) cb \<Rightarrow> ('e, 'b) mw_core \<Rightarrow> ('e, 'b) series_op list \<Rightarrow>
      (('e, 'b) series_op list \<times> ('e, 'b) pp_trace) cpp"
  and value_ops_on :: "('e, 'b) cb \<Rightarrow> u64 \<Rightarrow> 'e list \<Rightarrow> nat \<Rightarrow> ('e, 'b) value_op list \<Rightarrow>
      (('e, 'b) value_op list \<times> ('e, 'b) pp_trace) cpp"
  and sample_ops_on :: "('e, 'b) cb \<Rightarrow> u64 \<Rightarrow> u64 list \<Rightarrow> 'e list \<Rightarrow> nat \<Rightarrow> ('e, 'b) sample_op list \<Rightarrow>
      (('e, 'b) sample_op list \<times> ('e, 'b) pp_trace) cpp"
where
  "node_on cb (Node c ss as vs) ts v =
     cpp_bind (mw_sample cb sampler_latest () c ts v) (\<lambda>(c', _, windows).
     cpp_bind (derive_on cb c' ss as vs) (\<lambda>(n, tr).
       Inr (n, mw_count windows, tr @ mw_post c' windows)))"
| "derive_on cb c ss as vs =
     cpp_bind (series_ops_on cb c ss) (\<lambda>(ss', tr1).
       if vs = [] \<and> as = [] then Inr (Node c ss' as vs, tr1)
       else let len = mw_capacity cb c in
         cpp_bind (copy_last_data cb c (replicate len (init_value c)) len) (\<lambda>(vbuff, copied).
           if copied \<noteq> len then Inr (Node c ss' as vs, tr1)
           else cpp_bind (value_ops_on cb (current_ts c) vbuff len vs) (\<lambda>(vs', tr2).
             if as = [] then Inr (Node c ss' as vs', tr1 @ tr2)
             else cpp_bind (generate_time_array cb c (replicate len 0) len) (\<lambda>(tbuff, generated).
               if generated \<noteq> len then Inr (Node c ss' as vs', tr1 @ tr2)
               else cpp_bind (sample_ops_on cb (current_ts c) tbuff vbuff len as) (\<lambda>(as', tr3).
                 Inr (Node c ss' as' vs', tr1 @ tr2 @ tr3))))))"
| "series_ops_on cb c [] = Inr ([], [])"
| "series_ops_on cb c (SeriesOp nm f m n # ops) =
     cpp_bind (f (mw_view cb c)) (\<lambda>derived.
     cpp_bind (node_on cb n (current_ts c) derived) (\<lambda>(n', _, tr).
     cpp_bind (series_ops_on cb c ops) (\<lambda>(ops', tr').
       Inr (SeriesOp nm f m n' # ops', tr @ tr'))))"
| "value_ops_on cb ts vbuff len [] = Inr ([], [])"
| "value_ops_on cb ts vbuff len (ValueOp nm f m n # ops) =
     cpp_bind (f ts vbuff len) (\<lambda>derived.
     cpp_bind (node_on cb n ts derived) (\<lambda>(n', _, tr).
     cpp_bind (value_ops_on cb ts vbuff len ops) (\<lambda>(ops', tr').
       Inr (ValueOp nm f m n' # ops', tr @ tr'))))"
| "sample_ops_on cb ts tbuff vbuff len [] = Inr ([], [])"
| "sample_ops_on cb ts tbuff vbuff len (SampleOp nm f m n # ops) =
     cpp_bind (f tbuff vbuff len) (\<lambda>derived.
     cpp_bind (node_on cb n ts derived) (\<lambda>(n', _, tr).
     cpp_bind (sample_ops_on cb ts tbuff vbuff len ops) (\<lambda>(ops', tr').
       Inr (SampleOp nm f m n' # ops', tr @ tr'))))"
  by pat_completeness auto
termination
  by (relation "measure (\<lambda>x. case x of
        Inl (Inl (cb, n, ts, v)) \<Rightarrow> 2 * size n
      | Inl (Inr (cb, c, ss, as, vs)) \<Rightarrow> 2 * (size_list size ss + size_list size as + size_list size vs) + 1
      | Inr (Inl (cb, c, ss)) \<Rightarrow> 2 * size_list size ss
      | Inr (Inr (Inl (cb, ts, vb, len, vs))) \<Rightarrow> 2 * size_list size vs
      | Inr (Inr (Inr (cb, ts, tb, vb, len, as))) \<Rightarrow> 2 * size_list size as)") auto

text \<open>
  A window with a sampler of its own: the sampler's state beside the tree. \<^verbatim>\<open>on\<close> and
  \<^verbatim>\<open>operator()\<close> are one operation.
\<close>

definition moving_window_on ::
  "('e, 'b) cb \<Rightarrow> ('e, 's) sampler \<Rightarrow> 's \<times> ('e, 'b) series_node \<Rightarrow> u64 \<Rightarrow> 'e \<Rightarrow>
     (('s \<times> ('e, 'b) series_node) \<times> u64 \<times> ('e, 'b) pp_trace) cpp" where
  "moving_window_on cb smp w ts v =
     (case w of (s, Node c ss as vs) \<Rightarrow>
       cpp_bind (mw_sample cb smp s c ts v) (\<lambda>(c', s', windows).
       cpp_bind (derive_on cb c' ss as vs) (\<lambda>(n, tr).
         Inr ((s', n), mw_count windows, tr @ mw_post c' windows))))"

section \<open>Identifiers, callbacks and derived series\<close>

definition mw_set_id :: "Id \<Rightarrow> ('e, 'b) series_node \<Rightarrow> ('e, 'b) series_node" where
  "mw_set_id i n = (case n of Node c ss as vs \<Rightarrow> Node (c\<lparr>mw_id := i\<rparr>) ss as vs)"

definition mw_set_post :: "('e, 'b) series_node \<Rightarrow> ('e, 'b) series_node" where
  "mw_set_post n = (case n of Node c ss as vs \<Rightarrow> Node (c\<lparr>post_process := True\<rparr>) ss as vs)"

text \<open>The constructor of \<^verbatim>\<open>operation\<close> labels the new series after its parent.\<close>

definition operation_series ::
  "('e, 'b) cb \<Rightarrow> ('e, 'b) mw_core \<Rightarrow> string \<Rightarrow> ('e, 'b) series_node cpp" where
  "operation_series cb c name =
     cpp_bind (moving_window_new cb (history_duration c) (interval c) (init_value c)) (\<lambda>mw.
     cpp_bind (get_id_label (mw_id c) 0) (\<lambda>l.
       Inr (mw_set_id (add_label (mw_id c) (l @ ''$'' @ name)) (Node mw [] [] []))))"

definition mw_apply ::
  "('e, 'b) cb \<Rightarrow> string \<Rightarrow> 'e series_operation \<Rightarrow> nat \<Rightarrow> ('e, 'b) series_node \<Rightarrow>
     ('e, 'b) series_node cpp" where
  "mw_apply cb name op min_samples n =
     (case n of Node c ss as vs \<Rightarrow>
       cpp_bind (operation_series cb c name) (\<lambda>k.
         Inr (Node c (ss @ [SeriesOp name op min_samples k]) as vs)))"

definition mw_apply2 ::
  "('e, 'b) cb \<Rightarrow> string \<Rightarrow> 'e sample_array_operation \<Rightarrow> nat \<Rightarrow> ('e, 'b) series_node \<Rightarrow>
     ('e, 'b) series_node cpp" where
  "mw_apply2 cb name op min_samples n =
     (case n of Node c ss as vs \<Rightarrow>
       cpp_bind (operation_series cb c name) (\<lambda>k.
         Inr (Node c ss (as @ [SampleOp name op min_samples k]) vs)))"

definition mw_apply3 ::
  "('e, 'b) cb \<Rightarrow> string \<Rightarrow> 'e value_array_operation \<Rightarrow> nat \<Rightarrow> ('e, 'b) series_node \<Rightarrow>
     ('e, 'b) series_node cpp" where
  "mw_apply3 cb name op min_samples n =
     (case n of Node c ss as vs \<Rightarrow>
       cpp_bind (operation_series cb c name) (\<lambda>k.
         Inr (Node c ss as (vs @ [ValueOp name op min_samples k]))))"

definition mw_apply3_post ::
  "('e, 'b) cb \<Rightarrow> string \<Rightarrow> 'e value_array_operation \<Rightarrow> nat \<Rightarrow> ('e, 'b) series_node \<Rightarrow>
     ('e, 'b) series_node cpp" where
  "mw_apply3_post cb name op min_samples n =
     (case n of Node c ss as vs \<Rightarrow>
       cpp_bind (operation_series cb c name) (\<lambda>k.
         Inr (Node c ss as (vs @ [ValueOp name op min_samples (mw_set_post k)]))))"

end
