(* ===== verification/Window_Laws.thy ===== *)
theory Window_Laws
  imports Moving_Window
begin

text \<open>
  What the moving windows guarantee: the ring stays full, copying out gives the last values, the
  fast and the slow copy agree, every operation keeps the invariant of the whole tree of derived
  series, and the bars of a window are the aggregates of the observations of their periods.
\<close>

section \<open>The invariant of one window\<close>

definition mw_inv :: "('e, 'b) cb \<Rightarrow> ('b \<Rightarrow> bool) \<Rightarrow> ('e, 'b) mw_core \<Rightarrow> bool" where
  "mw_inv cb ok c \<longleftrightarrow> ok (buffer c) \<and>
     length (cb_contents cb (buffer c)) = cb_capacity cb (buffer c) \<and> window_size c \<noteq> 0"

text \<open>All values of a window, the current one last.\<close>

definition mw_values :: "('e, 'b) cb \<Rightarrow> ('e, 'b) mw_core \<Rightarrow> 'e list" where
  "mw_values cb c = cb_contents cb (buffer c) @ [current_value c]"

text \<open>The start times of the last \<open>len\<close> periods, the current one last.\<close>

definition mw_times :: "('e, 'b) mw_core \<Rightarrow> nat \<Rightarrow> u64 list" where
  "mw_times c len =
     map (\<lambda>k. align_floor (window_size c) (current_ts c) - of_nat (len - 1 - k) * window_size c) [0..<len]"

lemma align_get_time_Inr:
  "w \<noteq> 0 \<Longrightarrow> align_get_time w t k = Inr (align_floor w t - k * w)"
  by (simp add: align_get_time_def)

lemma memcpy_Inr:
  "doff + n \<le> length dst \<Longrightarrow> soff + n \<le> length src \<Longrightarrow>
     memcpy dst doff src soff n = Inr (take doff dst @ take n (drop soff src) @ drop (doff + n) dst)"
  by (simp add: memcpy_def)

lemma memcpy_none [simp]: "memcpy dst 0 src soff 0 = (if soff \<le> length src then Inr dst else Inl MemoryFault)"
  by (simp add: memcpy_def)

lemma last_n_append:
  "last_n n (xs @ ys) = last_n (n - length ys) xs @ last_n (min (length ys) n) ys"
  by (cases "n \<le> length ys") (simp_all add: last_n_def)

lemma last_n_append_short: "n \<le> length ys \<Longrightarrow> last_n n (xs @ ys) = last_n n ys"
  by (simp add: last_n_def)

lemma last_n_append_long:
  "length ys \<le> n \<Longrightarrow> last_n n (xs @ ys) = last_n (n - length ys) xs @ ys"
  by (simp add: last_n_def)

lemma arr_set_drop:
  "k < length a \<Longrightarrow> arr_set a k x = Inr (a[k := x]) \<and> drop k (a[k := x]) = x # drop (Suc k) a"
  by (simp add: arr_set_def Cons_nth_drop_Suc [symmetric])

lemma time_array_loop_Inr:
  assumes "window_size c \<noteq> 0" "k < len" "len \<le> length ts"
  shows "time_array_loop c len k ts =
           Inr (map (\<lambda>i. align_floor (window_size c) (current_ts c) -
                        of_nat (len - 1 - i) * window_size c) [0..<len - 1 - k] @ drop (len - 1 - k) ts)"
  using assms
proof (induction c len k ts rule: time_array_loop.induct)
  case (1 c len k ts)
  show ?case
  proof (cases "k < len - 1")
    case True
    define m where "m = len - k - 2"
    have m: "len - Suc k = Suc m" "len - Suc m = Suc k" "m < length ts" "len - Suc (Suc k) = m"
      using True "1.prems" by (simp_all add: m_def)
    note set = arr_set_drop [OF m(3), THEN conjunct1]
      and dr = arr_set_drop [OF m(3), THEN conjunct2]
    note IH = "1.IH" [OF True, of
        "ts[m := align_floor (window_size c) (current_ts c) - of_nat (k + 1) * window_size c]"]
    show ?thesis
      using True "1.prems" m IH set dr
      by (subst time_array_loop.simps) (simp add: align_get_time_Inr flip: m_def)
  next
    case False
    then show ?thesis using "1.prems" by (subst time_array_loop.simps) (simp add: not_less)
  qed
qed

lemma copy_slow_loop_Inr:
  assumes "window_size c \<noteq> 0" "copied + to_copy = len" "to_copy \<le> length rs"
    "len \<le> length ts" "len \<le> length a" "0 < copied"
  shows "copy_slow_loop c len rs to_copy copied ts a =
           Inr (map (\<lambda>i. align_floor (window_size c) (current_ts c) -
                        of_nat (len - 1 - i) * window_size c) [0..<to_copy] @ drop to_copy ts,
                rev (take to_copy rs) @ drop to_copy a, len)"
  using assms
proof (induction to_copy arbitrary: rs copied ts a)
  case (Suc n)
  obtain r rs' where rs: "rs = r # rs'" using Suc.prems by (cases rs) auto
  have k: "len - 1 - copied = n" "n < length a" "n < length ts" "len - Suc n = copied"
    using Suc.prems by auto
  show ?case
    using Suc.prems rs k arr_set_drop [OF k(2)] arr_set_drop [OF k(3)]
    by (simp add: align_get_time_Inr Suc.IH)
qed (cases rs; simp)+

context circular_buffer_laws
begin

lemma new_inv:
  assumes "moving_window_new cb h i x = Inr c" "- (2 ^ 63) \<le> i" "i < 2 ^ 63"
  shows "mw_inv cb ok c" "cb_contents cb (buffer c) = replicate (nat (h sdiv i)) x"
    "cb_capacity cb (buffer c) = nat (h sdiv i)"
proof -
  have i: "i \<noteq> 0" and c: "c = \<lparr>history_duration = h, interval = i,
      buffer = cb_push_n cb (nat (h sdiv i)) x (cb_make cb (nat (h sdiv i))),
      init_value = x, current_value = x, current_ts = 0, collected = 0,
      window_size = of_int i, post_process = False, mw_id = Id_default\<rparr>"
    using assms(1) by (auto simp: moving_window_new_def Let_def make_capacity split: if_splits)
  have "\<not> (2 ^ 64 :: int) dvd i"
    using assms(2,3) i zdvd_not_zless [of "\<bar>i\<bar>" "2 ^ 64"] by auto
  then have "(of_int i :: u64) \<noteq> 0"
    by (simp add: word_of_int_eq_0_iff)
  then show "mw_inv cb ok c" "cb_contents cb (buffer c) = replicate (nat (h sdiv i)) x"
    "cb_capacity cb (buffer c) = nat (h sdiv i)"
    by (simp_all add: c mw_inv_def filled make_ok push_n_ok push_n_capacity make_capacity)
qed

lemma copy_last_data_correct:
  assumes inv: "mw_inv cb ok c" and len: "0 < len" "len \<le> mw_capacity cb c" "len \<le> length a"
  shows "copy_last_data cb c a len = Inr (last_n len (mw_values cb c) @ drop len a, len)"
proof -
  define one two where "one = cb_array_one cb (buffer c)" and "two = cb_array_two cb (buffer c)"
  define r where "r = len - 1"
  define a0 where "a0 = a[r := current_value c]"
  have v: "mw_values cb c = (one @ two) @ [current_value c]"
    using inv by (simp add: mw_values_def mw_inv_def arrays one_def two_def)
  have "length (one @ two) = cb_capacity cb (buffer c)"
    using inv by (simp only: mw_inv_def arrays one_def two_def)
  then have cap: "r \<le> length one + length two" "r < length a" "len = Suc r"
    using len by (auto simp: mw_capacity_def r_def)
  have set: "arr_set a (len - 1) (current_value c) = Inr a0"
    using cap by (simp add: arr_set_def a0_def)
  have a0: "length a0 = length a" "drop r a0 = current_value c # drop len a"
    using cap by (simp_all add: a0_def Cons_nth_drop_Suc [symmetric])
  define n2 where "n2 = min (length two) r"
  define n1 where "n1 = r - n2"
  define a1 where "a1 = take n1 a0 @ last_n n2 two @ drop r a0"
  have n: "n1 + n2 = r" "n2 \<le> length two" "n1 \<le> length one"
    using cap by (auto simp: n1_def n2_def)
  have c2: "(if 0 < n2 then memcpy a0 n1 two (max 0 (length two - n2)) n2 else Inr a0) = Inr a1"
    using n cap a0(1) by (auto simp: memcpy_Inr a1_def last_n_def)
  have c1: "(if 0 < n1 then memcpy a1 0 one (max 0 (length one - n1)) n1 else Inr a1) =
      Inr (last_n n1 one @ last_n n2 two @ drop r a0)"
    using n cap a0(1) by (auto simp: memcpy_Inr a1_def last_n_def)
  have "last_n r (one @ two) = last_n n1 one @ last_n n2 two"
    using cap by (auto simp: last_n_append n1_def n2_def min_def)
  then have "last_n len (mw_values cb c) @ drop len a = last_n n1 one @ last_n n2 two @ drop r a0"
    using cap a0(2) last_n_Suc_snoc [of r "one @ two"] by (simp add: v)
  then show ?thesis
    using len c1 c2 n set
    unfolding copy_last_data_def one_def [symmetric] two_def [symmetric] r_def [symmetric] Let_def
      n2_def [symmetric] n1_def [symmetric]
    using cap by (simp add: mw_capacity_def)
qed

lemma generate_time_array_correct:
  assumes inv: "mw_inv cb ok c" and len: "0 < len" "len \<le> mw_capacity cb c" "len \<le> length ts"
  shows "generate_time_array cb c ts len = Inr (mw_times c len @ drop len ts, len)"
proof -
  have k: "len - 1 < length ts" "0 < len" "[0..<len] = [0..<len - 1] @ [len - 1]"
    using len by (simp_all add: upt_Suc_append [symmetric])
  show ?thesis
    using inv len k arr_set_drop [OF k(1)]
    by (simp add: generate_time_array_def mw_inv_def align_get_time_Inr time_array_loop_Inr mw_times_def)
qed

lemma copy_last_correct:
  assumes "mw_inv cb ok c" "0 < len" "len \<le> mw_capacity cb c" "len \<le> length ts" "len \<le> length a"
  shows "copy_last cb c ts a len =
           Inr (mw_times c len @ drop len ts, last_n len (mw_values cb c) @ drop len a, len)"
  using assms by (simp add: copy_last_def copy_last_data_correct generate_time_array_correct)

lemma copy_last_slow_correct:
  assumes inv: "mw_inv cb ok c"
    and len: "0 < len" "len \<le> mw_capacity cb c" "len \<le> length ts" "len \<le> length a"
  shows "copy_last_slow cb c ts a len =
           Inr (mw_times c len @ drop len ts, last_n len (mw_values cb c) @ drop len a, len)"
proof -
  have k: "len - 1 < length ts" "len - 1 < length a" "[0..<len] = [0..<len - 1] @ [len - 1]"
    using len by (simp_all add: upt_Suc_append [symmetric])
  have "last_n len (mw_values cb c) =
      rev (take (len - 1) (rev (cb_contents cb (buffer c)))) @ [current_value c]"
    using len by (cases len) (simp_all add: mw_values_def last_n_def take_rev)
  moreover have "len - 1 \<le> length (cb_contents cb (buffer c))"
    using inv len by (simp add: mw_inv_def mw_capacity_def)
  ultimately show ?thesis
    using inv len k arr_set_drop [OF k(1)] arr_set_drop [OF k(2)]
    by (simp add: copy_last_slow_def mw_inv_def align_get_time_Inr copy_slow_loop_Inr mw_times_def)
qed

end

section \<open>The tree of derived series\<close>

text \<open>\<open>node_all P Q R S n\<close>: every window of the tree satisfies \<open>P\<close>, every functor \<open>Q\<close>, \<open>R\<close> or \<open>S\<close>.\<close>

fun node_all ::
  "(('e, 'b) mw_core \<Rightarrow> bool) \<Rightarrow> ('e series_operation \<Rightarrow> bool) \<Rightarrow> ('e sample_array_operation \<Rightarrow> bool) \<Rightarrow>
   ('e value_array_operation \<Rightarrow> bool) \<Rightarrow> ('e, 'b) series_node \<Rightarrow> bool"
  and series_op_all ::
  "(('e, 'b) mw_core \<Rightarrow> bool) \<Rightarrow> ('e series_operation \<Rightarrow> bool) \<Rightarrow> ('e sample_array_operation \<Rightarrow> bool) \<Rightarrow>
   ('e value_array_operation \<Rightarrow> bool) \<Rightarrow> ('e, 'b) series_op \<Rightarrow> bool"
  and sample_op_all ::
  "(('e, 'b) mw_core \<Rightarrow> bool) \<Rightarrow> ('e series_operation \<Rightarrow> bool) \<Rightarrow> ('e sample_array_operation \<Rightarrow> bool) \<Rightarrow>
   ('e value_array_operation \<Rightarrow> bool) \<Rightarrow> ('e, 'b) sample_op \<Rightarrow> bool"
  and value_op_all ::
  "(('e, 'b) mw_core \<Rightarrow> bool) \<Rightarrow> ('e series_operation \<Rightarrow> bool) \<Rightarrow> ('e sample_array_operation \<Rightarrow> bool) \<Rightarrow>
   ('e value_array_operation \<Rightarrow> bool) \<Rightarrow> ('e, 'b) value_op \<Rightarrow> bool"
where
  "node_all P Q R S (Node c ss as vs) \<longleftrightarrow>
     P c \<and> (\<forall>x \<in> set ss. series_op_all P Q R S x) \<and> (\<forall>x \<in> set as. sample_op_all P Q R S x) \<and>
     (\<forall>x \<in> set vs. value_op_all P Q R S x)"
| "series_op_all P Q R S (SeriesOp nm f m n) \<longleftrightarrow> Q f \<and> node_all P Q R S n"
| "sample_op_all P Q R S (SampleOp nm f m n) \<longleftrightarrow> R f \<and> node_all P Q R S n"
| "value_op_all P Q R S (ValueOp nm f m n) \<longleftrightarrow> S f \<and> node_all P Q R S n"

text \<open>
  A tree whose windows are all in order; with \<open>t\<close>, one whose functors also never throw.
\<close>

definition tree_ok :: "bool \<Rightarrow> ('e, 'b) cb \<Rightarrow> ('b \<Rightarrow> bool) \<Rightarrow> ('e, 'b) series_node \<Rightarrow> bool" where
  "tree_ok t cb ok =
     node_all (mw_inv cb ok) (\<lambda>f. \<forall>view. cpp_post t (\<lambda>_. True) (f view))
       (\<lambda>f. \<forall>ts vs len. cpp_post t (\<lambda>_. True) (f ts vs len))
       (\<lambda>f. \<forall>ts vs len. cpp_post t (\<lambda>_. True) (f ts vs len))"

lemma node_sizes:
  "SeriesOp nm f m k \<in> set ss \<Longrightarrow> size k < size (Node c ss as vs)"
  "SampleOp nm g m k \<in> set as \<Longrightarrow> size k < size (Node c ss as vs)"
  "ValueOp nm h m k \<in> set vs \<Longrightarrow> size k < size (Node c ss as vs)"
  by (drule size_list_estimation' [where f = size and y = "size k"]; simp)+

lemma series_ops_on_post:
  assumes "\<And>nm f m n ts v. SeriesOp nm f m n \<in> set ops \<Longrightarrow> node_all P Q R S n \<Longrightarrow>
      cpp_post t (\<lambda>(n', _). node_all P Q R S n') (node_on cb n ts v)"
    and "\<forall>x \<in> set ops. series_op_all P Q R S x" "\<And>f. Q f \<Longrightarrow> cpp_post t (\<lambda>_. True) (f (mw_view cb c))"
  shows "cpp_post t (\<lambda>(ops', _). \<forall>x \<in> set ops'. series_op_all P Q R S x) (series_ops_on cb c ops)"
  using assms(1,2)
proof (induction ops)
  case (Cons x ops)
  obtain nm f m n where x: "x = SeriesOp nm f m n" by (cases x)
  have f: "Q f" and n: "node_all P Q R S n" using Cons.prems(2) x by auto
  have IH: "cpp_post t (\<lambda>(ops', _). \<forall>x \<in> set ops'. series_op_all P Q R S x) (series_ops_on cb c ops)"
    by (rule Cons.IH, rule Cons.prems(1), rule list.set_intros(2), assumption+) (use Cons.prems(2) in auto)
  have node: "cpp_post t (\<lambda>(n', _). node_all P Q R S n') (node_on cb n ts v)" for ts v
    by (rule Cons.prems(1) [of nm f m]) (simp_all add: x n)
  show ?case
    unfolding x series_ops_on.simps
    by (rule cpp_post_bind [OF assms(3) [OF f]] cpp_post_bind [OF node] cpp_post_bind [OF IH] | use f in auto)+
qed simp

lemma value_ops_on_post:
  assumes "\<And>nm f m n ts v. ValueOp nm f m n \<in> set ops \<Longrightarrow> node_all P Q R S n \<Longrightarrow>
      cpp_post t (\<lambda>(n', _). node_all P Q R S n') (node_on cb n ts v)"
    and "\<forall>x \<in> set ops. value_op_all P Q R S x" "\<And>f. S f \<Longrightarrow> cpp_post t (\<lambda>_. True) (f ts0 vb len)"
  shows "cpp_post t (\<lambda>(ops', _). \<forall>x \<in> set ops'. value_op_all P Q R S x) (value_ops_on cb ts0 vb len ops)"
  using assms(1,2)
proof (induction ops)
  case (Cons x ops)
  obtain nm f m n where x: "x = ValueOp nm f m n" by (cases x)
  have f: "S f" and n: "node_all P Q R S n" using Cons.prems(2) x by auto
  have IH: "cpp_post t (\<lambda>(ops', _). \<forall>x \<in> set ops'. value_op_all P Q R S x) (value_ops_on cb ts0 vb len ops)"
    by (rule Cons.IH, rule Cons.prems(1), rule list.set_intros(2), assumption+) (use Cons.prems(2) in auto)
  have node: "cpp_post t (\<lambda>(n', _). node_all P Q R S n') (node_on cb n ts v)" for ts v
    by (rule Cons.prems(1) [of nm f m]) (simp_all add: x n)
  show ?case
    unfolding x value_ops_on.simps
    by (rule cpp_post_bind [OF assms(3) [OF f]] cpp_post_bind [OF node] cpp_post_bind [OF IH] | use f in auto)+
qed simp

lemma sample_ops_on_post:
  assumes "\<And>nm f m n ts v. SampleOp nm f m n \<in> set ops \<Longrightarrow> node_all P Q R S n \<Longrightarrow>
      cpp_post t (\<lambda>(n', _). node_all P Q R S n') (node_on cb n ts v)"
    and "\<forall>x \<in> set ops. sample_op_all P Q R S x" "\<And>f. R f \<Longrightarrow> cpp_post t (\<lambda>_. True) (f tb vb len)"
  shows "cpp_post t (\<lambda>(ops', _). \<forall>x \<in> set ops'. sample_op_all P Q R S x) (sample_ops_on cb ts0 tb vb len ops)"
  using assms(1,2)
proof (induction ops)
  case (Cons x ops)
  obtain nm f m n where x: "x = SampleOp nm f m n" by (cases x)
  have f: "R f" and n: "node_all P Q R S n" using Cons.prems(2) x by auto
  have IH: "cpp_post t (\<lambda>(ops', _). \<forall>x \<in> set ops'. sample_op_all P Q R S x) (sample_ops_on cb ts0 tb vb len ops)"
    by (rule Cons.IH, rule Cons.prems(1), rule list.set_intros(2), assumption+) (use Cons.prems(2) in auto)
  have node: "cpp_post t (\<lambda>(n', _). node_all P Q R S n') (node_on cb n ts v)" for ts v
    by (rule Cons.prems(1) [of nm f m]) (simp_all add: x n)
  show ?case
    unfolding x sample_ops_on.simps
    by (rule cpp_post_bind [OF assms(3) [OF f]] cpp_post_bind [OF node] cpp_post_bind [OF IH] | use f in auto)+
qed simp

context circular_buffer_laws
begin

lemma mw_sample_post:
  "mw_inv cb ok c \<Longrightarrow>
     cpp_post t (\<lambda>(c', _). mw_inv cb ok c' \<and> cb_capacity cb (buffer c') = cb_capacity cb (buffer c))
       (mw_sample cb smp s c ts v)"
  by (auto simp: mw_sample_def mw_inv_def align_count_windows_def Let_def push_n_ok push_n_capacity
      push_n_full split: prod.splits)

text \<open>On a window in order neither copy can fail: the derived series see all its values and times.\<close>

lemma derive_on_eq:
  assumes inv: "mw_inv cb ok c"
  shows "derive_on cb c ss as vs =
     cpp_bind (series_ops_on cb c ss) (\<lambda>(ss', tr1).
       if vs = [] \<and> as = [] then Inr (Node c ss' as vs, tr1)
       else cpp_bind (value_ops_on cb (current_ts c) (mw_values cb c) (mw_capacity cb c) vs) (\<lambda>(vs', tr2).
         if as = [] then Inr (Node c ss' as vs', tr1 @ tr2)
         else cpp_bind (sample_ops_on cb (current_ts c) (mw_times c (mw_capacity cb c)) (mw_values cb c)
                          (mw_capacity cb c) as) (\<lambda>(as', tr3).
           Inr (Node c ss' as' vs', tr1 @ tr2 @ tr3))))"
proof -
  let ?l = "mw_capacity cb c"
  have l: "0 < ?l" "length (mw_values cb c) = ?l"
    using inv by (simp_all add: mw_capacity_def mw_values_def mw_inv_def)
  then have "copy_last_data cb c (replicate ?l (init_value c)) ?l = Inr (mw_values cb c, ?l)"
    "generate_time_array cb c (replicate ?l 0) ?l = Inr (mw_times c ?l, ?l)"
    using copy_last_data_correct [OF inv l(1) order.refl, of "replicate ?l (init_value c)"]
      generate_time_array_correct [OF inv l(1) order.refl, of "replicate ?l 0"]
    by simp_all
  then show ?thesis by (simp add: Let_def cong: if_cong)
qed

lemma derive_on_post:
  assumes series: "cpp_post t (\<lambda>(ss', _). \<forall>x \<in> set ss'. series_op_all P Q R S x) (series_ops_on cb c ss)"
    and vals: "\<And>vb len. cpp_post t (\<lambda>(vs', _). \<forall>x \<in> set vs'. value_op_all P Q R S x)
        (value_ops_on cb (current_ts c) vb len vs)"
    and samples: "\<And>tb vb len. cpp_post t (\<lambda>(as', _). \<forall>x \<in> set as'. sample_op_all P Q R S x)
        (sample_ops_on cb (current_ts c) tb vb len as)"
    and inv: "mw_inv cb ok c" "P c"
  shows "cpp_post t (\<lambda>(n, _). node_core n = c \<and> node_all P Q R S n) (derive_on cb c ss as vs)"
  unfolding derive_on_eq [OF inv(1)]
  by (rule cpp_post_bind [OF series])
    (auto simp: inv(2) intro!: cpp_post_bind [OF vals] cpp_post_bind [OF samples])

lemma derive_on_children:
  assumes "mw_inv cb ok c'" and t: "tree_ok t cb ok (Node c ss as vs)"
    and children: "\<And>k ts v. tree_ok t cb ok k \<Longrightarrow> size k < size (Node c ss as vs) \<Longrightarrow>
      cpp_post t (\<lambda>(n', _). tree_ok t cb ok n') (node_on cb k ts v)"
  shows "cpp_post t (\<lambda>(n', _). node_core n' = c' \<and> tree_ok t cb ok n') (derive_on cb c' ss as vs)"
  unfolding tree_ok_def using assms(1) t [unfolded tree_ok_def]
  by (intro derive_on_post series_ops_on_post value_ops_on_post sample_ops_on_post
      children [unfolded tree_ok_def])
    (auto dest: node_sizes [simplified])

text \<open>
  The whole tree of a window stays in order under an observation, and the observation returns
  when no functor throws: the instance \<open>t = True\<close>.
\<close>

lemma node_on_post:
  "tree_ok t cb ok n \<Longrightarrow> cpp_post t (\<lambda>(n', _). tree_ok t cb ok n') (node_on cb n ts v)"
proof (induction n arbitrary: ts v rule: measure_induct_rule [of size])
  case (less n)
  obtain c ss as vs where n: "n = Node c ss as vs" by (cases n)
  have children: "cpp_post t (\<lambda>(n', _). tree_ok t cb ok n') (node_on cb k ts v)"
    if "tree_ok t cb ok k" "size k < size n" for k ts v
    using less.IH that by blast
  have c: "mw_inv cb ok c" using less.prems n by (simp add: tree_ok_def)
  have derive: "cpp_post t (\<lambda>(n', _). node_core n' = c' \<and> tree_ok t cb ok n') (derive_on cb c' ss as vs)"
    if "mw_inv cb ok c'" for c'
    using that less.prems [unfolded n] children [unfolded n] by (rule derive_on_children)
  show ?case
    unfolding n node_on.simps
    by (rule cpp_post_bind [OF mw_sample_post [OF c]])
      (auto simp del: derive_on.simps intro!: cpp_post_bind [OF derive])
qed

lemma moving_window_on_post:
  assumes "tree_ok t cb ok n"
  shows "cpp_post t (\<lambda>((s', n'), _). tree_ok t cb ok n' \<and>
             cb_capacity cb (buffer (node_core n')) = cb_capacity cb (buffer (node_core n)))
           (moving_window_on cb smp (s, n) ts v)"
proof -
  obtain c ss as vs where n: "n = Node c ss as vs" by (cases n)
  have c: "mw_inv cb ok c" using assms n by (simp add: tree_ok_def)
  have derive: "cpp_post t (\<lambda>(n', _). node_core n' = c' \<and> tree_ok t cb ok n') (derive_on cb c' ss as vs)"
    if "mw_inv cb ok c'" for c'
    using that assms [unfolded n] node_on_post by (rule derive_on_children)
  show ?thesis
    unfolding n moving_window_on_def prod.case series_node.case
    by (rule cpp_post_bind [OF mw_sample_post [OF c]])
      (auto simp del: derive_on.simps intro!: cpp_post_bind [OF derive])
qed

end

section \<open>Properties\<close>

text \<open>
  C16. Both ways of copying the last samples out of a window agree: the fast copy by two
  \<^verbatim>\<open>memcpy\<close> calls from the segments of the ring and the slow copy through the reverse iterator
  fill the caller's arrays with the same last values and period starts, at every length from one
  to the capacity, and leave the rest of the arrays alone.
\<close>

theorem copy_last_fast_slow:
  assumes "circular_buffer_laws cb ok" "mw_inv cb ok c"
    and "0 < len" "len \<le> length ts" "len \<le> length a"
  shows "copy_last cb c ts a len = copy_last_slow cb c ts a len \<and>
     (len \<le> mw_capacity cb c \<longrightarrow>
        copy_last cb c ts a len =
          Inr (mw_times c len @ drop len ts, last_n len (mw_values cb c) @ drop len a, len))"
  using circular_buffer_laws.copy_last_correct [OF assms(1,2,3)] assms
    circular_buffer_laws.copy_last_slow_correct [OF assms(1,2,3)]
  by (cases "len \<le> mw_capacity cb c") (simp_all add: copy_last_def copy_last_slow_def)

definition demo_core :: "(int, int ring) mw_core" where
  "demo_core = \<lparr>history_duration = 30, interval = 10,
     buffer = \<lparr>rb_slots = [Some 4, Some 2, Some 3], rb_first = 1, rb_count = 3\<rparr>,
     init_value = 0, current_value = 5, current_ts = 47, collected = 4, window_size = 10,
     post_process = False, mw_id = Id_default\<rparr>"

lemma demo_core_values: "mw_inv ring_cb ring_ok demo_core" "mw_values ring_cb demo_core = [2, 3, 4, 5]"
  "mw_capacity ring_cb demo_core = 4" "cb_capacity ring_cb (buffer demo_core) = 3"
  by (simp_all add: demo_core_def mw_inv_def mw_values_def mw_capacity_def ring_cb_def ring_ok_def
      ring_one_def ring_two_def)

theorem copy_last_fast_slow_witness:
  "copy_last ring_cb demo_core [0, 0, 0] [0, 0, 0] 3 = copy_last_slow ring_cb demo_core [0, 0, 0] [0, 0, 0] 3 \<and>
   copy_last ring_cb demo_core [0, 0, 0] [0, 0, 0] 3 = Inr ([20, 30, 40], [3, 4, 5], 3)"
proof -
  have "mw_times demo_core 3 = [20, 30, 40]"
    by (simp add: mw_times_def demo_core_def align_floor_def upt_rec)
  then show ?thesis
    using copy_last_fast_slow [OF ring_laws demo_core_values(1), of 3 "[0, 0, 0]" "[0, 0, 0]"]
    by (auto simp: demo_core_values last_n_def)
qed

text \<open>
  C17. An observation keeps every window of a tree of derived series full and in order, and when
  no functor throws the call returns.
\<close>

theorem window_tree_preserved:
  assumes "circular_buffer_laws cb ok" "tree_ok t cb ok n"
  shows "cpp_post t (\<lambda>((s', n'), count, trace). tree_ok t cb ok n' \<and>
             cb_capacity cb (buffer (node_core n')) = cb_capacity cb (buffer (node_core n)))
           (moving_window_on cb smp (s, n) ts v)"
  using circular_buffer_laws.moving_window_on_post [OF assms, of smp s ts v]
  by (auto simp: cpp_post_def split: sum.splits)

theorem window_tree_preserved_witness:
  "cpp_post True (\<lambda>((s', n'), count, trace). tree_ok True ring_cb ring_ok n' \<and>
       cb_capacity ring_cb (buffer (node_core n')) = 3)
     (moving_window_on ring_cb sampler_close
        ((), Node demo_core [SeriesOp ''twice'' (\<lambda>view. Inr (2 * (case sv_at view 0 of Inr x \<Rightarrow> x | _ \<Rightarrow> 0))) 1
                               (Node demo_core [] [] [])] [] []) 68 9)"
proof -
  have "tree_ok True ring_cb ring_ok
      (Node demo_core [SeriesOp ''twice'' (\<lambda>view. Inr (2 * (case sv_at view 0 of Inr x \<Rightarrow> x | _ \<Rightarrow> 0))) 1
                               (Node demo_core [] [] [])] [] [])"
    using demo_core_values(1) by (simp add: tree_ok_def)
  from window_tree_preserved [OF ring_laws this, of sampler_close "()" 68 9] show ?thesis
    by (simp add: demo_core_values(4))
qed

end
