(* ===== verification/Window_Bars.thy ===== *)
theory Window_Bars
  imports Window_Laws
begin

text \<open>
  What the bars of a window mean. A window that has seen a sequence of observations holds, for
  every sampling period since the first one, the aggregate of the observations of that period; a
  period without observations repeats the bar before it, and what precedes the first observation
  is the initial value.
\<close>

type_synonym 'e tick = "u64 \<times> 'e"

primrec mw_run ::
  "('e, 'b) cb \<Rightarrow> ('e, 's) sampler \<Rightarrow> 's \<times> ('e, 'b) series_node \<Rightarrow> 'e tick list \<Rightarrow>
     ('s \<times> ('e, 'b) series_node) cpp" where
  "mw_run cb smp w [] = Inr w"
| "mw_run cb smp w (x # xs) =
     cpp_bind (moving_window_on cb smp w (fst x) (snd x)) (\<lambda>(w', _). mw_run cb smp w' xs)"

text \<open>The bar of period \<open>p\<close>: the aggregate over the last period, up to \<open>p\<close>, that has observations.\<close>

definition bar :: "u64 \<Rightarrow> ('e list \<Rightarrow> 'e) \<Rightarrow> 'e tick list \<Rightarrow> nat \<Rightarrow> 'e" where
  "bar w agg ticks p =
     (let seen = filter (\<lambda>x. period w (fst x) \<le> p) ticks;
          q = period w (fst (last seen))
      in agg (map snd (filter (\<lambda>x. period w (fst x) = q) seen)))"

definition first_period :: "u64 \<Rightarrow> 'e tick list \<Rightarrow> nat" where
  "first_period w ticks = period w (fst (hd ticks))"

definition last_period :: "u64 \<Rightarrow> 'e tick list \<Rightarrow> nat" where
  "last_period w ticks = period w (fst (last ticks))"

text \<open>Time moves forward, from a positive stamp, without a gap that overflows an \<^verbatim>\<open>int\<close>.\<close>

definition ticks_ok :: "u64 \<Rightarrow> 'e tick list \<Rightarrow> bool" where
  "ticks_ok w ticks \<longleftrightarrow> ticks \<noteq> [] \<and> 0 < fst (hd ticks) \<and>
     successively (\<lambda>x y. fst x \<le> fst y \<and> period w (fst y) - period w (fst x) < 2 ^ 31) ticks"

section \<open>Bars of a growing sequence\<close>

lemma ticks_ok_snoc:
  "xs \<noteq> [] \<Longrightarrow> ticks_ok w (xs @ [x]) \<longleftrightarrow>
     ticks_ok w xs \<and> fst (last xs) \<le> fst x \<and> period w (fst x) - last_period w xs < 2 ^ 31"
  by (auto simp: ticks_ok_def successively_append_iff last_period_def)

lemma ticks_ok_le_last:
  "ticks_ok w xs \<Longrightarrow> x \<in> set xs \<Longrightarrow> fst x \<le> fst (last xs)"
proof (induction xs rule: rev_induct)
  case (snoc y xs)
  then show ?case by (cases "xs = []") (auto simp: ticks_ok_snoc dest: order_trans)
qed simp

lemma ticks_ok_period: "ticks_ok w xs \<Longrightarrow> x \<in> set xs \<Longrightarrow> period w (fst x) \<le> last_period w xs"
  unfolding last_period_def by (intro period_mono ticks_ok_le_last)

lemma ticks_ok_last_pos: "ticks_ok w xs \<Longrightarrow> 0 < fst (last xs)"
proof (induction xs rule: rev_induct)
  case (snoc y xs)
  then show ?case by (cases "xs = []") (auto simp: ticks_ok_snoc ticks_ok_def[of w "[y]"])
qed (simp add: ticks_ok_def)

lemma bar_snoc_earlier: "p < period w (fst x) \<Longrightarrow> bar w agg (xs @ [x]) p = bar w agg xs p"
  by (simp add: bar_def)

lemma bar_after_last:
  assumes "ticks_ok w xs" "last_period w xs \<le> p"
  shows "bar w agg xs p = agg (map snd (filter (\<lambda>x. period w (fst x) = last_period w xs) xs))"
proof -
  have "filter (\<lambda>x. period w (fst x) \<le> p) xs = xs"
    using ticks_ok_period [OF assms(1)] assms(2) by (auto simp: filter_id_conv intro: order_trans)
  then show ?thesis by (simp add: bar_def last_period_def)
qed

lemma bars_snoc:
  assumes ok: "ticks_ok w (xs @ [x])" and ne: "xs \<noteq> []"
  shows "map (bar w agg (xs @ [x])) [first_period w xs..<period w (fst x)] =
           map (bar w agg xs) [first_period w xs..<last_period w xs] @
           replicate (period w (fst x) - last_period w xs) (bar w agg xs (last_period w xs))"
proof -
  have xs: "ticks_ok w xs" and le: "last_period w xs \<le> period w (fst x)"
    using ok ne by (auto simp: ticks_ok_snoc last_period_def period_mono)
  have "first_period w xs \<le> last_period w xs"
    unfolding first_period_def by (rule ticks_ok_period [OF xs]) (simp add: ne)
  then have "[first_period w xs..<period w (fst x)] =
      [first_period w xs..<last_period w xs] @ [last_period w xs..<period w (fst x)]"
    using le by (metis le_add_diff_inverse upt_add_eq_append)
  moreover have "map (bar w agg xs) [last_period w xs..<period w (fst x)] =
      replicate (period w (fst x) - last_period w xs) (bar w agg xs (last_period w xs))"
    by (rule replicate_eqI) (auto simp: bar_after_last [OF xs])
  moreover have "map (bar w agg (xs @ [x])) [first_period w xs..<period w (fst x)] =
      map (bar w agg xs) [first_period w xs..<period w (fst x)]"
    by (simp add: bar_snoc_earlier)
  ultimately show ?thesis by simp
qed

section \<open>Runs\<close>

lemma mw_run_append:
  "mw_run cb smp w (xs @ ys) = cpp_bind (mw_run cb smp w xs) (\<lambda>w'. mw_run cb smp w' ys)"
proof (induction xs arbitrary: w)
  case (Cons x xs)
  show ?case by (cases "moving_window_on cb smp w (fst x) (snd x)") (auto simp: Cons split: prod.splits)
qed simp

lemma derive_on_core: "derive_on cb c ss as vs = Inr (n, tr) \<Longrightarrow> node_core n = c"
  by (auto simp: cpp_bind_Inr_iff Let_def split: if_splits prod.splits)

lemma moving_window_on_core:
  assumes "moving_window_on cb smp (s, n) ts v = Inr ((s', n'), p, tr)"
  shows "\<exists>w. mw_sample cb smp s (node_core n) ts v = Inr (node_core n', s', w) \<and> p = mw_count w"
  using assms
  by (cases n) (auto simp: moving_window_on_def cpp_bind_Inr_iff simp del: derive_on.simps
      dest: derive_on_core split: prod.splits)

text \<open>The sampling step with the count of ended periods as a number.\<close>

lemma mw_sample_first:
  assumes "window_size c \<noteq> 0" "current_ts c = 0" "smp s (current_value c) v True = (v', s')"
  shows "mw_sample cb smp s c t v = Inr (c\<lparr>current_value := v', current_ts := t\<rparr>, s', 0)"
  using assms by (simp add: mw_sample_def align_count_windows_nat Let_def)

lemma mw_sample_later:
  assumes "window_size c \<noteq> 0" "0 < current_ts c" "current_ts c \<le> t"
    and k: "k = period (window_size c) t - period (window_size c) (current_ts c)" "k < 2 ^ 31"
    and "smp s (current_value c) v (0 < k) = (v', s')"
  shows "mw_sample cb smp s c t v =
           Inr (c\<lparr>buffer := cb_push_n cb k (current_value c) (buffer c),
                  collected := collected c + of_nat k, current_value := v', current_ts := t\<rparr>,
                s', of_nat k)"
proof -
  have "0 <s (of_nat k :: i32) \<longleftrightarrow> 0 < k"
    using sint_of_nat32 [OF k(2)] by (simp add: word_sless_alt)
  moreover have "current_ts c \<noteq> 0" using assms(2) by auto
  ultimately show ?thesis
    using assms sint_of_nat32 [OF k(2)] by (auto simp: mw_sample_def align_count_windows_nat Let_def)
qed

locale window_bars = circular_buffer_laws cb ok + period_sampler smp agg rep
  for cb :: "('e, 'b) circular_buffer" and ok :: "'b \<Rightarrow> bool"
    and smp :: "('e, 's) sampler" and agg :: "'e list \<Rightarrow> 'e" and rep :: "'e list \<Rightarrow> 's \<Rightarrow> bool"
begin

text \<open>What a window of \<open>n\<close> closed bars holds after the observations \<open>xs\<close>.\<close>

definition bars_of :: "u64 \<Rightarrow> nat \<Rightarrow> 'e \<Rightarrow> 'e tick list \<Rightarrow> 's \<Rightarrow> ('e, 'b) mw_core \<Rightarrow> bool" where
  "bars_of w n ini xs s c \<longleftrightarrow>
     mw_inv cb ok c \<and> window_size c = w \<and> cb_capacity cb (buffer c) = n \<and>
     current_ts c = fst (last xs) \<and>
     cb_contents cb (buffer c) =
       last_n n (replicate n ini @ map (bar w agg xs) [first_period w xs..<last_period w xs]) \<and>
     current_value c = bar w agg xs (last_period w xs) \<and>
     rep (map snd (filter (\<lambda>x. period w (fst x) = last_period w xs) xs)) s"

lemma bars_of_first:
  assumes inv: "mw_inv cb ok c" "window_size c = w" "cb_contents cb (buffer c) = replicate n ini"
    "cb_capacity cb (buffer c) = n" "current_ts c = 0"
    and step: "mw_sample cb smp s c t v = Inr (c', s', k)"
  shows "bars_of w n ini [(t, v)] s' c'"
proof -
  obtain v1 s1 where smp: "smp s (current_value c) v True = (v1, s1)" by fastforce
  have "window_size c \<noteq> 0" using inv by (simp add: mw_inv_def)
  then have "c' = c\<lparr>current_value := v1, current_ts := t\<rparr>" "s' = s1"
    using mw_sample_first [of c smp s v v1 s1 cb t] inv(5) smp step by simp_all
  with inv starts [OF smp] show ?thesis
    by (simp add: bars_of_def mw_inv_def bar_def first_period_def last_period_def)
qed

lemma bars_of_step:
  assumes bars: "bars_of w n ini xs s c" and ne: "xs \<noteq> []" and ok: "ticks_ok w (xs @ [(t, v)])"
    and step: "mw_sample cb smp s c t v = Inr (c', s', j)"
  shows "bars_of w n ini (xs @ [(t, v)]) s' c'"
proof -
  define k where "k = period w t - last_period w xs"
  let ?g = "map snd (filter (\<lambda>x. period w (fst x) = last_period w xs) xs)"
  obtain v1 s1 where smp: "smp s (current_value c) v (0 < k) = (v1, s1)" by fastforce
  have xs: "ticks_ok w xs" and le: "fst (last xs) \<le> t" and k31: "k < 2 ^ 31"
    using ok ne by (simp_all add: ticks_ok_snoc k_def)
  have pos: "0 < fst (last xs)" by (rule ticks_ok_last_pos [OF xs])
  have ple: "last_period w xs \<le> period w t" using le by (simp add: last_period_def period_mono)
  have c: "window_size c = w" "w \<noteq> 0" "current_ts c = fst (last xs)" "rep ?g s"
    "current_value c = agg ?g"
    using bars bar_after_last [OF xs order.refl] by (auto simp: bars_of_def mw_inv_def)
  have c': "c' = c\<lparr>buffer := cb_push_n cb k (current_value c) (buffer c),
       collected := collected c + of_nat k, current_value := v1, current_ts := t\<rparr>" "s' = s1"
    using mw_sample_later [of c t k smp s v v1 s1 cb] step smp k31 pos le
    by (simp_all add: c k_def last_period_def)
  have inv: "mw_inv cb ok c'" using bars step mw_sample_post [of c True smp s t v] by (simp add: bars_of_def)
  have lp: "last_period w (xs @ [(t, v)]) = period w t" "first_period w (xs @ [(t, v)]) = first_period w xs"
    using ne by (simp_all add: last_period_def first_period_def)
  have contents: "cb_contents cb (buffer c') =
      last_n n (replicate n ini @ map (bar w agg (xs @ [(t, v)])) [first_period w xs..<period w t])"
    using bars bars_snoc [OF ok ne, of agg]
    by (simp add: c' bars_of_def mw_inv_def push_n_contents k_def last_n_append_last_n)
  have gne: "?g \<noteq> []" using ne by (auto simp: filter_empty_conv last_period_def intro: last_in_set)
  have val: "v1 = agg (map snd (filter (\<lambda>x. period w (fst x) = period w t) (xs @ [(t, v)])))
      \<and> rep (map snd (filter (\<lambda>x. period w (fst x) = period w t) (xs @ [(t, v)]))) s1"
  proof (cases "0 < k")
    case True
    then have "filter (\<lambda>x. period w (fst x) = period w t) xs = []"
      using ticks_ok_period [OF xs] by (fastforce simp: filter_empty_conv k_def)
    then show ?thesis using starts [of s "current_value c" v v1 s1] smp True by simp
  next
    case False
    then have "period w t = last_period w xs" using ple by (simp add: k_def)
    then show ?thesis using continues [OF gne c(4), of v v1 s1] smp False c(5) by simp
  qed
  show ?thesis
    using bars inv contents val c' bar_after_last [OF ok order.refl, of agg]
    by (simp add: bars_of_def lp push_n_capacity mw_inv_def)
qed

text \<open>A window before its first observation: \<open>n\<close> bars of the initial value.\<close>

definition fresh :: "u64 \<Rightarrow> nat \<Rightarrow> 'e \<Rightarrow> ('e, 'b) mw_core \<Rightarrow> bool" where
  "fresh w n ini c \<longleftrightarrow> window_size c = w \<and> cb_contents cb (buffer c) = replicate n ini \<and>
     cb_capacity cb (buffer c) = n \<and> current_ts c = 0"

lemma run_bars:
  assumes "tree_ok t cb ok nd" "fresh w n ini (node_core nd)" "ticks_ok w xs"
  shows "cpp_post t (\<lambda>(s', nd'). tree_ok t cb ok nd' \<and> bars_of w n ini xs s' (node_core nd'))
           (mw_run cb smp (s, nd) xs)"
  using assms(3)
proof (induction xs rule: rev_induct)
  case (snoc x xs)
  have root: "mw_inv cb ok (node_core nd')" if "tree_ok t cb ok nd'" for nd'
    using that by (cases nd') (simp add: tree_ok_def)
  have step: "cpp_post t (\<lambda>((s2, nd2), _). tree_ok t cb ok nd2 \<and> bars_of w n ini (xs @ [x]) s2 (node_core nd2))
      (moving_window_on cb smp (s1, nd1) (fst x) (snd x))"
    if "tree_ok t cb ok nd1"
      and bars: "\<And>s2 c' j. mw_sample cb smp s1 (node_core nd1) (fst x) (snd x) = Inr (c', s2, j) \<Longrightarrow>
        bars_of w n ini (xs @ [x]) s2 c'" for s1 nd1
    using moving_window_on_post [OF that(1), of smp s1 "fst x" "snd x"]
    by (auto simp: cpp_post_def split: sum.splits dest!: moving_window_on_core bars)
  show ?case
  proof (cases "xs = []")
    case True
    have "cpp_post t (\<lambda>((s2, nd2), _). tree_ok t cb ok nd2 \<and> bars_of w n ini (xs @ [x]) s2 (node_core nd2))
        (moving_window_on cb smp (s, nd) (fst x) (snd x))"
    proof (rule step [OF assms(1)])
      fix s2 c' j
      assume "mw_sample cb smp s (node_core nd) (fst x) (snd x) = Inr (c', s2, j)"
      then show "bars_of w n ini (xs @ [x]) s2 c'"
        using bars_of_first [of "node_core nd" w n ini s "fst x" "snd x" c' s2 j] True assms(2)
          root [OF assms(1)]
        by (simp add: fresh_def)
    qed
    then show ?thesis unfolding True append_Nil mw_run.simps by (rule cpp_post_bind) auto
  next
    case False
    then have "ticks_ok w xs" using snoc.prems by (simp add: ticks_ok_snoc)
    note IH = snoc.IH [OF this]
    show ?thesis
      unfolding mw_run_append
    proof (rule cpp_post_bind [OF IH], clarify)
      fix s1 nd1
      assume a: "tree_ok t cb ok nd1" "bars_of w n ini xs s1 (node_core nd1)"
      have "cpp_post t (\<lambda>((s2, nd2), _). tree_ok t cb ok nd2 \<and> bars_of w n ini (xs @ [x]) s2 (node_core nd2))
          (moving_window_on cb smp (s1, nd1) (fst x) (snd x))"
        by (rule step [OF a(1)]) (use bars_of_step [OF a(2) False, of "fst x" "snd x"] snoc.prems in simp)
      then show "cpp_post t (\<lambda>(s', nd'). tree_ok t cb ok nd' \<and> bars_of w n ini (xs @ [x]) s' (node_core nd'))
          (mw_run cb smp (s1, nd1) [x])"
        unfolding mw_run.simps by (rule cpp_post_bind) auto
    qed
  qed
qed (simp add: ticks_ok_def)

end

end
