(* ===== verification/Ohlc.thy ===== *)
theory Ohlc
  imports Window_Bars
begin

text \<open>
  \<^verbatim>\<open>common/ohlc.hpp\<close>: open, high, low and close bars, four moving windows fed with the same
  observations, and the printing callbacks of \<^verbatim>\<open>common/moving_window_callbacks.hpp\<close> and
  \<^verbatim>\<open>common/ohlc_callbacks.hpp\<close>.
\<close>

section \<open>The object\<close>

record ('e, 'b) ohlc =
  oh_open :: "'e open_state \<times> ('e, 'b) series_node"
  oh_close :: "unit \<times> ('e, 'b) series_node"
  oh_high :: "unit \<times> ('e, 'b) series_node"
  oh_low :: "unit \<times> ('e, 'b) series_node"
  oh_post :: bool
  oh_id :: Id

datatype ('e, 'b) ohlc_event =
    WindowPost "u64 \<times> Id \<times> ('e, 'b) mw_core"
  | OhlcPost u64 Id "('e, 'b) mw_core" "('e, 'b) mw_core" "('e, 'b) mw_core" "('e, 'b) mw_core"

text \<open>
  The member \<^verbatim>\<open>open_\<close> of the open sampler is uninitialised while its flag is false; the initial
  value stands for it.
\<close>

definition ohlc_new :: "('e, 'b) cb \<Rightarrow> int \<Rightarrow> int \<Rightarrow> 'e \<Rightarrow> ('e, 'b) ohlc cpp" where
  "ohlc_new cb h s initial =
     cpp_bind (moving_window_new cb h s initial) (\<lambda>opn.
     cpp_bind (moving_window_new cb h s initial) (\<lambda>close.
     cpp_bind (moving_window_new cb h s initial) (\<lambda>high.
     cpp_bind (moving_window_new cb h s initial) (\<lambda>low.
       Inr \<lparr>oh_open = (\<lparr>open_value = initial, open_init = False\<rparr>, Node opn [] [] []),
            oh_close = ((), Node close [] [] []), oh_high = ((), Node high [] [] []),
            oh_low = ((), Node low [] [] []), oh_post = False, oh_id = Id_default\<rparr>))))"

definition ohlc_set_post :: "('e, 'b) ohlc \<Rightarrow> ('e, 'b) ohlc" where
  "ohlc_set_post x = x\<lparr>oh_post := True\<rparr>"

text \<open>The labels accumulate in \<open>sub\<close>: the window for the close carries all four.\<close>

definition ohlc_set_id :: "Id \<Rightarrow> ('e, 'b) ohlc \<Rightarrow> ('e, 'b) ohlc cpp" where
  "ohlc_set_id i x =
     cpp_bind (get_id_label i 0) (\<lambda>l.
       let sub1 = add_label i (l @ ''$open'');
           sub2 = add_label sub1 (l @ ''$high'');
           sub3 = add_label sub2 (l @ ''$low'');
           sub4 = add_label sub3 (l @ ''$close'')
       in Inr (x\<lparr>oh_id := i,
                 oh_open := apsnd (mw_set_id sub1) (oh_open x),
                 oh_high := apsnd (mw_set_id sub2) (oh_high x),
                 oh_low := apsnd (mw_set_id sub3) (oh_low x),
                 oh_close := apsnd (mw_set_id sub4) (oh_close x)\<rparr>))"

definition ohlc_size :: "('e, 'b) cb \<Rightarrow> ('e, 'b) ohlc \<Rightarrow> nat" where
  "ohlc_size cb x = mw_size cb (node_core (snd (oh_open x)))"

definition ohlc_on ::
  "('e :: linorder, 'b) cb \<Rightarrow> ('e, 'b) ohlc \<Rightarrow> u64 \<Rightarrow> 'e \<Rightarrow>
     (('e, 'b) ohlc \<times> u64 \<times> ('e, 'b) ohlc_event list) cpp" where
  "ohlc_on cb x ts v =
     cpp_bind (moving_window_on cb sampler_open (oh_open x) ts v) (\<lambda>(op', n, tr1).
     cpp_bind (moving_window_on cb sampler_close (oh_close x) ts v) (\<lambda>(cl', _, tr2).
     cpp_bind (moving_window_on cb sampler_max (oh_high x) ts v) (\<lambda>(hi', _, tr3).
     cpp_bind (moving_window_on cb sampler_min (oh_low x) ts v) (\<lambda>(lo', _, tr4).
       Inr (x\<lparr>oh_open := op', oh_close := cl', oh_high := hi', oh_low := lo'\<rparr>, n,
            map WindowPost (tr1 @ tr2 @ tr3 @ tr4) @
            (if oh_post x
             then [OhlcPost n (oh_id x) (node_core (snd op')) (node_core (snd hi'))
                     (node_core (snd lo')) (node_core (snd cl'))]
             else []))))))"

primrec ohlc_run :: "('e :: linorder, 'b) cb \<Rightarrow> ('e, 'b) ohlc \<Rightarrow> 'e tick list \<Rightarrow> ('e, 'b) ohlc cpp" where
  "ohlc_run cb x [] = Inr x"
| "ohlc_run cb x (y # ys) = cpp_bind (ohlc_on cb x (fst y) (snd y)) (\<lambda>(x', _). ohlc_run cb x' ys)"

section \<open>Printing callbacks\<close>

text \<open>
  The loop variable is an \<^verbatim>\<open>int\<close> that starts at the negated \<^verbatim>\<open>size_t\<close> count, and every line has
  the local time of its bar. Printing of times and values is a parameter.
\<close>

definition callback_indices :: "u64 \<Rightarrow> int list" where
  "callback_indices count = [sint (ucast (- count) :: i32)..-1]"

definition show_id :: "Id \<Rightarrow> string" where
  "show_id v =
     case_option [] id (id_name v) @ '','' @ case_option [] id (id_variant v) @ '','' @
     case_option [] id (id_source v) @
     concat (map (\<lambda>i. (if i = 0 then [] else '','') @ (id_label v ! i)) [0..<length (id_label v)])"

definition moving_window_cout ::
  "'pt posix_time \<Rightarrow> ('pt \<Rightarrow> string) \<Rightarrow> ('e \<Rightarrow> string) \<Rightarrow> u64 \<Rightarrow> Id \<Rightarrow> 'e series_view \<Rightarrow> string list cpp" where
  "moving_window_cout P show_pt show_v count i window =
     cpp_map (\<lambda>k.
       cpp_bind (sv_time window k) (\<lambda>t.
       cpp_bind (sv_at window k) (\<lambda>v.
         Inr (show_pt (to_est P (as_ptime P t)) @ '','' @ show_id i @ '','' @ show_v v))))
       (callback_indices count)"

definition ohlc_cout ::
  "'pt posix_time \<Rightarrow> ('pt \<Rightarrow> string) \<Rightarrow> ('e \<Rightarrow> string) \<Rightarrow> u64 \<Rightarrow> Id \<Rightarrow>
     'e series_view \<Rightarrow> 'e series_view \<Rightarrow> 'e series_view \<Rightarrow> 'e series_view \<Rightarrow> string list cpp" where
  "ohlc_cout P show_pt show_v count i opn high low close =
     cpp_map (\<lambda>k.
       cpp_bind (sv_time opn k) (\<lambda>t.
       cpp_bind (sv_at opn k) (\<lambda>vo.
       cpp_bind (sv_at high k) (\<lambda>vh.
       cpp_bind (sv_at low k) (\<lambda>vl.
       cpp_bind (sv_at close k) (\<lambda>vc.
         Inr (show_pt (to_est P (as_ptime P t)) @ '','' @ show_id i @ '','' @ show_v vo @ '','' @
              show_v vh @ '','' @ show_v vl @ '','' @ show_v vc)))))))
       (callback_indices count)"

section \<open>The four windows\<close>

text \<open>A run of the object is a run of each window.\<close>

lemma ohlc_run_windows:
  assumes "mw_run cb sampler_open (oh_open x) xs = Inr a" "mw_run cb sampler_close (oh_close x) xs = Inr b"
    "mw_run cb sampler_max (oh_high x) xs = Inr c" "mw_run cb sampler_min (oh_low x) xs = Inr d"
  shows "ohlc_run cb x xs = Inr (x\<lparr>oh_open := a, oh_close := b, oh_high := c, oh_low := d\<rparr>)"
  using assms
proof (induction xs arbitrary: x)
  case (Cons y ys)
  from Cons.prems show ?case
    by (cases "moving_window_on cb sampler_open (oh_open x) (fst y) (snd y)";
        cases "moving_window_on cb sampler_close (oh_close x) (fst y) (snd y)";
        cases "moving_window_on cb sampler_max (oh_high x) (fst y) (snd y)";
        cases "moving_window_on cb sampler_min (oh_low x) (fst y) (snd y)")
      (auto simp: ohlc_on_def Cons.IH)
qed simp

interpretation ring_open: window_bars ring_cb ring_ok sampler_open hd
  "\<lambda>g s. open_init s \<and> open_value s = hd g"
  by (rule window_bars.intro [OF ring_laws opened.period_sampler_axioms])

interpretation ring_close: window_bars ring_cb ring_ok sampler_close last "\<lambda>g s. True"
  by (rule window_bars.intro [OF ring_laws closing.period_sampler_axioms])

interpretation ring_high: window_bars ring_cb ring_ok sampler_max agg_max "\<lambda>g s. True"
  by (rule window_bars.intro [OF ring_laws highest.period_sampler_axioms])

interpretation ring_low: window_bars ring_cb ring_ok sampler_min agg_min "\<lambda>g s. True"
  by (rule window_bars.intro [OF ring_laws lowest.period_sampler_axioms])

interpretation ring_avg: window_bars ring_cb ring_ok sampler_avg agg_mean
  "\<lambda>g s. avg_count s = length g \<and> avg_sum s = sum_list g"
  by (rule window_bars.intro [OF ring_laws average.period_sampler_axioms])

interpretation ring_latest: window_bars ring_cb ring_ok sampler_latest last "\<lambda>g s. True"
  by (rule window_bars.intro [OF ring_laws latest.period_sampler_axioms])

text \<open>The values of a window: closed bars, padded with the initial value, and the current bar.\<close>

definition bar_values :: "u64 \<Rightarrow> nat \<Rightarrow> 'e \<Rightarrow> ('e list \<Rightarrow> 'e) \<Rightarrow> 'e tick list \<Rightarrow> 'e list" where
  "bar_values w n ini agg xs =
     last_n (n + 1) (replicate n ini @ map (bar w agg xs) [first_period w xs..<last_period w xs + 1])"

context window_bars
begin

lemma bars_of_values:
  "bars_of w n ini xs s c \<Longrightarrow> ticks_ok w xs \<Longrightarrow> mw_values cb c = bar_values w n ini agg xs"
proof -
  assume b: "bars_of w n ini xs s c" and ok: "ticks_ok w xs"
  have "first_period w xs \<le> last_period w xs"
    unfolding first_period_def by (rule ticks_ok_period [OF ok]) (use ok in \<open>simp add: ticks_ok_def\<close>)
  then have "replicate n ini @ map (bar w agg xs) [first_period w xs..<last_period w xs + 1] =
      (replicate n ini @ map (bar w agg xs) [first_period w xs..<last_period w xs]) @
      [bar w agg xs (last_period w xs)]"
    by simp
  then show ?thesis
    using b unfolding bar_values_def bars_of_def mw_values_def Suc_eq_plus1 [symmetric]
    by (simp only: last_n_Suc_snoc)
qed

lemma run_values:
  assumes new: "moving_window_new cb h i ini = Inr c" "- (2 ^ 63) \<le> i" "i < 2 ^ 63"
    and ticks: "ticks_ok (of_int i) xs"
  shows "\<exists>s' n'. mw_run cb smp (s, Node c [] [] []) xs = Inr (s', n') \<and>
           mw_values cb (node_core n') = bar_values (of_int i) (nat (h sdiv i)) ini agg xs"
proof -
  have f: "tree_ok True cb ok (Node c [] [] [])"
    "fresh (of_int i) (nat (h sdiv i)) ini (node_core (Node c [] [] []))"
    using new_inv [OF new] new(1)
    by (auto simp: tree_ok_def fresh_def moving_window_new_def Let_def split: if_splits)
  show ?thesis
    using run_bars [OF f ticks, of s] ticks by (auto simp: cpp_post_returns dest: bars_of_values)
qed

end

section \<open>Properties\<close>

lemma ohlc_new_windows:
  assumes "ohlc_new cb h i ini = Inr x"
  shows "\<exists>c. moving_window_new cb h i ini = Inr c \<and>
     oh_open x = (\<lparr>open_value = ini, open_init = False\<rparr>, Node c [] [] []) \<and>
     oh_close x = ((), Node c [] [] []) \<and> oh_high x = ((), Node c [] [] []) \<and>
     oh_low x = ((), Node c [] [] [])"
  using assms by (auto simp: ohlc_new_def cpp_bind_Inr_iff)

text \<open>
  C2. Bars of the \<^verbatim>\<open>ohlc\<close> object. After any sequence of observations in time order the object has
  returned from every call, and its windows hold, for every sampling period since the first
  observation, the first, the last, the largest and the smallest value observed in that period (a
  period without observations repeats the bar before it), padded in front with the initial value
  to the capacity of the window.
\<close>

theorem ohlc_bars:
  assumes "circular_buffer_laws cb ok"
    and "ohlc_new cb h i ini = Inr x" "- (2 ^ 63) \<le> i" "i < 2 ^ 63"
    and "ticks_ok (of_int i) xs"
  shows "\<exists>y. ohlc_run cb x xs = Inr y \<and>
     mw_values cb (node_core (snd (oh_open y))) = bar_values (of_int i) (nat (h sdiv i)) ini hd xs \<and>
     mw_values cb (node_core (snd (oh_close y))) = bar_values (of_int i) (nat (h sdiv i)) ini last xs \<and>
     mw_values cb (node_core (snd (oh_high y))) = bar_values (of_int i) (nat (h sdiv i)) ini agg_max xs \<and>
     mw_values cb (node_core (snd (oh_low y))) = bar_values (of_int i) (nat (h sdiv i)) ini agg_min xs"
proof -
  note bars = window_bars.intro [OF assms(1)]
  obtain c where c: "moving_window_new cb h i ini = Inr c"
    and x: "oh_open x = (\<lparr>open_value = ini, open_init = False\<rparr>, Node c [] [] [])"
      "oh_close x = ((), Node c [] [] [])" "oh_high x = ((), Node c [] [] [])" "oh_low x = ((), Node c [] [] [])"
    using ohlc_new_windows [OF assms(2)] by blast
  note run = window_bars.run_values [OF _ c assms(3-5)]
  obtain so no where "mw_run cb sampler_open (oh_open x) xs = Inr (so, no)"
    "mw_values cb (node_core no) = bar_values (of_int i) (nat (h sdiv i)) ini hd xs"
    using run [OF bars [OF opened.period_sampler_axioms]] x by metis
  moreover obtain sc nc where "mw_run cb sampler_close (oh_close x) xs = Inr (sc, nc)"
    "mw_values cb (node_core nc) = bar_values (of_int i) (nat (h sdiv i)) ini last xs"
    using run [OF bars [OF closing.period_sampler_axioms]] x by metis
  moreover obtain sh nh where "mw_run cb sampler_max (oh_high x) xs = Inr (sh, nh)"
    "mw_values cb (node_core nh) = bar_values (of_int i) (nat (h sdiv i)) ini agg_max xs"
    using run [OF bars [OF highest.period_sampler_axioms]] x by metis
  moreover obtain sl nl where "mw_run cb sampler_min (oh_low x) xs = Inr (sl, nl)"
    "mw_values cb (node_core nl) = bar_values (of_int i) (nat (h sdiv i)) ini agg_min xs"
    using run [OF bars [OF lowest.period_sampler_axioms]] x by metis
  ultimately show ?thesis by (simp add: ohlc_run_windows)
qed

definition demo_ticks :: "int tick list" where
  "demo_ticks = [(15, 7), (17, 9), (31, 4), (38, 6)]"

lemma demo_periods:
  "period 10 15 = 1" "period 10 17 = 1" "period 10 31 = 3" "period 10 38 = 3"
  by (simp_all add: period_def)

lemma demo_ranges: "[Suc 0..<4] = [1, 2, 3]" "replicate 3 x = [x, x, x]"
  by (simp_all add: upt_rec numeral_eq_Suc)

lemmas demo_defs = demo_ticks_def bar_def first_period_def last_period_def demo_periods

lemma demo_ticks_ok: "ticks_ok (of_int 10) demo_ticks"
  by (simp add: demo_ticks_def ticks_ok_def demo_periods)

lemma demo_values:
  "bar_values (of_int 10) 3 0 hd demo_ticks = [0, 7, 7, 4]"
  "bar_values (of_int 10) 3 0 last demo_ticks = [0, 9, 9, 6]"
  "bar_values (of_int 10) 3 0 agg_max demo_ticks = [0, 9, 9, 6]"
  "bar_values (of_int 10) 3 0 agg_min demo_ticks = [0, 7, 7, 4]"
  by (simp_all add: bar_values_def demo_defs demo_ranges last_n_def) (simp_all add: agg_max_def agg_min_def)

theorem ohlc_bars_witness:
  "\<exists>x y. ohlc_new ring_cb 30 10 (0 :: int) = Inr x \<and> ohlc_run ring_cb x demo_ticks = Inr y \<and>
     mw_values ring_cb (node_core (snd (oh_open y))) = [0, 7, 7, 4] \<and>
     mw_values ring_cb (node_core (snd (oh_close y))) = [0, 9, 9, 6] \<and>
     mw_values ring_cb (node_core (snd (oh_high y))) = [0, 9, 9, 6] \<and>
     mw_values ring_cb (node_core (snd (oh_low y))) = [0, 7, 7, 4]"
proof -
  have cap: "nat (30 sdiv (10 :: int)) = 3" by code_simp
  obtain x where x: "ohlc_new ring_cb 30 10 (0 :: int) = Inr x"
    by (simp add: ohlc_new_def moving_window_new_def Let_def signed_divide_int_def)
  show ?thesis
    using ohlc_bars [OF ring_laws x _ _ demo_ticks_ok] x unfolding cap demo_values by auto
qed

text \<open>Within a period the four bars are ordered.\<close>

lemma bar_seen:
  assumes "ticks_ok w xs" "first_period w xs \<le> p"
  obtains g where "g \<noteq> []" "\<And>agg. bar w agg xs p = agg g"
proof -
  let ?seen = "filter (\<lambda>x. period w (fst x) \<le> p) xs"
  have "hd xs \<in> set ?seen" using assms by (cases xs) (auto simp: ticks_ok_def first_period_def)
  then have "?seen \<noteq> []" by (cases ?seen) simp_all
  then have "last ?seen \<in> set ?seen" by (rule last_in_set)
  then have "map snd (filter (\<lambda>x. period w (fst x) = period w (fst (last ?seen))) ?seen) \<noteq> []"
    by (auto simp: filter_empty_conv)
  then show thesis by (rule that) (simp add: bar_def Let_def)
qed

text \<open>
  Every bar is a proper bar: in every period since the first observation the low is at most
  the open and the close, and these are at most the high.
\<close>

theorem ohlc_bar_ordered:
  assumes "ticks_ok w xs" "first_period w xs \<le> p"
  shows "bar w agg_min xs p \<le> bar w hd xs p \<and> bar w agg_min xs p \<le> bar w last xs p \<and>
         bar w hd xs p \<le> bar w agg_max xs p \<and> bar w last xs p \<le> bar w agg_max xs p"
  using bar_seen [OF assms] by (metis (no_types) agg_max_def agg_min_def List.finite_set Max_ge Min_le hd_in_set last_in_set)

theorem ohlc_bar_ordered_witness:
  "bar 10 agg_min demo_ticks 2 \<le> bar 10 hd demo_ticks 2 \<and> bar 10 agg_min demo_ticks 2 \<le> bar 10 last demo_ticks 2 \<and>
   bar 10 hd demo_ticks 2 \<le> bar 10 agg_max demo_ticks 2 \<and> bar 10 last demo_ticks 2 \<le> bar 10 agg_max demo_ticks 2"
  by (rule ohlc_bar_ordered) (use demo_ticks_ok in \<open>simp_all add: demo_defs\<close>)

text \<open>
  The averaging sampler: the bar of a period is the arithmetic mean of the observations of
  that period.
\<close>

theorem avg_window_bars:
  fixes ini :: "'e :: field_char_0"
  assumes "circular_buffer_laws cb ok"
    and "moving_window_new cb h i ini = Inr c" "- (2 ^ 63) \<le> i" "i < 2 ^ 63" "ticks_ok (of_int i) xs"
  shows "\<exists>s' n'. mw_run cb sampler_avg (s, Node c [] [] []) xs = Inr (s', n') \<and>
           mw_values cb (node_core n') =
             bar_values (of_int i) (nat (h sdiv i)) ini (\<lambda>g. sum_list g / of_nat (length g)) xs"
  using window_bars.run_values [OF window_bars.intro [OF assms(1) average.period_sampler_axioms] assms(2-5)]
  unfolding agg_mean_def .

theorem avg_window_bars_witness:
  "\<exists>c s' n'. moving_window_new ring_cb 30 10 (0 :: rat) = Inr c \<and>
     mw_run ring_cb sampler_avg (\<lparr>avg_count = 0, avg_sum = 0\<rparr>, Node c [] [] []) [(15, 7), (17, 9), (31, 4)] =
       Inr (s', n') \<and>
     mw_values ring_cb (node_core n') = [0, 8, 8, 4]"
proof -
  have cap: "nat (30 sdiv (10 :: int)) = 3" by code_simp
  have ok: "ticks_ok (of_int 10) [(15, 7 :: rat), (17, 9), (31, 4)]"
    by (simp add: ticks_ok_def demo_periods)
  have vals: "bar_values (of_int 10) 3 (0 :: rat) (\<lambda>g. sum_list g / of_nat (length g))
      [(15, 7), (17, 9), (31, 4)] = [0, 8, 8, 4]"
    by (simp add: bar_values_def demo_defs demo_ranges last_n_def)
  obtain c where c: "moving_window_new ring_cb 30 10 (0 :: rat) = Inr c"
    by (simp add: moving_window_new_def Let_def signed_divide_int_def)
  show ?thesis
    using avg_window_bars [OF ring_laws c _ _ ok] c unfolding cap vals by auto
qed

end
