(* ===== verification/Pipeline.thy ===== *)
theory Pipeline
  imports Window_Bars
begin

text \<open>
  \<^verbatim>\<open>platform/indicator.hpp\<close>, \<^verbatim>\<open>platform/sequential_pipeline.hpp\<close> and
  \<^verbatim>\<open>indicator/moving_averages.cpp\<close>: indicators are windows computed from the last samples of a
  source window. A pipeline holds references: indicators live in a store and the pipeline lists
  indices of it, so one indicator may be listed twice. TA-Lib is a parameter.
\<close>

section \<open>Indicators and the pipeline\<close>

record ('e, 'b, 'i) indicator =
  ind_window :: "('e, 'b) series_node"
  ind_state :: 'i

type_synonym ('e, 'i) calculate = "'i \<Rightarrow> u64 list \<Rightarrow> 'e list \<Rightarrow> nat \<Rightarrow> ('e \<times> 'i) cpp"

definition indicator_new :: "('e, 'b) cb \<Rightarrow> int \<Rightarrow> int \<Rightarrow> 'e \<Rightarrow> 'i \<Rightarrow> ('e, 'b, 'i) indicator cpp" where
  "indicator_new cb h i ini st =
     cpp_bind (moving_window_new cb h i ini) (\<lambda>c.
       Inr \<lparr>ind_window = Node c [] [] [], ind_state = st\<rparr>)"

record ('e, 'b, 's, 'i) pipeline =
  pl_source :: "'s \<times> ('e, 'b) series_node"
  pl_store :: "('e, 'b, 'i) indicator list"
  pl_list :: "nat list"

definition pipeline_new :: "'s \<times> ('e, 'b) series_node \<Rightarrow> ('e, 'b, 'i) indicator list \<Rightarrow>
    ('e, 'b, 's, 'i) pipeline" where
  "pipeline_new source store = \<lparr>pl_source = source, pl_store = store, pl_list = []\<rparr>"

definition pipeline_add :: "('e, 'b, 's, 'i) pipeline \<Rightarrow> nat \<Rightarrow> ('e, 'b, 's, 'i) pipeline" where
  "pipeline_add p derived = p\<lparr>pl_list := pl_list p @ [derived]\<rparr>"

definition indicator_step ::
  "('e, 'b) cb \<Rightarrow> (nat \<Rightarrow> ('e, 'i) calculate) \<Rightarrow> u64 \<Rightarrow> u64 list \<Rightarrow> 'e list \<Rightarrow> nat \<Rightarrow> nat \<Rightarrow>
     ('e, 'b, 'i) indicator list \<Rightarrow> ('e, 'b, 'i) indicator list cpp" where
  "indicator_step cb calc t tbuffer vbuffer copied k store =
     (if k < length store then
        cpp_bind (calc k (ind_state (store ! k)) tbuffer vbuffer copied) (\<lambda>(computed, st).
        cpp_bind (moving_window_on cb sampler_close ((), ind_window (store ! k)) t computed)
          (\<lambda>((_, n), _, _).
            Inr (store[k := \<lparr>ind_window = n, ind_state = st\<rparr>])))
      else Inl NullDereference)"

primrec pipeline_loop ::
  "('e, 'b) cb \<Rightarrow> (nat \<Rightarrow> ('e, 'i) calculate) \<Rightarrow> u64 \<Rightarrow> u64 list \<Rightarrow> 'e list \<Rightarrow> nat \<Rightarrow> nat list \<Rightarrow>
     ('e, 'b, 'i) indicator list \<Rightarrow> ('e, 'b, 'i) indicator list cpp" where
  "pipeline_loop cb calc t tb vb copied [] store = Inr store"
| "pipeline_loop cb calc t tb vb copied (k # ks) store =
     cpp_bind (indicator_step cb calc t tb vb copied k store) (\<lambda>store'.
       pipeline_loop cb calc t tb vb copied ks store')"

definition pipeline_on ::
  "('e, 'b) cb \<Rightarrow> ('e, 's) sampler \<Rightarrow> (nat \<Rightarrow> ('e, 'i) calculate) \<Rightarrow> ('e, 'b, 's, 'i) pipeline \<Rightarrow>
     u64 \<Rightarrow> 'e \<Rightarrow> ('e, 'b, 's, 'i) pipeline cpp" where
  "pipeline_on cb smp calc p t v =
     (let len = mw_capacity cb (node_core (snd (pl_source p))) - 1 in
      cpp_bind (moving_window_on cb smp (pl_source p) t v) (\<lambda>(source', _, _).
      cpp_bind (copy_last cb (node_core (snd source')) (replicate len 0) (replicate len v) len)
        (\<lambda>(tbuffer, vbuffer, copied).
      cpp_bind (pipeline_loop cb calc t tbuffer vbuffer copied (pl_list p) (pl_store p)) (\<lambda>store'.
        Inr (p\<lparr>pl_source := source', pl_store := store'\<rparr>)))))"

section \<open>Moving averages\<close>

datatype MAConfig_Type = SIMPLE | EXPONENTIAL | KAUFMAN_ADAPTIVE

record MAConfig =
  ma_type :: "MAConfig_Type option"
  ma_period :: "i32 option"

text \<open>
  A TA-Lib function: start and end index, the input, the period; it gives the return code, the
  number of outputs and the output array.
\<close>

type_synonym ta_function = "int \<Rightarrow> int \<Rightarrow> double list \<Rightarrow> int \<Rightarrow> int \<times> nat \<times> double list"

record ta_lib =
  TA_EMA :: ta_function
  TA_KAMA :: ta_function
  TA_SMA :: ta_function

text \<open>The return code is not looked at; with no output the read is before the array.\<close>

definition MA_call :: "ta_lib \<Rightarrow> MAConfig \<Rightarrow> u64 \<Rightarrow> double list \<Rightarrow> nat \<Rightarrow> double cpp" where
  "MA_call ta config t series len =
     (let period = sint (case_option 0 id (ma_period config));
          f = (case case_option SIMPLE id (ma_type config) of
                 EXPONENTIAL \<Rightarrow> TA_EMA ta
               | KAUFMAN_ADAPTIVE \<Rightarrow> TA_KAMA ta
               | SIMPLE \<Rightarrow> TA_SMA ta);
          (ret, outCount, out) = f 0 (int len - 1) series period
      in if outCount = 0 \<or> length out < outCount then Inl MemoryFault else Inr (out ! (outCount - 1)))"

section \<open>Properties\<close>

lemma sample_close_value:
  "mw_sample cb sampler_close s c t v = Inr (c', s', w) \<Longrightarrow> current_value c' = v"
  by (auto simp: mw_sample_def sampler_close_def cpp_bind_Inr_iff Let_def)

context circular_buffer_laws
begin

lemma indicator_step_returns:
  assumes k: "k < length store" "tree_ok True cb ok (ind_window (store ! k))"
    and calc: "calc k (ind_state (store ! k)) tb vb n = Inr (x, st)"
  shows "\<exists>w. indicator_step cb calc t tb vb n k store = Inr (store[k := \<lparr>ind_window = w, ind_state = st\<rparr>]) \<and>
           current_value (node_core w) = x"
proof -
  obtain s w q tr where on: "moving_window_on cb sampler_close ((), ind_window (store ! k)) t x = Inr ((s, w), q, tr)"
    using moving_window_on_post [OF k(2), of sampler_close "()" t x] by (auto simp: cpp_post_returns)
  have "current_value (node_core w) = x"
    using moving_window_on_core [OF on] by (auto dest: sample_close_value)
  with on k calc show ?thesis by (intro exI [of _ w]) (simp add: indicator_step_def)
qed

lemma pipeline_loop_returns:
  assumes "distinct ks" "\<forall>k \<in> set ks. k < length store \<and> tree_ok True cb ok (ind_window (store ! k))"
    and calc: "\<And>k st. \<exists>r. calc k st tb vb n = Inr r"
  shows "\<exists>store'. pipeline_loop cb calc t tb vb n ks store = Inr store' \<and> length store' = length store \<and>
     (\<forall>k \<in> set ks. calc k (ind_state (store ! k)) tb vb n =
        Inr (current_value (node_core (ind_window (store' ! k))), ind_state (store' ! k))) \<and>
     (\<forall>k. k \<notin> set ks \<longrightarrow> store' ! k = store ! k)"
  using assms(1,2)
proof (induction ks arbitrary: store)
  case (Cons k ks)
  obtain x st where x: "calc k (ind_state (store ! k)) tb vb n = Inr (x, st)" using calc by fastforce
  obtain w where w: "indicator_step cb calc t tb vb n k store =
      Inr (store[k := \<lparr>ind_window = w, ind_state = st\<rparr>])" "current_value (node_core w) = x"
    using indicator_step_returns [of k store calc tb vb n x st t] Cons.prems x by auto
  let ?store = "store[k := \<lparr>ind_window = w, ind_state = st\<rparr>]"
  have same: "?store ! j = store ! j" if "j \<in> set ks" for j
    using that Cons.prems(1) by (intro nth_list_update_neq) auto
  obtain store' where s: "pipeline_loop cb calc t tb vb n ks ?store = Inr store'"
    "length store' = length ?store"
    "\<forall>j \<in> set ks. calc j (ind_state (?store ! j)) tb vb n =
        Inr (current_value (node_core (ind_window (store' ! j))), ind_state (store' ! j))"
    "\<forall>j. j \<notin> set ks \<longrightarrow> store' ! j = ?store ! j"
    using Cons.IH [of ?store] Cons.prems same by auto
  have "store' ! k = \<lparr>ind_window = w, ind_state = st\<rparr>" using s(4) Cons.prems by simp
  with s w x same show ?case by auto
qed simp

lemma pipeline_on_returns:
  assumes src: "moving_window_on cb smp (pl_source p) t v = Inr (src, q, tr)"
    and tree: "tree_ok True cb ok (snd (pl_source p))"
    and n: "n = cb_capacity cb (buffer (node_core (snd (pl_source p))))" "0 < n"
    and refs: "distinct (pl_list p)"
      "\<forall>k \<in> set (pl_list p). k < length (pl_store p) \<and> tree_ok True cb ok (ind_window (pl_store p ! k))"
    and calc: "\<And>k st ts vs m. \<exists>r. calc k st ts vs m = Inr r"
  shows "\<exists>p'. pipeline_on cb smp calc p t v = Inr p' \<and> pl_source p' = src \<and>
     (\<forall>k \<in> set (pl_list p).
        calc k (ind_state (pl_store p ! k)) (mw_times (node_core (snd src)) n)
          (last_n n (mw_values cb (node_core (snd src)))) n =
        Inr (current_value (node_core (ind_window (pl_store p' ! k))), ind_state (pl_store p' ! k))) \<and>
     (\<forall>k. k \<notin> set (pl_list p) \<longrightarrow> pl_store p' ! k = pl_store p ! k)"
proof -
  let ?c = "node_core (snd src)"
  have post: "tree_ok True cb ok (snd src)" "cb_capacity cb (buffer ?c) = n"
    using moving_window_on_post [OF tree, of smp "fst (pl_source p)" t v] src n(1)
    by (auto simp: split: prod.splits)
  then have inv: "mw_inv cb ok ?c" by (cases "snd src") (simp add: tree_ok_def)
  have len: "mw_capacity cb (node_core (snd (pl_source p))) - 1 = n" "n \<le> mw_capacity cb ?c"
    using n(1) post(2) by (simp_all add: mw_capacity_def)
  have copy: "copy_last cb ?c (replicate n 0) (replicate n v) n =
      Inr (mw_times ?c n, last_n n (mw_values cb ?c), n)"
    using copy_last_correct [OF inv n(2) len(2), of "replicate n 0" "replicate n v"] by simp
  show ?thesis
    using pipeline_loop_returns [OF refs, of calc "mw_times ?c n" "last_n n (mw_values cb ?c)" n t] calc
      src copy len(1)
    by (auto simp: pipeline_on_def Let_def)
qed

end

text \<open>
  C29. One step of a sequential pipeline. The source window takes the observation first; then every
  listed indicator takes as its current value what its \<^verbatim>\<open>calculate\<close> gives on the last samples of
  the updated source, as many as the source keeps closed bars, and indicators that are not listed
  are untouched.
\<close>

theorem pipeline_feeds_indicators:
  assumes "circular_buffer_laws cb ok"
    and "moving_window_on cb smp (pl_source p) t v = Inr (src, q, tr)"
    and "tree_ok True cb ok (snd (pl_source p))"
    and "n = cb_capacity cb (buffer (node_core (snd (pl_source p))))" "0 < n"
    and "distinct (pl_list p)"
      "\<forall>k \<in> set (pl_list p). k < length (pl_store p) \<and> tree_ok True cb ok (ind_window (pl_store p ! k))"
    and "\<And>k st ts vs m. \<exists>r. calc k st ts vs m = Inr r"
  shows "\<exists>p'. pipeline_on cb smp calc p t v = Inr p' \<and> pl_source p' = src \<and>
     (\<forall>k \<in> set (pl_list p).
        calc k (ind_state (pl_store p ! k)) (mw_times (node_core (snd src)) n)
          (last_n n (mw_values cb (node_core (snd src)))) n =
        Inr (current_value (node_core (ind_window (pl_store p' ! k))), ind_state (pl_store p' ! k))) \<and>
     (\<forall>k. k \<notin> set (pl_list p) \<longrightarrow> pl_store p' ! k = pl_store p ! k)"
  by (rule circular_buffer_laws.pipeline_on_returns [OF assms(1-7)]) (rule assms(8))

definition demo_pipeline :: "(int, int ring, unit, unit) pipeline" where
  "demo_pipeline = \<lparr>pl_source = ((), Node demo_core [] [] []),
     pl_store = [\<lparr>ind_window = Node demo_core [] [] [], ind_state = ()\<rparr>], pl_list = [0]\<rparr>"

definition demo_sum :: "nat \<Rightarrow> (int, unit) calculate" where
  "demo_sum k st ts vs m = Inr (sum_list vs, st)"

theorem pipeline_feeds_indicators_witness:
  "\<exists>p'. pipeline_on ring_cb sampler_close demo_sum demo_pipeline 52 9 = Inr p' \<and>
     current_value (node_core (ind_window (pl_store p' ! 0))) = 4 + 5 + 9"
proof -
  obtain src q tr where src: "moving_window_on ring_cb sampler_close (pl_source demo_pipeline) 52 9 = Inr (src, q, tr)"
    and vals: "last_n 3 (mw_values ring_cb (node_core (snd src))) = [4, 5, 9]"
    by (simp add: demo_pipeline_def demo_core_def moving_window_on_def mw_sample_def sampler_close_def
        align_count_windows_def align_floor_def mw_values_def last_n_def ring_cb_def ring_push_def
        ring_one_def ring_two_def Let_def)
  have tree: "tree_ok True ring_cb ring_ok (Node demo_core [] [] [])"
    using demo_core_values(1) by (simp add: tree_ok_def)
  show ?thesis
    using pipeline_feeds_indicators [OF ring_laws src, of 3 demo_sum] tree vals
    by (auto simp: demo_pipeline_def demo_core_values(4) demo_sum_def)
qed

end
