(* ===== verification/Proto_Values.thy ===== *)
theory Proto_Values
  imports Proto_Types
begin

text \<open>
  \<^verbatim>\<open>proto/common.hpp\<close> and \<^verbatim>\<open>proto/historian.hpp\<close>: the typed views of the messages \<open>Value\<close> and
  \<open>Record\<close>, which carry one of several types under a type tag. Template specialisations are one
  definition each; the generic templates, which carry or return nothing, are the ones named
  \<open>other\<close>.
\<close>

section \<open>Value\<close>

definition get_as_double :: "Value \<Rightarrow> double option" where
  "get_as_double v = Some (get_double_value v)"

text \<open>The field has 64 bits and the C++ type \<^verbatim>\<open>int\<close> has 32.\<close>

definition get_as_int :: "Value \<Rightarrow> i32 option" where
  "get_as_int v = Some (ucast (get_int_value v))"

definition get_as_string :: "Value \<Rightarrow> string option" where
  "get_as_string v = Some (get_string_value v)"

definition as_tagged :: "(Value \<Rightarrow> 'a option) \<Rightarrow> Value_Type \<Rightarrow> Value \<Rightarrow> 'a option" where
  "as_tagged get_t type v = (if get_value_type v = type then get_t v else None)"

definition as_double :: "Value \<Rightarrow> double option" where
  "as_double v = as_tagged get_as_double Value_Type_DOUBLE v"

definition as_int :: "Value \<Rightarrow> i32 option" where
  "as_int v = as_tagged get_as_int Value_Type_INT v"

definition as_string :: "Value \<Rightarrow> string option" where
  "as_string v = as_tagged get_as_string Value_Type_STRING v"

definition as_other :: "Value \<Rightarrow> 'a option" where
  "as_other v = None"

definition set_field_double :: "double \<Rightarrow> Value \<Rightarrow> Value" where
  "set_field_double x v = v\<lparr>double_value := Some x\<rparr>"

definition set_field_int :: "i32 \<Rightarrow> Value \<Rightarrow> Value" where
  "set_field_int x v = v\<lparr>int_value := Some (scast x)\<rparr>"

definition set_field_string :: "string \<Rightarrow> Value \<Rightarrow> Value" where
  "set_field_string x v = v\<lparr>string_value := Some x\<rparr>"

definition set_as_double :: "double \<Rightarrow> Value \<Rightarrow> Value" where
  "set_as_double x v = set_field_double x (v\<lparr>val_type := Some Value_Type_DOUBLE\<rparr>)"

definition set_as_int :: "i32 \<Rightarrow> Value \<Rightarrow> Value" where
  "set_as_int x v = set_field_int x (v\<lparr>val_type := Some Value_Type_INT\<rparr>)"

definition set_as_string :: "string \<Rightarrow> Value \<Rightarrow> Value" where
  "set_as_string x v = set_field_string x (v\<lparr>val_type := Some Value_Type_STRING\<rparr>)"

text \<open>Every other type is carried as the string \<^verbatim>\<open>lexical_cast\<close> gives.\<close>

definition set_as_other :: "('a \<Rightarrow> string) \<Rightarrow> 'a \<Rightarrow> Value \<Rightarrow> Value" where
  "set_as_other lexical_cast x v = set_as_string (lexical_cast x) v"

definition wrap_double :: "double \<Rightarrow> Value" where
  "wrap_double x = set_as_double x Value_default"

definition wrap_int :: "i32 \<Rightarrow> Value" where
  "wrap_int x = set_as_int x Value_default"

definition wrap_string :: "string \<Rightarrow> Value" where
  "wrap_string x = set_as_string x Value_default"

definition wrap_other :: "('a \<Rightarrow> string) \<Rightarrow> 'a \<Rightarrow> Value" where
  "wrap_other lexical_cast x = set_as_string (lexical_cast x) Value_default"

lemmas value_defs = as_double_def as_int_def as_string_def as_tagged_def get_as_double_def
  get_as_int_def get_as_string_def set_as_double_def set_as_int_def set_as_string_def
  set_field_double_def set_field_int_def set_field_string_def get_value_type_def
  get_double_value_def get_int_value_def get_string_value_def

section \<open>Record\<close>

definition record_get_marketdata :: "Record \<Rightarrow> MarketData option" where
  "record_get_marketdata r = Some (case_option MarketData_default id (ib_marketdata r))"

definition record_get_marketdepth :: "Record \<Rightarrow> MarketDepth option" where
  "record_get_marketdepth r = Some (case_option MarketDepth_default id (ib_marketdepth r))"

definition record_get_sessionlog :: "Record \<Rightarrow> SessionLog option" where
  "record_get_sessionlog r = Some (case_option SessionLog_default id (session_log r))"

definition record_get_indexedvalue :: "Record \<Rightarrow> IndexedValue option" where
  "record_get_indexedvalue r = Some (case_option IndexedValue_default id (indexed_value r))"

definition record_as_tagged :: "(Record \<Rightarrow> 'a option) \<Rightarrow> RecordType \<Rightarrow> Record \<Rightarrow> 'a option" where
  "record_as_tagged get_t type r = (if get_rec_type r = type then get_t r else None)"

definition record_as_marketdata :: "Record \<Rightarrow> MarketData option" where
  "record_as_marketdata r = record_as_tagged record_get_marketdata IB_MARKET_DATA r"

definition record_as_marketdepth :: "Record \<Rightarrow> MarketDepth option" where
  "record_as_marketdepth r = record_as_tagged record_get_marketdepth IB_MARKET_DEPTH r"

definition record_as_sessionlog :: "Record \<Rightarrow> SessionLog option" where
  "record_as_sessionlog r = record_as_tagged record_get_sessionlog SESSION_LOG r"

definition record_as_indexedvalue :: "Record \<Rightarrow> IndexedValue option" where
  "record_as_indexedvalue r = record_as_tagged record_get_indexedvalue INDEXED_VALUE r"

definition record_set_marketdata :: "MarketData \<Rightarrow> Record \<Rightarrow> Record" where
  "record_set_marketdata v r = r\<lparr>rec_type := Some IB_MARKET_DATA, ib_marketdata := Some v\<rparr>"

definition record_set_marketdepth :: "MarketDepth \<Rightarrow> Record \<Rightarrow> Record" where
  "record_set_marketdepth v r = r\<lparr>rec_type := Some IB_MARKET_DEPTH, ib_marketdepth := Some v\<rparr>"

definition record_set_sessionlog :: "SessionLog \<Rightarrow> Record \<Rightarrow> Record" where
  "record_set_sessionlog v r = r\<lparr>rec_type := Some SESSION_LOG, session_log := Some v\<rparr>"

definition record_set_indexedvalue :: "IndexedValue \<Rightarrow> Record \<Rightarrow> Record" where
  "record_set_indexedvalue v r = r\<lparr>rec_type := Some INDEXED_VALUE, indexed_value := Some v\<rparr>"

definition record_wrap :: "('a \<Rightarrow> Record \<Rightarrow> Record) \<Rightarrow> 'a \<Rightarrow> Record" where
  "record_wrap set_t v = set_t v Record_default"

lemmas record_defs = record_as_marketdata_def record_as_marketdepth_def record_as_sessionlog_def
  record_as_indexedvalue_def record_as_tagged_def record_get_marketdata_def
  record_get_marketdepth_def record_get_sessionlog_def record_get_indexedvalue_def
  record_set_marketdata_def record_set_marketdepth_def record_set_sessionlog_def
  record_set_indexedvalue_def record_wrap_def get_rec_type_def

section \<open>The contract of the typed views\<close>

text \<open>
  A message that carries one of several types: what is put in under a type comes out under that
  type and under no other.
\<close>

locale typed_view =
  fixes put :: "'a \<Rightarrow> 'm \<Rightarrow> 'm"
    and get :: "'m \<Rightarrow> 'a option"
    and tag :: "'m \<Rightarrow> 't"
    and t :: 't
  assumes get_put: "get (put x m) = Some x"
    and tag_put: "tag (put x m) = t"
    and get_tag: "get m \<noteq> None \<longleftrightarrow> tag m = t"
begin

lemma get_last_put: "get (put x (put y m)) = Some x"
  by (rule get_put)

lemma other_view_empty:
  assumes "typed_view put' get' tag t'" "t \<noteq> t'"
  shows "get' (put x m) = None"
  using typed_view.get_tag [OF assms(1), of "put x m"] tag_put assms(2) by auto

end

lemma ucast_scast32: "ucast (scast (x :: i32) :: i64) = x"
  by transfer (simp add: take_bit_signed_take_bit)

interpretation double_view: typed_view set_as_double as_double get_value_type Value_Type_DOUBLE
  by unfold_locales (auto simp: value_defs)

interpretation int_view: typed_view set_as_int as_int get_value_type Value_Type_INT
  by unfold_locales (auto simp: value_defs ucast_scast32)

interpretation string_view: typed_view set_as_string as_string get_value_type Value_Type_STRING
  by unfold_locales (auto simp: value_defs)

interpretation marketdata_view: typed_view record_set_marketdata record_as_marketdata get_rec_type IB_MARKET_DATA
  by unfold_locales (auto simp: record_defs)

interpretation marketdepth_view: typed_view record_set_marketdepth record_as_marketdepth get_rec_type IB_MARKET_DEPTH
  by unfold_locales (auto simp: record_defs)

interpretation sessionlog_view: typed_view record_set_sessionlog record_as_sessionlog get_rec_type SESSION_LOG
  by unfold_locales (auto simp: record_defs)

interpretation indexedvalue_view: typed_view record_set_indexedvalue record_as_indexedvalue get_rec_type INDEXED_VALUE
  by unfold_locales (auto simp: record_defs)

lemmas value_views = double_view.typed_view_axioms int_view.typed_view_axioms string_view.typed_view_axioms
lemmas record_views = marketdata_view.typed_view_axioms marketdepth_view.typed_view_axioms
  sessionlog_view.typed_view_axioms indexedvalue_view.typed_view_axioms

section \<open>Properties\<close>

text \<open>
  A \<open>Value\<close> gives back what was wrapped under its own type, an \<^verbatim>\<open>int\<close> through the 64-bit field
  included, and an empty \<^verbatim>\<open>boost::optional\<close> under every other type, also when a value of another
  type was stored in the same message before.
\<close>

theorem value_wrap_roundtrip:
  "as_double (wrap_double d) = Some d \<and> as_int (wrap_double d) = None \<and> as_string (wrap_double d) = None \<and>
   as_int (wrap_int i) = Some i \<and> as_double (wrap_int i) = None \<and> as_string (wrap_int i) = None \<and>
   as_string (wrap_string s) = Some s \<and> as_double (wrap_string s) = None \<and> as_int (wrap_string s) = None \<and>
   as_int (set_as_int i (set_as_string s (wrap_double d))) = Some i \<and>
   as_double (set_as_int i (set_as_string s (wrap_double d))) = None"
  unfolding wrap_double_def wrap_int_def wrap_string_def
  using double_view.other_view_empty [OF value_views(2)] double_view.other_view_empty [OF value_views(3)]
    int_view.other_view_empty [OF value_views(1)] int_view.other_view_empty [OF value_views(3)]
    string_view.other_view_empty [OF value_views(1)] string_view.other_view_empty [OF value_views(2)]
  by (simp add: double_view.get_put int_view.get_put string_view.get_put)

text \<open>
  A historian \<open>Record\<close> gives back the market data, market depth, session log or indexed value
  it wraps under its own type and nothing under the other three.
\<close>

theorem record_wrap_roundtrip:
  "record_as_marketdata (record_wrap record_set_marketdata md) = Some md \<and>
   record_as_marketdepth (record_wrap record_set_marketdepth dp) = Some dp \<and>
   record_as_sessionlog (record_wrap record_set_sessionlog sl) = Some sl \<and>
   record_as_indexedvalue (record_wrap record_set_indexedvalue iv) = Some iv \<and>
   record_as_marketdepth (record_wrap record_set_marketdata md) = None \<and>
   record_as_sessionlog (record_wrap record_set_marketdata md) = None \<and>
   record_as_indexedvalue (record_wrap record_set_marketdata md) = None \<and>
   record_as_marketdata (record_wrap record_set_indexedvalue iv) = None"
  unfolding record_wrap_def
  using marketdata_view.other_view_empty [OF record_views(2)] marketdata_view.other_view_empty [OF record_views(3)]
    marketdata_view.other_view_empty [OF record_views(4)] indexedvalue_view.other_view_empty [OF record_views(1)]
  by (simp add: marketdata_view.get_put marketdepth_view.get_put sessionlog_view.get_put
      indexedvalue_view.get_put)

end
