(* ===== verification/Leveldb.thy ===== *)
theory Leveldb
  imports Prelude
begin

text \<open>
  LevelDB as the historian uses it: an ordered key-value store behind a handle, with point reads,
  atomic batches and iterators that start at a key. The operations are a parameter, the record
  \<open>leveldb\<close>; \<open>leveldb_laws\<close> is what its documentation promises of a store without I/O errors, in
  terms of the finite map of its entries. A sorted association list satisfies the laws.
\<close>

datatype 'b get_status = Found 'b | IsNotFound | GetError

record ('d, 'b) leveldb =
  ldb_get :: "'d \<Rightarrow> string \<Rightarrow> 'b get_status"
  ldb_put :: "'d \<Rightarrow> string \<Rightarrow> 'b \<Rightarrow> bool \<times> 'd"                    \<comment> \<open>status.ok()\<close>
  ldb_write :: "'d \<Rightarrow> (string \<times> 'b) list \<Rightarrow> bool \<times> 'd"         \<comment> \<open>a batch of Put operations\<close>
  ldb_seek :: "'d \<Rightarrow> string \<Rightarrow> (string \<times> 'b) list"               \<comment> \<open>what the iterator yields after Seek\<close>

definition batch_map :: "(string \<times> 'b) list \<Rightarrow> (string \<rightharpoonup> 'b) \<Rightarrow> (string \<rightharpoonup> 'b)" where
  "batch_map ops m = fold (\<lambda>(k, b) m. m(k \<mapsto> b)) ops m"

locale leveldb_laws =
  fixes L :: "('d, 'b) leveldb"
    and entries :: "'d \<Rightarrow> string \<rightharpoonup> 'b"
  assumes get_entry: "ldb_get L d k = (case entries d k of None \<Rightarrow> IsNotFound | Some b \<Rightarrow> Found b)"
    and put_ok: "fst (ldb_put L d k b)"
    and put_entries: "entries (snd (ldb_put L d k b)) = (entries d)(k \<mapsto> b)"
    and write_ok: "fst (ldb_write L d ops)"
    and write_entries: "entries (snd (ldb_write L d ops)) = batch_map ops (entries d)"
    and seek_sorted: "sorted_wrt (<) (map fst (ldb_seek L d start))"
    and seek_set: "set (ldb_seek L d start) = {(k, b). entries d k = Some b \<and> start \<le> k}"

section \<open>An implementation\<close>

fun sorted_put :: "string \<Rightarrow> 'b \<Rightarrow> (string \<times> 'b) list \<Rightarrow> (string \<times> 'b) list" where
  "sorted_put k b [] = [(k, b)]"
| "sorted_put k b ((k', b') # xs) =
     (if k < k' then (k, b) # (k', b') # xs
      else if k = k' then (k, b) # xs
      else (k', b') # sorted_put k b xs)"

typedef 'b kv_store = "{xs :: (string \<times> 'b) list. sorted_wrt (<) (map fst xs)}"
  by (rule exI [of _ "[]"]) simp

setup_lifting type_definition_kv_store

lemma sorted_put_keys: "fst ` set (sorted_put k b xs) = insert k (fst ` set xs)"
  by (induction k b xs rule: sorted_put.induct) auto

lemma sorted_put_sorted:
  "sorted_wrt (<) (map fst xs) \<Longrightarrow> sorted_wrt (<) (map fst (sorted_put k b xs))"
proof (induction k b xs rule: sorted_put.induct)
  case (2 k b k' b' xs)
  consider "k < k'" | "k = k'" | "\<not> k < k'" "k \<noteq> k'" by blast
  then show ?case
  proof cases
    case 3
    have "\<forall>y \<in> fst ` set (sorted_put k b xs). k' < y"
      using "2.prems" 3 by (auto simp: sorted_put_keys)
    then show ?thesis using "2.IH" [OF 3] "2.prems" 3 by auto
  qed (use "2.prems" in auto)
qed simp

lemma map_of_sorted_put: "map_of (sorted_put k b xs) = (map_of xs)(k \<mapsto> b)"
  by (induction k b xs rule: sorted_put.induct) (auto simp: fun_eq_iff)

lift_definition kv_put :: "string \<Rightarrow> 'b \<Rightarrow> 'b kv_store \<Rightarrow> 'b kv_store" is sorted_put
  by (rule sorted_put_sorted)

lift_definition kv_entries :: "'b kv_store \<Rightarrow> string \<rightharpoonup> 'b" is map_of .

lift_definition kv_list :: "'b kv_store \<Rightarrow> (string \<times> 'b) list" is "\<lambda>xs. xs" .

lift_definition kv_empty :: "'b kv_store" is "[]" by simp

definition kv_leveldb :: "('b kv_store, 'b) leveldb" where
  "kv_leveldb = \<lparr>
     ldb_get = (\<lambda>d k. case kv_entries d k of None \<Rightarrow> IsNotFound | Some b \<Rightarrow> Found b),
     ldb_put = (\<lambda>d k b. (True, kv_put k b d)),
     ldb_write = (\<lambda>d ops. (True, fold (\<lambda>(k, b). kv_put k b) ops d)),
     ldb_seek = (\<lambda>d start. filter (\<lambda>(k, b). start \<le> k) (kv_list d))\<rparr>"

lemma kv_entries_put: "kv_entries (kv_put k b d) = (kv_entries d)(k \<mapsto> b)"
  by transfer (rule map_of_sorted_put)

lemma kv_entries_empty: "kv_entries kv_empty = Map.empty"
  by transfer simp

lemma kv_list_sorted: "sorted_wrt (<) (map fst (kv_list d))"
  by transfer simp

lemma kv_list_set: "set (kv_list d) = {(k, b). kv_entries d k = Some b}"
proof (transfer, goal_cases)
  case (1 xs)
  then have "distinct (map fst xs)" by (simp add: strict_sorted_iff)
  then show ?case by (auto simp: map_of_eq_Some_iff)
qed

lemma kv_entries_batch:
  "kv_entries (fold (\<lambda>(k, b). kv_put k b) ops d) = batch_map ops (kv_entries d)"
  by (induction ops arbitrary: d) (auto simp: batch_map_def kv_entries_put)

lemma sorted_map_filter: "sorted_wrt R (map f xs) \<Longrightarrow> sorted_wrt R (map f (filter P xs))"
  by (induction xs) auto

interpretation kv: leveldb_laws kv_leveldb kv_entries
  by unfold_locales
    (auto simp: kv_leveldb_def kv_entries_put kv_entries_batch kv_list_set
      intro: sorted_map_filter kv_list_sorted)

end
