(* ===== verification/Historian_Db.thy ===== *)
theory Historian_Db
  imports Leveldb Proto_Values Time_Policy
begin

text \<open>
  The historian's database, \<^verbatim>\<open>historian/Db.cpp\<close> and \<^verbatim>\<open>historian/internal.hpp\<close>: market data, market
  depth and session logs are written under text keys, market data with a secondary index by event
  in the same batch, and queries iterate a range of keys and hand every record to a visitor. The
  store is \<open>leveldb\<close>, the bytes of a record are what the codec gives, and the clock readings of the
  write statistics are arguments.
\<close>

section \<open>Keys\<close>

definition ENTITY_SESSION_LOG :: string where "ENTITY_SESSION_LOG = ''sessionlog''"
definition ENTITY_IB_MARKET_DATA :: string where "ENTITY_IB_MARKET_DATA = ''mkt''"
definition ENTITY_IB_MARKET_DEPTH :: string where "ENTITY_IB_MARKET_DEPTH = ''depth''"
definition INDEX_IB_MARKET_DATA_BY_EVENT :: string where
  "INDEX_IB_MARKET_DATA_BY_EVENT = ''x/event-value''"

definition marketdata_key :: "string \<Rightarrow> u64 \<Rightarrow> string" where
  "marketdata_key symbol time_micros = ENTITY_IB_MARKET_DATA @ '':'' @ symbol @ '':'' @ show_u64 time_micros"

definition marketdata_key_of :: "MarketData \<Rightarrow> string" where
  "marketdata_key_of v = marketdata_key (get_md_symbol v) (get_md_timestamp v)"

definition marketdata_key_at :: "'pt posix_time \<Rightarrow> string \<Rightarrow> 'pt \<Rightarrow> string" where
  "marketdata_key_at P symbol timestamp = marketdata_key symbol (as_micros P timestamp)"

definition marketdepth_key :: "string \<Rightarrow> u64 \<Rightarrow> string" where
  "marketdepth_key symbol time_micros = ENTITY_IB_MARKET_DEPTH @ '':'' @ symbol @ '':'' @ show_u64 time_micros"

definition marketdepth_key_of :: "MarketDepth \<Rightarrow> string" where
  "marketdepth_key_of v = marketdepth_key (get_dp_symbol v) (get_dp_timestamp v)"

definition marketdepth_key_at :: "'pt posix_time \<Rightarrow> string \<Rightarrow> 'pt \<Rightarrow> string" where
  "marketdepth_key_at P symbol timestamp = marketdepth_key symbol (as_micros P timestamp)"

definition sessionlog_key_of :: "SessionLog \<Rightarrow> string" where
  "sessionlog_key_of v =
     ENTITY_SESSION_LOG @ '':'' @ get_sl_symbol v @ '':'' @ show_u64 (get_sl_start_timestamp v) @ '':'' @
     show_u64 (get_sl_stop_timestamp v)"

definition sessionlog_key :: "string \<Rightarrow> u64 \<Rightarrow> string" where
  "sessionlog_key symbol time_micros = ENTITY_SESSION_LOG @ '':'' @ symbol @ '':'' @ show_u64 time_micros"

definition sessionlog_key_at :: "'pt posix_time \<Rightarrow> string \<Rightarrow> 'pt \<Rightarrow> string" where
  "sessionlog_key_at P symbol timestamp = sessionlog_key symbol (as_micros P timestamp)"

definition buildIndexKey :: "string \<Rightarrow> string \<Rightarrow> u64 \<Rightarrow> string" where
  "buildIndexKey symbol event timestamp =
     INDEX_IB_MARKET_DATA_BY_EVENT @ '':'' @ symbol @ '':'' @ event @ '':'' @ show_u64 timestamp"

definition buildIndexKey_of :: "MarketData \<Rightarrow> string" where
  "buildIndexKey_of v = buildIndexKey (get_md_symbol v) (get_md_event v) (get_md_timestamp v)"

section \<open>Writing\<close>

type_synonym 'b record_codec = "(Record, 'b) codec"

definition write_db_batch :: "('d, 'b) leveldb \<Rightarrow> (string \<times> 'b) list \<Rightarrow> 'd \<Rightarrow> bool \<times> 'd" where
  "write_db_batch L batch d = ldb_write L d batch"

definition ok_to_write :: "('d, 'b) leveldb \<Rightarrow> string \<Rightarrow> bool \<Rightarrow> 'd \<Rightarrow> bool" where
  "ok_to_write L key overwrite d =
     (if \<not> overwrite
      then (case ldb_get L d key of IsNotFound \<Rightarrow> True | Found _ \<Rightarrow> False | GetError \<Rightarrow> False)
      else overwrite)"

definition write_db ::
  "('d, 'b) leveldb \<Rightarrow> 'b record_codec \<Rightarrow> string \<Rightarrow> Record \<Rightarrow> bool \<Rightarrow> 'd \<Rightarrow> bool \<times> 'd" where
  "write_db L C key v overwrite d =
     (if length key = 0 then (False, d)
      else if ok_to_write L key overwrite d then
        (let (serialized, buffer) = pb_serialize C v in
         if serialized then (let (ok, d') = ldb_put L d key buffer in (ok, d'))
         else (False, d))
      else (False, d))"

text \<open>A batch is collected first; the result of the serialisation is not looked at.\<close>

definition write_batch ::
  "('d, 'b) leveldb \<Rightarrow> 'b record_codec \<Rightarrow> string \<Rightarrow> Record \<Rightarrow> (string \<times> 'b) list \<Rightarrow> bool \<Rightarrow> 'd \<Rightarrow>
     bool \<times> (string \<times> 'b) list" where
  "write_batch L C key v batch overwrite d =
     (if length key = 0 then (False, batch)
      else if ok_to_write L key overwrite d then (True, batch @ [(key, snd (pb_serialize C v))])
      else (False, batch))"

definition Writer_SessionLog ::
  "('d, 'b) leveldb \<Rightarrow> 'b record_codec \<Rightarrow> SessionLog \<Rightarrow> bool \<Rightarrow> 'd \<Rightarrow> bool \<times> 'd" where
  "Writer_SessionLog L C v overwrite d =
     write_db L C (sessionlog_key_of v)
       (Record_default\<lparr>rec_type := Some SESSION_LOG, session_log := Some v\<rparr>) overwrite d"

definition Writer_MarketDepth ::
  "('d, 'b) leveldb \<Rightarrow> 'b record_codec \<Rightarrow> MarketDepth \<Rightarrow> bool \<Rightarrow> 'd \<Rightarrow> bool \<times> 'd" where
  "Writer_MarketDepth L C v overwrite d =
     write_db L C (marketdepth_key_of v)
       (Record_default\<lparr>rec_type := Some IB_MARKET_DEPTH, ib_marketdepth := Some v\<rparr>) overwrite d"

definition index_record :: "MarketData \<Rightarrow> Record" where
  "index_record v =
     record_wrap record_set_indexedvalue
       \<lparr>iv_timestamp = Some (get_md_timestamp v), iv_value = Some (get_md_value v)\<rparr>"

definition Writer_MarketData ::
  "('d, 'b) leveldb \<Rightarrow> 'b record_codec \<Rightarrow> MarketData \<Rightarrow> bool \<Rightarrow> 'd \<Rightarrow> bool \<times> 'd" where
  "Writer_MarketData L C v overwrite d =
     (let (ok, batch) = write_batch L C (marketdata_key_of v) (record_wrap record_set_marketdata v) [] overwrite d
      in if ok
         then let (_, batch') = write_batch L C (buildIndexKey_of v) (index_record v) batch True d
              in write_db_batch L batch' d
         else (False, d))"

section \<open>The Db object\<close>

record write_varz =
  leveldb_writes :: i64
  leveldb_write_start :: i64
  leveldb_write_finish :: i64
  leveldb_write_elapsed :: i64
  leveldb_write_micros :: i64

record 'd db =
  dbFile :: string
  levelDb :: "'d option"
  db_varz :: write_varz

record leveldb_flags =
  flag_max_open_files :: int
  flag_block_size :: int
  flag_write_buffer_size :: int

record leveldb_options =
  opt_create_if_missing :: bool
  opt_max_open_files :: int
  opt_block_size :: int
  opt_write_buffer_size :: int

definition Db_new :: "string \<Rightarrow> 'd db" where
  "Db_new file = \<lparr>dbFile = file, levelDb = None, db_varz = \<lparr>leveldb_writes = 0, leveldb_write_start = 0,
     leveldb_write_finish = 0, leveldb_write_elapsed = 0, leveldb_write_micros = 0\<rparr>\<rparr>"

text \<open>\<open>open_fn\<close> is \<^verbatim>\<open>leveldb::DB::Open\<close>, \<open>defaults\<close> a default constructed \<^verbatim>\<open>leveldb::Options\<close>.\<close>

definition Db_Open ::
  "(leveldb_options \<Rightarrow> string \<Rightarrow> 'd option) \<Rightarrow> leveldb_options \<Rightarrow> leveldb_flags \<Rightarrow> 'd db \<Rightarrow> bool \<times> 'd db" where
  "Db_Open open_fn defaults flags db =
     (let o1 = defaults\<lparr>opt_create_if_missing := True\<rparr>;
          o2 = (if 0 < flag_block_size flags then o1\<lparr>opt_block_size := flag_block_size flags\<rparr> else o1);
          o3 = (if 0 < flag_max_open_files flags
                then o2\<lparr>opt_max_open_files := flag_max_open_files flags\<rparr> else o2);
          o4 = (if 0 < flag_write_buffer_size flags
                then o3\<lparr>opt_write_buffer_size := flag_write_buffer_size flags\<rparr> else o3)
      in case open_fn o4 (dbFile db) of
           Some d \<Rightarrow> (True, db\<lparr>levelDb := Some d\<rparr>)
         | None \<Rightarrow> (False, db\<lparr>levelDb := None\<rparr>))"

definition GetDbPath :: "'d db \<Rightarrow> string" where
  "GetDbPath db = dbFile db"

text \<open>The statistics take two readings of the clock. Writing to a database that is not open
  dereferences a null pointer.\<close>

definition impl_write ::
  "('d \<Rightarrow> bool \<times> 'd) \<Rightarrow> i64 \<Rightarrow> i64 \<Rightarrow> 'd db \<Rightarrow> (bool \<times> 'd db) cpp" where
  "impl_write writer start finish db =
     (case levelDb db of
        None \<Rightarrow> Inl NullDereference
      | Some d \<Rightarrow>
          let (written, d') = writer d
          in Inr (written, db\<lparr>levelDb := Some d',
               db_varz := \<lparr>leveldb_writes = leveldb_writes (db_varz db) + 1, leveldb_write_start = start,
                 leveldb_write_finish = finish, leveldb_write_elapsed = finish - start,
                 leveldb_write_micros = finish - start\<rparr>\<rparr>))"

definition Db_Write_MarketData ::
  "('d, 'b) leveldb \<Rightarrow> 'b record_codec \<Rightarrow> i64 \<Rightarrow> i64 \<Rightarrow> MarketData \<Rightarrow> bool \<Rightarrow> 'd db \<Rightarrow> (bool \<times> 'd db) cpp" where
  "Db_Write_MarketData L C t0 t1 v overwrite db =
     (if \<not> marketdata_initialized v then Inr (False, db)
      else impl_write (Writer_MarketData L C v overwrite) t0 t1 db)"

definition Db_Write_MarketDepth ::
  "('d, 'b) leveldb \<Rightarrow> 'b record_codec \<Rightarrow> i64 \<Rightarrow> i64 \<Rightarrow> MarketDepth \<Rightarrow> bool \<Rightarrow> 'd db \<Rightarrow> (bool \<times> 'd db) cpp" where
  "Db_Write_MarketDepth L C t0 t1 v overwrite db =
     (if \<not> marketdepth_initialized v then Inr (False, db)
      else impl_write (Writer_MarketDepth L C v overwrite) t0 t1 db)"

definition Db_Write_SessionLog ::
  "('d, 'b) leveldb \<Rightarrow> 'b record_codec \<Rightarrow> i64 \<Rightarrow> i64 \<Rightarrow> SessionLog \<Rightarrow> bool \<Rightarrow> 'd db \<Rightarrow> (bool \<times> 'd db) cpp" where
  "Db_Write_SessionLog L C t0 t1 v overwrite db =
     (if \<not> sessionlog_initialized v then Inr (False, db)
      else impl_write (Writer_SessionLog L C v overwrite) t0 t1 db)"

section \<open>Queries\<close>

text \<open>A visitor has a state; it returns whether to read on.\<close>

type_synonym 'v visitor = "'v \<Rightarrow> Record \<Rightarrow> 'v \<times> bool"

definition DefaultVisitor :: "'v visitor" where
  "DefaultVisitor s r = (s, True)"

fun query_loop ::
  "'b record_codec \<Rightarrow> string \<Rightarrow> 'v visitor \<Rightarrow> (string \<times> 'b) list \<Rightarrow> nat \<Rightarrow> 'v \<Rightarrow> nat \<times> 'v" where
  "query_loop C stop visit [] count s = (count, s)"
| "query_loop C stop visit ((key, v) # it) count s =
     (if key < stop then
        (case pb_parse C v of
           Some r \<Rightarrow>
             (let (s', readMore) = visit s (r\<lparr>rec_key := Some key\<rparr>)
              in if \<not> readMore then (count, s') else query_loop C stop visit it (count + 1) s')
         | None \<Rightarrow> query_loop C stop visit it (count + 1) s)
      else (count, s))"

definition Db_query ::
  "('d, 'b) leveldb \<Rightarrow> 'b record_codec \<Rightarrow> string \<Rightarrow> string \<Rightarrow> 'v visitor \<Rightarrow> 'v \<Rightarrow> 'd db \<Rightarrow> nat \<times> 'v" where
  "Db_query L C start stop visit s db =
     (case levelDb db of
        None \<Rightarrow> (0, s)
      | Some d \<Rightarrow> query_loop C stop visit (ldb_seek L d start) 0 s)"

definition Db_Query_range ::
  "('d, 'b) leveldb \<Rightarrow> 'b record_codec \<Rightarrow> QueryByRange \<Rightarrow> 'v visitor \<Rightarrow> 'v \<Rightarrow> 'd db \<Rightarrow> nat \<times> 'v" where
  "Db_Query_range L C q visit s db =
     Db_query L C (case_option [] id (qr_first q)) (case_option [] id (qr_last q)) visit s db"

definition Db_Query_symbol ::
  "('d, 'b) leveldb \<Rightarrow> 'b record_codec \<Rightarrow> QueryBySymbol \<Rightarrow> 'v visitor \<Rightarrow> 'v \<Rightarrow> 'd db \<Rightarrow> nat \<times> 'v" where
  "Db_Query_symbol L C q visit s db =
     (let symbol = case_option [] id (qs_symbol q);
          first = case_option 0 id (qs_utc_first_micros q);
          lst = case_option 0 id (qs_utc_last_micros q)
      in case case_option INDEXED_VALUE id (qs_type q) of
           IB_MARKET_DATA \<Rightarrow>
             Db_query L C (marketdata_key symbol first) (marketdata_key symbol lst) visit s db
         | IB_MARKET_DEPTH \<Rightarrow>
             Db_query L C (marketdepth_key symbol first) (marketdepth_key symbol lst) visit s db
         | SESSION_LOG \<Rightarrow>
             Db_query L C (sessionlog_key symbol first) (sessionlog_key symbol lst) visit s db
         | INDEXED_VALUE \<Rightarrow>
             (case qs_index q of
                Some index \<Rightarrow>
                  Db_query L C (buildIndexKey symbol index first) (buildIndexKey symbol index lst) visit s db
              | None \<Rightarrow> (0, s)))"

end
