(* ===== verification/Historian_Laws.thy ===== *)
theory Historian_Laws
  imports Historian_Db
begin

text \<open>
  What the historian guarantees: keys are unambiguous, a write is all or nothing and respects the
  overwrite flag, the index by event never disagrees with the primary records, and a query by
  symbol hands over exactly the stored records of the symbol in the time range, in time order.
\<close>

section \<open>Keys\<close>

definition colonless :: "string \<Rightarrow> bool" where
  "colonless s \<longleftrightarrow> CHR '':'' \<notin> set s"

lemma colonless_show [simp]: "colonless (show_u64 t)"
  by (simp add: colonless_def show_u64_def not_in_show_nat)

lemmas key_defs = marketdata_key_of_def marketdata_key_def marketdepth_key_of_def marketdepth_key_def
  sessionlog_key_of_def sessionlog_key_def buildIndexKey_of_def buildIndexKey_def
  ENTITY_SESSION_LOG_def ENTITY_IB_MARKET_DATA_def ENTITY_IB_MARKET_DEPTH_def
  INDEX_IB_MARKET_DATA_BY_EVENT_def

lemma colon_cut:
  "colonless a \<Longrightarrow> colonless a' \<Longrightarrow> a @ CHR '':'' # b = a' @ CHR '':'' # b' \<longleftrightarrow> a = a' \<and> b = b'"
  unfolding colonless_def by (rule cut_at_sep)

lemma colon_cut_last:
  "colonless b \<Longrightarrow> colonless b' \<Longrightarrow> a @ CHR '':'' # b = a' @ CHR '':'' # b' \<longleftrightarrow> a = a' \<and> b = b'"
  unfolding colonless_def by (rule cut_at_last_sep)

lemma marketdata_key_inj: "marketdata_key s t = marketdata_key s' t' \<longleftrightarrow> s = s' \<and> t = t'"
  by (simp add: key_defs colon_cut_last)

lemma marketdepth_key_inj: "marketdepth_key s t = marketdepth_key s' t' \<longleftrightarrow> s = s' \<and> t = t'"
  by (simp add: key_defs colon_cut_last)

lemma index_key_inj:
  assumes "colonless s" "colonless s'"
  shows "buildIndexKey s e t = buildIndexKey s' e' t' \<longleftrightarrow> s = s' \<and> e = e' \<and> t = t'"
  using assms by (simp add: key_defs colon_cut colon_cut_last)

lemma keys_apart [simp]:
  "marketdata_key_of v \<noteq> marketdepth_key_of p" "marketdata_key_of v \<noteq> sessionlog_key_of l"
  "marketdata_key_of v \<noteq> buildIndexKey_of u" "buildIndexKey_of v \<noteq> marketdata_key_of u"
  "buildIndexKey_of v \<noteq> marketdepth_key_of p" "buildIndexKey_of v \<noteq> sessionlog_key_of l"
  "marketdepth_key_of p \<noteq> sessionlog_key_of l"
  by (simp_all add: key_defs)

lemma keys_nonempty [simp]:
  "marketdata_key_of m \<noteq> []" "marketdepth_key_of p \<noteq> []" "sessionlog_key_of l \<noteq> []" "buildIndexKey_of m \<noteq> []"
  by (simp_all add: key_defs)

text \<open>What lies between two strings with a common prefix has that prefix.\<close>

lemma prefix_between:
  fixes p :: "'a :: linorder list"
  assumes "p @ x \<le> k" "k < p @ y"
  shows "\<exists>r. k = p @ r \<and> x \<le> r \<and> r < y"
  using assms
proof (induction p arbitrary: k)
  case (Cons a p)
  then show ?case by (cases k) auto
qed simp

lemma show_u64_less:
  "length (show_u64 a) = length (show_u64 b) \<Longrightarrow> show_u64 a < show_u64 b \<longleftrightarrow> a < b"
  by (simp add: show_u64_def show_nat_less_iff word_less_nat_alt)

lemma show_u64_le:
  "length (show_u64 a) = length (show_u64 b) \<Longrightarrow> show_u64 a \<le> show_u64 b \<longleftrightarrow> a \<le> b"
  by (metis not_less show_u64_less)

section \<open>Writes\<close>

datatype db_op =
    WriteMarketData MarketData bool
  | WriteMarketDepth MarketDepth bool
  | WriteSessionLog SessionLog bool

text \<open>One write with its two readings of the clock, and a sequence of them.\<close>

definition db_step ::
  "('d, 'b) leveldb \<Rightarrow> 'b record_codec \<Rightarrow> db_op \<times> i64 \<times> i64 \<Rightarrow> 'd db \<Rightarrow> (bool \<times> 'd db) cpp" where
  "db_step L C x db = (case x of (w, t0, t1) \<Rightarrow> (case w of
       WriteMarketData v ow \<Rightarrow> Db_Write_MarketData L C t0 t1 v ow db
     | WriteMarketDepth v ow \<Rightarrow> Db_Write_MarketDepth L C t0 t1 v ow db
     | WriteSessionLog v ow \<Rightarrow> Db_Write_SessionLog L C t0 t1 v ow db))"

primrec db_run ::
  "('d, 'b) leveldb \<Rightarrow> 'b record_codec \<Rightarrow> (db_op \<times> i64 \<times> i64) list \<Rightarrow> 'd db \<Rightarrow> 'd db cpp" where
  "db_run L C [] db = Inr db"
| "db_run L C (x # xs) db = cpp_bind (db_step L C x db) (\<lambda>(_, db'). db_run L C xs db')"

text \<open>Symbols and events without a colon.\<close>

primrec op_colonless :: "db_op \<Rightarrow> bool" where
  "op_colonless (WriteMarketData v _) \<longleftrightarrow> colonless (get_md_symbol v) \<and> colonless (get_md_event v)"
| "op_colonless (WriteMarketDepth v _) \<longleftrightarrow> colonless (get_dp_symbol v)"
| "op_colonless (WriteSessionLog v _) \<longleftrightarrow> colonless (get_sl_symbol v)"

text \<open>The records under which values are stored.\<close>

definition md_bytes :: "'b record_codec \<Rightarrow> MarketData \<Rightarrow> 'b" where
  "md_bytes C v = snd (pb_serialize C (record_wrap record_set_marketdata v))"
definition iv_bytes :: "'b record_codec \<Rightarrow> MarketData \<Rightarrow> 'b" where
  "iv_bytes C v = snd (pb_serialize C (index_record v))"
definition dp_bytes :: "'b record_codec \<Rightarrow> MarketDepth \<Rightarrow> 'b" where
  "dp_bytes C v = snd (pb_serialize C (record_wrap record_set_marketdepth v))"
definition sl_bytes :: "'b record_codec \<Rightarrow> SessionLog \<Rightarrow> 'b" where
  "sl_bytes C v = snd (pb_serialize C (record_wrap record_set_sessionlog v))"

text \<open>The invariant of the entries: every entry is one of these, under the key it belongs to.\<close>

definition db_inv :: "'b record_codec \<Rightarrow> (string \<rightharpoonup> 'b) \<Rightarrow> bool" where
  "db_inv C m \<longleftrightarrow> (\<forall>k b. m k = Some b \<longrightarrow>
     (\<exists>v. marketdata_initialized v \<and> op_colonless (WriteMarketData v True) \<and>
        (k = marketdata_key_of v \<and> b = md_bytes C v \<or> k = buildIndexKey_of v \<and> b = iv_bytes C v)) \<or>
     (\<exists>v. marketdepth_initialized v \<and> colonless (get_dp_symbol v) \<and> k = marketdepth_key_of v \<and> b = dp_bytes C v) \<or>
     (\<exists>v. sessionlog_initialized v \<and> colonless (get_sl_symbol v) \<and> k = sessionlog_key_of v \<and> b = sl_bytes C v))"

text \<open>The index agrees with the primary records.\<close>

definition index_inv :: "'b record_codec \<Rightarrow> (string \<rightharpoonup> 'b) \<Rightarrow> bool" where
  "index_inv C m \<longleftrightarrow> (\<forall>v. marketdata_initialized v \<longrightarrow> op_colonless (WriteMarketData v True) \<longrightarrow>
     m (marketdata_key_of v) = Some (md_bytes C v) \<longrightarrow> m (buildIndexKey_of v) = Some (iv_bytes C v))"

text \<open>The effect a write should have on the entries.\<close>

primrec op_effect :: "'b record_codec \<Rightarrow> db_op \<Rightarrow> (string \<rightharpoonup> 'b) \<Rightarrow> bool \<times> (string \<rightharpoonup> 'b)" where
  "op_effect C (WriteMarketData v ow) m =
     (if marketdata_initialized v \<and> (ow \<or> m (marketdata_key_of v) = None)
      then (True, m(marketdata_key_of v \<mapsto> md_bytes C v, buildIndexKey_of v \<mapsto> iv_bytes C v)) else (False, m))"
| "op_effect C (WriteMarketDepth v ow) m =
     (if marketdepth_initialized v \<and> (ow \<or> m (marketdepth_key_of v) = None)
      then (True, m(marketdepth_key_of v \<mapsto> dp_bytes C v)) else (False, m))"
| "op_effect C (WriteSessionLog v ow) m =
     (if sessionlog_initialized v \<and> (ow \<or> m (sessionlog_key_of v) = None)
      then (True, m(sessionlog_key_of v \<mapsto> sl_bytes C v)) else (False, m))"

lemma op_effect_inv:
  assumes "db_inv C m" "op_colonless w"
  shows "db_inv C (snd (op_effect C w m))"
proof (cases w)
  case (WriteMarketData v ow)
  with assms show ?thesis
    unfolding db_inv_def by (auto split: if_splits)
next
  case (WriteMarketDepth v ow)
  with assms show ?thesis unfolding db_inv_def by (auto split: if_splits)
next
  case (WriteSessionLog v ow)
  with assms show ?thesis unfolding db_inv_def by (auto split: if_splits)
qed

lemma op_effect_index:
  assumes inv: "index_inv C m" and w: "op_colonless w"
    and codec: "\<And>v v'. marketdata_initialized v \<Longrightarrow> marketdata_initialized v' \<Longrightarrow>
      md_bytes C v = md_bytes C v' \<Longrightarrow> v = v'"
  shows "index_inv C (snd (op_effect C w m))"
  unfolding index_inv_def
proof (intro allI impI)
  fix v assume v: "marketdata_initialized v" "op_colonless (WriteMarketData v True)"
    and prim: "snd (op_effect C w m) (marketdata_key_of v) = Some (md_bytes C v)"
  note old = inv [unfolded index_inv_def, rule_format, OF v]
  show "snd (op_effect C w m) (buildIndexKey_of v) = Some (iv_bytes C v)"
  proof (cases w)
    case (WriteMarketData u ow)
    have idx: "buildIndexKey_of v \<noteq> buildIndexKey_of u" if "marketdata_key_of v \<noteq> marketdata_key_of u"
      using that v(2) w WriteMarketData
      by (simp add: marketdata_key_of_def buildIndexKey_of_def index_key_inj marketdata_key_inj)
    have same: "u = v" if "marketdata_key_of v = marketdata_key_of u" "marketdata_initialized u"
        "ow \<or> m (marketdata_key_of u) = None"
      using that prim WriteMarketData v(1) codec [of u v] by simp
    show ?thesis
    proof (cases "marketdata_initialized u \<and> (ow \<or> m (marketdata_key_of u) = None)")
      case True
      then show ?thesis
        using prim old WriteMarketData idx same
        by (cases "marketdata_key_of v = marketdata_key_of u") simp_all
    next
      case False
      then have "op_effect C w m = (False, m)"
        unfolding WriteMarketData op_effect.simps by (rule if_not_P)
      then show ?thesis using prim old by simp
    qed
  qed (use prim old in \<open>auto split: if_splits\<close>)
qed

section \<open>Queries\<close>

text \<open>The visitor that keeps everything it is shown.\<close>

definition collect :: "Record list visitor" where
  "collect rs r = (rs @ [r], True)"

text \<open>The records an iteration shows: those before the stop key that parse.\<close>

definition shown :: "'b record_codec \<Rightarrow> string \<Rightarrow> (string \<times> 'b) list \<Rightarrow> Record list" where
  "shown C stop it =
     List.map_filter (\<lambda>(k, b). map_option (\<lambda>r. r\<lparr>rec_key := Some k\<rparr>) (pb_parse C b))
       (takeWhile (\<lambda>(k, b). k < stop) it)"

lemma query_loop_collect:
  "query_loop C stop collect it n rs = (n + length (takeWhile (\<lambda>(k, b). k < stop) it), rs @ shown C stop it)"
  by (induction C stop "collect :: Record list visitor" it n rs rule: query_loop.induct)
    (auto simp: collect_def shown_def List.map_filter_def split: option.splits)

text \<open>A general visitor sees the same records, up to the first one it stops at.\<close>

fun visit_all :: "'v visitor \<Rightarrow> Record list \<Rightarrow> 'v \<Rightarrow> 'v" where
  "visit_all visit [] s = s"
| "visit_all visit (r # rs) s = (let (s', more) = visit s r in if more then visit_all visit rs s' else s')"

lemma query_loop_visits:
  "snd (query_loop C stop visit it n s) = visit_all visit (shown C stop it) s"
  by (induction C stop visit it n s rule: query_loop.induct)
    (auto simp: shown_def List.map_filter_def split: option.splits prod.splits)

lemma sorted_takeWhile_less:
  "sorted_wrt (<) (map fst it) \<Longrightarrow> takeWhile (\<lambda>(k, b). k < stop) it = filter (\<lambda>(k, b). (k :: string) < stop) it"
proof (induction it)
  case (Cons x it)
  have "filter (\<lambda>(k, b). k < stop) it = []" if "\<not> fst x < stop"
    using Cons.prems that by (fastforce simp: filter_empty_conv)
  with Cons show ?case by (cases "fst x < stop") (auto split: prod.splits)
qed simp

lemma map_filter_all:
  "\<forall>x \<in> set xs. f x = Some (g x) \<Longrightarrow> List.map_filter f xs = map g xs"
  by (induction xs) (simp_all add: List.map_filter_def)

locale historian = leveldb_laws L entries + proto_codec record_initialized C
  for L :: "('d, 'b) leveldb" and entries :: "'d \<Rightarrow> string \<rightharpoonup> 'b" and C :: "'b record_codec"
begin

lemma ok_to_write_iff: "ok_to_write L k ow d \<longleftrightarrow> ow \<or> entries d k = None"
  by (auto simp: ok_to_write_def get_entry split: option.splits)

lemma wrapped_initialized:
  "marketdata_initialized v \<Longrightarrow> record_initialized (record_wrap record_set_marketdata v)"
  "marketdata_initialized v \<Longrightarrow> record_initialized (index_record v)"
  "marketdepth_initialized p \<Longrightarrow> record_initialized (record_wrap record_set_marketdepth p)"
  "sessionlog_initialized l \<Longrightarrow> record_initialized (record_wrap record_set_sessionlog l)"
  by (auto simp: record_initialized_def record_defs index_record_def indexedvalue_initialized_def
      marketdata_initialized_def get_md_value_def)

lemma write_db_entries:
  assumes "record_initialized r" "k \<noteq> []" "write_db L C k r ow d = (ok, d')"
  shows "(ok, entries d') =
    (if ow \<or> entries d k = None then (True, (entries d)(k \<mapsto> snd (pb_serialize C r))) else (False, entries d))"
  using assms serialize_ok [OF assms(1)] put_ok [of d k "snd (pb_serialize C r)"]
    put_entries [of d k "snd (pb_serialize C r)"]
  by (auto simp: write_db_def ok_to_write_iff split: prod.splits if_splits)

lemma write_marketdata_entries:
  assumes "marketdata_initialized v" "Writer_MarketData L C v ow d = (ok, d')"
  shows "(ok, entries d') = op_effect C (WriteMarketData v ow) (entries d)"
  using assms write_ok [of d "[(marketdata_key_of v, md_bytes C v), (buildIndexKey_of v, iv_bytes C v)]"]
    write_entries [of d "[(marketdata_key_of v, md_bytes C v), (buildIndexKey_of v, iv_bytes C v)]"]
  by (auto simp: Writer_MarketData_def write_batch_def write_db_batch_def ok_to_write_iff md_bytes_def
      iv_bytes_def batch_map_def split: if_splits)

text \<open>Every write on an open database returns, and has exactly its effect on the entries.\<close>

lemma db_step_effect:
  assumes "levelDb db = Some d"
  shows "\<exists>ok db' d'. db_step L C (w, t0, t1) db = Inr (ok, db') \<and> levelDb db' = Some d' \<and>
    (ok, entries d') = op_effect C w (entries d)"
proof (cases w)
  case (WriteMarketData v ow)
  then show ?thesis
    using assms write_marketdata_entries [of v ow d]
    by (cases "Writer_MarketData L C v ow d")
      (auto simp: db_step_def Db_Write_MarketData_def impl_write_def)
next
  case (WriteMarketDepth v ow)
  then show ?thesis
    using assms write_db_entries [OF wrapped_initialized(3), of v "marketdepth_key_of v" ow d]
    by (cases "Writer_MarketDepth L C v ow d")
      (auto simp: db_step_def Db_Write_MarketDepth_def impl_write_def Writer_MarketDepth_def dp_bytes_def
        record_wrap_def record_set_marketdepth_def)
next
  case (WriteSessionLog v ow)
  then show ?thesis
    using assms write_db_entries [OF wrapped_initialized(4), of v "sessionlog_key_of v" ow d]
    by (cases "Writer_SessionLog L C v ow d")
      (auto simp: db_step_def Db_Write_SessionLog_def impl_write_def Writer_SessionLog_def sl_bytes_def
        record_wrap_def record_set_sessionlog_def)
qed

lemma md_bytes_inj:
  "marketdata_initialized v \<Longrightarrow> marketdata_initialized v' \<Longrightarrow> md_bytes C v = md_bytes C v' \<Longrightarrow> v = v'"
  using serialize_inj [OF wrapped_initialized(1) wrapped_initialized(1), of v v']
  by (auto simp: md_bytes_def record_wrap_def record_set_marketdata_def)

lemma db_run_inv:
  assumes "levelDb db = Some d" "db_inv C (entries d)" "index_inv C (entries d)"
    and "\<forall>(w, _) \<in> set xs. op_colonless w"
  shows "\<exists>db' d'. db_run L C xs db = Inr db' \<and> levelDb db' = Some d' \<and>
    db_inv C (entries d') \<and> index_inv C (entries d')"
  using assms
proof (induction xs arbitrary: db d)
  case (Cons x xs)
  obtain w t0 t1 where x: "x = (w, t0, t1)" by (cases x)
  obtain ok db' d' where step: "db_step L C x db = Inr (ok, db')" "levelDb db' = Some d'"
    "entries d' = snd (op_effect C w (entries d))"
    using db_step_effect [OF Cons.prems(1), of w t0 t1] x by (metis snd_conv)
  have "db_inv C (entries d')" "index_inv C (entries d')"
    unfolding step(3) using Cons.prems x by (auto intro!: op_effect_inv op_effect_index md_bytes_inj)
  then show ?case using Cons.IH [OF step(2)] Cons.prems(4) step(1) by simp
qed simp

text \<open>The entries a query iterates, when all of them parse.\<close>

lemma query_entries:
  assumes "levelDb db = Some d"
    and "\<And>k b. entries d k = Some b \<Longrightarrow> start \<le> k \<Longrightarrow> k < stop \<Longrightarrow> \<exists>r. pb_parse C b = Some r"
  shows "\<exists>es. Db_query L C start stop collect [] db =
      (length es, map (\<lambda>(k, b). (the (pb_parse C b))\<lparr>rec_key := Some k\<rparr>) es) \<and>
    sorted_wrt (<) (map fst es) \<and>
    set es = {(k, b). entries d k = Some b \<and> start \<le> k \<and> k < stop}"
proof -
  let ?es = "filter (\<lambda>(k, b). k < stop) (ldb_seek L d start)"
  have tw: "takeWhile (\<lambda>(k, b). k < stop) (ldb_seek L d start) = ?es"
    by (rule sorted_takeWhile_less [OF seek_sorted])
  have set: "set ?es = {(k, b). entries d k = Some b \<and> start \<le> k \<and> k < stop}"
    by (auto simp: seek_set)
  have "shown C stop (ldb_seek L d start) = map (\<lambda>(k, b). (the (pb_parse C b))\<lparr>rec_key := Some k\<rparr>) ?es"
    unfolding shown_def tw by (rule map_filter_all) (use set assms(2) in fastforce)
  then show ?thesis
    using assms(1) set sorted_map_filter [OF seek_sorted, of "\<lambda>(k, b). k < stop" d start]
    by (intro exI [of _ ?es]) (simp add: Db_query_def query_loop_collect tw)
qed

definition stored :: "'d \<Rightarrow> MarketData \<Rightarrow> bool" where
  "stored d v \<longleftrightarrow> marketdata_initialized v \<and> entries d (marketdata_key_of v) = Some (md_bytes C v)"

lemma parse_md_bytes:
  "marketdata_initialized v \<Longrightarrow> pb_parse C (md_bytes C v) = Some (record_wrap record_set_marketdata v)"
  unfolding md_bytes_def by (rule parse_serialize) (rule wrapped_initialized)

lemma marketdata_between:
  assumes inv: "db_inv C (entries d)" and S: "colonless S"
    and k: "entries d k = Some b" "marketdata_key S t1 \<le> k" "k < marketdata_key S t2"
  shows "\<exists>v. stored d v \<and> get_md_symbol v = S \<and> k = marketdata_key_of v \<and> b = md_bytes C v \<and>
    show_u64 t1 \<le> show_u64 (get_md_timestamp v) \<and> show_u64 (get_md_timestamp v) < show_u64 t2"
proof -
  obtain r where r: "k = ''mkt:'' @ S @ '':'' @ r" "show_u64 t1 \<le> r" "r < show_u64 t2"
    using prefix_between [of "''mkt:'' @ S @ '':''" "show_u64 t1" k "show_u64 t2"] k(2,3)
    by (auto simp: key_defs)
  have "\<exists>v. marketdata_initialized v \<and> colonless (get_md_symbol v) \<and> k = marketdata_key_of v \<and> b = md_bytes C v"
    using inv k(1) r(1) unfolding db_inv_def
    by (fastforce simp: key_defs)
  then obtain v where v: "marketdata_initialized v" "colonless (get_md_symbol v)"
    "k = marketdata_key_of v" "b = md_bytes C v" by blast
  then have "S = get_md_symbol v \<and> r = show_u64 (get_md_timestamp v)"
    using r(1) S by (simp add: key_defs colon_cut)
  with v r k(1) show ?thesis by (auto simp: stored_def)
qed

lemma query_marketdata_exact:
  assumes db: "levelDb db = Some d" and inv: "db_inv C (entries d)" and S: "colonless S"
    and digits: "length (show_u64 t1) = n" "length (show_u64 t2) = n"
      "\<And>v. stored d v \<Longrightarrow> get_md_symbol v = S \<Longrightarrow> length (show_u64 (get_md_timestamp v)) = n"
  shows "\<exists>vs. Db_query L C (marketdata_key S t1) (marketdata_key S t2) collect [] db =
      (length vs, map (\<lambda>v. (record_wrap record_set_marketdata v)\<lparr>rec_key := Some (marketdata_key_of v)\<rparr>) vs) \<and>
    sorted_wrt (<) (map get_md_timestamp vs) \<and>
    set vs = {v. stored d v \<and> get_md_symbol v = S \<and> t1 \<le> get_md_timestamp v \<and> get_md_timestamp v < t2}"
proof -
  let ?in = "\<lambda>v. stored d v \<and> get_md_symbol v = S \<and> t1 \<le> get_md_timestamp v \<and> get_md_timestamp v < t2"
  let ?start = "marketdata_key S t1" and ?stop = "marketdata_key S t2"
  define dec where "dec = (\<lambda>(k :: string, b). the (record_as_marketdata (the (pb_parse C b))))"
  have dec: "dec (k, md_bytes C v) = v" if "marketdata_initialized v" for k v
    using that by (simp add: dec_def parse_md_bytes record_wrap_def marketdata_view.get_put)
  have hit: "\<exists>v. ?in v \<and> k = marketdata_key_of v \<and> b = md_bytes C v"
    if "entries d k = Some b" "?start \<le> k" "k < ?stop" for k b
    using marketdata_between [OF inv S that] digits by (auto simp: show_u64_le show_u64_less)
  have mem: "?start \<le> marketdata_key_of v \<and> marketdata_key_of v < ?stop" if "?in v" for v
    using that digits(1,2) digits(3) [of v] by (simp add: key_defs show_u64_le show_u64_less)
  have parses: "\<exists>r. pb_parse C b = Some r" if "entries d k = Some b" "?start \<le> k" "k < ?stop" for k b
    using hit [OF that] by (auto simp: stored_def parse_md_bytes)
  obtain es where es: "Db_query L C ?start ?stop collect [] db =
        (length es, map (\<lambda>(k, b). (the (pb_parse C b))\<lparr>rec_key := Some k\<rparr>) es)"
      "sorted_wrt (<) (map fst es)"
      "set es = {(k, b). entries d k = Some b \<and> ?start \<le> k \<and> k < ?stop}"
    by (rule exE [OF query_entries [OF db, of ?start ?stop]]) (use parses in auto)
  have in_es: "\<exists>v. ?in v \<and> x = (marketdata_key_of v, md_bytes C v)" if "x \<in> set es" for x
    using that es(3) hit by fastforce
  have eq: "map (\<lambda>(k, b). (the (pb_parse C b))\<lparr>rec_key := Some k\<rparr>) es =
      map (\<lambda>v. (record_wrap record_set_marketdata v)\<lparr>rec_key := Some (marketdata_key_of v)\<rparr>) (map dec es)"
  proof (simp only: list.map_comp, intro map_cong refl)
    fix x assume "x \<in> set es"
    then obtain v where "marketdata_initialized v" "x = (marketdata_key_of v, md_bytes C v)"
      using in_es stored_def by blast
    then show "(case x of (k, b) \<Rightarrow> (the (pb_parse C b))\<lparr>rec_key := Some k\<rparr>) =
        ((\<lambda>v. (record_wrap record_set_marketdata v)\<lparr>rec_key := Some (marketdata_key_of v)\<rparr>) \<circ> dec) x"
      by (simp add: dec parse_md_bytes)
  qed
  have keys: "map fst es = map (\<lambda>x. marketdata_key S (get_md_timestamp (dec x))) es"
    by (auto simp: marketdata_key_of_def stored_def dec dest!: in_es)
  have len: "\<forall>x \<in> set es. length (show_u64 (get_md_timestamp (dec x))) = n"
    using in_es digits(3) by (fastforce simp: dec stored_def)
  have "sorted_wrt (<) (map (\<lambda>x. marketdata_key S (get_md_timestamp (dec x))) es)"
    using es(2) keys by simp
  then have "sorted_wrt (<) (map get_md_timestamp (map dec es))"
    using len unfolding sorted_wrt_map
    by (elim sorted_wrt_mono_rel [rotated]) (auto simp: key_defs show_u64_less)
  moreover have "set (map dec es) = {v. ?in v}"
  proof (intro set_eqI iffI)
    fix v assume "v \<in> {v. ?in v}"
    then have "(marketdata_key_of v, md_bytes C v) \<in> set es" "dec (marketdata_key_of v, md_bytes C v) = v"
      using mem [of v] by (auto simp: es(3) stored_def dec)
    then show "v \<in> set (map dec es)" by (metis image_eqI list.set_map)
  qed (auto simp: dec stored_def dest!: in_es)
  ultimately show ?thesis using es(1) eq by (intro exI [of _ "map dec es"]) simp
qed

end

section \<open>Properties\<close>

interpretation kv_historian: historian kv_leveldb kv_entries "plain_codec record_initialized"
  by (rule historian.intro [OF kv.leveldb_laws_axioms plain.proto_codec_axioms])

lemmas demo_laws = kv_historian.historian_axioms

definition demo_md :: MarketData where
  "demo_md = \<lparr>md_timestamp = Some 1334683810012345, md_symbol = Some ''AAPL.STK'', md_event = Some ''BID'',
     md_value = Some (wrap_double 580), md_contract_id = Some 265598\<rparr>"

definition demo_db :: "Record kv_store db" where
  "demo_db = (Db_new ''/tmp/historian'')\<lparr>levelDb := Some kv_empty\<rparr>"

definition demo_db1 :: "Record kv_store db" where
  "demo_db1 = demo_db\<lparr>levelDb := Some (kv_put (marketdata_key_of demo_md)
     (record_wrap record_set_marketdata demo_md) kv_empty)\<rparr>"

lemma demo_md_facts:
  "marketdata_initialized demo_md" "get_md_symbol demo_md = ''AAPL.STK''" "get_md_event demo_md = ''BID''"
  "get_md_timestamp demo_md = 1334683810012345"
  "md_bytes (plain_codec record_initialized) demo_md = record_wrap record_set_marketdata demo_md"
  by (simp_all add: demo_md_def marketdata_initialized_def value_initialized_def get_md_symbol_def get_md_event_def
      get_md_timestamp_def md_bytes_def plain_codec_def wrap_double_def value_defs)



text \<open>
  C7. A write does what it should and nothing else. On an open database each of the three
  \<^verbatim>\<open>Write\<close> operations returns; it is refused, and the store unchanged, for an uninitialised message
  and, without overwriting, for a key that exists; otherwise it succeeds and changes the primary
  entry, for market data together with its index entry, and no other entry.
\<close>

theorem historian_write_effect:
  assumes "historian L entries C" "levelDb db = Some d"
  shows "\<exists>ok db' d'. db_step L C (w, t0, t1) db = Inr (ok, db') \<and> levelDb db' = Some d' \<and>
    (ok, entries d') = op_effect C w (entries d)"
  by (rule historian.db_step_effect [OF assms])

theorem historian_write_effect_witness:
  "\<exists>db' d'. db_step kv_leveldb (plain_codec record_initialized) (WriteMarketData demo_md True, 1, 2) demo_db =
      Inr (True, db') \<and> levelDb db' = Some d' \<and>
    kv_entries d' = [marketdata_key_of demo_md \<mapsto> record_wrap record_set_marketdata demo_md,
      buildIndexKey_of demo_md \<mapsto> iv_bytes (plain_codec record_initialized) demo_md]"
  using historian_write_effect [OF demo_laws, of demo_db kv_empty "WriteMarketData demo_md True" 1 2]
  by (auto simp: demo_db_def kv_entries_empty demo_md_facts)

text \<open>
  C6. A query by symbol is exact. Over a database whose entries are in order, a query for the
  market data of a symbol (without colon) from \<open>t1\<close> up to but excluding \<open>t2\<close> hands the visitor
  exactly the stored records of that symbol with a time stamp in the range, once each and in time
  order, and returns their number. The keys hold time stamps in decimal without padding, so the
  limits and the stored time stamps of the symbol must have the same number of digits, which
  holds for all microsecond time stamps between the years 2001 and 2286.
\<close>

theorem historian_query_exact:
  assumes "historian L entries C" "levelDb db = Some d" "db_inv C (entries d)" "colonless S"
    and "q = \<lparr>qs_type = Some IB_MARKET_DATA, qs_symbol = Some S, qs_utc_first_micros = Some t1,
              qs_utc_last_micros = Some t2, qs_index = idx\<rparr>"
    and "length (show_u64 t1) = n" "length (show_u64 t2) = n"
    and "\<And>v. historian.stored entries C d v \<Longrightarrow> get_md_symbol v = S \<Longrightarrow> length (show_u64 (get_md_timestamp v)) = n"
  shows "\<exists>vs. Db_Query_symbol L C q collect [] db =
      (length vs, map (\<lambda>v. (record_wrap record_set_marketdata v)\<lparr>rec_key := Some (marketdata_key_of v)\<rparr>) vs) \<and>
    sorted_wrt (<) (map get_md_timestamp vs) \<and>
    set vs = {v. marketdata_initialized v \<and> entries d (marketdata_key_of v) = Some (md_bytes C v) \<and>
                 get_md_symbol v = S \<and> t1 \<le> get_md_timestamp v \<and> get_md_timestamp v < t2}"
  using historian.query_marketdata_exact [OF assms(1,2,3,4,6,7,8)]
  by (simp add: Db_Query_symbol_def assms(5) historian.stored_def [OF assms(1)])

lemma demo_stored:
  "kv_entries (kv_put (marketdata_key_of demo_md) (record_wrap record_set_marketdata demo_md) kv_empty) =
     [marketdata_key_of demo_md \<mapsto> md_bytes (plain_codec record_initialized) demo_md]"
  by (simp add: kv_entries_put kv_entries_empty demo_md_facts)

lemma demo_digits: "length (show_u64 1334683810012345) = 16" "length (show_u64 1334683810000000) = 16"
  "length (show_u64 1334683811000000) = 16"
  using length_show_nat_eq [of 15] by (simp_all add: show_u64_def)

lemma demo_only:
  assumes "marketdata_initialized v"
    and "[marketdata_key_of demo_md \<mapsto> md_bytes (plain_codec record_initialized) demo_md]
           (marketdata_key_of v) = Some (md_bytes (plain_codec record_initialized) v)"
  shows "v = demo_md"
proof -
  have "md_bytes (plain_codec record_initialized) demo_md = md_bytes (plain_codec record_initialized) v"
    using assms(2) by (simp split: if_splits)
  then show ?thesis using kv_historian.md_bytes_inj assms(1) demo_md_facts(1) by metis
qed

theorem historian_query_exact_witness:
  "Db_Query_symbol kv_leveldb (plain_codec record_initialized)
     \<lparr>qs_type = Some IB_MARKET_DATA, qs_symbol = Some ''AAPL.STK'', qs_utc_first_micros = Some 1334683810000000,
      qs_utc_last_micros = Some 1334683811000000, qs_index = None\<rparr> collect [] demo_db1 =
   (1, [(record_wrap record_set_marketdata demo_md)\<lparr>rec_key := Some (marketdata_key_of demo_md)\<rparr>])"
proof -
  let ?d = "kv_put (marketdata_key_of demo_md) (record_wrap record_set_marketdata demo_md) kv_empty"
  have inv: "db_inv (plain_codec record_initialized) (kv_entries ?d)"
    unfolding db_inv_def demo_stored
    using demo_md_facts by (auto simp: colonless_def split: if_splits)
  have dig: "length (show_u64 (get_md_timestamp v)) = 16"
    if "historian.stored kv_entries (plain_codec record_initialized) ?d v" for v
    using that demo_only [of v] demo_digits
    unfolding kv_historian.stored_def demo_stored by (auto simp: demo_md_facts)
  obtain vs where vs: "Db_Query_symbol kv_leveldb (plain_codec record_initialized)
       \<lparr>qs_type = Some IB_MARKET_DATA, qs_symbol = Some ''AAPL.STK'', qs_utc_first_micros = Some 1334683810000000,
        qs_utc_last_micros = Some 1334683811000000, qs_index = None\<rparr> collect [] demo_db1 =
     (length vs, map (\<lambda>v. (record_wrap record_set_marketdata v)\<lparr>rec_key := Some (marketdata_key_of v)\<rparr>) vs)"
    "sorted_wrt (<) (map get_md_timestamp vs)"
    "set vs = {v. marketdata_initialized v \<and>
        kv_entries ?d (marketdata_key_of v) = Some (md_bytes (plain_codec record_initialized) v) \<and>
        get_md_symbol v = ''AAPL.STK'' \<and> 1334683810000000 \<le> get_md_timestamp v \<and> get_md_timestamp v < 1334683811000000}"
    using historian_query_exact [OF demo_laws _ inv _ refl demo_digits(2,3) dig, of demo_db1 "''AAPL.STK''" None]
    by (auto simp: demo_db1_def colonless_def)
  have "set vs = {demo_md}"
    unfolding vs(3) demo_stored using demo_only by (auto simp: demo_md_facts)
  moreover have "distinct vs" using vs(2) by (auto simp: strict_sorted_iff distinct_map)
  ultimately have "vs = [demo_md]"
    by (metis distinct_card distinct_length_2_or_more is_singleton_def card_1_singletonE
        List.list.set(2) length_Suc_conv card.insert card.empty finite.emptyI empty_iff empty_set
        insert_not_empty length_0_conv One_nat_def singleton_insert_inj_eq)
  then show ?thesis using vs(1) by simp
qed

text \<open>
  Where the exactness ends. The keys are compared as text: a query from microsecond 9 up to
  microsecond 11 shows nothing, whatever is stored, because the text of the one limit is greater
  than the text of the other.
\<close>

theorem historian_query_digit_boundary:
  assumes "leveldb_laws L entries"
  shows "Db_Query_symbol L C \<lparr>qs_type = Some IB_MARKET_DATA, qs_symbol = Some S, qs_utc_first_micros = Some 9,
      qs_utc_last_micros = Some 11, qs_index = idx\<rparr> visit s db = (0, s)"
proof -
  have "show_u64 11 < show_u64 9" by (simp add: show_u64_def show_nat.simps digit_char_def less_char_def of_char_of)
  then have less: "marketdata_key S 11 < marketdata_key S 9" by (simp add: key_defs)
  have "query_loop C (marketdata_key S 11) visit (ldb_seek L d (marketdata_key S 9)) 0 s = (0, s)" for d
  proof (cases "ldb_seek L d (marketdata_key S 9)")
    case (Cons x xs)
    then have "x \<in> set (ldb_seek L d (marketdata_key S 9))" by simp
    then have "marketdata_key S 9 \<le> fst x" unfolding leveldb_laws.seek_set [OF assms] by auto
    then show ?thesis using less Cons by (cases x) auto
  qed simp
  then show ?thesis by (simp add: Db_Query_symbol_def Db_query_def split: option.splits)
qed

theorem historian_query_digit_boundary_witness:
  "Db_Query_symbol kv_leveldb (plain_codec record_initialized)
     \<lparr>qs_type = Some IB_MARKET_DATA, qs_symbol = Some ''AAPL.STK'', qs_utc_first_micros = Some 9,
      qs_utc_last_micros = Some 11, qs_index = None\<rparr> collect [] demo_db1 = (0, [])"
  by (rule historian_query_digit_boundary [OF kv.leveldb_laws_axioms])

end
