(* ===== verification/Ticker_Id.thy ===== *)
theory Ticker_Id
  imports Prelude "HOL-Library.Signed_Division"
begin

text \<open>
  \<^verbatim>\<open>ib/ticker_id.cpp\<close>: ticker symbols of up to four letters as numbers in base 27, shifted left by
  eleven bits; the low bits hold an option's strike around a middle value. The conversion of a
  strike computes with doubles: \<open>rnd\<close> is the rounding of the floating point addition.
\<close>

section \<open>The code\<close>

definition BASE :: int where "BASE = 27"
definition MAX_CHARS :: nat where "MAX_CHARS = 4"
definition SCALE :: "int list" where "SCALE = [1, BASE, BASE * BASE, BASE * BASE * BASE]"
definition OFFSET :: nat where "OFFSET = 11"
definition MID :: int where "MID = 2 ^ (OFFSET - 1)"
definition MAX_OPTION_PART :: int where "MAX_OPTION_PART = 2 ^ (OFFSET + 1) - 1"
definition MAX_CODE_VALUE :: int where "MAX_CODE_VALUE = 1088389120 + MAX_OPTION_PART"

text \<open>\<^verbatim>\<open>toupper\<close> of the C locale.\<close>

definition toupper :: "char \<Rightarrow> char" where
  "toupper c = (let n = of_char c :: nat in if 97 \<le> n \<and> n \<le> 122 then char_of (n - 32) else c)"

definition letter_value :: "char \<Rightarrow> int" where
  "letter_value c = of_char (toupper c) - 65 + 1"

fun symbol_loop :: "string \<Rightarrow> nat \<Rightarrow> int \<Rightarrow> int cpp" where
  "symbol_loop [] len v = Inr v"
| "symbol_loop (c # cs) len v =
     (if len - 1 < length SCALE then symbol_loop cs (len - 1) (v + letter_value c * SCALE ! (len - 1))
      else Inl MemoryFault)"

text \<open>The table has four entries: a longer symbol reads outside of it.\<close>

definition SymbolToTickerId :: "string \<Rightarrow> i32 cpp" where
  "SymbolToTickerId s =
     cpp_bind (symbol_loop s (length s) 0) (\<lambda>v. Inr (push_bit OFFSET (of_int v)))"

text \<open>The sum with the strike is a double and is converted to \<^verbatim>\<open>int\<close> by truncation.\<close>

definition truncate_double :: "double \<Rightarrow> int" where
  "truncate_double x = (if 0 \<le> x then \<lfloor>x\<rfloor> else \<lceil>x\<rceil>)"

definition OptionToTickerId :: "(double \<Rightarrow> double) \<Rightarrow> string \<Rightarrow> bool \<Rightarrow> double \<Rightarrow> i32 cpp" where
  "OptionToTickerId rnd s isCallOption strike =
     cpp_bind (SymbolToTickerId s) (\<lambda>tick_id.
       Inr (of_int (truncate_double
         (rnd (of_int (sint (tick_id + of_int MID)) + (if isCallOption then 1 else -1) * strike)))))"

fun symbol_digits :: "int list \<Rightarrow> int \<Rightarrow> string" where
  "symbol_digits [] m = []"
| "symbol_digits (sc # scs) m =
     (let c = m sdiv sc; m' = m smod sc
      in (if 0 < c then [char_of (nat ((c + 65 - 1) mod 256))] else []) @ symbol_digits scs m')"

definition SymbolFromTickerId :: "i32 \<Rightarrow> string" where
  "SymbolFromTickerId code = symbol_digits (rev (take MAX_CHARS SCALE)) (sint code div 2 ^ OFFSET)"

record EncodedOption =
  eo_symbol :: string
  eo_call_option :: bool
  eo_strike :: double

definition EncodedOptionFromTickerId :: "i32 \<Rightarrow> EncodedOption" where
  "EncodedOptionFromTickerId code =
     (let option_mask = sint code div 2 ^ OFFSET * 2 ^ OFFSET;
          sym = SymbolFromTickerId (of_int option_mask);
          opt = sint code - option_mask - MID;
          call = 0 < opt;
          strike = (if call then of_int opt else of_int (- 1 * opt))
      in \<lparr>eo_symbol = sym, eo_call_option = call, eo_strike = strike\<rparr>)"

definition IsTickerIdForOption :: "u32 \<Rightarrow> bool" where
  "IsTickerIdForOption n \<longleftrightarrow> n mod 2 ^ OFFSET \<noteq> 0"

lemma truncate_of_int: "truncate_double (of_int n) = n"
  by (simp add: truncate_double_def)

section \<open>Base 27\<close>

definition letters :: "string \<Rightarrow> bool" where
  "letters s \<longleftrightarrow> length s \<le> 4 \<and> (\<forall>c \<in> set s. 1 \<le> letter_value c \<and> letter_value c \<le> 26)"

fun base27 :: "int list \<Rightarrow> int" where
  "base27 [] = 0"
| "base27 (d # ds) = d * 27 ^ length ds + base27 ds"

lemma base27_bounds: "\<forall>d \<in> set ds. 0 \<le> d \<and> d \<le> 26 \<Longrightarrow> 0 \<le> base27 ds \<and> base27 ds < 27 ^ length ds"
proof (induction ds)
  case (Cons d ds)
  then have IH: "0 \<le> base27 ds" "base27 ds < 27 ^ length ds" and d: "0 \<le> d" "d \<le> 26" by auto
  have "d * 27 ^ length ds \<le> 26 * 27 ^ length ds" using d by (intro mult_right_mono) auto
  then have "d * 27 ^ length ds + base27 ds < 26 * 27 ^ length ds + 27 ^ length ds"
    using IH by linarith
  with IH d show ?case by simp
qed simp

lemma scale_nth: "k < 4 \<Longrightarrow> SCALE ! k = 27 ^ k"
  by (auto simp: SCALE_def BASE_def less_Suc_eq numeral_eq_Suc)

lemma symbol_loop_base27:
  "length s \<le> 4 \<Longrightarrow> symbol_loop s (length s) v = Inr (v + base27 (map letter_value s))"
proof (induction s arbitrary: v)
  case (Cons c s)
  have "length SCALE = 4" by (simp add: SCALE_def)
  with Cons show ?case by (simp add: scale_nth)
qed simp

lemma sdiv_nonneg: "0 \<le> a \<Longrightarrow> 0 < b \<Longrightarrow> a sdiv b = a div (b :: int)"
  by (cases "a = 0") (simp_all add: signed_divide_int_def)

lemma smod_nonneg: "0 \<le> a \<Longrightarrow> 0 < b \<Longrightarrow> a smod b = a mod (b :: int)"
  by (cases "a = 0") (simp_all add: signed_modulo_int_def)

lemma digits_step:
  fixes d r :: int
  assumes "0 \<le> d" "0 \<le> r" "r < 27 ^ k"
  shows "(d * 27 ^ k + r) sdiv 27 ^ k = d" "(d * 27 ^ k + r) smod 27 ^ k = r"
proof -
  have "0 \<le> d * 27 ^ k + r" using assms by simp
  then have div: "(d * 27 ^ k + r) sdiv 27 ^ k = d"
    using assms by (simp add: sdiv_nonneg)
  then show "(d * 27 ^ k + r) sdiv 27 ^ k = d" "(d * 27 ^ k + r) smod 27 ^ k = r"
    using assms by (simp_all add: smod_nonneg)
qed

definition digit_letter :: "int \<Rightarrow> char" where
  "digit_letter d = char_of (nat ((d + 65 - 1) mod 256))"

lemma symbol_digits_base27:
  assumes "\<forall>d \<in> set ds. 0 \<le> d \<and> d \<le> 26"
  shows "symbol_digits (map (\<lambda>k. 27 ^ k) (rev [0..<length ds])) (base27 ds) =
           map digit_letter (filter (\<lambda>d. 0 < d) ds)"
  using assms
proof (induction ds)
  case (Cons d ds)
  have b: "0 \<le> base27 ds" "base27 ds < 27 ^ length ds" using base27_bounds [of ds] Cons.prems by auto
  then show ?case
    using Cons digits_step [of d "base27 ds" "length ds"] by (auto simp: Let_def digit_letter_def)
qed simp

lemma base27_pad: "base27 (replicate n 0 @ ds) = base27 ds"
  by (induction n) simp_all

lemma digit_letter_value:
  assumes "1 \<le> letter_value c" "letter_value c \<le> 26"
  shows "digit_letter (letter_value c) = toupper c"
proof -
  have "(letter_value c + 65 - 1) mod 256 = of_char (toupper c)"
    using assms by (simp add: letter_value_def)
  then show ?thesis by (simp add: digit_letter_def)
qed

text \<open>The largest code of a symbol leaves room for the low bits below \<open>2 ^ 31\<close>.\<close>

lemma ticker_id_value:
  assumes "letters s" "SymbolToTickerId s = Inr code"
  shows "sint code = base27 (map letter_value s) * 2048"
    "0 \<le> base27 (map letter_value s)" "base27 (map letter_value s) \<le> 531440"
proof -
  let ?v = "base27 (map letter_value s)"
  have b: "0 \<le> ?v" "?v < 27 ^ length s"
    using base27_bounds [of "map letter_value s"] assms(1) by (force simp: letters_def)+
  have "(27 :: int) ^ length s \<le> 27 ^ 4" using assms(1) by (intro power_increasing) (auto simp: letters_def)
  then have v: "?v \<le> 531440" using b by simp
  have "code = push_bit 11 (of_int ?v)"
    using assms by (simp add: SymbolToTickerId_def symbol_loop_base27 letters_def OFFSET_def)
  then have "code = of_int (?v * 2048)" by (simp add: push_bit_eq_mult mult.commute)
  moreover have "sint (of_int (?v * 2048) :: i32) = ?v * 2048"
    using b v by (intro sint_of_int32) simp_all
  ultimately show "sint code = ?v * 2048" by simp
  show "0 \<le> ?v" "?v \<le> 531440" using b v by simp_all
qed

lemma scales_rev: "rev (take MAX_CHARS SCALE) = map (\<lambda>k. 27 ^ k) (rev [0..<4])"
  by (simp add: MAX_CHARS_def SCALE_def BASE_def upt_rec)

lemma symbol_from_value:
  assumes "letters s"
  shows "symbol_digits (rev (take MAX_CHARS SCALE)) (base27 (map letter_value s)) = map toupper s"
proof -
  let ?ds = "replicate (4 - length s) 0 @ map letter_value s"
  have l: "length ?ds = 4" using assms by (simp add: letters_def)
  have d: "\<forall>d \<in> set ?ds. 0 \<le> d \<and> d \<le> 26" using assms by (force simp: letters_def)
  have "symbol_digits (rev (take MAX_CHARS SCALE)) (base27 ?ds) = map digit_letter (filter (\<lambda>d. 0 < d) ?ds)"
    using symbol_digits_base27 [OF d] unfolding l scales_rev .
  moreover have "filter (\<lambda>d. 0 < d) ?ds = map letter_value s"
    using assms by (force simp: letters_def filter_id_conv)
  ultimately show ?thesis
    using assms by (auto simp: base27_pad letters_def digit_letter_value)
qed

section \<open>Properties\<close>

text \<open>
  C36. Symbols of up to four letters survive the encoding as a ticker id: the id is a positive
  \<^verbatim>\<open>int\<close> below the documented maximum, no overflow occurs, it is not marked as an option, and
  decoding it gives the symbol in upper case.
\<close>

theorem ticker_id_roundtrip:
  assumes "letters s"
  shows "\<exists>code. SymbolToTickerId s = Inr code \<and> 0 \<le> sint code \<and> sint code \<le> MAX_CODE_VALUE \<and>
    \<not> IsTickerIdForOption code \<and> SymbolFromTickerId code = map toupper s"
proof -
  obtain code where code: "SymbolToTickerId s = Inr code"
    using assms by (simp add: SymbolToTickerId_def symbol_loop_base27 letters_def)
  note v = ticker_id_value [OF assms code]
  have "SymbolFromTickerId code = map toupper s"
    using symbol_from_value [OF assms] v(1) by (simp add: SymbolFromTickerId_def OFFSET_def)
  moreover have "\<not> IsTickerIdForOption code"
  proof -
    have "code = push_bit OFFSET (of_int (base27 (map letter_value s)))"
      using code assms by (simp add: SymbolToTickerId_def symbol_loop_base27 letters_def)
    then have "take_bit OFFSET code = 0" by (simp add: take_bit_push_bit)
    then show ?thesis by (simp add: IsTickerIdForOption_def take_bit_eq_mod)
  qed
  ultimately show ?thesis
    using code v by (simp add: MAX_CODE_VALUE_def MAX_OPTION_PART_def OFFSET_def)
qed

lemma demo_letters: "letters ''aapl''" "map toupper ''aapl'' = ''AAPL''"
  by code_simp+

theorem ticker_id_roundtrip_witness:
  "\<exists>code. SymbolToTickerId ''aapl'' = Inr code \<and> 0 \<le> sint code \<and> sint code \<le> MAX_CODE_VALUE \<and>
    \<not> IsTickerIdForOption code \<and> SymbolFromTickerId code = ''AAPL''"
  using ticker_id_roundtrip [OF demo_letters(1)] unfolding demo_letters(2) .

text \<open>
  Option ids survive the encoding for whole-dollar strikes from 1 to 1023: the id is marked
  as an option and decoding it gives the symbol in upper case, the side and the strike. The only
  assumption on the floating point unit is that integers up to \<open>2 ^ 53\<close> are not rounded.
\<close>

theorem option_ticker_id_roundtrip:
  assumes rnd: "\<And>n. \<bar>n\<bar> \<le> 2 ^ 53 \<Longrightarrow> rnd (of_int n) = of_int n"
    and s: "letters s" and k: "1 \<le> k" "k \<le> 1023"
  shows "\<exists>code. OptionToTickerId rnd s call (of_int k) = Inr code \<and> IsTickerIdForOption code \<and>
    EncodedOptionFromTickerId code = \<lparr>eo_symbol = map toupper s, eo_call_option = call, eo_strike = of_int k\<rparr>"
proof -
  obtain tick where tick: "SymbolToTickerId s = Inr tick"
    using s by (simp add: SymbolToTickerId_def symbol_loop_base27 letters_def)
  let ?v = "base27 (map letter_value s)"
  note v = ticker_id_value [OF s tick]
  define z where "z = (if call then k else - k)"
  have z: "- 1023 \<le> z" "z \<le> 1023" "z \<noteq> 0" "0 < z \<longleftrightarrow> call" "(if call then z else - z) = k"
    using k by (auto simp: z_def)
  define code :: i32 where "code = of_int (?v * 2048 + 1024 + z)"
  have sc: "sint code = ?v * 2048 + (1024 + z)"
    unfolding code_def using v z by (subst sint_of_int32) auto
  have "tick = of_int (?v * 2048)" unfolding v(1) [symmetric] by simp
  then have "tick + of_int MID = of_int (?v * 2048 + 1024)" by (simp add: MID_def OFFSET_def)
  then have mid: "sint (tick + of_int MID) = ?v * 2048 + 1024"
    using v by (simp only:) (rule sint_of_int32; simp)
  have "of_int (?v * 2048 + 1024) + (if call then 1 else - 1) * of_int k =
      (of_int (?v * 2048 + 1024 + z) :: double)" by (simp add: z_def)
  moreover have "rnd (of_int (?v * 2048 + 1024 + z)) = of_int (?v * 2048 + 1024 + z)"
    using v z by (intro rnd) auto
  ultimately have "OptionToTickerId rnd s call (of_int k) = Inr code"
    unfolding OptionToTickerId_def tick cpp_bind_simps mid by (simp only: truncate_of_int code_def)
  moreover have "sint code div 2048 = ?v" "sint code mod 2048 = 1024 + z"
    using z unfolding sc by simp_all
  moreover have "IsTickerIdForOption code"
  proof -
    have "uint code = sint code" using sc v z by (simp add: uint_sint take_bit_int_eq_self)
    then have "uint (code mod 2048) = 1024 + z" using \<open>sint code mod 2048 = _\<close> by (simp add: uint_mod)
    then have "code mod 2048 \<noteq> 0" using z by (intro notI) simp
    then show ?thesis by (simp add: IsTickerIdForOption_def OFFSET_def)
  qed
  moreover have "SymbolFromTickerId (of_int (?v * 2048)) = map toupper s"
    using symbol_from_value [OF s] v sint_of_int32 [of "?v * 2048"]
    by (simp add: SymbolFromTickerId_def OFFSET_def)
  ultimately show ?thesis
    using z sc by (auto simp: EncodedOptionFromTickerId_def Let_def OFFSET_def MID_def)
qed

theorem option_ticker_id_roundtrip_witness:
  "\<exists>code. OptionToTickerId id ''aapl'' False (of_int 650) = Inr code \<and> IsTickerIdForOption code \<and>
    EncodedOptionFromTickerId code = \<lparr>eo_symbol = ''AAPL'', eo_call_option = False, eo_strike = of_int 650\<rparr>"
  using option_ticker_id_roundtrip [of id, OF _ demo_letters(1), of 650 False] unfolding demo_letters(2) by simp

end
