(* ===== verification/Boost_Strings.thy ===== *)
theory Boost_Strings
  imports Prelude
begin

text \<open>
  Text and numbers: the parts of Boost the program uses on strings (\<^verbatim>\<open>boost::split\<close>,
  \<^verbatim>\<open>boost::lexical_cast\<close>, \<^verbatim>\<open>boost::format\<close>) as a parameter, the record \<open>boost_lib\<close> with the documented
  behaviour as \<open>boost_laws\<close> and an executable instance, and the standard library's output of a
  \<^verbatim>\<open>double\<close> with six significant digits.
\<close>

section \<open>The interface\<close>

record boost_lib =
  bl_split :: "string \<Rightarrow> string \<Rightarrow> string list"   \<comment> \<open>split(parts, s, is\_any\_of(delimiters))\<close>
  bl_int :: "string \<Rightarrow> i32 option"              \<comment> \<open>lexical\_cast; None is bad\_lexical\_cast\<close>
  bl_uint :: "string \<Rightarrow> u32 option"
  bl_long :: "string \<Rightarrow> i64 option"
  bl_u64 :: "string \<Rightarrow> u64 option"
  bl_double :: "string \<Rightarrow> double option"
  bl_format_d :: "nat \<Rightarrow> int \<Rightarrow> string"          \<comment> \<open>format with a width directive for a decimal\<close>

definition lexical_cast :: "(string \<Rightarrow> 'a option) \<Rightarrow> string \<Rightarrow> 'a cpp" where
  "lexical_cast conv s = (case conv s of Some x \<Rightarrow> Inr x | None \<Rightarrow> Inl BadLexicalCast)"

fun split_any :: "string \<Rightarrow> string \<Rightarrow> string list" where
  "split_any ds [] = [[]]"
| "split_any ds (c # cs) =
     (if c \<in> set ds then [] # split_any ds cs
      else (case split_any ds cs of p # ps \<Rightarrow> (c # p) # ps | [] \<Rightarrow> [[c]]))"

definition all_digits :: "string \<Rightarrow> bool" where
  "all_digits s \<longleftrightarrow> s \<noteq> [] \<and> (\<forall>c \<in> set s. is_digit c)"

definition pad_left :: "nat \<Rightarrow> string \<Rightarrow> string" where
  "pad_left w s = replicate (w - length s) (CHR '' '') @ s"

locale boost_laws =
  fixes B :: boost_lib
  assumes split: "bl_split B ds s = split_any ds s"
    and int_digits: "all_digits s \<Longrightarrow> nat_of_digits s < 2 ^ 31 \<Longrightarrow> bl_int B s = Some (of_nat (nat_of_digits s))"
    and int_none: "\<not> (\<exists>c \<in> set s. is_digit c) \<Longrightarrow> bl_int B s = None"
    and uint_digits: "all_digits s \<Longrightarrow> nat_of_digits s < 2 ^ 32 \<Longrightarrow> bl_uint B s = Some (of_nat (nat_of_digits s))"
    and long_digits: "all_digits s \<Longrightarrow> nat_of_digits s < 2 ^ 63 \<Longrightarrow> bl_long B s = Some (of_nat (nat_of_digits s))"
    and u64_digits: "all_digits s \<Longrightarrow> nat_of_digits s < 2 ^ 64 \<Longrightarrow> bl_u64 B s = Some (of_nat (nat_of_digits s))"
    and u64_none: "\<not> (\<exists>c \<in> set s. is_digit c) \<Longrightarrow> bl_u64 B s = None"
    and double_digits: "all_digits s \<Longrightarrow> nat_of_digits s \<le> 2 ^ 53 \<Longrightarrow> bl_double B s = Some (of_nat (nat_of_digits s))"
    and format_d: "bl_format_d B w i = pad_left w (show_int i)"
begin

lemma cast_int_show:
  assumes "n < 2 ^ 31"
  shows "lexical_cast (bl_int B) (show_nat n) = Inr (of_nat n)"
  using int_digits [of "show_nat n"] assms by (simp add: lexical_cast_def all_digits_def show_nat_digits)

lemma cast_u64_show: "lexical_cast (bl_u64 B) (show_u64 t) = Inr t"
proof -
  have "unat t < 2 ^ 64" using unsigned_less [of t, where ?'a = nat] by simp
  then show ?thesis
    using u64_digits [of "show_u64 t"] by (simp add: lexical_cast_def all_digits_def show_u64_def show_nat_digits)
qed

end

section \<open>Splitting\<close>

lemma split_any_nonempty [simp]: "split_any ds s \<noteq> []"
  by (induction ds s rule: split_any.induct) (auto split: list.splits)

lemma split_any_none [str_simps]: "\<forall>c \<in> set s. c \<notin> set ds \<Longrightarrow> split_any ds s = [s]"
  by (induction s) auto

lemma split_any_sep [str_simps]:
  "\<forall>c \<in> set a. c \<notin> set ds \<Longrightarrow> d \<in> set ds \<Longrightarrow> split_any ds (a @ d # b) = a # split_any ds b"
  by (induction a) (auto split: list.splits)

text \<open>Joining parts that are free of the separator and splitting gives the parts back.\<close>

fun join :: "char \<Rightarrow> string list \<Rightarrow> string" where
  "join d [] = []"
| "join d [p] = p"
| "join d (p # ps) = p @ d # join d ps"

lemma split_join:
  "ps \<noteq> [] \<Longrightarrow> \<forall>p \<in> set ps. d \<notin> set p \<Longrightarrow> split_any [d] (join d ps) = ps"
proof (induction d ps rule: join.induct)
  case (2 d p)
  then show ?case by (simp, intro split_any_none) auto
next
  case (3 d p v va)
  then have "split_any [d] (p @ d # join d (v # va)) = p # split_any [d] (join d (v # va))"
    by (intro split_any_sep) auto
  with 3 show ?case by simp
qed simp

section \<open>Output of doubles\<close>

text \<open>
  \<^verbatim>\<open>operator<<\<close> of a double: six significant digits, rounded half to even, trailing zeros removed,
  scientific notation when the exponent is below -4 or above 5. The decimal exponent is searched
  with fuel 700, more than the range of exponents of doubles.
\<close>

fun dec_exponent :: "nat \<Rightarrow> double \<Rightarrow> int \<Rightarrow> int" where
  "dec_exponent 0 x e = e"
| "dec_exponent (Suc n) x e =
     (if 10 \<le> x then dec_exponent n (x / 10) (e + 1)
      else if x < 1 then dec_exponent n (x * 10) (e - 1)
      else e)"

definition pow10 :: "int \<Rightarrow> double" where
  "pow10 e = (if 0 \<le> e then 10 ^ nat e else 1 / 10 ^ nat (- e))"

definition round_half_even :: "double \<Rightarrow> int" where
  "round_half_even x =
     (let f = \<lfloor>x\<rfloor>; r = x - of_int f
      in if r < 1 / 2 then f else if 1 / 2 < r then f + 1 else if even f then f else f + 1)"

definition strip_zeros :: "string \<Rightarrow> string" where
  "strip_zeros s = rev (dropWhile (\<lambda>c. c = CHR ''0'') (rev s))"

definition pad_zeros :: "nat \<Rightarrow> string \<Rightarrow> string" where
  "pad_zeros w s = replicate (w - length s) (CHR ''0'') @ s"

definition with_fraction :: "nat \<Rightarrow> nat \<Rightarrow> string" where
  "with_fraction m dec =
     show_nat (m div 10 ^ dec) @
     (if m mod 10 ^ dec = 0 then [] else ''.'' @ strip_zeros (pad_zeros dec (show_nat (m mod 10 ^ dec))))"

definition show_double :: "double \<Rightarrow> string" where
  "show_double x =
     (if x = 0 then ''0'' else
      (if x < 0 then ''-'' else []) @
      (let a = \<bar>x\<bar>;
           e0 = dec_exponent 700 a 0;
           m0 = nat (round_half_even (a * pow10 (5 - e0)));
           (m, e) = (if m0 = 10 ^ 6 then (10 ^ 5, e0 + 1) else (m0, e0))
       in if e < -4 \<or> 6 \<le> e
          then with_fraction m 5 @ ''e'' @ (if e < 0 then ''-'' else ''+'') @ pad_zeros 2 (show_nat (nat \<bar>e\<bar>))
          else with_fraction m (nat (5 - e))))"

lemma dec_exponent_nat:
  assumes "1 \<le> x" "x < 10 ^ (k + 1)" "k \<le> n"
  shows "\<exists>j \<le> k. dec_exponent n x e = e + int j \<and> x < 10 ^ (j + 1)"
  using assms
proof (induction n arbitrary: x e k)
  case (Suc n)
  show ?case
  proof (cases "10 \<le> x")
    case True
    then obtain k' where k: "k = Suc k'" using Suc.prems(2) by (cases k) auto
    obtain j where "j \<le> k'" "dec_exponent n (x / 10) (e + 1) = e + 1 + int j" "x / 10 < 10 ^ (j + 1)"
      using Suc.IH [of "x / 10" k' "e + 1"] Suc.prems True k by auto
    then show ?thesis using True k by (intro exI [of _ "Suc j"]) auto
  next
    case False
    then show ?thesis using Suc.prems by (intro exI [of _ 0]) auto
  qed
qed (auto intro: exI [of _ 0])

lemma less_of_nat_power: "(of_nat n :: double) < 10 ^ k \<longleftrightarrow> n < 10 ^ k"
proof -
  have "(10 :: double) ^ k = of_nat (10 ^ k)" by simp
  then show ?thesis by (simp only: of_nat_less_iff)
qed

lemma show_double_of_nat:
  assumes "n < 10 ^ 6"
  shows "show_double (of_nat n) = show_nat n"
proof (cases "n = 0")
  case True
  moreover have "show_nat 0 = ''0''" by code_simp
  ultimately show ?thesis by (simp add: show_double_def)
next
  case False
  have "(of_nat n :: double) < 10 ^ (5 + 1)"
    using assms less_of_nat_power [of n 6] by simp
  then obtain j where j: "j \<le> 5" "dec_exponent 700 (of_nat n) 0 = int j" "(of_nat n :: double) < 10 ^ (j + 1)"
    using dec_exponent_nat [of "of_nat n" 5 700 0] False by auto
  have n: "n < 10 ^ (j + 1)" using j(3) less_of_nat_power [of n "j + 1"] by simp
  have p: "pow10 (5 - int j) = of_nat (10 ^ (5 - j))"
    using j(1) by (simp add: pow10_def nat_diff_distrib)
  have "(of_nat n :: double) * pow10 (5 - int j) = of_int (int (n * 10 ^ (5 - j)))"
    unfolding p by simp
  then have r: "round_half_even (of_nat n * pow10 (5 - int j)) = int (n * 10 ^ (5 - j))"
    by (simp only: round_half_even_def floor_of_int Let_def) simp
  have "n * 10 ^ (5 - j) < 10 ^ (j + 1) * 10 ^ (5 - j)" using n by simp
  also have "\<dots> = (10 :: nat) ^ 6" using j(1) by (simp add: power_add [symmetric])
  finally have m: "n * 10 ^ (5 - j) \<noteq> 10 ^ 6" by simp
  have d: "nat (5 - int j) = 5 - j" using j(1) by simp
  define M where "M = n * 10 ^ (5 - j)"
  have "nat (round_half_even (of_nat n * pow10 (5 - int j))) = M" "M \<noteq> 1000000"
    using m unfolding r M_def by (simp_all only: nat_int) simp
  then have "show_double (of_nat n) = with_fraction M (5 - j)"
    using False j(1) by (simp add: show_double_def j(2) d Let_def)
  then show ?thesis by (simp add: with_fraction_def M_def)
qed

section \<open>An instance\<close>

definition parse_nat :: "nat \<Rightarrow> string \<Rightarrow> nat option" where
  "parse_nat bound s = (if all_digits s \<and> nat_of_digits s < bound then Some (nat_of_digits s) else None)"

definition ref_boost :: boost_lib where
  "ref_boost = \<lparr>bl_split = split_any, bl_int = (\<lambda>s. map_option of_nat (parse_nat (2 ^ 31) s)),
     bl_uint = (\<lambda>s. map_option of_nat (parse_nat (2 ^ 32) s)),
     bl_long = (\<lambda>s. map_option of_nat (parse_nat (2 ^ 63) s)),
     bl_u64 = (\<lambda>s. map_option of_nat (parse_nat (2 ^ 64) s)),
     bl_double = (\<lambda>s. map_option of_nat (parse_nat (2 ^ 53 + 1) s)),
     bl_format_d = (\<lambda>w i. pad_left w (show_int i))\<rparr>"

interpretation ref_boost: boost_laws ref_boost
  by unfold_locales (auto simp: ref_boost_def parse_nat_def all_digits_def)

end
