(* ===== verification/Contract_Symbol.thy ===== *)
theory Contract_Symbol
  imports Boost_Strings Proto_Types
begin

text \<open>
  \<^verbatim>\<open>platform/contract_symbol.cpp\<close> and \<^verbatim>\<open>ib/contract_symbol.hpp\<close>: the text symbols of contracts, such
  as \<^verbatim>\<open>AAPL.STK\<close> and \<^verbatim>\<open>AAPL.OPT.20121216.650.C\<close>. Results through output pointers are returned;
  \<open>parse_encoded_symbol\<close> assigns some of them also when it fails, so it takes and returns them all.
\<close>

section \<open>The code\<close>

definition parse_date :: "boost_lib \<Rightarrow> string \<Rightarrow> (i32 \<times> i32 \<times> i32) option cpp" where
  "parse_date B date =
     (if length date \<noteq> 8 then Inr None
      else cpp_bind (lexical_cast (bl_int B) (take 4 date)) (\<lambda>year.
           cpp_bind (lexical_cast (bl_int B) (take 2 (drop 4 date))) (\<lambda>month.
           cpp_bind (lexical_cast (bl_int B) (take 2 (drop 6 date))) (\<lambda>day.
             Inr (Some (year, month, day))))))"

definition format_expiry :: "boost_lib \<Rightarrow> i32 \<Rightarrow> i32 \<Rightarrow> i32 \<Rightarrow> string" where
  "format_expiry B year month day =
     bl_format_d B 4 (sint year) @
     (if 9 <s month then bl_format_d B 2 (sint month) else ''0'' @ bl_format_d B 1 (sint month)) @
     (if 9 <s day then bl_format_d B 2 (sint day) else ''0'' @ bl_format_d B 1 (sint day))"

definition format_option_contract_key ::
  "boost_lib \<Rightarrow> string \<Rightarrow> double \<Rightarrow> Right \<Rightarrow> i32 \<Rightarrow> i32 \<Rightarrow> i32 \<Rightarrow> string" where
  "format_option_contract_key B symbol strike right year month day =
     symbol @ ''.OPT'' @ ''.'' @ format_expiry B year month day @ ''.'' @ show_double strike @ ''.'' @
     (case right of CALL \<Rightarrow> ''C'' | PUT \<Rightarrow> ''P'')"

definition symbol_from_contract :: "boost_lib \<Rightarrow> Contract \<Rightarrow> string" where
  "symbol_from_contract B c =
     (case get_ct_type c of
        STOCK \<Rightarrow> get_ct_symbol c @ ''.STK''
      | INDEX \<Rightarrow> get_ct_symbol c @ ''.IND''
      | OPTION \<Rightarrow>
          format_option_contract_key B (get_ct_symbol c) (get_money_amount (get_ct_strike c)) (get_ct_right c)
            (get_date_year (get_ct_expiry c)) (get_date_month (get_ct_expiry c)) (get_date_day (get_ct_expiry c)))"

record symbol_out =
  so_symbol :: string
  so_sec_type :: ContractType
  so_strike :: double
  so_right :: Right
  so_date :: "i32 \<times> i32 \<times> i32"

definition parse_encoded_symbol :: "boost_lib \<Rightarrow> string \<Rightarrow> symbol_out \<Rightarrow> (bool \<times> symbol_out) cpp" where
  "parse_encoded_symbol B key out =
     (let parts = bl_split B ''.'' key in
      if length parts < 2 then Inr (False, out)
      else
        let out1 = out\<lparr>so_symbol := parts ! 0\<rparr> in
        if parts ! 1 = ''STK'' then Inr (True, out1\<lparr>so_sec_type := STOCK\<rparr>)
        else if parts ! 1 = ''IND'' then Inr (True, out1\<lparr>so_sec_type := INDEX\<rparr>)
        else if parts ! 1 = ''OPT'' \<and> length parts = 5 then
          cpp_bind (lexical_cast (bl_double B) (parts ! 2)) (\<lambda>strike.
            let out2 = out1\<lparr>so_sec_type := OPTION, so_strike := strike\<rparr> in
            cpp_bind (parse_date B (parts ! 4)) (\<lambda>date.
              case date of
                None \<Rightarrow> Inr (False, out2)
              | Some ymd \<Rightarrow>
                  let out3 = out2\<lparr>so_date := ymd\<rparr>;
                      out4 = (if parts ! 4 = ''P'' then out3\<lparr>so_right := PUT\<rparr> else out3);
                      out5 = (if parts ! 4 = ''C'' then out4\<lparr>so_right := CALL\<rparr> else out4)
                  in Inr (True, out5)))
        else Inr (False, out1))"

text \<open>The template over a map of strings: \<^verbatim>\<open>at\<close> throws on a missing key, which is caught.\<close>

definition symbol_from_map :: "(string \<rightharpoonup> string) \<Rightarrow> string option" where
  "symbol_from_map m =
     (case (m ''symbol'', m ''secType'') of
        (Some s, Some t) \<Rightarrow>
          (if t = ''OPT'' then
             (case (m ''expiry'', m ''strike'', m ''right'') of
                (Some e, Some k, Some r) \<Rightarrow> Some (s @ ''.'' @ t @ ''.'' @ e @ ''.'' @ k @ ''.'' @ r)
              | _ \<Rightarrow> None)
           else Some (s @ ''.'' @ t))
      | _ \<Rightarrow> None)"

section \<open>Dates\<close>

definition date_ok :: "nat \<Rightarrow> nat \<Rightarrow> nat \<Rightarrow> bool" where
  "date_ok y m d \<longleftrightarrow> 1000 \<le> y \<and> y < 10000 \<and> m < 100 \<and> d < 100"

definition two_digits :: "nat \<Rightarrow> string" where
  "two_digits n = (if 9 < n then show_nat n else CHR ''0'' # show_nat n)"

lemma two_digits_props:
  assumes "n < 100"
  shows "length (two_digits n) = 2" "\<forall>c \<in> set (two_digits n). is_digit c" "nat_of_digits (two_digits n) = n"
proof -
  have "length (show_nat n) = (if 9 < n then 2 else 1)"
    using assms length_show_nat_eq [of 1 n] length_show_nat_le [of 1 n] by (auto simp: le_Suc_eq)
  then show "length (two_digits n) = 2" by (simp add: two_digits_def)
  have "is_digit (CHR ''0'')" by code_simp
  then show "\<forall>c \<in> set (two_digits n). is_digit c" by (auto simp: two_digits_def dest: show_nat_digits [rule_format])
  have "digit_val (CHR ''0'') = 0" by code_simp
  then show "nat_of_digits (two_digits n) = n" by (simp add: two_digits_def)
qed

context boost_laws
begin

lemma format_expiry_digits:
  assumes "date_ok y m d"
  shows "format_expiry B (of_nat y) (of_nat m) (of_nat d) = show_nat y @ two_digits m @ two_digits d"
proof -
  have part: "(if 9 <s (of_nat n :: i32) then bl_format_d B 2 (sint (of_nat n :: i32))
       else ''0'' @ bl_format_d B 1 (sint (of_nat n :: i32))) = two_digits n" if "n < 100" for n
  proof -
    have s: "sint (of_nat n :: i32) = int n" using that by (intro sint_of_nat32) simp
    then have "9 <s (of_nat n :: i32) \<longleftrightarrow> 9 < n" by (simp add: word_sless_alt)
    moreover have "9 < n \<Longrightarrow> length (show_nat n) = 2" using that two_digits_props(1) [of n] by (simp add: two_digits_def)
    moreover have "0 < length (show_nat n)" by simp
    ultimately show ?thesis
      by (simp add: format_d s show_int_def pad_left_def two_digits_def del: length_greater_0_conv)
  qed
  have "length (show_nat y) = 4" using assms length_show_nat_eq [of 3 y] by (simp add: date_ok_def)
  moreover have "sint (of_nat y :: i32) = int y" using assms by (intro sint_of_nat32) (simp add: date_ok_def)
  ultimately have "bl_format_d B 4 (sint (of_nat y :: i32)) = show_nat y"
    by (simp add: format_d show_int_def pad_left_def)
  then show ?thesis using part assms by (simp only: format_expiry_def date_ok_def)
qed

lemma parse_format_expiry:
  assumes "date_ok y m d"
  shows "parse_date B (format_expiry B (of_nat y) (of_nat m) (of_nat d)) =
     Inr (Some (of_nat y, of_nat m, of_nat d))"
proof -
  have l: "length (show_nat y) = 4" "length (two_digits m) = 2" "length (two_digits d) = 2"
    using assms length_show_nat_eq [of 3 y] two_digits_props(1) by (simp_all add: date_ok_def)
  have cast: "lexical_cast (bl_int B) (two_digits n) = Inr (of_nat n)" if "n < 100" for n
  proof -
    have "two_digits n \<noteq> []" using two_digits_props(1) [OF that] by auto
    then show ?thesis
      using that two_digits_props(2,3) [OF that] int_digits [of "two_digits n"]
      by (simp add: lexical_cast_def all_digits_def)
  qed
  show ?thesis
    using l assms cast cast_int_show [of y]
    by (simp add: parse_date_def format_expiry_digits [OF assms] date_ok_def)
qed

end

section \<open>Properties\<close>

definition dotless :: "string \<Rightarrow> bool" where
  "dotless s \<longleftrightarrow> CHR ''.'' \<notin> set s"

lemma dotless_digits: "\<forall>c \<in> set s. is_digit c \<Longrightarrow> dotless s"
  unfolding dotless_def using digit_not(2) by blast

text \<open>The parts of the key of an option with a whole-dollar strike.\<close>

definition key_parts :: "string \<Rightarrow> nat \<Rightarrow> nat \<Rightarrow> nat \<Rightarrow> nat \<Rightarrow> Right \<Rightarrow> string list" where
  "key_parts symbol strike y m d r =
     [symbol, ''OPT'', show_nat y @ two_digits m @ two_digits d, show_nat strike,
      (case r of CALL \<Rightarrow> ''C'' | PUT \<Rightarrow> ''P'')]"

context boost_laws
begin

lemma option_key_parts:
  assumes "date_ok y m d" "strike < 10 ^ 6"
  shows "format_option_contract_key B symbol (of_nat strike) r (of_nat y) (of_nat m) (of_nat d) =
     join (CHR ''.'') (key_parts symbol strike y m d r)"
  using assms by (simp add: format_option_contract_key_def format_expiry_digits show_double_of_nat key_parts_def)

lemma split_option_key:
  assumes "date_ok y m d" "strike < 10 ^ 6" "dotless symbol"
  shows "bl_split B ''.'' (format_option_contract_key B symbol (of_nat strike) r (of_nat y) (of_nat m) (of_nat d)) =
     key_parts symbol strike y m d r"
proof -
  have "dotless (show_nat y @ two_digits m @ two_digits d)" "dotless (show_nat strike)"
    using assms(1) two_digits_props(2) by (auto intro!: dotless_digits simp: show_nat_digits date_ok_def)
  then have "\<forall>p \<in> set (key_parts symbol strike y m d r). CHR ''.'' \<notin> set p"
    using assms(3) by (cases r) (auto simp: key_parts_def dotless_def)
  moreover have "key_parts symbol strike y m d r \<noteq> []" by (simp add: key_parts_def)
  ultimately show ?thesis
    unfolding option_key_parts [OF assms(1,2)] split by (intro split_join)
qed

lemma key_parts_inj:
  assumes "date_ok y m d" "date_ok y' m' d'" "key_parts s k y m d r = key_parts s' k' y' m' d' r'"
  shows "s = s' \<and> k = k' \<and> y = y' \<and> m = m' \<and> d = d' \<and> r = r'"
proof -
  have l: "length (show_nat y) = 4" "length (show_nat y') = 4"
    using assms(1,2) length_show_nat_eq [of 3 y] length_show_nat_eq [of 3 y'] by (simp_all add: date_ok_def)
  have t: "length (two_digits m) = 2" "length (two_digits m') = 2"
    using assms(1,2) two_digits_props(1) by (simp_all add: date_ok_def)
  have "show_nat y = show_nat y'" "two_digits m = two_digits m'" "two_digits d = two_digits d'"
    using assms(3) l t by (auto simp: key_parts_def)
  then have "y = y'" "m = m'" "d = d'"
    using two_digits_props(3) assms(1,2) by (auto simp: date_ok_def) (metis two_digits_props(3))+
  then show ?thesis using assms(3) by (auto simp: key_parts_def split: Right.splits)
qed

lemma parse_option_key:
  assumes "date_ok y m d" "strike < 10 ^ 6" "dotless symbol"
  shows "parse_encoded_symbol B
      (format_option_contract_key B symbol (of_nat strike) r (of_nat y) (of_nat m) (of_nat d)) out =
    Inr (False, out\<lparr>so_symbol := symbol, so_sec_type := OPTION,
                    so_strike := of_nat (nat_of_digits (show_nat y @ two_digits m @ two_digits d))\<rparr>)"
proof -
  let ?e = "show_nat y @ two_digits m @ two_digits d"
  have dig: "\<forall>c \<in> set ?e. is_digit c" "length ?e = 8"
    using assms(1) two_digits_props(1,2) length_show_nat_eq [of 3 y] by (auto simp: show_nat_digits date_ok_def)
  then have "nat_of_digits ?e < 10 ^ 8" using nat_of_digits_bound [of ?e] by simp
  then have "bl_double B ?e = Some (of_nat (nat_of_digits ?e))"
    using dig by (intro double_digits) (auto simp: all_digits_def)
  then show ?thesis
    unfolding parse_encoded_symbol_def split_option_key [OF assms]
    by (cases r) (simp_all add: key_parts_def Let_def lexical_cast_def parse_date_def)
qed

lemma parse_plain_symbol:
  assumes "dotless s"
  shows "parse_encoded_symbol B (s @ ''.STK'') out = Inr (True, out\<lparr>so_symbol := s, so_sec_type := STOCK\<rparr>)"
    "parse_encoded_symbol B (s @ ''.IND'') out = Inr (True, out\<lparr>so_symbol := s, so_sec_type := INDEX\<rparr>)"
proof -
  have "split_any ''.'' (s @ CHR ''.'' # t) = [s, t]" if "dotless t" for t
    using assms that by (subst split_any_sep) (auto simp: dotless_def intro: split_any_none)
  then have "bl_split B ''.'' (s @ ''.STK'') = [s, ''STK'']" "bl_split B ''.'' (s @ ''.IND'') = [s, ''IND'']"
    by (simp_all add: split dotless_def)
  then show "parse_encoded_symbol B (s @ ''.STK'') out = Inr (True, out\<lparr>so_symbol := s, so_sec_type := STOCK\<rparr>)"
    "parse_encoded_symbol B (s @ ''.IND'') out = Inr (True, out\<lparr>so_symbol := s, so_sec_type := INDEX\<rparr>)"
    by (simp_all add: parse_encoded_symbol_def)
qed

end

text \<open>
  Expiry dates survive formatting and parsing, for four-digit years and months and days of at
  most two digits, padded with a zero where needed.
\<close>

theorem expiry_roundtrip:
  assumes "boost_laws B" "date_ok y m d"
  shows "parse_date B (format_expiry B (of_nat y) (of_nat m) (of_nat d)) = Inr (Some (of_nat y, of_nat m, of_nat d))"
  by (rule boost_laws.parse_format_expiry [OF assms])

theorem expiry_roundtrip_witness:
  "parse_date ref_boost (format_expiry ref_boost (of_nat 2012) (of_nat 4) (of_nat 21)) =
     Inr (Some (of_nat 2012, of_nat 4, of_nat 21))"
  by (rule expiry_roundtrip [OF ref_boost.boost_laws_axioms]) (simp add: date_ok_def)



text \<open>
  What the parser of symbols does with the symbols the program itself makes: stock and index
  symbols are read back, the symbol of an option never is. For an option the strike is read from
  the part that holds the expiry and the expiry from the part that holds the right, so parsing
  fails after storing the digits of the date as the strike.
\<close>

theorem parse_encoded_symbol_of_own_symbols:
  assumes "boost_laws B" "dotless s" "date_ok y m d" "k < 10 ^ 6"
  shows "parse_encoded_symbol B (symbol_from_contract B (Contract_default\<lparr>ct_symbol := Some s\<rparr>)) out =
      Inr (True, out\<lparr>so_symbol := s, so_sec_type := STOCK\<rparr>) \<and>
    parse_encoded_symbol B
      (symbol_from_contract B (Contract_default\<lparr>ct_symbol := Some s, ct_type := Some INDEX\<rparr>)) out =
      Inr (True, out\<lparr>so_symbol := s, so_sec_type := INDEX\<rparr>) \<and>
    parse_encoded_symbol B (symbol_from_contract B (Contract_default\<lparr>ct_symbol := Some s, ct_type := Some OPTION,
        ct_right := Some r, ct_strike := Some \<lparr>money_amount = Some (of_nat k), money_currency = Some USD\<rparr>,
        ct_expiry := Some \<lparr>date_year = Some (of_nat y), date_month = Some (of_nat m),
                           date_day = Some (of_nat d)\<rparr>\<rparr>)) out =
      Inr (False, out\<lparr>so_symbol := s, so_sec_type := OPTION,
                      so_strike := of_nat (nat_of_digits (show_nat y @ two_digits m @ two_digits d))\<rparr>)"
  using boost_laws.parse_plain_symbol [OF assms(1,2), of out]
    boost_laws.parse_option_key [OF assms(1,3,4,2), of r out]
  by (simp add: symbol_from_contract_def get_ct_type_def get_ct_symbol_def get_ct_strike_def get_ct_right_def
      get_ct_expiry_def get_money_amount_def get_date_year_def get_date_month_def get_date_day_def)

theorem parse_encoded_symbol_of_own_symbols_witness:
  "parse_encoded_symbol ref_boost (symbol_from_contract ref_boost (Contract_default\<lparr>ct_symbol := Some ''AAPL'',
      ct_type := Some OPTION, ct_right := Some CALL,
      ct_strike := Some \<lparr>money_amount = Some (of_nat 650), money_currency = Some USD\<rparr>,
      ct_expiry := Some \<lparr>date_year = Some (of_nat 2012), date_month = Some (of_nat 12),
                         date_day = Some (of_nat 16)\<rparr>\<rparr>))
     \<lparr>so_symbol = [], so_sec_type = STOCK, so_strike = 0, so_right = PUT, so_date = (0, 0, 0)\<rparr> =
   Inr (False, \<lparr>so_symbol = ''AAPL'', so_sec_type = OPTION, so_strike = 20121216, so_right = PUT, so_date = (0, 0, 0)\<rparr>)"
proof -
  have "nat_of_digits (show_nat 2012 @ two_digits 12 @ two_digits 16) = 20121216"
    using two_digits_props(1,3) [of 12] two_digits_props(1,3) [of 16] by (simp add: nat_of_digits_append)
  then show ?thesis
    using parse_encoded_symbol_of_own_symbols [OF ref_boost.boost_laws_axioms, of "''AAPL''" 2012 12 16 650
        "\<lparr>so_symbol = [], so_sec_type = STOCK, so_strike = 0, so_right = PUT, so_date = (0, 0, 0)\<rparr>" CALL]
    by (auto simp: dotless_def date_ok_def)
qed

end
