(* ===== verification/Marshall.thy ===== *)
theory Marshall
  imports Contract_Symbol
begin

text \<open>
  \<^verbatim>\<open>ib/api966/marshall_contract.cpp\<close> and \<^verbatim>\<open>marshall_order.cpp\<close>: translation between the protocol
  buffers and the structures of the broker's API. The structures hold the fields this code reads
  or writes; \<^verbatim>\<open>long\<close> has 64 bits. An operator returns its success and the updated structure.
\<close>

section \<open>The broker's structures\<close>

record ib_contract =
  c_conId :: i64
  c_symbol :: string
  c_secType :: string
  c_expiry :: string
  c_strike :: double
  c_right :: string
  c_multiplier :: string
  c_exchange :: string
  c_primaryExchange :: string
  c_currency :: string
  c_localSymbol :: string
  c_includeExpired :: bool
  c_secIdType :: string
  c_secId :: string

record ib_details =
  d_summary :: ib_contract
  d_marketName :: string
  d_tradingClass :: string
  d_minTick :: double
  d_orderTypes :: string
  d_validExchanges :: string
  d_priceMagnifier :: i32
  d_underConId :: i32
  d_longName :: string
  d_contractMonth :: string
  d_industry :: string
  d_category :: string
  d_subcategory :: string
  d_timeZoneId :: string
  d_tradingHours :: string
  d_liquidHours :: string

record ContractDetails =
  cd_id :: "u64 option"
  cd_symbol :: "string option"
  cd_summary :: "Contract option"
  cd_marketName :: "string option"
  cd_tradingClass :: "string option"
  cd_minTick :: "double option"
  cd_orderTypes :: "string option"
  cd_validExchanges :: "string option"
  cd_priceMagnifier :: "i32 option"
  cd_underConId :: "i32 option"
  cd_longName :: "string option"
  cd_contractMonth :: "string option"
  cd_industry :: "string option"
  cd_category :: "string option"
  cd_subcategory :: "string option"
  cd_timeZoneId :: "string option"
  cd_tradingHours :: "string option"
  cd_liquidHours :: "string option"

record ib_order =
  o_orderId :: i64
  o_orderRef :: string
  o_action :: string
  o_totalQuantity :: i64
  o_allOrNone :: bool
  o_minQty :: i32
  o_outsideRth :: bool
  o_tif :: string
  o_lmtPrice :: double
  o_auxPrice :: double
  o_orderType :: string

section \<open>Contracts\<close>

definition money_initialized :: "Money \<Rightarrow> bool" where
  "money_initialized m \<longleftrightarrow> money_amount m \<noteq> None"

definition date_initialized :: "Date \<Rightarrow> bool" where
  "date_initialized d \<longleftrightarrow> date_year d \<noteq> None \<and> date_month d \<noteq> None \<and> date_day d \<noteq> None"

definition contract_initialized :: "Contract \<Rightarrow> bool" where
  "contract_initialized p \<longleftrightarrow> ct_id p \<noteq> None \<and> ct_symbol p \<noteq> None \<and>
     (case ct_strike p of None \<Rightarrow> True | Some m \<Rightarrow> money_initialized m) \<and>
     (case ct_expiry p of None \<Rightarrow> True | Some d \<Rightarrow> date_initialized d)"

definition contract_from_proto :: "boost_lib \<Rightarrow> Contract \<Rightarrow> ib_contract \<Rightarrow> bool \<times> ib_contract" where
  "contract_from_proto B p c =
     (if \<not> contract_initialized p then (False, c)
      else
        let c1 = c\<lparr>c_secType := (case get_ct_type p of INDEX \<Rightarrow> ''IND'' | STOCK \<Rightarrow> ''STK'' | OPTION \<Rightarrow> ''OPT'')\<rparr>
        in if get_ct_type p = OPTION \<and> get_ct_id p \<noteq> 0 \<and>
              (ct_right p = None \<or> ct_strike p = None \<or> ct_expiry p = None \<or> get_ct_multiplier p <s 100)
           then (False, c1)
           else
             let c2 = c1\<lparr>c_conId := get_ct_id p, c_symbol := get_ct_symbol p, c_exchange := get_ct_exchange p\<rparr>;
                 c3 = (case ct_local_symbol p of Some l \<Rightarrow> c2\<lparr>c_localSymbol := l\<rparr> | None \<Rightarrow> c2);
                 c4 = (case ct_right p of
                         Some r \<Rightarrow> c3\<lparr>c_right := (case r of PUT \<Rightarrow> ''P'' | CALL \<Rightarrow> ''C'')\<rparr>
                       | None \<Rightarrow> c3);
                 c5 = (case ct_strike p of
                         Some m \<Rightarrow>
                           (let c' = c4\<lparr>c_strike := get_money_amount m\<rparr>
                            in case get_money_currency m of USD \<Rightarrow> c'\<lparr>c_currency := ''USD''\<rparr> | OTHER \<Rightarrow> c')
                       | None \<Rightarrow> c4)
             in case ct_expiry p of
                  Some d \<Rightarrow>
                    (True, c5\<lparr>c_expiry := format_expiry B (get_date_year d) (get_date_month d) (get_date_day d)\<rparr>)
                | None \<Rightarrow> (True, c5))"

definition contract_to_proto :: "boost_lib \<Rightarrow> ib_contract \<Rightarrow> Contract cpp" where
  "contract_to_proto B c =
     (let p1 = Contract_default\<lparr>ct_id := Some (c_conId c), ct_symbol := Some (c_symbol c)\<rparr>;
          p2 = (if c_secType c = ''IND'' then p1\<lparr>ct_type := Some INDEX\<rparr>
                else if c_secType c = ''STK'' then p1\<lparr>ct_type := Some STOCK\<rparr>
                else if c_secType c = ''OPT'' then p1\<lparr>ct_type := Some OPTION\<rparr> else p1);
          p3 = (if 0 < length (c_exchange c) then p2\<lparr>ct_exchange := Some (c_exchange c)\<rparr> else p2);
          p4 = p3\<lparr>ct_local_symbol := Some (c_localSymbol c)\<rparr>;
          p5 = (if c_right c = ''P'' then p4\<lparr>ct_right := Some PUT\<rparr>
                else if c_right c = ''C'' then p4\<lparr>ct_right := Some CALL\<rparr> else p4);
          p6 = p5\<lparr>ct_strike := Some \<lparr>money_amount = Some (c_strike c),
                 money_currency = (if c_currency c = ''USD'' then Some USD else None)\<rparr>\<rparr>
      in if length (c_expiry c) = 8
         then cpp_bind (parse_date B (c_expiry c)) (\<lambda>date.
                case date of
                  Some (year, month, day) \<Rightarrow>
                    Inr (p6\<lparr>ct_expiry := Some \<lparr>date_year = Some year, date_month = Some month, date_day = Some day\<rparr>\<rparr>)
                | None \<Rightarrow> Inr p6)
         else Inr p6)"

definition details_from_proto :: "ContractDetails \<Rightarrow> ib_details \<Rightarrow> bool \<times> ib_details" where
  "details_from_proto p c = (True, c)"

definition details_to_proto :: "boost_lib \<Rightarrow> ib_details \<Rightarrow> ContractDetails cpp" where
  "details_to_proto B c =
     cpp_bind (contract_to_proto B (d_summary c)) (\<lambda>summary.
       Inr \<lparr>cd_id = Some (c_conId (d_summary c)), cd_symbol = Some (symbol_from_contract B summary),
            cd_summary = Some summary, cd_marketName = Some (d_marketName c),
            cd_tradingClass = Some (d_tradingClass c), cd_minTick = Some (d_minTick c),
            cd_orderTypes = Some (d_orderTypes c), cd_validExchanges = Some (d_validExchanges c),
            cd_priceMagnifier = Some (d_priceMagnifier c), cd_underConId = Some (d_underConId c),
            cd_longName = Some (d_longName c), cd_contractMonth = Some (d_contractMonth c),
            cd_industry = Some (d_industry c), cd_category = Some (d_category c),
            cd_subcategory = Some (d_subcategory c), cd_timeZoneId = Some (d_timeZoneId c),
            cd_tradingHours = Some (d_tradingHours c), cd_liquidHours = Some (d_liquidHours c)\<rparr>)"

lemmas contract_getter_defs = get_ct_type_def get_ct_id_def get_ct_multiplier_def get_ct_symbol_def get_ct_exchange_def
  get_money_amount_def get_money_currency_def get_date_year_def get_date_month_def get_date_day_def

section \<open>Orders\<close>

definition order_initialized :: "Order \<Rightarrow> bool" where
  "order_initialized p \<longleftrightarrow> or_id p \<noteq> None \<and> or_action p \<noteq> None \<and> or_quantity p \<noteq> None \<and>
     (\<exists>c. or_contract p = Some c \<and> contract_initialized c)"

abbreviation Order_default :: Order where
  "Order_default \<equiv> \<lparr>or_id = None, or_ref = None, or_action = None, or_contract = None, or_quantity = None,
     or_all_or_none = None, or_min_quantity = None, or_outside_rth = None, or_time_in_force = None\<rparr>"

definition order_from_proto :: "Order \<Rightarrow> ib_order \<Rightarrow> bool \<times> ib_order" where
  "order_from_proto p x =
     (if \<not> order_initialized p then (False, x)
      else
        let x1 = x\<lparr>o_orderId := case_option 0 id (or_id p), o_orderRef := case_option [] id (or_ref p),
                   o_action := (case case_option BUY id (or_action p) of
                      BUY \<Rightarrow> ''BUY'' | SELL \<Rightarrow> ''SELL'' | SSHORT \<Rightarrow> ''SSHORT''),
                   o_totalQuantity := ucast (case_option 0 id (or_quantity p))\<rparr>;
            x2 = (case or_all_or_none p of Some b \<Rightarrow> x1\<lparr>o_allOrNone := b\<rparr> | None \<Rightarrow> x1);
            x3 = (case or_min_quantity p of Some q \<Rightarrow> x2\<lparr>o_minQty := q\<rparr> | None \<Rightarrow> x2);
            x4 = (case or_outside_rth p of Some b \<Rightarrow> x3\<lparr>o_outsideRth := b\<rparr> | None \<Rightarrow> x3)
        in (True, x4\<lparr>o_tif := (case case_option IOC id (or_time_in_force p) of
              DAY \<Rightarrow> ''DAY'' | GTC \<Rightarrow> ''GTC'' | IOC \<Rightarrow> ''IOC'')\<rparr>))"

definition order_to_proto :: "ib_order \<Rightarrow> Order" where
  "order_to_proto x =
     (let p1 = Order_default\<lparr>or_id := Some (o_orderId x), or_ref := Some (o_orderRef x)\<rparr>;
          p2 = (if o_action x = ''BUY'' then p1\<lparr>or_action := Some BUY\<rparr>
                else if o_action x = ''SELL'' then p1\<lparr>or_action := Some SELL\<rparr>
                else if o_action x = ''SSHORT'' then p1\<lparr>or_action := Some SSHORT\<rparr> else p1);
          p3 = p2\<lparr>or_quantity := Some (ucast (o_totalQuantity x)), or_all_or_none := Some (o_allOrNone x),
                 or_min_quantity := Some (o_minQty x), or_outside_rth := Some (o_outsideRth x)\<rparr>
      in if o_tif x = ''DAY'' then p3\<lparr>or_time_in_force := Some DAY\<rparr>
         else if o_tif x = ''GTC'' then p3\<lparr>or_time_in_force := Some GTC\<rparr>
         else if o_tif x = ''IOC'' then p3\<lparr>or_time_in_force := Some IOC\<rparr> else p3)"

text \<open>Market, limit and stop limit orders wrap an order; a message without one reads as the default.\<close>

record priced_order =
  po_order :: "Order option"
  po_limit_price :: "Money option"
  po_stop_price :: "Money option"

definition market_order_from_proto :: "priced_order \<Rightarrow> ib_order \<Rightarrow> bool \<times> ib_order" where
  "market_order_from_proto p x = order_from_proto (case_option Order_default id (po_order p)) x"

definition market_order_to_proto :: "ib_order \<Rightarrow> priced_order" where
  "market_order_to_proto x = \<lparr>po_order = Some (order_to_proto x), po_limit_price = None, po_stop_price = None\<rparr>"

definition opt_amount :: "Money option \<Rightarrow> double" where
  "opt_amount m = (case m of Some x \<Rightarrow> get_money_amount x | None \<Rightarrow> 0)"

definition limit_order_from_proto :: "priced_order \<Rightarrow> ib_order \<Rightarrow> bool \<times> ib_order" where
  "limit_order_from_proto p x =
     (let (ok, x') = order_from_proto (case_option Order_default id (po_order p)) x
      in if ok then (True, x'\<lparr>o_lmtPrice := opt_amount (po_limit_price p)\<rparr>) else (False, x'))"

definition limit_order_to_proto :: "ib_order \<Rightarrow> priced_order" where
  "limit_order_to_proto x =
     \<lparr>po_order = Some (order_to_proto x),
      po_limit_price = Some \<lparr>money_amount = Some (o_lmtPrice x), money_currency = None\<rparr>, po_stop_price = None\<rparr>"

definition stop_limit_order_from_proto :: "priced_order \<Rightarrow> ib_order \<Rightarrow> bool \<times> ib_order" where
  "stop_limit_order_from_proto p x =
     (let (ok, x') = order_from_proto (case_option Order_default id (po_order p)) x
      in if ok then (True, x'\<lparr>o_lmtPrice := opt_amount (po_limit_price p),
                              o_auxPrice := opt_amount (po_stop_price p)\<rparr>) else (False, x'))"

definition stop_limit_order_to_proto :: "ib_order \<Rightarrow> priced_order" where
  "stop_limit_order_to_proto x =
     \<lparr>po_order = Some (order_to_proto x),
      po_limit_price = Some \<lparr>money_amount = Some (o_lmtPrice x), money_currency = None\<rparr>,
      po_stop_price = Some \<lparr>money_amount = Some (o_auxPrice x), money_currency = None\<rparr>\<rparr>"

section \<open>Properties\<close>

lemma ucast_up_down: "ucast (ucast (x :: u32) :: i64) = x"
  by transfer simp

text \<open>
  C34. An option contract survives the translation to the broker's structure and back, all but its
  multiplier: for an initialised option with a nonzero id, an exchange, a local symbol, a right, a
  strike in dollars and an expiry, the translation succeeds and the way back gives the same
  message with the multiplier gone.
\<close>

theorem option_contract_roundtrip:
  assumes "boost_laws B" "date_ok y m d"
    and p: "p = \<lparr>ct_id = Some i, ct_symbol = Some s, ct_type = Some OPTION, ct_exchange = Some e,
         ct_local_symbol = Some l, ct_right = Some r,
         ct_strike = Some \<lparr>money_amount = Some k, money_currency = Some USD\<rparr>,
         ct_expiry = Some \<lparr>date_year = Some (of_nat y), date_month = Some (of_nat m), date_day = Some (of_nat d)\<rparr>,
         ct_multiplier = Some n\<rparr>"
    and "i \<noteq> 0" "e \<noteq> []" "\<not> n <s 100"
  shows "\<exists>c'. contract_from_proto B p c = (True, c') \<and>
    contract_to_proto B c' = Inr (p\<lparr>ct_multiplier := None\<rparr>)"
proof -
  have len: "length (format_expiry B (of_nat y) (of_nat m) (of_nat d)) = 8"
    using boost_laws.format_expiry_digits [OF assms(1,2)] assms(2) length_show_nat_eq [of 3 y] two_digits_props(1)
    by (simp add: date_ok_def)
  have ini: "contract_initialized p"
    by (simp add: p contract_initialized_def money_initialized_def date_initialized_def)
  obtain c' where c': "contract_from_proto B p c = (True, c')"
    "c_conId c' = i" "c_symbol c' = s" "c_secType c' = ''OPT''" "c_exchange c' = e" "c_localSymbol c' = l"
    "c_right c' = (case r of PUT \<Rightarrow> ''P'' | CALL \<Rightarrow> ''C'')" "c_strike c' = k" "c_currency c' = ''USD''"
    "c_expiry c' = format_expiry B (of_nat y) (of_nat m) (of_nat d)"
    using ini assms(4-6)
    by (simp add: contract_from_proto_def p contract_getter_defs Let_def)
  show ?thesis
    using c' assms(5) len boost_laws.parse_format_expiry [OF assms(1,2)]
    by (cases r) (simp_all add: contract_to_proto_def p)
qed

definition demo_option :: Contract where
  "demo_option = \<lparr>ct_id = Some 42, ct_symbol = Some ''AAPL'', ct_type = Some OPTION, ct_exchange = Some ''SMART'',
     ct_local_symbol = Some ''AAPL  121216C00650000'', ct_right = Some CALL,
     ct_strike = Some \<lparr>money_amount = Some 650, money_currency = Some USD\<rparr>,
     ct_expiry = Some \<lparr>date_year = Some (of_nat 2012), date_month = Some (of_nat 12), date_day = Some (of_nat 16)\<rparr>,
     ct_multiplier = Some 100\<rparr>"

definition blank_contract :: ib_contract where
  "blank_contract = \<lparr>c_conId = 0, c_symbol = [], c_secType = [], c_expiry = [], c_strike = 0, c_right = [],
     c_multiplier = [], c_exchange = [], c_primaryExchange = [], c_currency = [], c_localSymbol = [],
     c_includeExpired = False, c_secIdType = [], c_secId = []\<rparr>"

theorem option_contract_roundtrip_witness:
  "\<exists>c'. contract_from_proto ref_boost demo_option blank_contract = (True, c') \<and>
     contract_to_proto ref_boost c' = Inr (demo_option\<lparr>ct_multiplier := None\<rparr>)"
  by (rule option_contract_roundtrip [OF ref_boost.boost_laws_axioms _ demo_option_def])
    (simp_all add: date_ok_def)

text \<open>
  An order loses its contract on the way through the broker's structure. For an initialised
  order with its optional fields set, the translation succeeds and the way back gives the same
  message without the required contract; such a message is not initialised, so translating it
  again is refused.
\<close>

theorem order_roundtrip_loses_contract:
  assumes p: "p = \<lparr>or_id = Some i, or_ref = Some ref, or_action = Some a, or_contract = Some ct, or_quantity = Some q,
         or_all_or_none = Some aon, or_min_quantity = Some mq, or_outside_rth = Some rth, or_time_in_force = Some tif\<rparr>"
    and "contract_initialized ct"
  shows "\<exists>x'. order_from_proto p x = (True, x') \<and> order_to_proto x' = p\<lparr>or_contract := None\<rparr> \<and>
    \<not> order_initialized (order_to_proto x') \<and> order_from_proto (order_to_proto x') y = (False, y)"
proof -
  have "order_initialized p" using assms by (simp add: order_initialized_def)
  then obtain x' where x': "order_from_proto p x = (True, x')" "order_to_proto x' = p\<lparr>or_contract := None\<rparr>"
    by (cases a; cases tif) (simp_all add: order_from_proto_def p order_to_proto_def ucast_up_down)
  moreover have "\<not> order_initialized (p\<lparr>or_contract := None\<rparr>)" by (simp add: order_initialized_def)
  ultimately show ?thesis by (simp add: order_from_proto_def)
qed

definition demo_order :: Order where
  "demo_order = \<lparr>or_id = Some 7, or_ref = Some [], or_action = Some SSHORT, or_contract = Some demo_option,
     or_quantity = Some 100, or_all_or_none = Some True, or_min_quantity = Some 1, or_outside_rth = Some False,
     or_time_in_force = Some GTC\<rparr>"

definition blank_order :: ib_order where
  "blank_order = \<lparr>o_orderId = 0, o_orderRef = [], o_action = [], o_totalQuantity = 0, o_allOrNone = False,
     o_minQty = 0, o_outsideRth = False, o_tif = [], o_lmtPrice = 0, o_auxPrice = 0, o_orderType = []\<rparr>"

theorem order_roundtrip_loses_contract_witness:
  "\<exists>x'. order_from_proto demo_order blank_order = (True, x') \<and>
    order_to_proto x' = demo_order\<lparr>or_contract := None\<rparr> \<and>
    \<not> order_initialized (order_to_proto x') \<and>
    order_from_proto (order_to_proto x') blank_order = (False, blank_order)"
  by (rule order_roundtrip_loses_contract [OF demo_order_def])
    (simp add: demo_option_def contract_initialized_def money_initialized_def date_initialized_def)

end
