(* ===== verification/Ticker_Map.thy ===== *)
theory Ticker_Map
  imports Ticker_Id Marshall
begin

text \<open>
  \<^verbatim>\<open>ib/TickerMap.cpp\<close>: the registry that gives contracts the ids used for market data requests.
  Its three static maps are the record \<open>ticker_maps\<close>; every registration holds the registry's
  mutex from start to end, so operations are atomic steps on it.
\<close>

section \<open>The code\<close>

record ticker_maps =
  ticker_symbol :: "i64 \<rightharpoonup> string"            \<comment> \<open>TICKER\_ID\_SYMBOL\_MAP\<close>
  symbol_ticker :: "string \<rightharpoonup> i64"            \<comment> \<open>SYMBOL\_TICKER\_ID\_MAP\<close>
  ticker_contract :: "i64 \<rightharpoonup> ib_contract"      \<comment> \<open>TICKER\_ID\_CONTRACT\_MAP\<close>

definition clone_contract :: "ib_contract \<Rightarrow> ib_contract \<Rightarrow> ib_contract" where
  "clone_contract fresh c =
     fresh\<lparr>c_conId := c_conId c, c_symbol := c_symbol c, c_localSymbol := c_localSymbol c,
       c_secIdType := c_secIdType c, c_secId := c_secId c, c_secType := c_secType c, c_strike := c_strike c,
       c_right := c_right c, c_exchange := c_exchange c, c_primaryExchange := c_primaryExchange c,
       c_includeExpired := c_includeExpired c, c_expiry := c_expiry c, c_multiplier := c_multiplier c,
       c_currency := c_currency c\<rparr>"

definition symbol_from_ib :: "ib_contract \<Rightarrow> string" where
  "symbol_from_ib c =
     c_symbol c @ ''.'' @ c_secType c @
     (if c_secType c = ''OPT''
      then ''.'' @ c_expiry c @ ''.'' @ show_double (c_strike c) @ ''.'' @ c_right c else [])"

text \<open>
  The conversion from a map of strings; the stream extractions of a number are arguments: they
  give the value left in the field from its old value and the text. A missing key stops the
  conversion with what was assigned before it.
\<close>

definition convert_to_contract ::
  "(string \<Rightarrow> i64 \<Rightarrow> i64) \<Rightarrow> (string \<Rightarrow> double \<Rightarrow> double) \<Rightarrow> (string \<rightharpoonup> string) \<Rightarrow> ib_contract \<Rightarrow>
     bool \<times> ib_contract" where
  "convert_to_contract get_long get_double input c =
     (case input ''conId'' of None \<Rightarrow> (False, c) | Some v1 \<Rightarrow>
        let c1 = c\<lparr>c_conId := get_long v1 (c_conId c)\<rparr> in
      case input ''symbol'' of None \<Rightarrow> (False, c1) | Some v2 \<Rightarrow>
        let c2 = c1\<lparr>c_symbol := v2\<rparr> in
      case input ''secType'' of None \<Rightarrow> (False, c2) | Some v3 \<Rightarrow>
        let c3 = c2\<lparr>c_secType := v3\<rparr> in
      case input ''currency'' of None \<Rightarrow> (False, c3) | Some v4 \<Rightarrow>
        let c4 = c3\<lparr>c_currency := v4\<rparr> in
      case input ''localSymbol'' of None \<Rightarrow> (False, c4) | Some v5 \<Rightarrow>
        let c5 = c4\<lparr>c_localSymbol := v5\<rparr> in
      if c_secType c5 = ''STK'' then (True, c5) else
      case input ''right'' of None \<Rightarrow> (False, c5) | Some v6 \<Rightarrow>
        let c6 = c5\<lparr>c_right := v6\<rparr> in
      case input ''strike'' of None \<Rightarrow> (False, c6) | Some v7 \<Rightarrow>
        let c7 = c6\<lparr>c_strike := get_double v7 (c_strike c6)\<rparr> in
      case input ''multiplier'' of None \<Rightarrow> (False, c7) | Some v8 \<Rightarrow>
        let c8 = c7\<lparr>c_multiplier := v8\<rparr> in
      case input ''expiry'' of None \<Rightarrow> (False, c8) | Some v9 \<Rightarrow> (True, c8\<lparr>c_expiry := v9\<rparr>))"

definition registerContract :: "ib_contract \<Rightarrow> ib_contract \<Rightarrow> ticker_maps \<Rightarrow> i64 \<times> ticker_maps" where
  "registerContract fresh c t =
     (let tickerId = (if c_conId c = 0 then of_nat (card (dom (ticker_contract t)) + 1) else c_conId c)
      in case ticker_symbol t tickerId of
           None \<Rightarrow>
             let clone = (clone_contract fresh c)\<lparr>c_conId := tickerId\<rparr>;
                 symbol = symbol_from_ib c
             in (tickerId, t\<lparr>ticker_symbol := (ticker_symbol t)(tickerId \<mapsto> symbol),
                             symbol_ticker := (symbol_ticker t)(symbol \<mapsto> tickerId),
                             ticker_contract := (ticker_contract t)(tickerId \<mapsto> clone)\<rparr>)
         | Some known \<Rightarrow> (if known \<noteq> symbol_from_ib c then - 1 else tickerId, t))"

definition getSubscriptionKeyFromId :: "i64 \<Rightarrow> ticker_maps \<Rightarrow> bool \<times> string" where
  "getSubscriptionKeyFromId tickerId t =
     (case ticker_symbol t tickerId of
        None \<Rightarrow> (False, SymbolFromTickerId (ucast tickerId))
      | Some s \<Rightarrow> (True, s))"

definition getTickerIdFromSubscriptionKey :: "string \<Rightarrow> ticker_maps \<Rightarrow> (bool \<times> i64) cpp" where
  "getTickerIdFromSubscriptionKey key t =
     (case symbol_ticker t key of
        None \<Rightarrow> cpp_bind (SymbolToTickerId key) (\<lambda>n. Inr (False, scast n))
      | Some n \<Rightarrow> Inr (True, n))"

section \<open>The invariant\<close>

definition maps_inv :: "ticker_maps \<Rightarrow> bool" where
  "maps_inv t \<longleftrightarrow>
     dom (ticker_symbol t) = dom (ticker_contract t) \<and>
     (\<forall>n c. ticker_contract t n = Some c \<longrightarrow> c_conId c = n \<and> ticker_symbol t n = Some (symbol_from_ib c)) \<and>
     (\<forall>s n. symbol_ticker t s = Some n \<longrightarrow> ticker_symbol t n = Some s) \<and>
     (\<forall>n s. ticker_symbol t n = Some s \<longrightarrow> symbol_ticker t s \<noteq> None)"

definition empty_maps :: ticker_maps where
  "empty_maps = \<lparr>ticker_symbol = Map.empty, symbol_ticker = Map.empty, ticker_contract = Map.empty\<rparr>"

text \<open>The states of the registry: what a sequence of registrations reaches.\<close>

inductive registered :: "ticker_maps \<Rightarrow> bool" where
  empty: "registered empty_maps"
| step: "registered t \<Longrightarrow> registerContract fresh c t = (n, t') \<Longrightarrow> registered t'"

lemma clone_symbol: "symbol_from_ib ((clone_contract fresh c)\<lparr>c_conId := n\<rparr>) = symbol_from_ib c"
  by (simp add: symbol_from_ib_def clone_contract_def)

definition ticker_id_for :: "ib_contract \<Rightarrow> ticker_maps \<Rightarrow> i64" where
  "ticker_id_for c t = (if c_conId c = 0 then of_nat (card (dom (ticker_contract t)) + 1) else c_conId c)"

lemma registerContract_eq:
  "registerContract fresh c t =
     (case ticker_symbol t (ticker_id_for c t) of
        None \<Rightarrow> (ticker_id_for c t,
           t\<lparr>ticker_symbol := (ticker_symbol t)(ticker_id_for c t \<mapsto> symbol_from_ib c),
             symbol_ticker := (symbol_ticker t)(symbol_from_ib c \<mapsto> ticker_id_for c t),
             ticker_contract := (ticker_contract t)
               (ticker_id_for c t \<mapsto> (clone_contract fresh c)\<lparr>c_conId := ticker_id_for c t\<rparr>)\<rparr>)
      | Some known \<Rightarrow> (if known \<noteq> symbol_from_ib c then - 1 else ticker_id_for c t, t))"
  unfolding registerContract_def ticker_id_for_def Let_def ..

lemma registerContract_cases:
  assumes "registerContract fresh c t = (n, t')"
  obtains (new) "n = ticker_id_for c t" "ticker_symbol t n = None"
      "t' = t\<lparr>ticker_symbol := (ticker_symbol t)(n \<mapsto> symbol_from_ib c),
              symbol_ticker := (symbol_ticker t)(symbol_from_ib c \<mapsto> n),
              ticker_contract := (ticker_contract t)(n \<mapsto> (clone_contract fresh c)\<lparr>c_conId := n\<rparr>)\<rparr>"
  | (known) "n = ticker_id_for c t" "ticker_symbol t n = Some (symbol_from_ib c)" "t' = t"
  | (conflict) "n = - 1" "t' = t"
proof (cases "ticker_symbol t (ticker_id_for c t)")
  case None
  show thesis
    using assms unfolding registerContract_eq None option.case
    by (elim Pair_inject, intro new) (use None in simp_all)
next
  case (Some s)
  then have "t' = t" "n = (if s \<noteq> symbol_from_ib c then - 1 else ticker_id_for c t)"
    using assms by (simp_all add: registerContract_eq)
  with Some known conflict show thesis by (cases "s = symbol_from_ib c") simp_all
qed

lemma registerContract_inv:
  assumes "maps_inv t" "registerContract fresh c t = (n, t')"
  shows "maps_inv t'"
  using assms(2)
proof (cases rule: registerContract_cases)
  case new
  then show ?thesis using assms(1)
    by (auto simp: maps_inv_def clone_symbol split: if_splits)
qed (use assms(1) in simp_all)

lemma registered_inv: "registered t \<Longrightarrow> maps_inv t"
proof (induction rule: registered.induct)
  case empty
  show ?case by (simp add: maps_inv_def empty_maps_def)
qed (rule registerContract_inv)

section \<open>Properties\<close>

text \<open>
  C25. The registry stays consistent. Whatever contracts have been registered, each id has a stored
  contract with that id and the symbol of that contract, and the reverse map sends every symbol
  to an id with that symbol.
\<close>

theorem ticker_map_consistent:
  assumes "registered t"
  shows "maps_inv t"
  using assms by (rule registered_inv)

text \<open>
  C10. Registering a contract and looking it up. A registration that does not report a conflict
  makes the id resolve to the contract's symbol and the symbol to an id that has it; with a
  nonzero contract id the result is that id, and registering the same contract again changes
  nothing. A conflict leaves the registry as it was.
\<close>

theorem register_then_lookup:
  assumes "registered t" "registerContract fresh c t = (n, t')"
  shows "(n = - 1 \<and> t' = t) \<or>
    (getSubscriptionKeyFromId n t' = (True, symbol_from_ib c) \<and>
     (\<exists>m. getTickerIdFromSubscriptionKey (symbol_from_ib c) t' = Inr (True, m) \<and>
          getSubscriptionKeyFromId m t' = (True, symbol_from_ib c)) \<and>
     (c_conId c \<noteq> 0 \<longrightarrow> n = c_conId c \<and> registerContract fresh' c t' = (n, t')))"
proof -
  note inv = registered_inv [OF registered.step [OF assms]]
  have look: ?thesis if s: "ticker_symbol t' n = Some (symbol_from_ib c)" and n: "n = ticker_id_for c t"
  proof -
    obtain m where m: "symbol_ticker t' (symbol_from_ib c) = Some m"
      using s inv unfolding maps_inv_def by blast
    then have "ticker_symbol t' m = Some (symbol_from_ib c)" using inv unfolding maps_inv_def by blast
    moreover have "n = c_conId c \<and> registerContract fresh' c t' = (n, t')" if "c_conId c \<noteq> 0"
      using s that n by (simp add: registerContract_eq ticker_id_for_def)
    ultimately show ?thesis
      using s m by (simp add: getSubscriptionKeyFromId_def getTickerIdFromSubscriptionKey_def)
  qed
  show ?thesis
    using assms(2) by (cases rule: registerContract_cases) (use look in simp_all)
qed

definition demo_stock :: "string \<Rightarrow> i64 \<Rightarrow> ib_contract" where
  "demo_stock s n = blank_contract\<lparr>c_conId := n, c_symbol := s, c_secType := ''STK''\<rparr>"

definition demo_maps :: ticker_maps where
  "demo_maps = snd (registerContract blank_contract (demo_stock ''IBM'' 2) empty_maps)"

lemma demo_registered: "registered demo_maps"
  unfolding demo_maps_def by (metis registered.simps prod.collapse)

lemma demo_maps_facts:
  "ticker_symbol demo_maps = [2 \<mapsto> ''IBM.STK'']" "symbol_ticker demo_maps = [''IBM.STK'' \<mapsto> 2]"
  "dom (ticker_contract demo_maps) = {2}"
  by (simp_all add: demo_maps_def registerContract_def empty_maps_def demo_stock_def symbol_from_ib_def Let_def)

theorem ticker_map_consistent_witness:
  "maps_inv demo_maps \<and> ticker_symbol demo_maps 2 = Some ''IBM.STK''"
  using ticker_map_consistent [OF demo_registered] by (simp add: demo_maps_facts)

lemma demo_register:
  "registerContract blank_contract (demo_stock ''GOOG'' 9) demo_maps =
     (9, snd (registerContract blank_contract (demo_stock ''GOOG'' 9) demo_maps))"
  by (simp add: registerContract_def demo_maps_facts demo_stock_def Let_def)

theorem register_then_lookup_witness:
  "getSubscriptionKeyFromId 9 (snd (registerContract blank_contract (demo_stock ''GOOG'' 9) demo_maps)) =
     (True, ''GOOG.STK'')"
proof -
  have "symbol_from_ib (demo_stock ''GOOG'' 9) = ''GOOG.STK''" by (simp add: demo_stock_def symbol_from_ib_def)
  then show ?thesis
    using register_then_lookup [OF demo_registered demo_register] by auto
qed

text \<open>
  Looking up a subscription key that is not registered. For a key of at most four characters
  the answer is the encoding of the key; for any longer key, such as every key with a security
  type, the encoding reads outside its table of powers.
\<close>

theorem unregistered_key_lookup:
  assumes "symbol_ticker t key = None"
  shows "(length key \<le> 4 \<longrightarrow> (\<exists>n. getTickerIdFromSubscriptionKey key t = Inr (False, n))) \<and>
    (4 < length key \<longrightarrow> getTickerIdFromSubscriptionKey key t = Inl MemoryFault)"
proof -
  have "symbol_loop key (length key) 0 = Inl MemoryFault" if "4 < length key"
    using that by (cases key) (simp_all add: SCALE_def)
  then show ?thesis
    using assms by (simp add: getTickerIdFromSubscriptionKey_def SymbolToTickerId_def symbol_loop_base27)
qed

theorem unregistered_key_lookup_witness:
  "getTickerIdFromSubscriptionKey ''AAPL.STK'' demo_maps = Inl MemoryFault \<and>
   (\<exists>n. getTickerIdFromSubscriptionKey ''AAPL'' demo_maps = Inr (False, n))"
proof -
  have "symbol_ticker demo_maps ''AAPL.STK'' = None" "symbol_ticker demo_maps ''AAPL'' = None"
    by (simp_all add: demo_maps_facts)
  then show ?thesis
    using unregistered_key_lookup [of demo_maps "''AAPL.STK''"] unregistered_key_lookup [of demo_maps "''AAPL''"]
    by simp
qed

text \<open>
  Ids made for contracts without one can collide with contract ids. With one contract
  registered under the id 2, a contract without an id is given the number of contracts plus one,
  which is 2 as well, and its registration is refused.
\<close>

theorem made_up_id_collides:
  "registerContract blank_contract (demo_stock ''GOOG'' 0) demo_maps = (- 1, demo_maps)"
  by (simp add: registerContract_def demo_maps_facts demo_stock_def symbol_from_ib_def)

end
