(* ===== verification/Log_Reader.thy ===== *)
theory Log_Reader
  imports Contract_Symbol Time_Policy Proto_Types
begin

text \<open>
  \<^verbatim>\<open>service/LogReader.cpp\<close>, \<^verbatim>\<open>service/LogReaderInternal.hpp\<close> and the printing visitors of
  \<^verbatim>\<open>service/LogReaderVisitor.hpp\<close>: a log of API calls and events is read line by line, requests
  give ticker ids their symbols, and the tick events become market data for a visitor.

  The static map from ids to symbols, the counts of unsupported events and the local variables of
  \<^verbatim>\<open>LogReader::Process\<close> are the record \<open>reader\<close>. A log record is a map from names to values.
\<close>

section \<open>Log records\<close>

type_synonym log_record = "string \<rightharpoonup> string"

text \<open>
  One name-value pair: \<^verbatim>\<open>find\<close> gives the position of the first delimiter. Without a delimiter the
  position is \<^verbatim>\<open>-1\<close> as an \<^verbatim>\<open>int\<close>, and both substrings are the whole text.
\<close>

fun find_char :: "char \<Rightarrow> string \<Rightarrow> nat option" where
  "find_char d [] = None"
| "find_char d (c # cs) = (if c = d then Some 0 else map_option Suc (find_char d cs))"

definition cut_pair :: "char \<Rightarrow> string \<Rightarrow> string \<times> string" where
  "cut_pair nvDelim s =
     (case find_char nvDelim s of
        Some sep \<Rightarrow> (take sep s, take (length s - sep) (drop (sep + 1) s))
      | None \<Rightarrow> (s, s))"

definition line_to_record :: "boost_lib \<Rightarrow> string \<Rightarrow> char \<Rightarrow> string \<Rightarrow> log_record \<Rightarrow> bool \<times> log_record" where
  "line_to_record B line nvDelim pDelim result =
     (let nvpairs = bl_split B pDelim line
      in if nvpairs = [] then (False, result)
         else (True, fold (\<lambda>p r. let (key, val) = cut_pair nvDelim p in r(key \<mapsto> val)) nvpairs result))"

section \<open>Events and actions\<close>

definition action_map :: "string \<rightharpoonup> string" where
  "action_map = [''reqMktData'' \<mapsto> ''contract'', ''reqMktDepth'' \<mapsto> ''contract'',
     ''reqRealTimeBars'' \<mapsto> ''contract'', ''reqHistoricalData'' \<mapsto> ''contract'']"

definition event_value_map :: "string \<rightharpoonup> string \<times> Value_Type" where
  "event_value_map = [''tickPrice'' \<mapsto> (''price'', Value_Type_DOUBLE),
     ''tickPrice/CLOSE'' \<mapsto> (''price'', Value_Type_DOUBLE),
     ''tickPrice/BID'' \<mapsto> (''price'', Value_Type_DOUBLE),
     ''tickPrice/ASK'' \<mapsto> (''price'', Value_Type_DOUBLE),
     ''tickPrice/LAST'' \<mapsto> (''price'', Value_Type_DOUBLE),
     ''tickSize'' \<mapsto> (''size'', Value_Type_INT),
     ''tickSize/BID_SIZE'' \<mapsto> (''size'', Value_Type_INT),
     ''tickSize/ASK_SIZE'' \<mapsto> (''size'', Value_Type_INT),
     ''tickSize/LAST_SIZE'' \<mapsto> (''size'', Value_Type_INT),
     ''tickString'' \<mapsto> (''value'', Value_Type_STRING),
     ''tickString/LAST_TIMESTAMP'' \<mapsto> (''value'', Value_Type_TIMESTAMP)]"

definition get_event_type :: "string \<Rightarrow> (string \<times> Value_Type) option" where
  "get_event_type event = event_value_map event"

definition is_supported :: "log_record \<Rightarrow> (string \<rightharpoonup> nat) \<Rightarrow> bool \<times> (string \<rightharpoonup> nat)" where
  "is_supported event count =
     (case event ''event'' of
        None \<Rightarrow> (False, count)
      | Some e \<Rightarrow>
          if event_value_map e \<noteq> None then (True, count)
          else (False, case count e of Some n \<Rightarrow> count(e \<mapsto> n + 1) | None \<Rightarrow> count(e \<mapsto> 0)))"

definition is_action :: "log_record \<Rightarrow> bool" where
  "is_action event = (case event ''action'' of Some a \<Rightarrow> action_map a \<noteq> None | None \<Rightarrow> False)"

definition code_to_symbol :: "(i64 \<rightharpoonup> string) \<Rightarrow> i64 \<Rightarrow> string option" where
  "code_to_symbol symbols code = symbols code"

definition map_id_to_symbols ::
  "boost_lib \<Rightarrow> log_record \<Rightarrow> (i64 \<rightharpoonup> string) \<Rightarrow> (bool \<times> (i64 \<rightharpoonup> string)) cpp" where
  "map_id_to_symbols B nv symbols =
     (case nv ''id'' of None \<Rightarrow> Inr (False, symbols) | Some idText \<Rightarrow>
        cpp_bind (lexical_cast (bl_long B) idText) (\<lambda>tickerId.
          case nv ''contract'' of None \<Rightarrow> Inr (False, symbols) | Some contractString \<Rightarrow>
            (let (parsed, spec) = line_to_record B contractString (CHR '':'') '';'' Map.empty
             in if \<not> parsed then Inl FatalLog else
                case symbol_from_map spec of
                  None \<Rightarrow> Inl FatalLog
                | Some symbol \<Rightarrow>
                    (case symbols tickerId of
                       None \<Rightarrow> Inr (True, symbols(tickerId \<mapsto> symbol))
                     | Some known \<Rightarrow> if known \<noteq> symbol then Inl FatalLog else Inr (False, symbols)))))"

section \<open>Time\<close>

definition get_timestamp :: "boost_lib \<Rightarrow> 'pt posix_time \<Rightarrow> log_record \<Rightarrow> 'pt option cpp" where
  "get_timestamp B P event =
     (case event ''ts_utc'' of
        None \<Rightarrow> Inr None
      | Some t \<Rightarrow> cpp_bind (lexical_cast (bl_u64 B) t) (\<lambda>ts. Inr (Some (as_ptime P ts))))"

definition check_time :: "boost_lib \<Rightarrow> 'pt posix_time \<Rightarrow> log_record \<Rightarrow> bool \<Rightarrow> bool cpp" where
  "check_time B P event regular_trading_hours =
     cpp_bind (get_timestamp B P event) (\<lambda>r.
       case r of
         None \<Rightarrow> Inr False
       | Some t \<Rightarrow>
           if \<not> checkEXT P t then Inr False
           else if \<not> checkRTH P t \<and> regular_trading_hours then Inr False
           else Inr True)"

section \<open>From a log record to messages\<close>

definition get_field :: "(string \<Rightarrow> 'a cpp) \<Rightarrow> log_record \<Rightarrow> string \<Rightarrow> 'a option cpp" where
  "get_field cast nv key =
     (case nv key of Some t \<Rightarrow> cpp_bind (cast t) (\<lambda>x. Inr (Some x)) | None \<Rightarrow> Inr None)"

text \<open>
  \<open>or_false\<close>: a field that is absent makes the function return false (\<open>Inr None\<close>, the caller then
  drops the message); \<open>or_fatal\<close>: it ends the process.
\<close>

definition or_false :: "'a option cpp \<Rightarrow> ('a \<Rightarrow> 'b option cpp) \<Rightarrow> 'b option cpp" where
  "or_false m f = cpp_bind m (\<lambda>r. case r of None \<Rightarrow> Inr None | Some x \<Rightarrow> f x)"

definition or_fatal :: "'a option cpp \<Rightarrow> ('a \<Rightarrow> 'b cpp) \<Rightarrow> 'b cpp" where
  "or_fatal m f = cpp_bind m (\<lambda>r. case r of None \<Rightarrow> Inl FatalLog | Some x \<Rightarrow> f x)"

lemma or_simps [simp]:
  "or_false (Inr (Some x)) f = f x" "or_false (Inr None) f = Inr None" "or_false (Inl e) f = Inl e"
  "or_fatal (Inr (Some x)) g = g x" "or_fatal (Inr None) g = Inl FatalLog" "or_fatal (Inl e) g = Inl e"
  by (simp_all add: or_false_def or_fatal_def)

definition value_from_log :: "boost_lib \<Rightarrow> Value_Type \<Rightarrow> string \<Rightarrow> log_record \<Rightarrow> Value \<Rightarrow> Value cpp" where
  "value_from_log B ty fieldToUse nv v0 =
     (let v = v0\<lparr>val_type := Some ty\<rparr>
      in case ty of
        Value_Type_INT \<Rightarrow>
          or_fatal (get_field (lexical_cast (bl_int B)) nv fieldToUse) (\<lambda>x. Inr (v\<lparr>int_value := Some (scast x)\<rparr>))
      | Value_Type_DOUBLE \<Rightarrow>
          or_fatal (get_field (lexical_cast (bl_double B)) nv fieldToUse) (\<lambda>x. Inr (v\<lparr>double_value := Some x\<rparr>))
      | Value_Type_STRING \<Rightarrow>
          or_fatal (get_field Inr nv fieldToUse) (\<lambda>x. Inr (v\<lparr>string_value := Some x\<rparr>))
      | Value_Type_TIMESTAMP \<Rightarrow>
          or_fatal (get_field (lexical_cast (bl_u64 B)) nv fieldToUse) (\<lambda>x. Inr (v\<lparr>timestamp_value := Some x\<rparr>)))"

definition marketdata_from_log ::
  "boost_lib \<Rightarrow> (i64 \<rightharpoonup> string) \<Rightarrow> MarketData \<Rightarrow> log_record \<Rightarrow> MarketData option cpp" where
  "marketdata_from_log B symbols result nv =
     or_false (get_field (lexical_cast (bl_u64 B)) nv ''ts_utc'') (\<lambda>ts.
     or_fatal (get_field (lexical_cast (bl_long B)) nv ''tickerId'') (\<lambda>code.
     or_fatal (Inr (code_to_symbol symbols code)) (\<lambda>symbol.
     or_fatal (get_field Inr nv ''field'') (\<lambda>event.
       let m = result\<lparr>md_timestamp := Some ts, md_contract_id := Some code, md_symbol := Some symbol,
                      md_event := Some event\<rparr>
       in cpp_bind (get_field Inr nv ''event'') (\<lambda>rmethod.
            case rmethod of
              None \<Rightarrow> Inr (Some m)
            | Some method \<Rightarrow>
                or_false (Inr (get_event_type (method @ ''/'' @ event))) (\<lambda>(fieldToUse, ty).
                  cpp_bind (value_from_log B ty fieldToUse nv (get_md_value m)) (\<lambda>v.
                    Inr (Some (m\<lparr>md_value := Some v\<rparr>)))))))))"

text \<open>
  The default market maker is assigned and then overwritten with the text that was not found,
  which is empty.
\<close>

definition marketdepth_from_log ::
  "boost_lib \<Rightarrow> (i64 \<rightharpoonup> string) \<Rightarrow> MarketDepth \<Rightarrow> log_record \<Rightarrow> MarketDepth option cpp" where
  "marketdepth_from_log B symbols result nv =
     or_false (get_field (lexical_cast (bl_u64 B)) nv ''ts_utc'') (\<lambda>ts.
     or_false (get_field (lexical_cast (bl_long B)) nv ''id'') (\<lambda>code.
     or_false (Inr (code_to_symbol symbols code)) (\<lambda>symbol.
     or_false (get_field (lexical_cast (bl_int B)) nv ''side'') (\<lambda>side.
     or_false (get_field (lexical_cast (bl_int B)) nv ''operation'') (\<lambda>operation.
     or_false (get_field (lexical_cast (bl_int B)) nv ''position'') (\<lambda>level.
     or_false (get_field (lexical_cast (bl_double B)) nv ''price'') (\<lambda>price.
     or_false (get_field (lexical_cast (bl_int B)) nv ''size'') (\<lambda>size.
     cpp_bind (get_field Inr nv ''marketMaker'') (\<lambda>rmm.
       Inr (Some (result\<lparr>dp_timestamp := Some ts, dp_contract_id := Some code, dp_symbol := Some symbol,
         dp_side := (if side = 0 then Some ASK else if side = 1 then Some BID else dp_side result),
         dp_operation := (if operation = 0 then Some INSERT else if operation = 2 then Some DELETE
                          else if operation = 1 then Some UPDATE else dp_operation result),
         dp_level := Some level, dp_price := Some price, dp_size := Some (scast size),
         dp_mm := Some (case rmm of Some mm \<Rightarrow> mm | None \<Rightarrow> [])\<rparr>)))))))))))"

section \<open>Processing a log\<close>

text \<open>
  Comparisons of \<^verbatim>\<open>ptime\<close> and of the elapsed time with a duration are library code. A visit is a
  call of one of the two visitors, whose result is ignored.
\<close>

record ('pt, 'td) pt_order =
  pto_less :: "'pt \<Rightarrow> 'pt \<Rightarrow> bool"                  \<comment> \<open>t < start\<close>
  pto_exceeds :: "'pt \<Rightarrow> 'pt \<Rightarrow> 'td \<Rightarrow> bool"      \<comment> \<open>t - first > duration\<close>

datatype visit = Visit_MarketData MarketData | Visit_MarketDepth MarketDepth

record 'pt reader =
  symbol_map :: "i64 \<rightharpoonup> string"
  unsupported_events :: "string \<rightharpoonup> nat"
  visits :: "visit list"
  matchedRecords :: nat
  lines_read :: nat
  last_log_t :: 'pt
  first_log_t :: 'pt
  current_log_t :: 'pt

datatype step = Continue_Loop | Break_Loop | Raise cpp_error

text \<open>The part of the loop body after the time filter: the conversions and the visitors.\<close>

definition visit_record :: "boost_lib \<Rightarrow> log_record \<Rightarrow> 'pt reader \<Rightarrow> step \<times> 'pt reader" where
  "visit_record B nv r =
     (case marketdata_from_log B (symbol_map r) MarketData_default nv of
        Inl e \<Rightarrow> (Raise e, r)
      | Inr (Some md) \<Rightarrow>
          (Continue_Loop, r\<lparr>visits := visits r @ [Visit_MarketData md], matchedRecords := matchedRecords r + 1,
                            lines_read := lines_read r + 1\<rparr>)
      | Inr None \<Rightarrow>
          (case marketdepth_from_log B (symbol_map r) MarketDepth_default nv of
             Inl e \<Rightarrow> (Raise e, r)
           | Inr (Some dp) \<Rightarrow>
               (Continue_Loop, r\<lparr>visits := visits r @ [Visit_MarketDepth dp], matchedRecords := matchedRecords r + 1,
                                 lines_read := lines_read r + 1\<rparr>)
           | Inr None \<Rightarrow> (Continue_Loop, r)))"

definition scan_record ::
  "boost_lib \<Rightarrow> 'pt posix_time \<Rightarrow> ('pt, 'td) pt_order \<Rightarrow> 'td \<Rightarrow> log_record \<Rightarrow> 'pt reader \<Rightarrow> step \<times> 'pt reader" where
  "scan_record B P Q duration nv r =
     (let r1 = (if first_log_t r = pt_default P \<and> matchedRecords r = 1
                then r\<lparr>first_log_t := current_log_t r\<rparr> else r)
      in if pto_exceeds Q (current_log_t r1) (first_log_t r1) duration then (Break_Loop, r1)
         else visit_record B nv r1)"

definition time_record ::
  "boost_lib \<Rightarrow> 'pt posix_time \<Rightarrow> ('pt, 'td) pt_order \<Rightarrow> 'td \<Rightarrow> 'pt \<Rightarrow> log_record \<Rightarrow> 'pt reader \<Rightarrow>
     step \<times> 'pt reader" where
  "time_record B P Q duration start nv r =
     (let r1 = r\<lparr>last_log_t := current_log_t r\<rparr>
      in case get_timestamp B P nv of
           Inl e \<Rightarrow> (Raise e, r1)
         | Inr None \<Rightarrow> scan_record B P Q duration nv r1
         | Inr (Some t) \<Rightarrow>
             let r2 = r1\<lparr>current_log_t := t,
                         last_log_t := (if last_log_t r1 = pt_default P then t else last_log_t r1)\<rparr>
             in if pto_less Q t start then (Continue_Loop, r2)
                else scan_record B P Q duration nv r2)"

definition process_record ::
  "boost_lib \<Rightarrow> 'pt posix_time \<Rightarrow> ('pt, 'td) pt_order \<Rightarrow> bool \<Rightarrow> 'td \<Rightarrow> 'pt \<Rightarrow> log_record \<Rightarrow> 'pt reader \<Rightarrow>
     step \<times> 'pt reader" where
  "process_record B P Q rth duration start nv r =
     (case is_supported nv (unsupported_events r) of
        (False, c) \<Rightarrow> (Continue_Loop, r\<lparr>unsupported_events := c\<rparr>)
      | (True, c) \<Rightarrow>
          (case check_time B P nv rth of
             Inl e \<Rightarrow> (Raise e, r)
           | Inr False \<Rightarrow> (Continue_Loop, r)
           | Inr True \<Rightarrow> time_record B P Q duration start nv r))"

definition process_line ::
  "boost_lib \<Rightarrow> 'pt posix_time \<Rightarrow> ('pt, 'td) pt_order \<Rightarrow> bool \<Rightarrow> 'td \<Rightarrow> 'pt \<Rightarrow> string \<Rightarrow> 'pt reader \<Rightarrow>
     step \<times> 'pt reader" where
  "process_line B P Q rth duration start line r =
     (if CHR '','' \<notin> set line then (Continue_Loop, r) else
      case line_to_record B line (CHR ''='') '','' Map.empty of
        (False, nv) \<Rightarrow> (Continue_Loop, r)
      | (True, nv) \<Rightarrow>
          if is_action nv then
            (case map_id_to_symbols B nv (symbol_map r) of
               Inl e \<Rightarrow> (Raise e, r)
             | Inr (True, m) \<Rightarrow> (Continue_Loop, r\<lparr>symbol_map := m\<rparr>)
             | Inr (False, m) \<Rightarrow> process_record B P Q rth duration start nv r)
          else process_record B P Q rth duration start nv r)"

fun process_lines ::
  "boost_lib \<Rightarrow> 'pt posix_time \<Rightarrow> ('pt, 'td) pt_order \<Rightarrow> bool \<Rightarrow> 'td \<Rightarrow> 'pt \<Rightarrow> string list \<Rightarrow> 'pt reader \<Rightarrow>
     (cpp_error option) \<times> 'pt reader" where
  "process_lines B P Q rth duration start [] r = (None, r)"
| "process_lines B P Q rth duration start (line # rest) r =
     (case process_line B P Q rth duration start line r of
        (Raise e, r') \<Rightarrow> (Some e, r')
      | (Break_Loop, r') \<Rightarrow> (None, r')
      | (Continue_Loop, r') \<Rightarrow> process_lines B P Q rth duration start rest r')"

text \<open>
  \<^verbatim>\<open>infile >> skipws >> line\<close> reads the words of the text. Opening the file, through the
  decompressor when its name contains \<^verbatim>\<open>.gz\<close>, is the argument \<open>read_file\<close>.
\<close>

definition white_space :: string where
  "white_space = [CHR '' '', char_of (9::nat), char_of (10::nat), char_of (11::nat), char_of (12::nat), char_of (13::nat)]"

definition tokens :: "string \<Rightarrow> string list" where
  "tokens text = filter (\<lambda>w. w \<noteq> []) (split_any white_space text)"

fun contains :: "string \<Rightarrow> string \<Rightarrow> bool" where
  "contains [] pat = (pat = [])"
| "contains (c # cs) pat = (take (length pat) (c # cs) = pat \<or> contains cs pat)"

definition LogReader_Process ::
  "boost_lib \<Rightarrow> 'pt posix_time \<Rightarrow> ('pt, 'td) pt_order \<Rightarrow> (bool \<Rightarrow> string \<Rightarrow> string option) \<Rightarrow>
     string \<Rightarrow> bool \<Rightarrow> 'td \<Rightarrow> 'pt \<Rightarrow> 'pt reader \<Rightarrow> nat cpp \<times> 'pt reader" where
  "LogReader_Process B P Q read_file logfile rth duration start r =
     (case read_file (contains logfile ''.gz'') logfile of
        None \<Rightarrow> (Inr 0, r)
      | Some text \<Rightarrow>
          let r0 = r\<lparr>matchedRecords := 0, lines_read := 0, last_log_t := pt_default P,
                     first_log_t := pt_default P, current_log_t := pt_default P\<rparr>;
              (e, r') = process_lines B P Q rth duration start (tokens text) r0
          in (case e of Some x \<Rightarrow> Inl x | None \<Rightarrow> Inr (matchedRecords r'), r'))"

section \<open>Visitors that print\<close>

definition MarketDataPrinter :: "'pt posix_time \<Rightarrow> ('pt \<Rightarrow> string) \<Rightarrow> MarketData \<Rightarrow> string" where
  "MarketDataPrinter P show_time m =
     show_time (to_est P (as_ptime P (get_md_timestamp m))) @ '','' @ get_md_symbol m @ '','' @ get_md_event m @ '','' @
     (case get_value_type (get_md_value m) of
        Value_Type_INT \<Rightarrow> show_int (sint (get_int_value (get_md_value m)))
      | Value_Type_DOUBLE \<Rightarrow> show_double (get_double_value (get_md_value m))
      | Value_Type_STRING \<Rightarrow> get_string_value (get_md_value m)
      | Value_Type_TIMESTAMP \<Rightarrow> []) @ [char_of (10::nat)]"

definition MarketDepthPrinter :: "'pt posix_time \<Rightarrow> ('pt \<Rightarrow> string) \<Rightarrow> MarketDepth \<Rightarrow> string" where
  "MarketDepthPrinter P show_time m =
     show_time (to_est P (as_ptime P (get_dp_timestamp m))) @ '','' @ get_dp_symbol m @ '','' @
     (case dp_side m of Some BID \<Rightarrow> ''1'' | _ \<Rightarrow> ''0'') @ '','' @
     show_nat (unat (case_option 0 id (dp_level m))) @ '','' @
     (case dp_operation m of Some UPDATE \<Rightarrow> ''1'' | Some DELETE \<Rightarrow> ''2'' | _ \<Rightarrow> ''0'') @ '','' @
     show_double (case_option 0 id (dp_price m)) @ '','' @ show_u64 (case_option 0 id (dp_size m)) @ '','' @
     case_option [] id (dp_mm m) @ [char_of (10::nat)]"

end
