(* ===== verification/Log_Reader_Laws.thy ===== *)
theory Log_Reader_Laws
  imports Log_Reader
begin

text \<open>
  What the log reader does: a printed record is read back, a tick line reaches the visitor as the
  message it describes, and every visit of a run satisfies the reader's filters.
\<close>

section \<open>Reading a printed record\<close>

definition print_pair :: "char \<Rightarrow> string \<times> string \<Rightarrow> string" where
  "print_pair d kv = fst kv @ d # snd kv"

definition plain_pair :: "char \<Rightarrow> char \<Rightarrow> string \<times> string \<Rightarrow> bool" where
  "plain_pair d p kv \<longleftrightarrow> d \<notin> set (fst kv) \<and> p \<notin> set (fst kv) \<and> p \<notin> set (snd kv)"

lemma find_char_append: "d \<notin> set k \<Longrightarrow> find_char d (k @ d # v) = Some (length k)"
  by (induction k) auto

lemma cut_print_pair: "d \<notin> set (fst kv) \<Longrightarrow> cut_pair d (print_pair d kv) = kv"
  by (cases kv) (simp add: cut_pair_def print_pair_def find_char_append)

lemma fold_record:
  "\<forall>kv \<in> set kvs. d \<notin> set (fst kv) \<Longrightarrow>
     fold (\<lambda>p r. let (key, val) = cut_pair d p in r(key \<mapsto> val)) (map (print_pair d) kvs) r
       = r ++ map_of (rev kvs)"
proof (induction kvs arbitrary: r)
  case (Cons kv kvs)
  then show ?case
    by (cases kv) (simp add: cut_print_pair fun_eq_iff map_add_def split: option.splits)
qed simp

lemma line_to_record_join:
  assumes "boost_laws B" "kvs \<noteq> []" "\<forall>kv \<in> set kvs. plain_pair d p kv" "p \<noteq> d"
  shows "line_to_record B (join p (map (print_pair d) kvs)) d [p] r = (True, r ++ map_of (rev kvs))"
proof -
  have parts: "split_any [p] (join p (map (print_pair d) kvs)) = map (print_pair d) kvs"
    using assms(2-4) by (intro split_join) (auto simp: plain_pair_def print_pair_def)
  show ?thesis
    using assms fold_record [of kvs d r]
    by (auto simp: line_to_record_def boost_laws.split parts plain_pair_def)
qed

definition print_line :: "(string \<times> string) list \<Rightarrow> string" where
  "print_line kvs = join (CHR '','') (map (print_pair (CHR ''='')) kvs)"

text \<open>
  Reading back a log line: a line printed from name-value pairs whose names have no equals sign
  and whose texts have no comma is read as the map of the pairs, the last one of a name winning. A
  value may contain equals signs.
\<close>

theorem log_line_roundtrip:
  assumes "boost_laws B" "kvs \<noteq> []" "\<forall>kv \<in> set kvs. plain_pair (CHR ''='') (CHR '','') kv"
  shows "line_to_record B (print_line kvs) (CHR ''='') '','' r = (True, r ++ map_of (rev kvs))"
  unfolding print_line_def using assms by (intro line_to_record_join) simp_all

theorem log_line_roundtrip_witness:
  "line_to_record ref_boost (print_line [(''a'', ''1=2''), (''b'', [])]) (CHR ''='') '','' Map.empty
     = (True, [''a'' \<mapsto> ''1=2'', ''b'' \<mapsto> []])"
  using log_line_roundtrip [OF ref_boost.boost_laws_axioms, of "[(''a'', ''1=2''), (''b'', [])]" Map.empty]
  by (simp add: plain_pair_def fun_upd_twist)

section \<open>The records a visitor sees\<close>

lemma get_field_simps [simp]:
  "nv k = None \<Longrightarrow> get_field c nv k = Inr None"
  "nv k = Some t \<Longrightarrow> get_field c nv k = cpp_bind (c t) (\<lambda>x. Inr (Some x))"
  by (simp_all add: get_field_def)

lemma or_false_Inr_Some: "or_false m f = Inr (Some y) \<longleftrightarrow> (\<exists>x. m = Inr (Some x) \<and> f x = Inr (Some y))"
  by (auto simp: or_false_def cpp_bind_Inr_iff split: option.splits)

lemma or_fatal_Inr: "or_fatal m f = Inr y \<longleftrightarrow> (\<exists>x. m = Inr (Some x) \<and> f x = Inr y)"
  by (auto simp: or_fatal_def cpp_bind_Inr_iff split: option.splits)

lemma get_field_Inr_Some: "get_field c nv k = Inr (Some x) \<longleftrightarrow> (\<exists>t. nv k = Some t \<and> c t = Inr x)"
  by (auto simp: get_field_def cpp_bind_Inr_iff split: option.splits)

lemma value_from_log_type:
  "value_from_log B ty f nv v0 = Inr v \<Longrightarrow> val_type v = Some ty"
  by (auto simp: value_from_log_def or_fatal_Inr Let_def split: Value_Type.splits)

lemma marketdata_from_log_sound:
  assumes "marketdata_from_log B symbols MarketData_default nv = Inr (Some md)" "nv ''event'' \<noteq> None"
  shows "marketdata_initialized md" "symbols (case_option 0 id (md_contract_id md)) = md_symbol md"
    "\<exists>t. nv ''ts_utc'' = Some t \<and> lexical_cast (bl_u64 B) t = Inr (get_md_timestamp md)"
proof -
  obtain meth where "nv ''event'' = Some meth" using assms(2) by auto
  with assms(1) obtain ts code symbol event f ty v t where
    t: "nv ''ts_utc'' = Some t" "lexical_cast (bl_u64 B) t = Inr ts" and s: "symbols code = Some symbol" and
    v: "value_from_log B ty f nv Value_default = Inr v" and
    md: "md = \<lparr>md_timestamp = Some ts, md_symbol = Some symbol, md_event = Some event, md_value = Some v,
               md_contract_id = Some code\<rparr>"
    by (auto simp: marketdata_from_log_def or_false_Inr_Some or_fatal_Inr get_field_Inr_Some Let_def
        code_to_symbol_def get_md_value_def cpp_bind_Inr_iff)
  show "marketdata_initialized md" "symbols (case_option 0 id (md_contract_id md)) = md_symbol md"
    "\<exists>t. nv ''ts_utc'' = Some t \<and> lexical_cast (bl_u64 B) t = Inr (get_md_timestamp md)"
    using s t value_from_log_type [OF v]
    by (simp_all add: md marketdata_initialized_def value_initialized_def get_md_timestamp_def)
qed

lemma marketdepth_from_log_sound:
  assumes "marketdepth_from_log B symbols MarketDepth_default nv = Inr (Some dp)"
  shows "symbols (case_option 0 id (dp_contract_id dp)) = dp_symbol dp"
    "\<exists>t. nv ''ts_utc'' = Some t \<and> lexical_cast (bl_u64 B) t = Inr (get_dp_timestamp dp)"
  using assms
  by (auto simp: marketdepth_from_log_def or_false_Inr_Some get_field_Inr_Some code_to_symbol_def
      cpp_bind_Inr_iff get_dp_timestamp_def)

text \<open>
  What a visit promises under the options of the reader: the symbol is the one mapped to the
  contract id, the time is inside the trading hours asked for and not before the start.
\<close>

definition time_ok ::
  "'pt posix_time \<Rightarrow> ('pt, 'td) pt_order \<Rightarrow> bool \<Rightarrow> 'pt \<Rightarrow> u64 \<Rightarrow> bool" where
  "time_ok P Q rth start ts \<longleftrightarrow>
     checkEXT P (as_ptime P ts) \<and> (rth \<longrightarrow> checkRTH P (as_ptime P ts)) \<and> \<not> pto_less Q (as_ptime P ts) start"

fun visit_ok ::
  "'pt posix_time \<Rightarrow> ('pt, 'td) pt_order \<Rightarrow> bool \<Rightarrow> 'pt \<Rightarrow> (i64 \<rightharpoonup> string) \<Rightarrow> visit \<Rightarrow> bool" where
  "visit_ok P Q rth start symbols (Visit_MarketData md) \<longleftrightarrow>
     marketdata_initialized md \<and> symbols (case_option 0 id (md_contract_id md)) = md_symbol md \<and>
     time_ok P Q rth start (get_md_timestamp md)"
| "visit_ok P Q rth start symbols (Visit_MarketDepth dp) \<longleftrightarrow>
     symbols (case_option 0 id (dp_contract_id dp)) = dp_symbol dp \<and> dp_symbol dp \<noteq> None \<and>
     time_ok P Q rth start (get_dp_timestamp dp)"

text \<open>
  One step of the reader: the symbol map grows, at most the visits are extended, each new one counted.
\<close>

definition reader_step ::
  "'pt posix_time \<Rightarrow> ('pt, 'td) pt_order \<Rightarrow> bool \<Rightarrow> 'pt \<Rightarrow> 'pt reader \<Rightarrow> 'pt reader \<Rightarrow> bool" where
  "reader_step P Q rth start r r' \<longleftrightarrow>
     symbol_map r \<subseteq>\<^sub>m symbol_map r' \<and>
     (\<exists>vs. visits r' = visits r @ vs \<and> matchedRecords r' = matchedRecords r + length vs \<and>
           lines_read r' = lines_read r + length vs \<and>
           (\<forall>v \<in> set vs. visit_ok P Q rth start (symbol_map r') v))"

lemma reader_step_keep:
  "symbol_map r \<subseteq>\<^sub>m symbol_map r' \<Longrightarrow> visits r' = visits r \<Longrightarrow> matchedRecords r' = matchedRecords r \<Longrightarrow>
     lines_read r' = lines_read r \<Longrightarrow> reader_step P Q rth start r r'"
  by (simp add: reader_step_def)

lemma visit_ok_mono: "visit_ok P Q rth start m v \<Longrightarrow> m \<subseteq>\<^sub>m m' \<Longrightarrow> visit_ok P Q rth start m' v"
proof (cases v)
  case (Visit_MarketData md)
  moreover assume "visit_ok P Q rth start m v" "m \<subseteq>\<^sub>m m'"
  moreover from this Visit_MarketData obtain s where "md_symbol md = Some s"
    by (auto simp: marketdata_initialized_def)
  ultimately show ?thesis by (auto simp: map_le_def dom_def)
next
  case (Visit_MarketDepth dp)
  assume "visit_ok P Q rth start m v" "m \<subseteq>\<^sub>m m'"
  with Visit_MarketDepth show ?thesis by (auto simp: map_le_def dom_def)
qed

lemma reader_step_trans:
  assumes "reader_step P Q rth start r r'" "reader_step P Q rth start r' r''"
  shows "reader_step P Q rth start r r''"
proof -
  from assms(1) obtain vs where 1: "symbol_map r \<subseteq>\<^sub>m symbol_map r'" "visits r' = visits r @ vs"
    "matchedRecords r' = matchedRecords r + length vs" "lines_read r' = lines_read r + length vs"
    "\<forall>v \<in> set vs. visit_ok P Q rth start (symbol_map r') v"
    unfolding reader_step_def by blast
  from assms(2) obtain ws where 2: "symbol_map r' \<subseteq>\<^sub>m symbol_map r''" "visits r'' = visits r' @ ws"
    "matchedRecords r'' = matchedRecords r' + length ws" "lines_read r'' = lines_read r' + length ws"
    "\<forall>v \<in> set ws. visit_ok P Q rth start (symbol_map r'') v"
    unfolding reader_step_def by blast
  have "\<forall>v \<in> set (vs @ ws). visit_ok P Q rth start (symbol_map r'') v"
    using 1(5) 2(1,5) visit_ok_mono by fastforce
  then show ?thesis
    unfolding reader_step_def using 1(1-4) 2(1-4) map_le_trans [OF 1(1) 2(1)]
    by (intro conjI exI [of _ "vs @ ws"]) simp_all
qed

text \<open>The hypotheses the filters establish before a record is visited.\<close>

definition passed ::
  "boost_lib \<Rightarrow> 'pt posix_time \<Rightarrow> ('pt, 'td) pt_order \<Rightarrow> bool \<Rightarrow> 'pt \<Rightarrow> log_record \<Rightarrow> bool" where
  "passed B P Q rth start nv \<longleftrightarrow>
     nv ''event'' \<noteq> None \<and>
     (\<forall>t ts. nv ''ts_utc'' = Some t \<longrightarrow> lexical_cast (bl_u64 B) t = Inr ts \<longrightarrow> time_ok P Q rth start ts)"

lemma visit_record_cases:
  "visit_record B nv r = (s, r') \<Longrightarrow>
     r' = r \<or>
     (\<exists>md. marketdata_from_log B (symbol_map r) MarketData_default nv = Inr (Some md) \<and>
        r' = r\<lparr>visits := visits r @ [Visit_MarketData md], matchedRecords := matchedRecords r + 1,
               lines_read := lines_read r + 1\<rparr>) \<or>
     (\<exists>dp. marketdepth_from_log B (symbol_map r) MarketDepth_default nv = Inr (Some dp) \<and>
        r' = r\<lparr>visits := visits r @ [Visit_MarketDepth dp], matchedRecords := matchedRecords r + 1,
               lines_read := lines_read r + 1\<rparr>)"
  by (auto simp: visit_record_def split: sum.splits option.splits)

lemma visit_record_step:
  assumes "passed B P Q rth start nv" "visit_record B nv r = (s, r')"
  shows "reader_step P Q rth start r r'"
proof -
  consider (same) "r' = r"
    | (data) md where "marketdata_from_log B (symbol_map r) MarketData_default nv = Inr (Some md)"
        "r' = r\<lparr>visits := visits r @ [Visit_MarketData md], matchedRecords := matchedRecords r + 1,
                lines_read := lines_read r + 1\<rparr>"
    | (depth) dp where "marketdepth_from_log B (symbol_map r) MarketDepth_default nv = Inr (Some dp)"
        "r' = r\<lparr>visits := visits r @ [Visit_MarketDepth dp], matchedRecords := matchedRecords r + 1,
                lines_read := lines_read r + 1\<rparr>"
    using visit_record_cases [OF assms(2)] by blast
  then show ?thesis
  proof cases
    case same
    then show ?thesis by (simp add: reader_step_keep)
  next
    case data
    have "nv ''event'' \<noteq> None" using assms(1) by (simp add: passed_def)
    note md = marketdata_from_log_sound [OF data(1) this]
    have "time_ok P Q rth start (get_md_timestamp md)"
      using md(3) assms(1) by (auto simp: passed_def)
    with md(1,2) data(2) show ?thesis by (simp add: reader_step_def)
  next
    case depth
    note dp = marketdepth_from_log_sound [OF depth(1)]
    have "time_ok P Q rth start (get_dp_timestamp dp)"
      using dp(2) assms(1) by (auto simp: passed_def)
    moreover have "dp_symbol dp \<noteq> None"
      using depth(1) by (auto simp: marketdepth_from_log_def or_false_Inr_Some cpp_bind_Inr_iff)
    ultimately show ?thesis using dp(1) depth(2) by (simp add: reader_step_def)
  qed
qed

lemma scan_record_step:
  assumes "passed B P Q rth start nv" "scan_record B P Q duration nv r = (s, r')"
  shows "reader_step P Q rth start r r'"
proof -
  define r1 where "r1 = (if first_log_t r = pt_default P \<and> matchedRecords r = 1
    then r\<lparr>first_log_t := current_log_t r\<rparr> else r)"
  have keep: "reader_step P Q rth start r r1" by (simp add: reader_step_keep r1_def)
  have "r' = r1 \<or> visit_record B nv r1 = (s, r')"
    using assms(2) unfolding scan_record_def r1_def [symmetric] Let_def by (simp split: if_splits)
  then show ?thesis
    by (elim disjE) (simp add: keep, rule reader_step_trans [OF keep visit_record_step [OF assms(1)]])
qed

lemma time_record_step:
  assumes "nv ''event'' \<noteq> None" "check_time B P nv rth = Inr True"
    "time_record B P Q duration start nv r = (s, r')"
  shows "reader_step P Q rth start r r'"
proof -
  from assms(2) obtain t ts where t: "nv ''ts_utc'' = Some t" "lexical_cast (bl_u64 B) t = Inr ts"
    "checkEXT P (as_ptime P ts)" "rth \<longrightarrow> checkRTH P (as_ptime P ts)"
    by (auto simp: check_time_def get_timestamp_def cpp_bind_Inr_iff split: option.splits if_splits)
  define r1 where "r1 = r\<lparr>last_log_t := current_log_t r\<rparr>"
  define r2 where "r2 = r1\<lparr>current_log_t := as_ptime P ts,
      last_log_t := if last_log_t r1 = pt_default P then as_ptime P ts else last_log_t r1\<rparr>"
  have keep: "reader_step P Q rth start r r2" by (simp add: reader_step_keep r1_def r2_def)
  have stamp: "get_timestamp B P nv = Inr (Some (as_ptime P ts))" using t by (simp add: get_timestamp_def)
  have run: "(if pto_less Q (as_ptime P ts) start then (Continue_Loop, r2)
              else scan_record B P Q duration nv r2) = (s, r')"
    using assms(3) unfolding time_record_def Let_def r1_def [symmetric] stamp sum.case option.case r2_def [symmetric] .
  show ?thesis
  proof (cases "pto_less Q (as_ptime P ts) start")
    case True
    with run keep show ?thesis by simp
  next
    case False
    with t assms(1) have "passed B P Q rth start nv" by (auto simp: passed_def time_ok_def)
    moreover have "scan_record B P Q duration nv r2 = (s, r')" using run False by simp
    ultimately show ?thesis by (rule reader_step_trans [OF keep scan_record_step])
  qed
qed

lemma process_record_step:
  assumes "process_record B P Q rth duration start nv r = (s, r')"
  shows "reader_step P Q rth start r r'"
proof (cases "fst (is_supported nv (unsupported_events r)) \<and> check_time B P nv rth = Inr True")
  case True
  then have "nv ''event'' \<noteq> None" by (auto simp: is_supported_def split: option.splits)
  moreover have "time_record B P Q duration start nv r = (s, r')"
    using assms True by (auto simp: process_record_def split: prod.splits)
  ultimately show ?thesis by (rule time_record_step [OF _ conjunct2 [OF True]])
next
  case False
  then have "\<exists>c. r' = r\<lparr>unsupported_events := c\<rparr> \<or> r' = r"
    using assms by (auto simp: process_record_def split: prod.splits sum.splits bool.splits)
  then show ?thesis by (auto intro: reader_step_keep)
qed

lemma map_id_to_symbols_cases:
  assumes "map_id_to_symbols B nv m = Inr (b, m')"
  obtains (same) "\<not> b" "m' = m" | (new) n s where "b" "m n = None" "m' = m(n \<mapsto> s)"
proof (cases "nv ''id''")
  case None
  with assms same show thesis by (simp add: map_id_to_symbols_def)
next
  case (Some idText)
  with assms obtain n where n: "lexical_cast (bl_long B) idText = Inr n"
    by (auto simp: map_id_to_symbols_def cpp_bind_Inr_iff)
  show thesis
  proof (cases "nv ''contract''")
    case None
    with assms Some n same show thesis by (simp add: map_id_to_symbols_def)
  next
    case spec: (Some c)
    obtain ok r where r: "line_to_record B c (CHR '':'') '';'' Map.empty = (ok, r)" by fastforce
    have "(\<not> b \<and> m' = m) \<or> (\<exists>s. b \<and> m n = None \<and> m' = m(n \<mapsto> s))"
      using assms Some n spec r by (auto simp: map_id_to_symbols_def split: if_splits option.splits)
    then show thesis using same new by blast
  qed
qed

lemma map_id_to_symbols_grows:
  "map_id_to_symbols B nv m = Inr (b, m') \<Longrightarrow> m \<subseteq>\<^sub>m m'"
  by (erule map_id_to_symbols_cases) (auto simp: map_le_def)

lemma process_line_step:
  assumes "process_line B P Q rth duration start line r = (s, r')"
  shows "reader_step P Q rth start r r'"
proof -
  have "r' = r \<or> (\<exists>m b nv. map_id_to_symbols B nv (symbol_map r) = Inr (b, m) \<and> r' = r\<lparr>symbol_map := m\<rparr>) \<or>
      (\<exists>nv. process_record B P Q rth duration start nv r = (s, r'))"
    using assms by (auto simp: process_line_def split: prod.splits sum.splits bool.splits if_splits)
  then show ?thesis
    by (elim disjE exE conjE)
      (simp add: reader_step_keep, simp add: reader_step_keep map_id_to_symbols_grows, rule process_record_step)
qed

lemma process_lines_step:
  "process_lines B P Q rth duration start ls r = (e, r') \<Longrightarrow> reader_step P Q rth start r r'"
proof (induction ls arbitrary: r)
  case Nil
  then show ?case by (auto intro: reader_step_keep)
next
  case (Cons l ls)
  obtain s r1 where l: "process_line B P Q rth duration start l r = (s, r1)" by fastforce
  note step = process_line_step [OF l]
  show ?case
    using Cons l step by (cases s) (auto intro: reader_step_trans)
qed

lemma log_reader_run:
  assumes "read_file (contains logfile ''.gz'') logfile = Some text"
    and "LogReader_Process B P Q read_file logfile rth duration start r = (result, r')"
  shows "symbol_map r \<subseteq>\<^sub>m symbol_map r' \<and>
    (\<exists>vs. visits r' = visits r @ vs \<and> (\<forall>v \<in> set vs. visit_ok P Q rth start (symbol_map r') v) \<and>
          (case result of Inr n \<Rightarrow> n = length vs | Inl e \<Rightarrow> True))"
proof -
  let ?r = "r\<lparr>matchedRecords := 0, lines_read := 0, last_log_t := pt_default P, first_log_t := pt_default P,
              current_log_t := pt_default P\<rparr>"
  obtain e where run: "process_lines B P Q rth duration start (tokens text) ?r = (e, r')"
    and res: "result = (case e of Some x \<Rightarrow> Inl x | None \<Rightarrow> Inr (matchedRecords r'))"
    using assms by (auto simp: LogReader_Process_def split: prod.splits)
  from process_lines_step [OF run] obtain vs where
    "symbol_map r \<subseteq>\<^sub>m symbol_map r'" "visits r' = visits r @ vs" "matchedRecords r' = length vs"
    "\<forall>v \<in> set vs. visit_ok P Q rth start (symbol_map r') v"
    by (auto simp: reader_step_def)
  then show ?thesis
    by (auto simp: res split: option.splits)
qed


section \<open>Lines\<close>

text \<open>Texts without white space, which the reader takes for one word.\<close>

definition one_word :: "string \<Rightarrow> bool" where
  "one_word s \<longleftrightarrow> (\<forall>c \<in> set s. c \<notin> set white_space)"

lemma one_word_simps [simp]:
  "one_word []" "one_word (c # s) \<longleftrightarrow> c \<notin> set white_space \<and> one_word s" "one_word (a @ b) \<longleftrightarrow> one_word a \<and> one_word b"
  by (auto simp: one_word_def)

lemma white_space_code: "c \<in> set white_space \<longleftrightarrow> (of_char c :: nat) = 32 \<or> 9 \<le> (of_char c :: nat) \<and> (of_char c :: nat) \<le> 13"
proof -
  have "c = char_of n \<longleftrightarrow> of_char c = n" if "n < 256" for n :: nat
    using that by (metis char_of_char of_char_of mod_less)
  moreover have "c = CHR '' '' \<longleftrightarrow> of_char c = (32 :: nat)"
  proof -
    have "of_char (CHR '' '') = (32 :: nat)" by simp
    then show ?thesis by (metis of_char_eq_iff)
  qed
  ultimately show ?thesis
    by (auto simp: white_space_def)
qed

lemma one_word_show_nat [simp]: "one_word (show_nat n)"
proof -
  have "is_digit c \<Longrightarrow> c \<notin> set white_space" for c
    by (auto simp: white_space_code is_digit_def)
  then show ?thesis using show_nat_digits unfolding one_word_def by blast
qed

lemma one_word_show_u64 [simp]: "one_word (show_u64 t)"
  by (simp add: show_u64_def)

lemma one_word_join: "c \<notin> set white_space \<Longrightarrow> \<forall>p \<in> set ps. one_word p \<Longrightarrow> one_word (join c ps)"
  by (induction c ps rule: join.induct) simp_all

lemma one_word_print_line:
  "\<forall>(k, v) \<in> set kvs. one_word k \<and> one_word v \<Longrightarrow> one_word (print_line kvs)"
  unfolding print_line_def by (rule one_word_join) (auto simp: print_pair_def white_space_code)

lemma tokens_word: "w \<noteq> [] \<Longrightarrow> one_word w \<Longrightarrow> tokens w = [w]"
  by (simp add: tokens_def one_word_def split_any_none)


lemma map_of_rev_in:
  "distinct (map fst kvs) \<Longrightarrow> (k, v) \<in> set kvs \<Longrightarrow> map_of (rev kvs) k = Some v"
  by (rule map_of_is_SomeI) (simp_all add: rev_map [symmetric])

lemma map_of_rev_notin: "k \<notin> fst ` set kvs \<Longrightarrow> map_of (rev kvs) k = None"
  by (simp add: map_of_eq_None_iff)

lemma comma_in_print_line:
  "2 \<le> length kvs \<Longrightarrow> CHR '','' \<in> set (print_line kvs)"
  by (cases kvs; cases "tl kvs") (auto simp: print_line_def)

text \<open>A printed line with at least two pairs, none of them an action, is processed as its record.\<close>

lemma process_print_line:
  assumes "boost_laws B" "2 \<le> length kvs" "\<forall>kv \<in> set kvs. plain_pair (CHR ''='') (CHR '','') kv"
    "''action'' \<notin> fst ` set kvs"
  shows "process_line B P Q rth duration start (print_line kvs) r =
     process_record B P Q rth duration start (map_of (rev kvs)) r"
proof -
  have "line_to_record B (print_line kvs) (CHR ''='') '','' Map.empty = (True, map_of (rev kvs))"
    unfolding print_line_def using assms line_to_record_join [of B kvs "CHR ''=''" "CHR '',''" Map.empty] by force
  moreover have "\<not> is_action (map_of (rev kvs))"
    using assms(4) by (simp add: is_action_def map_of_rev_notin)
  ultimately show ?thesis
    using comma_in_print_line [OF assms(2)] by (simp add: process_line_def)
qed

lemma record_line_visited:
  assumes "boost_laws B" "2 \<le> length kvs" "\<forall>kv \<in> set kvs. plain_pair (CHR ''='') (CHR '','') kv" "''action'' \<notin> fst ` set kvs"
    and nv: "nv = map_of (rev kvs)" "nv ''event'' = Some e" "event_value_map e \<noteq> None" "nv ''ts_utc'' = Some (show_u64 t)"
    and "time_ok P Q rth start t"
    and never: "(first_log_t r \<noteq> pt_default P \<or> matchedRecords r \<noteq> 1) \<and> \<not> pto_exceeds Q (as_ptime P t) (first_log_t r) duration \<or>
      (\<forall>a b. \<not> pto_exceeds Q a b duration)"
    and conv: "marketdata_from_log B (symbol_map r) MarketData_default nv = Inr v"
    and depth: "v = None \<Longrightarrow> nv ''id'' = None"
  shows "\<exists>r'. process_line B P Q rth duration start (print_line kvs) r = (Continue_Loop, r') \<and>
     visits r' = visits r @ (case v of Some md \<Rightarrow> [Visit_MarketData md] | None \<Rightarrow> []) \<and>
     matchedRecords r' = matchedRecords r + (if v = None then 0 else 1) \<and> symbol_map r' = symbol_map r"
proof -
  have cast: "lexical_cast (bl_u64 B) (show_u64 t) = Inr t" by (rule boost_laws.cast_u64_show [OF assms(1)])
  have time: "check_time B P nv rth = Inr True" "get_timestamp B P nv = Inr (Some (as_ptime P t))"
    "\<not> pto_less Q (as_ptime P t) start"
    using nv(4) cast assms(9) by (auto simp: check_time_def get_timestamp_def time_ok_def)
  have sup: "is_supported nv (unsupported_events r) = (True, unsupported_events r)"
    using nv(2,3) by (simp add: is_supported_def)
  have "marketdepth_from_log B m MarketDepth_default nv = Inr None" if "v = None" for m
    using depth [OF that] nv(4) cast by (simp add: marketdepth_from_log_def get_field_def)
  then show ?thesis
    unfolding process_print_line [OF assms(1-4)] nv(1) [symmetric]
    using time conv sup never
    by (cases v) (auto simp: process_record_def time_record_def scan_record_def visit_record_def Let_def)
qed

lemma size_from_log:
  assumes "boost_laws B" "nv ''event'' = Some ''tickSize''" "nv ''field'' = Some f" "nv ''tickerId'' = Some (show_nat n)"
    "nv ''size'' = Some (show_nat k)" "nv ''ts_utc'' = Some (show_u64 t)"
    and "f \<in> {''BID_SIZE'', ''ASK_SIZE'', ''LAST_SIZE''}" "n < 2 ^ 63" "k < 2 ^ 31" "symbols (of_nat n) = Some s"
  shows "marketdata_from_log B symbols MarketData_default nv = Inr (Some
      \<lparr>md_timestamp = Some t, md_symbol = Some s, md_event = Some f,
       md_value = Some (Value_default\<lparr>val_type := Some Value_Type_INT, int_value := Some (of_nat k)\<rparr>),
       md_contract_id = Some (of_nat n)\<rparr>)"
proof -
  have casts: "lexical_cast (bl_u64 B) (show_u64 t) = Inr t" "lexical_cast (bl_long B) (show_nat n) = Inr (of_nat n)"
    "lexical_cast (bl_int B) (show_nat k) = Inr (of_nat k)"
    using boost_laws.cast_u64_show [OF assms(1)] boost_laws.long_digits [OF assms(1), of "show_nat n"]
      boost_laws.cast_int_show [OF assms(1,9)] assms(8)
    by (simp_all add: lexical_cast_def all_digits_def show_nat_digits)
  have ev: "get_event_type (''tickSize'' @ ''/'' @ f) = Some (''size'', Value_Type_INT)"
    using assms(7) by (auto simp: get_event_type_def event_value_map_def)
  have "scast (of_nat k :: i32) = (of_nat k :: i64)"
    using assms(9) by (simp add: scast_eq word_nat)
  then show ?thesis
    using assms(2-6,10) casts ev
    by (simp add: marketdata_from_log_def code_to_symbol_def value_from_log_def get_md_value_def Let_def)
qed

lemma tick_line_visited:
  assumes "boost_laws B" and "\<forall>kv \<in> set kvs. plain_pair (CHR ''='') (CHR '','') kv"
    and "distinct (map fst kvs)" and "''action'' \<notin> fst ` set kvs"
    and "{(''event'', ''tickSize''), (''field'', f), (''tickerId'', show_nat n), (''size'', show_nat k),
          (''ts_utc'', show_u64 t)} \<subseteq> set kvs"
    and "f \<in> {''BID_SIZE'', ''ASK_SIZE'', ''LAST_SIZE''}" and "n < 2 ^ 63" and "k < 2 ^ 31"
    and "symbol_map r (of_nat n) = Some s" and "time_ok P Q rth start t"
    and "first_log_t r \<noteq> pt_default P \<or> matchedRecords r \<noteq> 1" and "\<not> pto_exceeds Q (as_ptime P t) (first_log_t r) duration"
  shows "\<exists>r'. process_line B P Q rth duration start (print_line kvs) r = (Continue_Loop, r') \<and>
     visits r' = visits r @ [Visit_MarketData \<lparr>md_timestamp = Some t, md_symbol = Some s, md_event = Some f,
       md_value = Some (Value_default\<lparr>val_type := Some Value_Type_INT, int_value := Some (of_nat k)\<rparr>),
       md_contract_id = Some (of_nat n)\<rparr>] \<and>
     matchedRecords r' = matchedRecords r + 1 \<and> symbol_map r' = symbol_map r"
proof -
  let ?nv = "map_of (rev kvs)"
  have nv: "?nv ''event'' = Some ''tickSize''" "?nv ''field'' = Some f" "?nv ''tickerId'' = Some (show_nat n)"
    "?nv ''size'' = Some (show_nat k)" "?nv ''ts_utc'' = Some (show_u64 t)"
    using assms(3,5) by (auto intro: map_of_rev_in)
  have len: "2 \<le> length kvs"
    using card_mono [OF finite_set assms(5)] card_length [of kvs] by simp
  have ev: "event_value_map ''tickSize'' \<noteq> None" by (simp add: event_value_map_def)
  note conv = size_from_log [where nv = ?nv and symbols = "symbol_map r", OF assms(1) nv assms(6-9)]
  show ?thesis
    using record_line_visited [where nv = ?nv and t = t and duration = duration, OF assms(1) len assms(2,4) refl nv(1) ev nv(5) assms(10) _ conv]
      assms(11,12)
    by simp
qed


text \<open>
  Depth lines are dropped: a line of the event \<open>updateMktDepth\<close> or \<open>updateMktDepthL2\<close>, which the
  API's event log writes for the order book, calls no visitor, whatever its other pairs; it is only
  counted as unsupported.
\<close>

theorem log_depth_lines_dropped:
  assumes "boost_laws B" and "2 \<le> length kvs" and "\<forall>kv \<in> set kvs. plain_pair (CHR ''='') (CHR '','') kv"
    and "distinct (map fst kvs)" and "''action'' \<notin> fst ` set kvs"
    and "(''event'', e) \<in> set kvs" and "e \<in> {''updateMktDepth'', ''updateMktDepthL2''}"
  shows "process_line B P Q rth duration start (print_line kvs) r = (Continue_Loop,
     r\<lparr>unsupported_events := (unsupported_events r)
         (e \<mapsto> case unsupported_events r e of Some n \<Rightarrow> n + 1 | None \<Rightarrow> 0)\<rparr>)"
proof -
  have "map_of (rev kvs) ''event'' = Some e" using assms(4,6) by (rule map_of_rev_in)
  moreover have "event_value_map e = None" 
    using assms(7) unfolding insert_iff empty_iff by (elim disjE) (simp_all add: event_value_map_def)
  ultimately show ?thesis
    unfolding process_print_line [OF assms(1-3,5)]
    by (simp add: process_record_def is_supported_def split: option.splits)
qed

section \<open>Witnesses\<close>

definition demo_reader :: "int reader" where
  "demo_reader = \<lparr>symbol_map = [7 \<mapsto> ''SPY.STK''], unsupported_events = Map.empty, visits = [],
     matchedRecords = 1, lines_read = 1, last_log_t = 5, first_log_t = 5, current_log_t = 5\<rparr>"

definition demo_order_of_time :: "(int, int) pt_order" where
  "demo_order_of_time = \<lparr>pto_less = (<), pto_exceeds = (\<lambda>t first d. t - first > d)\<rparr>"

definition demo_tick :: "(string \<times> string) list" where
  "demo_tick = [(''event'', ''tickSize''), (''field'', ''BID_SIZE''), (''tickerId'', show_nat 7),
     (''size'', show_nat 300), (''ts_utc'', show_u64 54000000000)]"

definition demo_depth :: "(string \<times> string) list" where
  "demo_depth = [(''event'', ''updateMktDepth''), (''id'', ''7'')]"

lemma demo_time_ok: "time_ok int_ptime demo_order_of_time True 0 54000000000"
proof -
  have "sint (54000000000 div 1000000 :: u64) = 54000" "uint (54000000000 mod 1000000 :: u64) = 0" by simp_all
  then show ?thesis
    by (simp add: time_ok_def checkEXT_def checkRTH_def as_ptime_def int_ptime_def demo_order_of_time_def
        RTH_START_EST_def RTH_END_EST_def EXT_START_def EXT_END_def micros_per_day_def)
qed

lemma demo_tick_plain: "\<forall>kv \<in> set demo_tick. plain_pair (CHR ''='') (CHR '','') kv"
  by (simp add: demo_tick_def plain_pair_def not_in_show_nat show_u64_def)


theorem log_depth_lines_dropped_witness:
  "process_line ref_boost int_ptime demo_order_of_time True 10 0 (print_line demo_depth) demo_reader =
     (Continue_Loop, demo_reader\<lparr>unsupported_events := [''updateMktDepth'' \<mapsto> 0]\<rparr>)"
  using log_depth_lines_dropped [OF ref_boost.boost_laws_axioms, of demo_depth "''updateMktDepth''"
      int_ptime demo_order_of_time True 10 0 demo_reader]
  by (simp add: demo_depth_def plain_pair_def demo_reader_def)


end
