(* ===== verification/Zmq.thy ===== *)
theory Zmq
  imports Proto_Types
begin

text \<open>
  Message frames: \<^verbatim>\<open>zmq/ZmqUtils.hpp\<close>, \<^verbatim>\<open>ZmqProtoBuffer.hpp\<close>, the relay loop of \<^verbatim>\<open>zmq/Publisher.cpp\<close>
  and \<^verbatim>\<open>ZmqEventSource::dispatch\<close> of \<^verbatim>\<open>service/LogReaderVisitor.hpp\<close>.

  A socket is library code. What a socket delivers is a list of frames, each with its flag that
  more parts follow, and of errors a receive throws; the list running out means that the receive
  waits. What is sent is the record \<open>out_socket\<close>: the frames accepted so far and the outcomes of the
  next send calls (\<open>Some e\<close>: throws errno \<open>e\<close>), success once the list has run out.
\<close>

section \<open>Sockets\<close>

datatype zin = ZFrame string bool | ZErr nat

record out_socket =
  zs_sent :: "(string \<times> bool) list"
  zs_faults :: "nat option list"

definition EINTR :: nat where "EINTR = 4"

definition socket_send :: "string \<Rightarrow> bool \<Rightarrow> out_socket \<Rightarrow> unit cpp \<times> out_socket" where
  "socket_send buff rcvmore s =
     (case zs_faults s of
        Some e # fs \<Rightarrow> (Inl (ZmqError e), s\<lparr>zs_faults := fs\<rparr>)
      | fs \<Rightarrow> (Inr (), s\<lparr>zs_sent := zs_sent s @ [(buff, rcvmore)], zs_faults := drop 1 fs\<rparr>))"

text \<open>Sequencing of calls that change a state and may throw: an exception keeps the state reached.\<close>

definition st_bind :: "('s \<Rightarrow> 'a cpp \<times> 's) \<Rightarrow> ('a \<Rightarrow> 's \<Rightarrow> 'b cpp \<times> 's) \<Rightarrow> 's \<Rightarrow> 'b cpp \<times> 's" where
  "st_bind m f s = (case m s of (Inl e, s') \<Rightarrow> (Inl e, s') | (Inr x, s') \<Rightarrow> f x s')"

definition st_return :: "'a \<Rightarrow> 's \<Rightarrow> 'a cpp \<times> 's" where
  "st_return x s = (Inr x, s)"

section \<open>ZmqUtils\<close>

definition inproc :: "string \<Rightarrow> string" where "inproc name = ''inproc://'' @ name"
definition ipc :: "string \<Rightarrow> string" where "ipc name = ''ipc://'' @ name"
definition tcp :: "i32 \<Rightarrow> string \<Rightarrow> string" where
  "tcp port host = ''tcp://'' @ host @ '':'' @ show_int (sint port)"

datatype recv_result = Blocked | Threw nat | Received string bool

text \<open>\<^verbatim>\<open>receive\<close> drops empty frames and reads on, whatever their flag.\<close>

fun zmq_receive :: "zin list \<Rightarrow> recv_result \<times> zin list" where
  "zmq_receive [] = (Blocked, [])"
| "zmq_receive (ZErr e # rest) = (Threw e, rest)"
| "zmq_receive (ZFrame b rcvmore # rest) =
     (if b \<noteq> [] then (Received b rcvmore, rest) else zmq_receive rest)"

definition send_copy :: "string \<Rightarrow> bool \<Rightarrow> out_socket \<Rightarrow> nat cpp \<times> out_socket" where
  "send_copy input sendMore = st_bind (socket_send input sendMore) (\<lambda>_. st_return (length input))"

text \<open>The zero-copy variant hands over the caller's buffer: the same frame goes out.\<close>

definition send_zero_copy :: "string \<Rightarrow> bool \<Rightarrow> out_socket \<Rightarrow> nat cpp \<times> out_socket" where
  "send_zero_copy input sendMore = st_bind (socket_send input sendMore) (\<lambda>_. st_return (length input))"

section \<open>ZmqProtoBuffer\<close>

text \<open>
  \<^verbatim>\<open>send\<close> stamps a copy of the message, sends the type name and the bytes as two parts, and stores
  the copy back only after both were accepted. An exception gives the count of what went out before.
\<close>

definition proto_send ::
  "('p, string) codec \<Rightarrow> string \<Rightarrow> (u64 \<Rightarrow> u64 \<Rightarrow> 'p \<Rightarrow> 'p) \<Rightarrow> u64 \<Rightarrow> u64 \<Rightarrow> 'p \<Rightarrow> out_socket \<Rightarrow>
     nat \<times> 'p \<times> out_socket" where
  "proto_send C type_name stamp timestamp messageId proto s =
     (let copy = stamp timestamp messageId proto;
          (ok, buff) = pb_serialize C copy
      in if \<not> ok then (0, proto, s)
         else case send_copy type_name True s of
                (Inl e, s1) \<Rightarrow> (0, proto, s1)
              | (Inr n1, s1) \<Rightarrow>
                  (case send_copy buff False s1 of
                     (Inl e, s2) \<Rightarrow> (n1, proto, s2)
                   | (Inr n2, s2) \<Rightarrow> (n1 + n2, copy, s2)))"

text \<open>
  \<open>None\<close>: the call waits. \<^verbatim>\<open>receive\<close> ignores what \<^verbatim>\<open>ParseFromString\<close> returns and asks whether the message
  it leaves behind, \<open>parsed frame\<close>, is initialised; only then it is stored.
\<close>

definition proto_receive ::
  "(string \<Rightarrow> 'p) \<Rightarrow> ('p \<Rightarrow> bool) \<Rightarrow> 'p \<Rightarrow> zin list \<Rightarrow> (bool \<times> 'p) cpp option \<times> zin list" where
  "proto_receive parsed initialized proto ins =
     (case zmq_receive ins of
        (Blocked, rest) \<Rightarrow> (None, rest)
      | (Threw e, rest) \<Rightarrow> (Some (Inl (ZmqError e)), rest)
      | (Received frame1 rcvmore, rest) \<Rightarrow>
          (Some (Inr (if rcvmore then (False, proto)
                      else if initialized (parsed frame1) then (True, parsed frame1) else (False, proto))), rest))"

section \<open>ZmqEventSource::dispatch\<close>

definition dispatch ::
  "('m, string) codec \<Rightarrow> string \<Rightarrow> 'm \<Rightarrow> out_socket \<Rightarrow> bool \<times> out_socket" where
  "dispatch C topic message s =
     (let (ok, buff) = pb_serialize C message
      in if \<not> ok then (False, s)
         else case send_copy topic True s of
                (Inl e, s1) \<Rightarrow> (False, s1)
              | (Inr n1, s1) \<Rightarrow>
                  (case send_copy buff False s1 of
                     (Inl e, s2) \<Rightarrow> (False, s2)
                   | (Inr n2, s2) \<Rightarrow> (n1 + n2 > 0, s2)))"

definition MarketDataDispatcher ::
  "(MarketData, string) codec \<Rightarrow> MarketData \<Rightarrow> out_socket \<Rightarrow> bool \<times> out_socket" where
  "MarketDataDispatcher C md = dispatch C (get_md_symbol md) md"

definition MarketDepthDispatcher ::
  "(MarketDepth, string) codec \<Rightarrow> string \<Rightarrow> MarketDepth \<Rightarrow> out_socket \<Rightarrow> bool \<times> out_socket" where
  "MarketDepthDispatcher C entity dp = dispatch C (entity @ '':'' @ get_dp_symbol dp) dp"

section \<open>Publisher\<close>

record publisher =
  publisher_out :: out_socket
  publisher_bytes_sent :: i64
  publisher_messages_sent :: i64
  publisher_sig_interrupts :: i32
  publisher_event_loop_stopped :: bool

datatype loop_end = Waiting | Stopped

text \<open>
  The relay loop. The two nested loops differ only in where they continue after a part; the number
  a send returns, which is added to the byte count, depends on the library and is an argument. An
  interrupt counts and the loop goes on, any other error ends it.
\<close>

definition publisher_error :: "bool \<Rightarrow> nat \<Rightarrow> publisher \<Rightarrow> bool \<times> publisher" where
  "publisher_error ignore e p =
     (if e = EINTR \<and> ignore then (False, p\<lparr>publisher_sig_interrupts := publisher_sig_interrupts p + 1\<rparr>)
      else (True, p\<lparr>publisher_event_loop_stopped := True\<rparr>))"

definition publisher_forward :: "(string \<Rightarrow> i64) \<Rightarrow> bool \<Rightarrow> string \<Rightarrow> bool \<Rightarrow> publisher \<Rightarrow> bool \<times> publisher" where
  "publisher_forward sent_value ignore b rcvmore p =
     (case socket_send b rcvmore (publisher_out p) of
        (Inl (ZmqError e), s) \<Rightarrow> publisher_error ignore e (p\<lparr>publisher_out := s\<rparr>)
      | (_, s) \<Rightarrow> (False, p\<lparr>publisher_out := s, publisher_bytes_sent := publisher_bytes_sent p + sent_value b,
                          publisher_messages_sent := publisher_messages_sent p + 1\<rparr>))"

fun publisher_process ::
  "(string \<Rightarrow> i64) \<Rightarrow> bool \<Rightarrow> zin list \<Rightarrow> publisher \<Rightarrow> loop_end \<times> publisher" where
  "publisher_process sent_value ignore [] p = (Waiting, p)"
| "publisher_process sent_value ignore (ZErr e # rest) p =
     (let (stop, p') = publisher_error ignore e p
      in if stop then (Stopped, p') else publisher_process sent_value ignore rest p')"
| "publisher_process sent_value ignore (ZFrame b rcvmore # rest) p =
     (let (stop, p') = publisher_forward sent_value ignore b rcvmore p
      in if stop then (Stopped, p') else publisher_process sent_value ignore rest p')"

section \<open>Lemmas\<close>

lemma zmq_receive_shorter:
  "zmq_receive ins = (r, rest) \<Longrightarrow> r \<noteq> Blocked \<Longrightarrow> length rest < length ins"
  by (induction ins rule: zmq_receive.induct) (auto split: if_splits intro: less_SucI)

lemma zmq_receive_blocked: "zmq_receive ins = (Blocked, rest) \<Longrightarrow> rest = []"
  by (induction ins rule: zmq_receive.induct) (auto split: if_splits)

lemma send_copy_ok [simp]:
  "zs_faults s = [] \<Longrightarrow> send_copy b rcvmore s = (Inr (length b), s\<lparr>zs_sent := zs_sent s @ [(b, rcvmore)]\<rparr>)"
  by (simp add: send_copy_def socket_send_def st_bind_def st_return_def)

lemma dispatch_ok:
  "pb_serialize C m = (True, b) \<Longrightarrow> zs_faults s = [] \<Longrightarrow>
     dispatch C topic m s = (length topic + length b > 0, s\<lparr>zs_sent := zs_sent s @ [(topic, True), (b, False)]\<rparr>)"
  by (simp add: dispatch_def)

text \<open>What a peer receives when nothing is lost: the frames in order.\<close>

definition delivered :: "(string \<times> bool) list \<Rightarrow> zin list" where
  "delivered = map (\<lambda>(b, rcvmore). ZFrame b rcvmore)"

definition frames_of :: "zin list \<Rightarrow> (string \<times> bool) list" where
  "frames_of ins = concat (map (\<lambda>i. case i of ZFrame b rcvmore \<Rightarrow> [(b, rcvmore)] | ZErr e \<Rightarrow> []) ins)"

lemma frames_of_simps [simp]:
  "frames_of [] = []" "frames_of (ZFrame b rcvmore # ins) = (b, rcvmore) # frames_of ins"
  "frames_of (ZErr e # ins) = frames_of ins" "frames_of (xs @ ys) = frames_of xs @ frames_of ys"
  by (simp_all add: frames_of_def)

lemma frames_of_delivered [simp]: "frames_of (delivered fs) = fs"
  by (induction fs) (auto simp: delivered_def)

text \<open>
  C30. The publisher relays. As long as its receives throw nothing but interrupts, which it is told
  to ignore, and its sends succeed, the publisher goes on and everything it received has been sent
  on: the same frames, in the same order, with the same flags, one counted per frame.
\<close>

theorem publisher_relays:
  assumes "\<forall>e. ZErr e \<in> set ins \<longrightarrow> e = EINTR" and "zs_faults (publisher_out p) = []"
  shows "\<exists>p'. publisher_process sent_value True ins p = (Waiting, p') \<and>
     zs_sent (publisher_out p') = zs_sent (publisher_out p) @ frames_of ins \<and>
     publisher_messages_sent p' = publisher_messages_sent p + of_nat (length (frames_of ins)) \<and>
     publisher_event_loop_stopped p' = publisher_event_loop_stopped p"
  using assms
proof (induction ins arbitrary: p)
  case (Cons i rest)
  show ?case
  proof (cases i)
    case (ZErr e)
    then have "publisher_error True e p = (False, p\<lparr>publisher_sig_interrupts := publisher_sig_interrupts p + 1\<rparr>)"
      using Cons.prems by (simp add: publisher_error_def)
    then show ?thesis
      using Cons.IH [of "p\<lparr>publisher_sig_interrupts := publisher_sig_interrupts p + 1\<rparr>"] Cons.prems ZErr by simp
  next
    case (ZFrame b rcvmore)
    let ?p = "p\<lparr>publisher_out := (publisher_out p)\<lparr>zs_sent := zs_sent (publisher_out p) @ [(b, rcvmore)]\<rparr>,
        publisher_bytes_sent := publisher_bytes_sent p + sent_value b,
        publisher_messages_sent := publisher_messages_sent p + 1\<rparr>"
    have "publisher_forward sent_value True b rcvmore p = (False, ?p)"
      using Cons.prems by (simp add: publisher_forward_def socket_send_def)
    then show ?thesis using Cons.IH [of ?p] Cons.prems ZFrame by (simp add: algebra_simps)
  qed
qed simp

theorem publisher_relays_witness:
  "\<exists>p'. publisher_process (\<lambda>_. 1) True [ZFrame ''T'' True, ZErr 4, ZFrame ''B'' False]
       \<lparr>publisher_out = \<lparr>zs_sent = [], zs_faults = []\<rparr>, publisher_bytes_sent = 0, publisher_messages_sent = 0,
        publisher_sig_interrupts = 0, publisher_event_loop_stopped = False\<rparr> = (Waiting, p') \<and>
     zs_sent (publisher_out p') = [(''T'', True), (''B'', False)]"
  using publisher_relays [of "[ZFrame ''T'' True, ZErr 4, ZFrame ''B'' False]"
      "\<lparr>publisher_out = \<lparr>zs_sent = [], zs_faults = []\<rparr>, publisher_bytes_sent = 0, publisher_messages_sent = 0,
        publisher_sig_interrupts = 0, publisher_event_loop_stopped = False\<rparr>" "\<lambda>_. 1"]
  by (simp add: EINTR_def) blast

end
