(* ===== verification/Handlers.thy ===== *)
theory Handlers
  imports Zmq
begin

text \<open>
  Dispatch of messages: \<^verbatim>\<open>common/factory.hpp\<close>, \<^verbatim>\<open>platform/generic_handler.hpp\<close>,
  \<^verbatim>\<open>platform/marketdata_handler.hpp\<close> with \<^verbatim>\<open>marketdata_handler_proto_impl.hpp\<close>, and the listening loop
  of \<^verbatim>\<open>platform/message_processor.cpp\<close>.

  A callback is a function on the state \<open>'h\<close> of whoever registered it, and may throw. The processor's
  mutex and condition variable only order its start before the loop; the loop runs in one thread.
\<close>

section \<open>Registries\<close>

text \<open>Both maps of named things insert with \<^verbatim>\<open>unordered_map::insert\<close>, which keeps an existing entry.\<close>

locale registry =
  fixes register :: "string \<Rightarrow> 'p \<Rightarrow> 'r \<Rightarrow> bool \<times> 'r"
    and unregister :: "string \<Rightarrow> 'r \<Rightarrow> bool \<times> 'r"
    and entry :: "'r \<Rightarrow> string \<Rightarrow> 'p option"
  assumes register_entry:
      "entry (snd (register k p r)) k' = (if k' = k \<and> entry r k = None then Some p else entry r k')"
    and register_result: "fst (register k p r) \<longleftrightarrow> entry r k = None"
    and unregister_entry: "entry (snd (unregister k r)) k' = (if k' = k then None else entry r k')"
    and unregister_result: "fst (unregister k r) \<longleftrightarrow> entry r k \<noteq> None"
begin

lemma register_twice: "entry (snd (register k q (snd (register k p r)))) = entry (snd (register k p r))"
  by (auto simp: register_entry)

lemma register_unregister: "entry r k = None \<Longrightarrow> entry (snd (unregister k (snd (register k p r)))) = entry r"
  by (auto simp: register_entry unregister_entry)

lemma replace_entry:
  "entry (snd (register k q (snd (unregister k r)))) = (entry r)(k \<mapsto> q)"
  by (auto simp: register_entry unregister_entry)

end

definition map_insert :: "string \<Rightarrow> 'p \<Rightarrow> (string \<rightharpoonup> 'p) \<Rightarrow> bool \<times> (string \<rightharpoonup> 'p)" where
  "map_insert k p m = (case m k of None \<Rightarrow> (True, m(k \<mapsto> p)) | Some _ \<Rightarrow> (False, m))"

definition map_erase :: "string \<Rightarrow> (string \<rightharpoonup> 'p) \<Rightarrow> bool \<times> (string \<rightharpoonup> 'p)" where
  "map_erase k m = (m k \<noteq> None, m(k := None))"

text \<open>\<^verbatim>\<open>factory\<close>: a creator may throw; an unknown id gives a null pointer.\<close>

record ('d, 'p) product_factory =
  creators :: "string \<rightharpoonup> (string \<Rightarrow> 'd \<Rightarrow> 'p cpp)"

definition register_creator ::
  "string \<Rightarrow> (string \<Rightarrow> 'd \<Rightarrow> 'p cpp) \<Rightarrow> ('d, 'p) product_factory \<Rightarrow> bool \<times> ('d, 'p) product_factory" where
  "register_creator i c f = (let (b, m) = map_insert i c (creators f) in (b, f\<lparr>creators := m\<rparr>))"

definition unregister_creator ::
  "string \<Rightarrow> ('d, 'p) product_factory \<Rightarrow> bool \<times> ('d, 'p) product_factory" where
  "unregister_creator i f = (let (b, m) = map_erase i (creators f) in (b, f\<lparr>creators := m\<rparr>))"

definition factory_is_supported :: "string \<Rightarrow> ('d, 'p) product_factory \<Rightarrow> bool" where
  "factory_is_supported i f = (creators f i \<noteq> None)"

definition create_object :: "string \<Rightarrow> 'd \<Rightarrow> ('d, 'p) product_factory \<Rightarrow> 'p option cpp" where
  "create_object i d f =
     (case creators f i of Some c \<Rightarrow> cpp_bind (c i d) (\<lambda>p. Inr (Some p)) | None \<Rightarrow> Inr None)"

interpretation fac: registry register_creator unregister_creator creators
  by unfold_locales
    (auto simp: register_creator_def unregister_creator_def map_insert_def map_erase_def split: option.splits)

text \<open>\<^verbatim>\<open>message_processor::handlers_map\<close>.\<close>

type_synonym 'h raw_handler = "string \<Rightarrow> string \<Rightarrow> 'h \<Rightarrow> bool cpp \<times> 'h"

record 'h handlers_map =
  handlers :: "string \<rightharpoonup> 'h raw_handler"

definition register_handler :: "string \<Rightarrow> 'h raw_handler \<Rightarrow> 'h handlers_map \<Rightarrow> bool \<times> 'h handlers_map" where
  "register_handler i c f = (let (b, m) = map_insert i c (handlers f) in (b, f\<lparr>handlers := m\<rparr>))"

definition unregister_handler :: "string \<Rightarrow> 'h handlers_map \<Rightarrow> bool \<times> 'h handlers_map" where
  "unregister_handler i f = (let (b, m) = map_erase i (handlers f) in (b, f\<lparr>handlers := m\<rparr>))"

definition handler_is_supported :: "string \<Rightarrow> 'h handlers_map \<Rightarrow> bool" where
  "handler_is_supported i f = (handlers f i \<noteq> None)"

interpretation hmap: registry register_handler unregister_handler handlers
  by unfold_locales
    (auto simp: register_handler_def unregister_handler_def map_insert_def map_erase_def split: option.splits)

definition process_raw_message :: "'h handlers_map \<Rightarrow> string \<Rightarrow> string \<Rightarrow> 'h \<Rightarrow> bool \<times> 'h" where
  "process_raw_message H i data h =
     (case handlers H i of
        None \<Rightarrow> (False, h)
      | Some f \<Rightarrow> (case f i data h of (Inr b, h') \<Rightarrow> (b, h') | (Inl e, h') \<Rightarrow> (False, h')))"

section \<open>generic\_handler\<close>

type_synonym ('e, 'h) event_handler = "u64 \<Rightarrow> 'e \<Rightarrow> 'h \<Rightarrow> i32 cpp \<times> 'h"

definition generic_handler_call ::
  "('e, string) codec \<Rightarrow> ('e \<Rightarrow> u64) \<Rightarrow> (string \<rightharpoonup> ('e, 'h) event_handler) \<Rightarrow> string \<Rightarrow> string \<Rightarrow> 'h \<Rightarrow> i32 cpp \<times> 'h" where
  "generic_handler_call C timestamp_of H key msg h =
     (case pb_parse C msg of
        Some event \<Rightarrow>
          (case H key of Some f \<Rightarrow> f (timestamp_of event) event h | None \<Rightarrow> (Inr (- 1), h))
      | None \<Rightarrow> (Inr (- 1), h))"

definition generic_handler_bind ::
  "string \<Rightarrow> ('e, 'h) event_handler \<Rightarrow> (string \<rightharpoonup> ('e, 'h) event_handler) \<Rightarrow> (string \<rightharpoonup> ('e, 'h) event_handler)" where
  "generic_handler_bind key f H = H(key \<mapsto> f)"

section \<open>marketdata\_handler\<close>

definition DISPATCHED :: i32 where "DISPATCHED = 1"
definition NO_UPDATER_CONTINUE :: i32 where "NO_UPDATER_CONTINUE = 2"
definition NO_VALUE_TYPE_MATCH :: i32 where "NO_VALUE_TYPE_MATCH = - 100"
definition EXCEPTION :: i32 where "EXCEPTION = - 200"

type_synonym ('v, 'h) update_event = "u64 \<Rightarrow> 'v \<Rightarrow> 'h \<Rightarrow> unit cpp \<times> 'h"

definition typed_bind ::
  "string \<Rightarrow> ('v, 'h) update_event \<Rightarrow> (string \<rightharpoonup> ('v, 'h) update_event) \<Rightarrow> (string \<rightharpoonup> ('v, 'h) update_event)" where
  "typed_bind event_code cb m = snd (map_insert event_code cb m)"

definition typed_dispatch ::
  "(string \<rightharpoonup> ('v, 'h) update_event) \<Rightarrow> string \<Rightarrow> u64 \<Rightarrow> 'v \<Rightarrow> 'h \<Rightarrow> i32 \<times> 'h" where
  "typed_dispatch m event ts v h =
     (case m event of
        None \<Rightarrow> (NO_UPDATER_CONTINUE, h)
      | Some cb \<Rightarrow> (case cb ts v h of (Inr _, h') \<Rightarrow> (DISPATCHED, h') | (Inl e, h') \<Rightarrow> (EXCEPTION, h')))"

record 'h value_updater =
  int_dispatcher :: "string \<rightharpoonup> (i32, 'h) update_event"
  double_dispatcher :: "string \<rightharpoonup> (double, 'h) update_event"
  string_dispatcher :: "string \<rightharpoonup> (string, 'h) update_event"
  timestamp_dispatcher :: "string \<rightharpoonup> (u64, 'h) update_event"

definition bind_int :: "string \<Rightarrow> (i32, 'h) update_event \<Rightarrow> 'h value_updater \<Rightarrow> 'h value_updater" where
  "bind_int event cb u = u\<lparr>int_dispatcher := typed_bind event cb (int_dispatcher u)\<rparr>"
definition bind_double :: "string \<Rightarrow> (double, 'h) update_event \<Rightarrow> 'h value_updater \<Rightarrow> 'h value_updater" where
  "bind_double event cb u = u\<lparr>double_dispatcher := typed_bind event cb (double_dispatcher u)\<rparr>"
definition bind_string :: "string \<Rightarrow> (string, 'h) update_event \<Rightarrow> 'h value_updater \<Rightarrow> 'h value_updater" where
  "bind_string event cb u = u\<lparr>string_dispatcher := typed_bind event cb (string_dispatcher u)\<rparr>"
definition bind_timestamp :: "string \<Rightarrow> (u64, 'h) update_event \<Rightarrow> 'h value_updater \<Rightarrow> 'h value_updater" where
  "bind_timestamp event cb u = u\<lparr>timestamp_dispatcher := typed_bind event cb (timestamp_dispatcher u)\<rparr>"

text \<open>The 64-bit integer of the message goes to an \<^verbatim>\<open>int\<close> parameter: its low 32 bits.\<close>

definition value_updater_call :: "'h value_updater \<Rightarrow> u64 \<Rightarrow> string \<Rightarrow> MarketData \<Rightarrow> 'h \<Rightarrow> i32 \<times> 'h" where
  "value_updater_call u ts event_code event h =
     (let v = get_md_value event
      in case get_value_type v of
           Value_Type_DOUBLE \<Rightarrow> typed_dispatch (double_dispatcher u) event_code ts (get_double_value v) h
         | Value_Type_INT \<Rightarrow> typed_dispatch (int_dispatcher u) event_code ts (ucast (get_int_value v)) h
         | Value_Type_STRING \<Rightarrow> typed_dispatch (string_dispatcher u) event_code ts (get_string_value v) h
         | Value_Type_TIMESTAMP \<Rightarrow>
             typed_dispatch (timestamp_dispatcher u) event_code ts (case_option 0 id (timestamp_value v)) h)"

definition process_event :: "(MarketData, string) codec \<Rightarrow> 'h value_updater \<Rightarrow> string \<Rightarrow> string \<Rightarrow> 'h \<Rightarrow> i32 \<times> 'h" where
  "process_event C u key msg h =
     (case pb_parse C msg of
        Some event \<Rightarrow> value_updater_call u (get_md_timestamp event) (get_md_event event) event h
      | None \<Rightarrow> (- 1, h))"

text \<open>The handler as the processor calls it: \<^verbatim>\<open>boost::function\<close> turns the number into a truth value.\<close>

definition marketdata_handler :: "(MarketData, string) codec \<Rightarrow> 'h value_updater \<Rightarrow> 'h raw_handler" where
  "marketdata_handler C u key msg h = (let (n, h') = process_event C u key msg h in (Inr (n \<noteq> 0), h'))"

section \<open>The listening loop\<close>

text \<open>Endpoints that cannot be connected are logged and skipped; every handler key is a subscription.\<close>

definition processor_connect :: "(string \<Rightarrow> nat option) \<Rightarrow> string list \<Rightarrow> string list" where
  "processor_connect connect_error endpoints = filter (\<lambda>e. connect_error e = None) endpoints"

definition processor_subscriptions :: "'h handlers_map \<Rightarrow> string set" where
  "processor_subscriptions H = dom (handlers H)"

function processor_loop :: "'h handlers_map \<Rightarrow> zin list \<Rightarrow> 'h \<Rightarrow> loop_end \<times> zin list \<times> 'h" where
  "processor_loop H ins h =
     (case zmq_receive ins of
        (Blocked, rest) \<Rightarrow> (Waiting, rest, h)
      | (Threw e, rest) \<Rightarrow> if e = EINTR then processor_loop H rest h else (Stopped, rest, h)
      | (Received topic rcvmore, rest) \<Rightarrow>
          if \<not> rcvmore then processor_loop H rest h
          else (case zmq_receive rest of
                  (Blocked, rest') \<Rightarrow> (Waiting, rest', h)
                | (Threw e, rest') \<Rightarrow> if e = EINTR then processor_loop H rest' h else (Stopped, rest', h)
                | (Received message rcvmore', rest') \<Rightarrow>
                    if rcvmore' then processor_loop H rest' h
                    else (case process_raw_message H topic message h of
                            (True, h') \<Rightarrow> processor_loop H rest' h'
                          | (False, h') \<Rightarrow> (Stopped, rest', h'))))"
  by pat_completeness auto
termination
  by (relation "measure (\<lambda>(H, ins, h). length ins)")
    (auto dest!: sym [of "(Threw _, _)"] sym [of "(Received _ _, _)"] zmq_receive_shorter)

declare processor_loop.simps [simp del]

end
