(* ===== verification/Event_Dispatch.thy ===== *)
theory Event_Dispatch
  imports Zmq Proto_Values Ticker_Map Historian_Db
begin

text \<open>
  From the broker's API to the message bus: \<^verbatim>\<open>ib/MarketEventDispatcher\<close>, \<^verbatim>\<open>ib/OrderEventDispatcher\<close>,
  \<^verbatim>\<open>ib/ContractEventDispatcher\<close>, the event wrappers of \<^verbatim>\<open>ib/api966\<close> that call them, and the names of the
  tick types (\<^verbatim>\<open>ib/tick_types.hpp\<close>, as compiled for version 9.66 of the API).

  The state is the outbound socket, absent until the channels are set, and the exported counters.
  The readings of the clock are arguments; the logging the wrappers do first is left out.
\<close>

section \<open>Tick types\<close>

text \<open>\<open>enum_string\<close> keeps what follows the last colon of the enumerator's name.\<close>

definition enum_string :: "string \<Rightarrow> string" where
  "enum_string name = rev (takeWhile (\<lambda>c. c \<noteq> CHR '':'') (rev name))"

definition TickTypeNames :: "string list" where
  "TickTypeNames = map (\<lambda>n. enum_string (''TickType::'' @ n))
     [''BID_SIZE'', ''BID'', ''ASK'', ''ASK_SIZE'', ''LAST'', ''LAST_SIZE'', ''HIGH'', ''LOW'', ''VOLUME'', ''CLOSE'',
      ''BID_OPTION_COMPUTATION'', ''ASK_OPTION_COMPUTATION'', ''LAST_OPTION_COMPUTATION'', ''MODEL_OPTION'',
      ''OPEN'', ''LOW_13_WEEK'', ''HIGH_13_WEEK'', ''LOW_26_WEEK'', ''HIGH_26_WEEK'', ''LOW_52_WEEK'',
      ''HIGH_52_WEEK'', ''AVG_VOLUME'', ''OPEN_INTEREST'', ''OPTION_HISTORICAL_VOL'', ''OPTION_IMPLIED_VOL'',
      ''OPTION_BID_EXCH'', ''OPTION_ASK_EXCH'', ''OPTION_CALL_OPEN_INTEREST'', ''OPTION_PUT_OPEN_INTEREST'',
      ''OPTION_CALL_VOLUME'', ''OPTION_PUT_VOLUME'', ''INDEX_FUTURE_PREMIUM'', ''BID_EXCH'', ''ASK_EXCH'',
      ''AUCTION_VOLUME'', ''AUCTION_PRICE'', ''AUCTION_IMBALANCE'', ''MARK_PRICE'', ''BID_EFP_COMPUTATION'',
      ''ASK_EFP_COMPUTATION'', ''LAST_EFP_COMPUTATION'', ''OPEN_EFP_COMPUTATION'', ''HIGH_EFP_COMPUTATION'',
      ''LOW_EFP_COMPUTATION'', ''CLOSE_EFP_COMPUTATION'', ''LAST_TIMESTAMP'', ''SHORTABLE'', ''FUNDAMENTAL_RATIOS'',
      ''RT_VOLUME'', ''HALTED'', ''BID_YIELD'', ''ASK_YIELD'', ''LAST_YIELD'', ''CUST_OPTION_COMPUTATION'',
      ''TRADE_COUNT'', ''TRADE_RATE'', ''VOLUME_RATE'', ''LAST_RTH_TRADE'', ''NOT_SET'']"

definition tick_name :: "nat \<Rightarrow> string cpp" where
  "tick_name t = (if t < length TickTypeNames then Inr (TickTypeNames ! t) else Inl MemoryFault)"

section \<open>Counters and sockets\<close>

record publish_varz =
  publish_total_bytes :: i64
  publish_count :: i64
  publish_last_ts :: i64
  publish_interval_micros :: i64
  publish_serialization_errors :: i64
  publish_unresolved_keys :: i64
  publish_micros :: i64
  publish_depth_total_bytes :: i64
  publish_depth_count :: i64
  publish_depth_unresolved_keys :: i64

record dispatch_state =
  ds_socket :: "out_socket option"
  ds_varz :: publish_varz

definition onPublish :: "u64 \<Rightarrow> nat \<Rightarrow> publish_varz \<Rightarrow> publish_varz" where
  "onPublish start sent v =
     v\<lparr>publish_count := publish_count v + 1, publish_total_bytes := publish_total_bytes v + of_nat sent,
       publish_interval_micros := start - publish_last_ts v, publish_last_ts := start\<rparr>"

definition onSerializeError :: "publish_varz \<Rightarrow> publish_varz" where
  "onSerializeError v = v\<lparr>publish_serialization_errors := publish_serialization_errors v + 1\<rparr>"

definition onUnresolvedTopic :: "publish_varz \<Rightarrow> publish_varz" where
  "onUnresolvedTopic v = v\<lparr>publish_unresolved_keys := publish_unresolved_keys v + 1\<rparr>"

definition onCompletedPublishRequest :: "u64 \<Rightarrow> u64 \<Rightarrow> publish_varz \<Rightarrow> publish_varz" where
  "onCompletedPublishRequest start finish v = v\<lparr>publish_micros := finish - start\<rparr>"

definition count_varz :: "(publish_varz \<Rightarrow> publish_varz) \<Rightarrow> dispatch_state \<Rightarrow> unit cpp \<times> dispatch_state" where
  "count_varz f st = (Inr (), st\<lparr>ds_varz := f (ds_varz st)\<rparr>)"

text \<open>The two parts of a message on the outbound socket; \<open>null_error\<close> is what a missing socket gives.\<close>

definition send_parts ::
  "cpp_error \<Rightarrow> string \<Rightarrow> string \<Rightarrow> dispatch_state \<Rightarrow> nat cpp \<times> dispatch_state" where
  "send_parts null_error topic buff st =
     (case ds_socket st of
        None \<Rightarrow> (Inl null_error, st)
      | Some s \<Rightarrow>
          (let (r, s') = st_bind (send_copy topic True) (\<lambda>n. st_bind (send_copy buff False) (\<lambda>m. st_return (n + m))) s
           in (r, st\<lparr>ds_socket := Some s'\<rparr>)))"

section \<open>MarketEventDispatcher\<close>

definition market_publish ::
  "(MarketData, string) codec \<Rightarrow> ticker_maps \<Rightarrow> (Value \<Rightarrow> Value) \<Rightarrow> i64 \<Rightarrow> nat \<Rightarrow> u64 \<Rightarrow> u64 \<Rightarrow> u64 \<Rightarrow>
     dispatch_state \<Rightarrow> unit cpp \<times> dispatch_state" where
  "market_publish C maps set_value tickerId tickType micros now finish st =
     (case tick_name tickType of
        Inl e \<Rightarrow> (Inl e, st)
      | Inr tick \<Rightarrow>
          st_bind
            (let (found, topic) = getSubscriptionKeyFromId tickerId maps
             in if found then
                  (let m = \<lparr>md_timestamp = Some micros, md_symbol = Some topic, md_event = Some tick,
                            md_value = Some (set_value Value_default), md_contract_id = Some tickerId\<rparr>;
                       (ok, proto) = pb_serialize C m
                   in if ok then st_bind (send_parts NullDereference topic proto) (\<lambda>sent. count_varz (onPublish now sent))
                      else count_varz onSerializeError)
                else count_varz onUnresolvedTopic)
            (\<lambda>_. count_varz (onCompletedPublishRequest now finish)) st)"

definition depth_message :: "i64 \<Rightarrow> string \<Rightarrow> i32 \<Rightarrow> i32 \<Rightarrow> i32 \<Rightarrow> double \<Rightarrow> i32 \<Rightarrow> u64 \<Rightarrow> string \<Rightarrow> MarketDepth" where
  "depth_message tickerId topic side level operation price sz micros mm =
     \<lparr>dp_timestamp = Some micros, dp_symbol = Some topic,
      dp_side = (if side = 0 then Some ASK else if side = 1 then Some BID else None),
      dp_price = Some price, dp_size = Some (scast sz),
      dp_operation = (if operation = 0 then Some INSERT else if operation = 1 then Some UPDATE
                      else if operation = 2 then Some DELETE else None),
      dp_level = Some level, dp_mm = Some mm, dp_contract_id = Some tickerId\<rparr>"

definition onPublishDepth :: "u64 \<Rightarrow> nat \<Rightarrow> publish_varz \<Rightarrow> publish_varz" where
  "onPublishDepth now sent v =
     v\<lparr>publish_depth_count := publish_depth_count v + 1,
       publish_depth_total_bytes := publish_depth_total_bytes v + of_nat sent,
       publish_interval_micros := now - publish_last_ts v, publish_last_ts := now\<rparr>"

definition market_publishDepth ::
  "(MarketDepth, string) codec \<Rightarrow> ticker_maps \<Rightarrow> i64 \<Rightarrow> i32 \<Rightarrow> i32 \<Rightarrow> i32 \<Rightarrow> double \<Rightarrow> i32 \<Rightarrow> u64 \<Rightarrow> string \<Rightarrow>
     u64 \<Rightarrow> u64 \<Rightarrow> dispatch_state \<Rightarrow> unit cpp \<times> dispatch_state" where
  "market_publishDepth C maps tickerId side level operation price sz micros mm now finish =
     st_bind
       (let (found, topic) = getSubscriptionKeyFromId tickerId maps
        in if found then
             (let (ok, proto) = pb_serialize C (depth_message tickerId topic side level operation price sz micros mm)
              in if ok then st_bind (send_parts NullDereference (ENTITY_IB_MARKET_DEPTH @ '':'' @ topic) proto)
                              (\<lambda>sent. count_varz (onPublishDepth now sent))
                 else count_varz onSerializeError)
           else count_varz (\<lambda>v. v\<lparr>publish_depth_unresolved_keys := publish_depth_unresolved_keys v + 1\<rparr>))
       (\<lambda>_. count_varz (onCompletedPublishRequest now finish))"

section \<open>The market event wrapper\<close>

datatype market_event =
    TickPrice i64 nat double
  | TickSize i64 nat i32
  | TickGeneric i64 nat double
  | TickString i64 nat string
  | UpdateMktDepth i64 i32 i32 i32 double i32          \<comment> \<open>id, position, operation, side, price, sz\<close>
  | UpdateMktDepthL2 i64 i32 string i32 i32 double i32
  | LoggedOnly                                          \<comment> \<open>option computations, bars, snapshot end\<close>

fun market_ewrapper ::
  "(MarketData, string) codec \<Rightarrow> (MarketDepth, string) codec \<Rightarrow> ticker_maps \<Rightarrow> u64 \<Rightarrow> u64 \<Rightarrow> u64 \<Rightarrow> market_event \<Rightarrow>
     dispatch_state \<Rightarrow> unit cpp \<times> dispatch_state" where
  "market_ewrapper C D maps micros now finish (TickPrice i f x) =
     market_publish C maps (set_as_double x) i f micros now finish"
| "market_ewrapper C D maps micros now finish (TickSize i f x) =
     market_publish C maps (set_as_int x) i f micros now finish"
| "market_ewrapper C D maps micros now finish (TickGeneric i f x) =
     market_publish C maps (set_as_double x) i f micros now finish"
| "market_ewrapper C D maps micros now finish (TickString i f x) =
     market_publish C maps (set_as_string x) i f micros now finish"
| "market_ewrapper C D maps micros now finish (UpdateMktDepth i position operation side price sz) =
     market_publishDepth D maps i side position operation price sz micros ''L1'' now finish"
| "market_ewrapper C D maps micros now finish (UpdateMktDepthL2 i position mm operation side price sz) =
     market_publishDepth D maps i side position operation price sz micros mm now finish"
| "market_ewrapper C D maps micros now finish LoggedOnly = st_return ()"

text \<open>
  \<^verbatim>\<open>EventDispatcherEWrapperBase::error\<close>: code 200 goes to the hook for a missing contract, code 326 ends
  the event loop with an exception that carries the text, everything else is only logged.
\<close>

definition error_text :: "i32 \<Rightarrow> i32 \<Rightarrow> string \<Rightarrow> string" where
  "error_text req_id errorCode errorString =
     ''IBAPI_ERROR['' @ show_int (sint errorCode) @ '']: '' @ errorString @ '' -- '' @
     (if errorCode = 200 then ''No security definition has been found for the request, id='' @ show_int (sint req_id)
      else if errorCode = 326 then ''Conflicting connection id. Disconnecting.''
      else if errorCode = 502 then ''Couldn't connect to TWS.  Confirm that '' @ [char_of (34::nat)] @
        ''Enable ActiveX and Socket Clients'' @ [char_of (34::nat)] @ '' is enabled on the TWS '' @ [char_of (34::nat)] @
        ''Configure->API'' @ [char_of (34::nat)] @ '' menu.''
      else if errorCode = 509 then ''Connection reset. Disconnecting.''
      else if errorCode = 1100 then ''No disconnect.''
      else if errorCode = 2103 then ''Market data farm connection is broken.''
      else if errorCode = 2104 then ''Market data farm connection is OK''
      else if errorCode = 2110 then ''Connectivity between TWS and server is broken. It will be restored automatically.''
      else ''Unhandled error.  Continue...'')"

definition ewrapper_error ::
  "(i32 \<Rightarrow> i32 \<Rightarrow> 's \<Rightarrow> unit cpp \<times> 's) \<Rightarrow> i32 \<Rightarrow> i32 \<Rightarrow> string \<Rightarrow> 's \<Rightarrow> unit cpp \<times> 's" where
  "ewrapper_error onNoContractDefinition req_id errorCode errorString =
     st_bind (if errorCode = 200 then onNoContractDefinition errorCode req_id else st_return ())
       (\<lambda>_ s. if errorCode = 326 then (Inl (RuntimeErr (error_text req_id errorCode errorString)), s) else (Inr (), s))"

section \<open>Orders and contracts\<close>

definition order_publish ::
  "('p, string) codec \<Rightarrow> string \<Rightarrow> 'p \<Rightarrow> u64 \<Rightarrow> u64 \<Rightarrow> dispatch_state \<Rightarrow> unit cpp \<times> dispatch_state" where
  "order_publish C type_name proto now finish =
     st_bind
       (let (ok, frame) = pb_serialize C proto
        in if ok then st_bind (send_parts FatalLog type_name frame) (\<lambda>sent. count_varz (onPublish now sent))
           else count_varz onSerializeError)
       (\<lambda>_. count_varz (onCompletedPublishRequest now finish))"

definition publishContractEvent ::
  "('p, string) codec \<Rightarrow> string \<Rightarrow> 'p \<Rightarrow> u64 \<Rightarrow> u64 \<Rightarrow> dispatch_state \<Rightarrow> unit cpp \<times> dispatch_state" where
  "publishContractEvent C type_name event now finish =
     st_bind
       (let (ok, buff) = pb_serialize C event
        in if ok then st_bind (send_parts NullDereference type_name buff) (\<lambda>sent. count_varz (onPublish now sent))
           else count_varz onSerializeError)
       (\<lambda>_. count_varz (onCompletedPublishRequest now finish))"

definition orderStatus_message ::
  "u64 \<Rightarrow> u64 \<Rightarrow> i64 \<Rightarrow> string \<Rightarrow> i32 \<Rightarrow> i32 \<Rightarrow> double \<Rightarrow> i32 \<Rightarrow> i32 \<Rightarrow> double \<Rightarrow> i32 \<Rightarrow> string \<Rightarrow> OrderStatus" where
  "orderStatus_message ts mid orderId status filled remaining avgFillPrice permId parentId lastFillPrice clientId whyHeld =
     \<lparr>os_timestamp = Some ts, os_message_id = Some mid, os_order_id = Some orderId, os_status = Some status,
      os_filled = Some filled, os_remaining = Some remaining,
      os_avg_fill_price = Some \<lparr>money_amount = Some avgFillPrice, money_currency = None\<rparr>,
      os_last_fill_price = Some \<lparr>money_amount = Some lastFillPrice, money_currency = None\<rparr>,
      os_client_id = Some clientId, os_perm_id = Some permId, os_parent_id = Some parentId,
      os_why_held = Some whyHeld\<rparr>"

definition orderStatus ::
  "(OrderStatus, string) codec \<Rightarrow> u64 \<Rightarrow> u64 \<Rightarrow> i64 \<Rightarrow> string \<Rightarrow> i32 \<Rightarrow> i32 \<Rightarrow> double \<Rightarrow> i32 \<Rightarrow> i32 \<Rightarrow> double \<Rightarrow> i32 \<Rightarrow>
     string \<Rightarrow> u64 \<Rightarrow> u64 \<Rightarrow> dispatch_state \<Rightarrow> unit cpp \<times> dispatch_state" where
  "orderStatus C ts mid orderId status filled remaining avgFillPrice permId parentId lastFillPrice clientId whyHeld now finish =
     order_publish C ''proto.ib.OrderStatus''
       (orderStatus_message ts mid orderId status filled remaining avgFillPrice permId parentId lastFillPrice clientId whyHeld)
       now finish"

record ContractDetailsResponse =
  cdr_timestamp :: "u64 option"
  cdr_message_id :: "u64 option"
  cdr_details :: "ContractDetails option"

record ContractDetailsEnd =
  cde_timestamp :: "u64 option"
  cde_message_id :: "u64 option"
  cde_request_id :: "u32 option"

definition contractDetails ::
  "boost_lib \<Rightarrow> (ContractDetailsResponse, string) codec \<Rightarrow> u64 \<Rightarrow> ib_details \<Rightarrow> u64 \<Rightarrow> u64 \<Rightarrow> dispatch_state \<Rightarrow>
     unit cpp \<times> dispatch_state" where
  "contractDetails B C ts d now finish st =
     (case details_to_proto B d of
        Inl e \<Rightarrow> (Inl e, st)
      | Inr details \<Rightarrow>
          publishContractEvent C ''proto.ib.ContractDetailsResponse''
            \<lparr>cdr_timestamp = Some ts, cdr_message_id = Some ts, cdr_details = Some details\<rparr> now finish st)"

definition contractDetailsEnd ::
  "(ContractDetailsEnd, string) codec \<Rightarrow> u64 \<Rightarrow> i32 \<Rightarrow> u64 \<Rightarrow> u64 \<Rightarrow> dispatch_state \<Rightarrow> unit cpp \<times> dispatch_state" where
  "contractDetailsEnd C ts reqId now finish =
     publishContractEvent C ''proto.ib.ContractDetailsEnd''
       \<lparr>cde_timestamp = Some ts, cde_message_id = Some ts, cde_request_id = Some reqId\<rparr> now finish"

definition contract_onNoContractDefinition ::
  "(ContractDetailsEnd, string) codec \<Rightarrow> u64 \<Rightarrow> u64 \<Rightarrow> u64 \<Rightarrow> i32 \<Rightarrow> i32 \<Rightarrow> dispatch_state \<Rightarrow> unit cpp \<times> dispatch_state" where
  "contract_onNoContractDefinition C ts now finish error_code req_id = contractDetailsEnd C ts req_id now finish"

end
