(* ===== verification/Wire.thy ===== *)
theory Wire
  imports Proto_Types Boost_Strings
begin

text \<open>
  An executable instance of \<open>proto_codec\<close> whose bytes are a string: messages as lists of numbers,
  numbers in decimal with a comma after each. It stands for the protocol buffer library where a
  theorem about transmitted bytes is applied to a concrete message. Encoders and decoders of parts
  compose through one law, the locale \<open>wire\<close>.
\<close>

section \<open>Encoders of parts\<close>

locale wire =
  fixes enc :: "'a \<Rightarrow> nat list" and dec :: "nat list \<Rightarrow> ('a \<times> nat list) option"
  assumes decode: "dec (enc x @ rest) = Some (x, rest)"
begin

lemma decode_end: "dec (enc x) = Some (x, [])"
  using decode [of x "[]"] by simp

end

fun dec_nat :: "nat list \<Rightarrow> (nat \<times> nat list) option" where
  "dec_nat [] = None"
| "dec_nat (n # ns) = Some (n, ns)"

definition enc_nat :: "nat \<Rightarrow> nat list" where "enc_nat n = [n]"

interpretation wire_nat: wire enc_nat dec_nat
  by unfold_locales (simp add: enc_nat_def)

definition enc_via :: "('a \<Rightarrow> 'b) \<Rightarrow> ('b \<Rightarrow> nat list) \<Rightarrow> 'a \<Rightarrow> nat list" where
  "enc_via f e x = e (f x)"

definition dec_via :: "('b \<Rightarrow> 'a) \<Rightarrow> (nat list \<Rightarrow> ('b \<times> nat list) option) \<Rightarrow> nat list \<Rightarrow> ('a \<times> nat list) option" where
  "dec_via g d ns = (case d ns of Some (x, r) \<Rightarrow> Some (g x, r) | None \<Rightarrow> None)"

lemma wire_via: "wire e d \<Longrightarrow> (\<And>x. g (f x) = x) \<Longrightarrow> wire (enc_via f e) (dec_via g d)"
  by (simp add: wire_def enc_via_def dec_via_def)

definition enc_pair :: "('a \<Rightarrow> nat list) \<Rightarrow> ('b \<Rightarrow> nat list) \<Rightarrow> 'a \<times> 'b \<Rightarrow> nat list" where
  "enc_pair e f p = e (fst p) @ f (snd p)"

definition dec_pair where
  "dec_pair d g ns = (case d ns of None \<Rightarrow> None | Some (x, r) \<Rightarrow>
     (case g r of None \<Rightarrow> None | Some (y, r') \<Rightarrow> Some ((x, y), r')))"

lemma wire_pair: "wire e d \<Longrightarrow> wire f g \<Longrightarrow> wire (enc_pair e f) (dec_pair d g)"
  by (simp add: wire_def enc_pair_def dec_pair_def)

fun enc_option :: "('a \<Rightarrow> nat list) \<Rightarrow> 'a option \<Rightarrow> nat list" where
  "enc_option e None = [0]"
| "enc_option e (Some x) = 1 # e x"

definition dec_option where
  "dec_option d ns = (case ns of [] \<Rightarrow> None
     | n # r \<Rightarrow> if n = 0 then Some (None, r) else (case d r of Some (x, r') \<Rightarrow> Some (Some x, r') | None \<Rightarrow> None))"

lemma wire_option: "wire e d \<Longrightarrow> wire (enc_option e) (dec_option d)"
  unfolding wire_def
proof (intro allI)
  fix x :: "'a option" and rest
  assume "\<forall>x rest. d (e x @ rest) = Some (x, rest)"
  then show "dec_option d (enc_option e x @ rest) = Some (x, rest)"
    by (cases x) (simp_all add: dec_option_def)
qed

fun dec_many :: "(nat list \<Rightarrow> ('a \<times> nat list) option) \<Rightarrow> nat \<Rightarrow> nat list \<Rightarrow> ('a list \<times> nat list) option" where
  "dec_many d 0 ns = Some ([], ns)"
| "dec_many d (Suc n) ns = (case d ns of None \<Rightarrow> None | Some (x, r) \<Rightarrow>
     (case dec_many d n r of None \<Rightarrow> None | Some (xs, r') \<Rightarrow> Some (x # xs, r')))"

definition enc_list :: "('a \<Rightarrow> nat list) \<Rightarrow> 'a list \<Rightarrow> nat list" where
  "enc_list e xs = length xs # concat (map e xs)"

definition dec_list where
  "dec_list d ns = (case ns of [] \<Rightarrow> None | n # r \<Rightarrow> dec_many d n r)"

lemma wire_list: "wire e d \<Longrightarrow> wire (enc_list e) (dec_list d)"
proof
  fix xs rest assume "wire e d"
  then have "dec_many d (length xs) (concat (map e xs) @ rest) = Some (xs, rest)"
    by (induction xs) (simp_all add: wire.decode)
  then show "dec_list d (enc_list e xs @ rest) = Some (xs, rest)"
    by (simp add: enc_list_def dec_list_def)
qed

lemmas wire_intros = wire_via wire_pair wire_option wire_list wire_nat.wire_axioms

section \<open>Basic types\<close>

definition enc_word :: "'w :: len word \<Rightarrow> nat list" where "enc_word = enc_via unat enc_nat"
definition dec_word :: "nat list \<Rightarrow> ('w :: len word \<times> nat list) option" where "dec_word = dec_via of_nat dec_nat"

lemma wire_word: "wire enc_word dec_word"
  unfolding enc_word_def dec_word_def by (intro wire_intros) simp

definition enc_string :: "string \<Rightarrow> nat list" where "enc_string = enc_list (enc_via of_char enc_nat)"
definition dec_string :: "nat list \<Rightarrow> (string \<times> nat list) option" where
  "dec_string = dec_list (dec_via char_of dec_nat)"

lemma wire_string: "wire enc_string dec_string"
  unfolding enc_string_def dec_string_def by (intro wire_intros) simp

definition enc_int :: "int \<Rightarrow> nat list" where
  "enc_int = enc_via (\<lambda>i. (if i < 0 then 1 else 0, nat \<bar>i\<bar>)) (enc_pair enc_nat enc_nat)"
definition dec_int :: "nat list \<Rightarrow> (int \<times> nat list) option" where
  "dec_int = dec_via (\<lambda>(s, n). if s = 1 then - int n else int n) (dec_pair dec_nat dec_nat)"

lemma wire_int: "wire enc_int dec_int"
  unfolding enc_int_def dec_int_def by (intro wire_intros) auto

definition enc_double :: "double \<Rightarrow> nat list" where
  "enc_double = enc_via quotient_of (enc_pair enc_int enc_int)"
definition dec_double :: "nat list \<Rightarrow> (double \<times> nat list) option" where
  "dec_double = dec_via (\<lambda>(a, b). Fract a b) (dec_pair dec_int dec_int)"

lemma wire_double: "wire enc_double dec_double"
  unfolding enc_double_def dec_double_def
proof (intro wire_via wire_pair wire_int)
  show "(case quotient_of x of (a, b) \<Rightarrow> Fract a b) = x" for x
    by (cases "quotient_of x") (simp add: Fract_of_int_quotient flip: quotient_of_div)
qed

lemmas wire_basic = wire_word wire_string wire_int wire_double wire_intros

section \<open>Messages as bytes\<close>

definition to_bytes :: "nat list \<Rightarrow> string" where
  "to_bytes ns = concat (map (\<lambda>n. show_nat n @ '','') ns)"

definition from_bytes :: "string \<Rightarrow> nat list" where
  "from_bytes s = map nat_of_digits (butlast (split_any '','' s))"

lemma split_to_bytes: "split_any '','' (to_bytes ns) = map show_nat ns @ [[]]"
proof (induction ns)
  case (Cons n ns)
  have "split_any '','' (show_nat n @ CHR '','' # to_bytes ns) = show_nat n # split_any '','' (to_bytes ns)"
    by (intro split_any_sep) (use not_in_show_nat in auto)
  with Cons show ?case by (simp add: to_bytes_def)
qed (simp add: to_bytes_def)

lemma from_to_bytes [simp]: "from_bytes (to_bytes ns) = ns"
  by (simp add: from_bytes_def split_to_bytes comp_def)

definition wire_codec ::
  "('m \<Rightarrow> bool) \<Rightarrow> ('m \<Rightarrow> nat list) \<Rightarrow> (nat list \<Rightarrow> ('m \<times> nat list) option) \<Rightarrow> ('m, string) codec" where
  "wire_codec init e d = \<lparr>pb_serialize = (\<lambda>m. (init m, to_bytes (e m))),
     pb_parse = (\<lambda>b. case d (from_bytes b) of Some (m, []) \<Rightarrow> if b \<noteq> [] \<and> init m then Some m else None | _ \<Rightarrow> None)\<rparr>"

lemma wire_codec_empty [simp]: "pb_parse (wire_codec init e d) [] = None"
  by (auto simp: wire_codec_def split: option.splits list.splits)

lemma wire_codec_laws:
  assumes "wire e d" and "\<And>m. e m \<noteq> []"
  shows "proto_codec init (wire_codec init e d)"
proof
  fix m assume "init m"
  then show "fst (pb_serialize (wire_codec init e d) m)" by (simp add: wire_codec_def)
  have "to_bytes (e m) \<noteq> []" using assms(2) [of m] by (cases "e m") (simp_all add: to_bytes_def)
  with \<open>init m\<close> show "pb_parse (wire_codec init e d) (snd (pb_serialize (wire_codec init e d) m)) = Some m"
    using wire.decode_end [OF assms(1)] by (simp add: wire_codec_def)
next
  fix b m assume "pb_parse (wire_codec init e d) b = Some m"
  then show "init m" by (auto simp: wire_codec_def split: option.splits list.splits if_splits prod.splits)
qed

section \<open>Market data\<close>

definition enc_Value_Type :: "Value_Type \<Rightarrow> nat" where
  "enc_Value_Type t = (case t of Value_Type_DOUBLE \<Rightarrow> 0 | Value_Type_INT \<Rightarrow> 1 | Value_Type_STRING \<Rightarrow> 2 | Value_Type_TIMESTAMP \<Rightarrow> 3)"

definition dec_Value_Type :: "nat \<Rightarrow> Value_Type" where
  "dec_Value_Type n = (if n = 0 then Value_Type_DOUBLE else if n = 1 then Value_Type_INT
     else if n = 2 then Value_Type_STRING else Value_Type_TIMESTAMP)"

definition enc_Value :: "Value \<Rightarrow> nat list" where
  "enc_Value = enc_via (\<lambda>v. (val_type v, string_value v, double_value v, int_value v, timestamp_value v))
     (enc_pair (enc_option (enc_via enc_Value_Type enc_nat)) (enc_pair (enc_option enc_string)
       (enc_pair (enc_option enc_double) (enc_pair (enc_option enc_word) (enc_option enc_word)))))"

definition dec_Value :: "nat list \<Rightarrow> (Value \<times> nat list) option" where
  "dec_Value = dec_via (\<lambda>(t, s, x, i, ts). \<lparr>val_type = t, string_value = s, double_value = x, int_value = i,
       timestamp_value = ts\<rparr>)
     (dec_pair (dec_option (dec_via dec_Value_Type dec_nat)) (dec_pair (dec_option dec_string)
       (dec_pair (dec_option dec_double) (dec_pair (dec_option dec_word) (dec_option dec_word)))))"

interpretation wire_Value: wire enc_Value dec_Value
  unfolding enc_Value_def dec_Value_def
  by (intro wire_basic) (auto simp: enc_Value_Type_def dec_Value_Type_def split: Value_Type.splits)

definition enc_MarketData :: "MarketData \<Rightarrow> nat list" where
  "enc_MarketData = enc_via (\<lambda>m. (md_timestamp m, md_symbol m, md_event m, md_value m, md_contract_id m))
     (enc_pair (enc_option enc_word) (enc_pair (enc_option enc_string) (enc_pair (enc_option enc_string)
       (enc_pair (enc_option enc_Value) (enc_option enc_word)))))"

definition dec_MarketData :: "nat list \<Rightarrow> (MarketData \<times> nat list) option" where
  "dec_MarketData = dec_via (\<lambda>(t, s, e, v, c). \<lparr>md_timestamp = t, md_symbol = s, md_event = e, md_value = v,
       md_contract_id = c\<rparr>)
     (dec_pair (dec_option dec_word) (dec_pair (dec_option dec_string) (dec_pair (dec_option dec_string)
       (dec_pair (dec_option dec_Value) (dec_option dec_word)))))"

interpretation wire_MarketData: wire enc_MarketData dec_MarketData
  unfolding enc_MarketData_def dec_MarketData_def
  by (intro wire_basic wire_Value.wire_axioms) simp

definition md_codec :: "(MarketData, string) codec" where
  "md_codec = wire_codec marketdata_initialized enc_MarketData dec_MarketData"

interpretation md_codec: proto_codec marketdata_initialized md_codec
  unfolding md_codec_def
proof (rule wire_codec_laws [OF wire_MarketData.wire_axioms])
  show "enc_MarketData m \<noteq> []" for m
    by (cases "md_timestamp m") (simp_all add: enc_MarketData_def enc_via_def enc_pair_def)
qed

section \<open>Historian records\<close>

text \<open>Enumerations go over the wire as their number.\<close>

definition enc_enum :: "'a list \<Rightarrow> 'a \<Rightarrow> nat list" where
  "enc_enum xs x = [length (takeWhile (\<lambda>y. y \<noteq> x) xs)]"

definition dec_enum :: "'a list \<Rightarrow> nat list \<Rightarrow> ('a \<times> nat list) option" where
  "dec_enum xs ns = (case ns of n # r \<Rightarrow> if n < length xs then Some (xs ! n, r) else None | [] \<Rightarrow> None)"

lemma wire_enum:
  assumes "\<And>x. x \<in> set xs"
  shows "wire (enc_enum xs) (dec_enum xs)"
proof
  fix x rest
  have "dropWhile (\<lambda>y. y \<noteq> x) xs \<noteq> []" using assms [of x] by (auto simp: dropWhile_eq_Nil_conv)
  then have "length (takeWhile (\<lambda>y. y \<noteq> x) xs) < length xs" "xs ! length (takeWhile (\<lambda>y. y \<noteq> x) xs) = x"
    using assms [of x] nth_length_takeWhile [of "\<lambda>y. y \<noteq> x" xs]
    by (metis dropWhile_eq_drop drop_all leI, metis dropWhile_eq_drop drop_all leI)
  then show "dec_enum xs (enc_enum xs x @ rest) = Some (x, rest)"
    by (simp add: enc_enum_def dec_enum_def)
qed

definition "all_Side = [ASK, BID]"
definition "all_Operation = [INSERT, UPDATE, DELETE]"
definition "all_RecordType = [INDEXED_VALUE, SESSION_LOG, IB_MARKET_DATA, IB_MARKET_DEPTH]"

lemma wire_enums:
  "wire (enc_enum all_Side) (dec_enum all_Side)"
  "wire (enc_enum all_Operation) (dec_enum all_Operation)"
  "wire (enc_enum all_RecordType) (dec_enum all_RecordType)"
proof -
  show "wire (enc_enum all_Side) (dec_enum all_Side)"
    by (rule wire_enum) (metis (full_types) Side.exhaust all_Side_def list.set_intros)
  show "wire (enc_enum all_Operation) (dec_enum all_Operation)"
    by (rule wire_enum) (metis (full_types) Operation.exhaust all_Operation_def list.set_intros)
  show "wire (enc_enum all_RecordType) (dec_enum all_RecordType)"
    by (rule wire_enum) (metis (full_types) RecordType.exhaust all_RecordType_def list.set_intros)
qed

definition enc_MarketDepth :: "MarketDepth \<Rightarrow> nat list" where
  "enc_MarketDepth = enc_via
     (\<lambda>m. (dp_timestamp m, dp_symbol m, dp_side m, dp_price m, dp_size m, dp_operation m, dp_level m, dp_mm m, dp_contract_id m))
     (enc_pair (enc_option enc_word) (enc_pair (enc_option enc_string) (enc_pair (enc_option (enc_enum all_Side))
       (enc_pair (enc_option enc_double) (enc_pair (enc_option enc_word) (enc_pair (enc_option (enc_enum all_Operation))
         (enc_pair (enc_option enc_word) (enc_pair (enc_option enc_string) (enc_option enc_word)))))))))"

definition dec_MarketDepth :: "nat list \<Rightarrow> (MarketDepth \<times> nat list) option" where
  "dec_MarketDepth = dec_via
     (\<lambda>(t, s, sd, p, sz, opn, l, mm, c). \<lparr>dp_timestamp = t, dp_symbol = s, dp_side = sd, dp_price = p, dp_size = sz,
        dp_operation = opn, dp_level = l, dp_mm = mm, dp_contract_id = c\<rparr>)
     (dec_pair (dec_option dec_word) (dec_pair (dec_option dec_string) (dec_pair (dec_option (dec_enum all_Side))
       (dec_pair (dec_option dec_double) (dec_pair (dec_option dec_word) (dec_pair (dec_option (dec_enum all_Operation))
         (dec_pair (dec_option dec_word) (dec_pair (dec_option dec_string) (dec_option dec_word)))))))))"

interpretation wire_MarketDepth: wire enc_MarketDepth dec_MarketDepth
  unfolding enc_MarketDepth_def dec_MarketDepth_def
  by (intro wire_basic wire_enums) simp

definition enc_SessionLog :: "SessionLog \<Rightarrow> nat list" where
  "enc_SessionLog = enc_via (\<lambda>l. (sl_symbol l, sl_start_timestamp l, sl_stop_timestamp l, sl_source l))
     (enc_pair (enc_option enc_string) (enc_pair (enc_option enc_word) (enc_pair (enc_option enc_word) (enc_option enc_string))))"

definition dec_SessionLog :: "nat list \<Rightarrow> (SessionLog \<times> nat list) option" where
  "dec_SessionLog = dec_via (\<lambda>(s, a, b, c). \<lparr>sl_symbol = s, sl_start_timestamp = a, sl_stop_timestamp = b, sl_source = c\<rparr>)
     (dec_pair (dec_option dec_string) (dec_pair (dec_option dec_word) (dec_pair (dec_option dec_word) (dec_option dec_string))))"

interpretation wire_SessionLog: wire enc_SessionLog dec_SessionLog
  unfolding enc_SessionLog_def dec_SessionLog_def by (intro wire_basic) simp

definition enc_IndexedValue :: "IndexedValue \<Rightarrow> nat list" where
  "enc_IndexedValue = enc_via (\<lambda>v. (iv_timestamp v, iv_value v)) (enc_pair (enc_option enc_word) (enc_option enc_Value))"

definition dec_IndexedValue :: "nat list \<Rightarrow> (IndexedValue \<times> nat list) option" where
  "dec_IndexedValue = dec_via (\<lambda>(t, v). \<lparr>iv_timestamp = t, iv_value = v\<rparr>) (dec_pair (dec_option dec_word) (dec_option dec_Value))"

interpretation wire_IndexedValue: wire enc_IndexedValue dec_IndexedValue
  unfolding enc_IndexedValue_def dec_IndexedValue_def by (intro wire_basic wire_Value.wire_axioms) simp

definition enc_Record :: "Record \<Rightarrow> nat list" where
  "enc_Record = enc_via (\<lambda>r. (rec_type r, rec_key r, indexed_value r, session_log r, ib_marketdata r, ib_marketdepth r))
     (enc_pair (enc_option (enc_enum all_RecordType)) (enc_pair (enc_option enc_string)
       (enc_pair (enc_option enc_IndexedValue) (enc_pair (enc_option enc_SessionLog)
         (enc_pair (enc_option enc_MarketData) (enc_option enc_MarketDepth))))))"

definition dec_Record :: "nat list \<Rightarrow> (Record \<times> nat list) option" where
  "dec_Record = dec_via (\<lambda>(t, k, i, l, d, p). \<lparr>rec_type = t, rec_key = k, indexed_value = i, session_log = l,
       ib_marketdata = d, ib_marketdepth = p\<rparr>)
     (dec_pair (dec_option (dec_enum all_RecordType)) (dec_pair (dec_option dec_string)
       (dec_pair (dec_option dec_IndexedValue) (dec_pair (dec_option dec_SessionLog)
         (dec_pair (dec_option dec_MarketData) (dec_option dec_MarketDepth))))))"

interpretation wire_Record: wire enc_Record dec_Record
  unfolding enc_Record_def dec_Record_def
  by (intro wire_basic wire_enums wire_IndexedValue.wire_axioms wire_SessionLog.wire_axioms
      wire_MarketData.wire_axioms wire_MarketDepth.wire_axioms) simp

definition rec_codec :: "(Record, string) codec" where
  "rec_codec = wire_codec record_initialized enc_Record dec_Record"

interpretation rec_codec: proto_codec record_initialized rec_codec
  unfolding rec_codec_def
proof (rule wire_codec_laws [OF wire_Record.wire_axioms])
  show "enc_Record m \<noteq> []" for m
    by (cases "rec_type m") (simp_all add: enc_Record_def enc_via_def enc_pair_def)
qed

lemma rec_codec_empty: "pb_parse rec_codec [] = None"
  by (simp add: rec_codec_def)

text \<open>A text without a comma is no message.\<close>

lemma rec_codec_200: "pb_parse rec_codec ''200'' = None"
  by (simp add: rec_codec_def wire_codec_def from_bytes_def dec_Record_def dec_via_def dec_pair_def dec_option_def)

end
