(* ===== verification/Market_Feed.thy ===== *)
theory Market_Feed
  imports Handlers Event_Dispatch Wire
begin

text \<open>
  Messages end to end: the processor's loop over frames refines a loop over messages, market data
  handlers never stop it, and a tick the broker reports reaches the callback bound to its event.
\<close>

section \<open>The loop over messages\<close>

definition two_part :: "(string \<times> string) list \<Rightarrow> zin list" where
  "two_part ms = concat (map (\<lambda>(topic, body). [ZFrame topic True, ZFrame body False]) ms)"

lemma two_part_simps [simp]:
  "two_part [] = []" "two_part ((t, b) # ms) = ZFrame t True # ZFrame b False # two_part ms"
  by (simp_all add: two_part_def)

definition no_empty_part :: "(string \<times> string) list \<Rightarrow> bool" where
  "no_empty_part ms \<longleftrightarrow> (\<forall>(t, b) \<in> set ms. t \<noteq> [] \<and> b \<noteq> [])"

fun run_messages :: "'h handlers_map \<Rightarrow> (string \<times> string) list \<Rightarrow> 'h \<Rightarrow> loop_end \<times> (string \<times> string) list \<times> 'h" where
  "run_messages H [] h = (Waiting, [], h)"
| "run_messages H ((topic, body) # ms) h =
     (case process_raw_message H topic body h of
        (True, h') \<Rightarrow> run_messages H ms h'
      | (False, h') \<Rightarrow> (Stopped, ms, h'))"

lemma processor_loop_empty [simp]: "processor_loop H [] h = (Waiting, [], h)"
  by (simp add: processor_loop.simps [of H "[]"])

lemma processor_loop_message:
  "t \<noteq> [] \<Longrightarrow> b \<noteq> [] \<Longrightarrow>
     processor_loop H (ZFrame t True # ZFrame b False # ins) h =
       (case process_raw_message H t b h of
          (True, h') \<Rightarrow> processor_loop H ins h' | (False, h') \<Rightarrow> (Stopped, ins, h'))"
  by (subst processor_loop.simps) simp

lemma processor_loop_run_messages:
  assumes "no_empty_part ms"
  shows "processor_loop H (two_part ms) h =
     (let (e, rest, h') = run_messages H ms h in (e, two_part rest, h'))"
  using assms
proof (induction ms arbitrary: h)
  case (Cons m ms)
  obtain t b where m: "m = (t, b)" by fastforce
  with Cons.prems have "t \<noteq> []" "b \<noteq> []" "no_empty_part ms" by (auto simp: no_empty_part_def)
  with Cons.IH m show ?case
    by (simp add: processor_loop_message split: prod.splits bool.splits)
qed simp

text \<open>
  C15. The processor handles whole messages. On a stream of two-part messages without empty parts
  the loop over frames does what the loop over messages does: every message goes to the handler of
  its topic, in order, and the loop goes on exactly as long as the handlers return true.
\<close>

theorem processor_refines_messages:
  assumes "no_empty_part ms"
  shows "processor_loop H (two_part ms) h =
     (let (e, rest, h') = run_messages H ms h in (e, two_part rest, h'))"
  using assms by (rule processor_loop_run_messages)

section \<open>Market data handlers\<close>

lemma typed_dispatch_nonzero: "fst (typed_dispatch m e ts v h) \<noteq> 0"
  by (simp add: typed_dispatch_def DISPATCHED_def NO_UPDATER_CONTINUE_def EXCEPTION_def split: option.splits sum.splits prod.splits)

lemma process_event_nonzero: "fst (process_event C u key msg h) \<noteq> 0"
  by (simp add: process_event_def value_updater_call_def Let_def typed_dispatch_nonzero
      split: option.splits Value_Type.splits)

lemma marketdata_handler_true: "marketdata_handler C u key msg h = (Inr True, snd (process_event C u key msg h))"
  using process_event_nonzero [of C u key msg h] by (auto simp: marketdata_handler_def split: prod.splits)

lemma processor_loop_marketdata:
  assumes "no_empty_part ms" and "\<forall>(t, b) \<in> set ms. handlers H t = Some (marketdata_handler C (U t))"
  shows "processor_loop H (two_part ms) h =
     (Waiting, [], fold (\<lambda>(t, b) h. snd (process_event C (U t) t b h)) ms h)"
proof -
  have "run_messages H ms h = (Waiting, [], fold (\<lambda>(t, b) h. snd (process_event C (U t) t b h)) ms h)"
    using assms(2)
  proof (induction ms arbitrary: h)
    case (Cons m ms)
    then show ?case by (cases m) (simp add: process_raw_message_def marketdata_handler_true)
  qed simp
  then show ?thesis using processor_loop_run_messages [OF assms(1), of H h] by simp
qed

text \<open>
  C28. Market data never stops the processor. When every topic of the stream has a market data
  handler, the loop is still waiting for messages after the stream, and every message was given to
  its handler in order: not even bytes that do not parse or a callback that throws ends the loop.
\<close>

theorem marketdata_processor_keeps_running:
  assumes "no_empty_part ms" and "\<forall>(t, b) \<in> set ms. handlers H t = Some (marketdata_handler C (U t))"
  shows "processor_loop H (two_part ms) h =
     (Waiting, [], fold (\<lambda>(t, b) h. snd (process_event C (U t) t b h)) ms h)"
  using assms by (rule processor_loop_marketdata)

text \<open>What the library documents of a subscription: it matches every topic it is a prefix of.\<close>

definition subscription_matches :: "string set \<Rightarrow> string \<Rightarrow> bool" where
  "subscription_matches subs topic \<longleftrightarrow> (\<exists>s \<in> subs. take (length s) topic = s)"

text \<open>
  A topic that only extends a subscription stops the processor. A subscription of the socket
  matches every topic it is a prefix of, the handlers are looked up by the whole topic: a message
  whose topic is a registered key with something appended, and is not itself a key, ends the
  listening loop, and no later message is handled.
\<close>

theorem prefix_topic_stops_processor:
  assumes "handlers H key \<noteq> None" and "handlers H (key @ suffix) = None" and "key @ suffix \<noteq> []" and "body \<noteq> []"
    and "no_empty_part ms"
  shows "subscription_matches (processor_subscriptions H) (key @ suffix) \<and>
     processor_loop H (two_part ((key @ suffix, body) # ms)) h = (Stopped, two_part ms, h)"
proof
  show "subscription_matches (processor_subscriptions H) (key @ suffix)"
    using assms(1) unfolding subscription_matches_def processor_subscriptions_def
    by (intro bexI [of _ key]) auto
  show "processor_loop H (two_part ((key @ suffix, body) # ms)) h = (Stopped, two_part ms, h)"
    using assms(2-5) processor_loop_run_messages [of "(key @ suffix, body) # ms" H h]
    by (simp add: no_empty_part_def process_raw_message_def)
qed

section \<open>From the broker to the callback\<close>

lemma send_parts_ok:
  "ds_socket st = Some s \<Longrightarrow> zs_faults s = [] \<Longrightarrow>
     send_parts e t b st = (Inr (length t + length b), st\<lparr>ds_socket := Some (s\<lparr>zs_sent := zs_sent s @ [(t, True), (b, False)]\<rparr>)\<rparr>)"
  by (simp add: send_parts_def st_bind_def st_return_def)

lemma market_publish_ok:
  assumes "tick_name f = Inr tick" "ticker_symbol maps i = Some topic" "ds_socket st = Some s" "zs_faults s = []"
    and "m = \<lparr>md_timestamp = Some micros, md_symbol = Some topic, md_event = Some tick,
              md_value = Some (set_value Value_default), md_contract_id = Some i\<rparr>"
    and "pb_serialize C m = (True, b)"
  shows "\<exists>v. market_publish C maps set_value i f micros now finish st =
     (Inr (), \<lparr>ds_socket = Some (s\<lparr>zs_sent := zs_sent s @ [(topic, True), (b, False)]\<rparr>), ds_varz = v\<rparr>)"
  using assms
  by (cases st)
    (simp add: market_publish_def getSubscriptionKeyFromId_def send_parts_ok st_bind_def count_varz_def)

text \<open>
  C3. A price tick reaches the callback. When the broker reports a price for a registered ticker id,
  the socket accepts the frames, and a processor listening to the socket has, under the symbol of
  that id, a market data handler with a callback bound to the tick's name, then the callback is
  called once, with the time of the event and the price, and the processor goes on listening.
  The codec is assumed to follow the protocol buffer laws, empty bytes not being a message.
\<close>

theorem tick_reaches_callback:
  assumes "proto_codec marketdata_initialized C" and "pb_parse C [] = None"
    and "ticker_symbol maps i = Some topic" and "topic \<noteq> []" and "tick_name f = Inr tick"
    and "ds_socket st = Some s" and "zs_faults s = []"
    and "handlers H topic = Some (marketdata_handler C u)" and "double_dispatcher u tick = Some cb"
    and "market_ewrapper C D maps micros now finish (TickPrice i f price) st = (r, st')"
  shows "\<exists>s'. r = Inr () \<and> ds_socket st' = Some s' \<and>
     processor_loop H (delivered (drop (length (zs_sent s)) (zs_sent s'))) h = (Waiting, [], snd (cb micros price h))"
proof -
  define m where "m = \<lparr>md_timestamp = Some micros, md_symbol = Some topic, md_event = Some tick,
      md_value = Some (set_as_double price Value_default), md_contract_id = Some i\<rparr>"
  have init: "marketdata_initialized m"
    by (simp add: m_def marketdata_initialized_def value_initialized_def set_as_double_def set_field_double_def)
  obtain b where b: "pb_serialize C m = (True, b)"
    using proto_codec.serialize_ok [OF assms(1) init] by (cases "pb_serialize C m") auto
  have parse: "pb_parse C b = Some m" using proto_codec.parse_serialize [OF assms(1) init] b by simp
  then have "b \<noteq> []" using assms(2) by auto
  have call: "process_event C u topic b h = (let (x, h') = cb micros price h in
      (case x of Inr _ \<Rightarrow> DISPATCHED | Inl e \<Rightarrow> EXCEPTION, h'))"
    using assms(9)
    by (simp add: process_event_def parse value_updater_call_def typed_dispatch_def m_def get_md_timestamp_def
        get_md_event_def get_md_value_def get_value_type_def get_double_value_def set_as_double_def
        set_field_double_def split: sum.splits prod.splits)
  have st': "r = Inr ()" "ds_socket st' = Some (s\<lparr>zs_sent := zs_sent s @ [(topic, True), (b, False)]\<rparr>)"
    using market_publish_ok [where set_value = "set_as_double price", OF assms(5,3,6,7) m_def b, of now finish] assms(10) by auto
  have "processor_loop H (two_part [(topic, b)]) h = (Waiting, [], snd (process_event C u topic b h))"
    using processor_loop_marketdata [of "[(topic, b)]" H C "\<lambda>_. u" h] assms(4,8) \<open>b \<noteq> []\<close>
    by (simp add: no_empty_part_def)
  then show ?thesis using st' call by (simp add: delivered_def split: prod.splits)
qed

section \<open>Witnesses\<close>

definition demo_updater :: "(u64 \<times> double) list value_updater" where
  "demo_updater = bind_double ''BID'' (\<lambda>ts v h. (Inr (), h @ [(ts, v)]))
     \<lparr>int_dispatcher = Map.empty, double_dispatcher = Map.empty, string_dispatcher = Map.empty,
      timestamp_dispatcher = Map.empty\<rparr>"

definition demo_handlers :: "(u64 \<times> double) list handlers_map" where
  "demo_handlers = snd (register_handler ''SPY'' (marketdata_handler md_codec demo_updater) \<lparr>handlers = Map.empty\<rparr>)"

lemma demo_handlers_at: "handlers demo_handlers = [''SPY'' \<mapsto> marketdata_handler md_codec demo_updater]"
  by (simp add: demo_handlers_def register_handler_def map_insert_def)

theorem processor_refines_messages_witness:
  "processor_loop demo_handlers (two_part [(''SPY'', ''x''), (''OTHER'', ''y''), (''SPY'', ''z'')]) [] =
     (Stopped, two_part [(''SPY'', ''z'')], [])"
  using processor_refines_messages [of "[(''SPY'', ''x''), (''OTHER'', ''y''), (''SPY'', ''z'')]" demo_handlers "[]"]
  by (simp add: no_empty_part_def process_raw_message_def demo_handlers_at marketdata_handler_true process_event_def
      md_codec_def wire_codec_def from_bytes_def dec_MarketData_def dec_via_def dec_pair_def dec_option_def
      del: two_part_simps)

theorem marketdata_processor_keeps_running_witness:
  "fst (processor_loop demo_handlers (two_part [(''SPY'', ''not a message''), (''SPY'', ''z'')]) []) = Waiting"
  using marketdata_processor_keeps_running [of "[(''SPY'', ''not a message''), (''SPY'', ''z'')]" demo_handlers md_codec
      "\<lambda>_. demo_updater" "[]"]
  by (simp add: no_empty_part_def demo_handlers_at del: two_part_simps)

theorem prefix_topic_stops_processor_witness:
  "processor_loop demo_handlers (two_part ((''SPY'' @ ''.OPT'', ''x'') # [(''SPY'', ''z'')])) [] =
     (Stopped, two_part [(''SPY'', ''z'')], [])"
  using prefix_topic_stops_processor [of demo_handlers "''SPY''" "''.OPT''" "''x''" "[(''SPY'', ''z'')]" "[]"]
  by (simp add: no_empty_part_def demo_handlers_at del: two_part_simps)

definition demo_ticker_maps :: ticker_maps where
  "demo_ticker_maps = \<lparr>ticker_symbol = [7 \<mapsto> ''SPY''], symbol_ticker = [''SPY'' \<mapsto> 7], ticker_contract = Map.empty\<rparr>"

definition demo_dispatch :: dispatch_state where
  "demo_dispatch = \<lparr>ds_socket = Some \<lparr>zs_sent = [], zs_faults = []\<rparr>,
     ds_varz = \<lparr>publish_total_bytes = 0, publish_count = 0, publish_last_ts = 0, publish_interval_micros = 0,
       publish_serialization_errors = 0, publish_unresolved_keys = 0, publish_micros = 0,
       publish_depth_total_bytes = 0, publish_depth_count = 0, publish_depth_unresolved_keys = 0\<rparr>\<rparr>"

definition no_depth_codec :: "(MarketDepth, string) codec" where
  "no_depth_codec = \<lparr>pb_serialize = (\<lambda>_. (False, [])), pb_parse = (\<lambda>_. None)\<rparr>"

theorem tick_reaches_callback_witness:
  "\<exists>st' s'. market_ewrapper md_codec no_depth_codec demo_ticker_maps 1000 5 6 (TickPrice 7 1 (141 / 10)) demo_dispatch
       = (Inr (), st') \<and> ds_socket st' = Some s' \<and>
     processor_loop demo_handlers (delivered (zs_sent s')) [] = (Waiting, [], [(1000, 141 / 10)])"
proof -
  obtain r st' where run: "market_ewrapper md_codec no_depth_codec demo_ticker_maps 1000 5 6 (TickPrice 7 1 (141 / 10)) demo_dispatch
      = (r, st')"
    by (rule prod.exhaust)
  have "tick_name 1 = Inr ''BID''" by (simp add: tick_name_def TickTypeNames_def enum_string_def)
  then have "\<exists>s'. r = Inr () \<and> ds_socket st' = Some s' \<and>
      processor_loop demo_handlers (delivered (drop (length []) (zs_sent s'))) [] = (Waiting, [], [(1000, 141 / 10)])"
    using tick_reaches_callback [OF md_codec.proto_codec_axioms _ _ _ _ _ _ _ _ run, of "''SPY''" "''BID''"
        "\<lparr>zs_sent = [], zs_faults = []\<rparr>" demo_handlers demo_updater "\<lambda>ts v h. (Inr (), h @ [(ts, v)])" "[]"]
    by (simp add: md_codec_def demo_ticker_maps_def demo_dispatch_def demo_handlers_at demo_updater_def
        bind_double_def typed_bind_def map_insert_def)
  with run show ?thesis by auto
qed

end
