(* ===== verification/Historian_Reactor.thy ===== *)
theory Historian_Reactor
  imports Historian_Db Zmq Boost_Strings
begin

text \<open>
  The historian as a service: \<^verbatim>\<open>historian/DbReactorStrategy.cpp\<close> (the server's strategy, run by the loop
  of \<^verbatim>\<open>zmq/Reactor.cpp\<close>) and \<^verbatim>\<open>historian/DbReactorClient.cpp\<close>. A query goes to the server in one frame;
  the server replies with a response id and then pushes the records of the answer to the client's
  callback socket, each after the response id, and at the end the text \<open>200\<close>.

  The reply socket and the callback sockets are \<open>out_socket\<close>s, what the server and the client
  receive are lists of frames. Connecting to a callback endpoint is the argument \<open>connect\<close>, which
  gives the new socket or nothing when it throws.
\<close>

section \<open>Messages\<close>

datatype Query_Type = QUERY_BY_RANGE | QUERY_BY_SYMBOL

record Query =
  qy_type :: "Query_Type option"
  qy_callback :: "string option"
  qy_by_range :: "QueryByRange option"
  qy_by_symbol :: "QueryBySymbol option"

abbreviation Query_default :: Query where
  "Query_default \<equiv> \<lparr>qy_type = None, qy_callback = None, qy_by_range = None, qy_by_symbol = None\<rparr>"

definition range_initialized :: "QueryByRange \<Rightarrow> bool" where
  "range_initialized q \<longleftrightarrow> qr_type q \<noteq> None \<and> qr_first q \<noteq> None \<and> qr_last q \<noteq> None"

definition symbol_initialized :: "QueryBySymbol \<Rightarrow> bool" where
  "symbol_initialized q \<longleftrightarrow> qs_type q \<noteq> None \<and> qs_symbol q \<noteq> None"

definition query_initialized :: "Query \<Rightarrow> bool" where
  "query_initialized q \<longleftrightarrow> qy_type q \<noteq> None \<and> qy_callback q \<noteq> None \<and>
     (case qy_by_range q of None \<Rightarrow> True | Some r \<Rightarrow> range_initialized r) \<and>
     (case qy_by_symbol q of None \<Rightarrow> True | Some s \<Rightarrow> symbol_initialized s)"

text \<open>A call that waits for a message, throws or returns.\<close>

datatype 'a io = Blocks | Throws cpp_error | Returns 'a

section \<open>The server\<close>

definition DbVisitor :: "string record_codec \<Rightarrow> u64 \<Rightarrow> out_socket visitor" where
  "DbVisitor C responseId s r =
     (let (ok, recordProto) = pb_serialize C r
      in if \<not> ok then (s, False)
         else case st_bind (send_copy (show_u64 responseId) True)
                     (\<lambda>n. st_bind (send_copy recordProto False) (\<lambda>m. st_return (n + m))) s of
                (Inr sent, s') \<Rightarrow> (s', 0 < sent)
              | (Inl e, s') \<Rightarrow> (s', False))"

definition replyDataReady :: "u64 \<Rightarrow> out_socket \<Rightarrow> bool \<times> out_socket" where
  "replyDataReady responseId s =
     (case st_bind (send_copy ''200'' True) (\<lambda>_. send_copy (show_u64 responseId) False) s of
        (Inr _, s') \<Rightarrow> (True, s') | (Inl e, s') \<Rightarrow> (False, s'))"

text \<open>
  The streamer runs the query with a visitor that sends, and then sends the end marker, whose
  exception leaves the streamer. A missing sub-message reads as the default one.
\<close>

definition stream_query ::
  "('d, string) leveldb \<Rightarrow> string record_codec \<Rightarrow> u64 \<Rightarrow> 'd db \<Rightarrow> Query \<Rightarrow> out_socket \<Rightarrow> nat \<times> out_socket" where
  "stream_query L C responseId db q s =
     (case case_option QUERY_BY_RANGE id (qy_type q) of
        QUERY_BY_RANGE \<Rightarrow>
          Db_Query_range L C
            (case_option \<lparr>qr_type = None, qr_first = None, qr_last = None, qr_index = None\<rparr> id (qy_by_range q))
            (DbVisitor C responseId) s db
      | QUERY_BY_SYMBOL \<Rightarrow>
          Db_Query_symbol L C
            (case_option \<lparr>qs_type = None, qs_symbol = None, qs_utc_first_micros = None, qs_utc_last_micros = None,
                qs_index = None\<rparr> id (qy_by_symbol q))
            (DbVisitor C responseId) s db)"

definition CallbackStreamer ::
  "('d, string) leveldb \<Rightarrow> string record_codec \<Rightarrow> (string \<Rightarrow> out_socket option) \<Rightarrow> u64 \<Rightarrow> 'd db \<Rightarrow> Query \<Rightarrow>
     nat cpp \<times> out_socket option" where
  "CallbackStreamer L C connect responseId db q =
     (case connect (case_option [] id (qy_callback q)) of
        None \<Rightarrow> (Inr 0, None)
      | Some s \<Rightarrow>
          (let (count, s1) = stream_query L C responseId db q s;
               (r, s2) = st_bind (send_copy (show_u64 responseId) True)
                           (\<lambda>_. st_bind (send_copy ''200'' False) (\<lambda>_. st_return count)) s1
           in (r, Some s2)))"

text \<open>\<open>receive_all\<close>: the first frame is the query; further parts of the message are read and dropped.\<close>

function drain_parts :: "zin list \<Rightarrow> unit io \<times> zin list" where
  "drain_parts ins =
     (case zmq_receive ins of
        (Blocked, rest) \<Rightarrow> (Blocks, rest)
      | (Threw e, rest) \<Rightarrow> (Throws (ZmqError e), rest)
      | (Received b rcvmore, rest) \<Rightarrow> if rcvmore then drain_parts rest else (Returns (), rest))"
  by pat_completeness auto
termination
  by (relation "measure length") (auto dest!: sym [of "(Received _ _, _)"] zmq_receive_shorter)

declare drain_parts.simps [simp del]

definition receive_query :: "zin list \<Rightarrow> string io \<times> zin list" where
  "receive_query ins =
     (case zmq_receive ins of
        (Blocked, rest) \<Rightarrow> (Blocks, rest)
      | (Threw e, rest) \<Rightarrow> (Throws (ZmqError e), rest)
      | (Received frame1 rcvmore, rest) \<Rightarrow>
          if \<not> rcvmore then (Returns frame1, rest)
          else (case drain_parts rest of
                  (Blocks, rest') \<Rightarrow> (Blocks, rest')
                | (Throws e, rest') \<Rightarrow> (Throws e, rest')
                | (Returns _, rest') \<Rightarrow> (Returns frame1, rest')))"

text \<open>
  \<^verbatim>\<open>respond\<close>: the result says whether the reactor's loop goes on. The sockets opened to callbacks are
  collected in the state, the newest last.
\<close>

record server =
  reply_socket :: out_socket
  callbacks :: "out_socket list"

definition respond ::
  "('d, string) leveldb \<Rightarrow> string record_codec \<Rightarrow> (Query, string) codec \<Rightarrow> (string \<Rightarrow> out_socket option) \<Rightarrow>
     'd db \<Rightarrow> u64 \<Rightarrow> zin list \<Rightarrow> server \<Rightarrow> bool io \<times> zin list \<times> server" where
  "respond L C CQ connect db now ins sv =
     (case receive_query ins of
        (Blocks, rest) \<Rightarrow> (Blocks, rest, sv)
      | (Throws e, rest) \<Rightarrow> (Returns True, rest, sv)
      | (Returns frame1, rest) \<Rightarrow>
          (case pb_parse CQ frame1 of
             None \<Rightarrow> (Returns False, rest, sv)
           | Some q \<Rightarrow>
               (let responseId = now mod 1000000;
                    (ready, s) = replyDataReady responseId (reply_socket sv);
                    sv1 = sv\<lparr>reply_socket := s\<rparr>
                in if ready
                   then (let (_, cb) = CallbackStreamer L C connect responseId db q
                         in (Returns True, rest, sv1\<lparr>callbacks := callbacks sv1 @ (case cb of Some c \<Rightarrow> [c] | None \<Rightarrow> [])\<rparr>))
                   else (Returns True, rest, sv1))))"

text \<open>The reactor's loop, with the clock readings of the queries; without a next reading it stands still.\<close>

fun reactor_loop ::
  "('d, string) leveldb \<Rightarrow> string record_codec \<Rightarrow> (Query, string) codec \<Rightarrow> (string \<Rightarrow> out_socket option) \<Rightarrow>
     'd db \<Rightarrow> u64 list \<Rightarrow> zin list \<Rightarrow> server \<Rightarrow> loop_end \<times> zin list \<times> server" where
  "reactor_loop L C CQ connect db [] ins sv = (Waiting, ins, sv)"
| "reactor_loop L C CQ connect db (now # clock) ins sv =
     (case respond L C CQ connect db now ins sv of
        (Returns True, rest, sv') \<Rightarrow> reactor_loop L C CQ connect db clock rest sv'
      | (Blocks, rest, sv') \<Rightarrow> (Waiting, rest, sv')
      | (_, rest, sv') \<Rightarrow> (Stopped, rest, sv'))"

section \<open>The client\<close>

definition set_range :: "QueryByRange \<Rightarrow> Query \<Rightarrow> Query" where
  "set_range q e = e\<lparr>qy_type := Some QUERY_BY_RANGE, qy_by_range := Some q\<rparr>"

definition set_symbol :: "QueryBySymbol \<Rightarrow> Query \<Rightarrow> Query" where
  "set_symbol q e = e\<lparr>qy_type := Some QUERY_BY_SYMBOL, qy_by_symbol := Some q\<rparr>"

definition client_send ::
  "(Query, string) codec \<Rightarrow> (Query \<Rightarrow> Query) \<Rightarrow> string \<Rightarrow> out_socket \<Rightarrow> nat \<times> out_socket" where
  "client_send CQ set_query callback s =
     (let envelope = set_query (Query_default\<lparr>qy_callback := Some callback\<rparr>);
          (ok, envelopeProto) = pb_serialize CQ envelope
      in if \<not> query_initialized envelope \<or> \<not> ok then (0, s)
         else case send_copy envelopeProto False s of
                (Inr sent, s') \<Rightarrow> (sent, s') | (Inl e, s') \<Rightarrow> (0, s'))"

text \<open>A message of one or two parts; the second part stays empty when there is none.\<close>

definition receive_two :: "zin list \<Rightarrow> (string \<times> string) io \<times> zin list" where
  "receive_two ins =
     (case zmq_receive ins of
        (Blocked, rest) \<Rightarrow> (Blocks, rest)
      | (Threw e, rest) \<Rightarrow> (Throws (ZmqError e), rest)
      | (Received frame1 rcvmore, rest) \<Rightarrow>
          if \<not> rcvmore then (Returns (frame1, []), rest)
          else (case zmq_receive rest of
                  (Blocked, rest') \<Rightarrow> (Blocks, rest')
                | (Threw e, rest') \<Rightarrow> (Throws (ZmqError e), rest')
                | (Received frame2 rcvmore', rest') \<Rightarrow> (Returns (frame1, frame2), rest')))"

definition processQueryResponse :: "boost_lib \<Rightarrow> zin list \<Rightarrow> (u64 \<times> string) io \<times> zin list" where
  "processQueryResponse B ins =
     (case receive_two ins of
        (Blocks, rest) \<Rightarrow> (Blocks, rest)
      | (Throws e, rest) \<Rightarrow> (Returns (0, []), rest)
      | (Returns (frame1, frame2), rest) \<Rightarrow>
          (case cpp_bind (lexical_cast (bl_int B) frame1) (\<lambda>status.
                  cpp_bind (lexical_cast (bl_u64 B) frame2) (\<lambda>responseId.
                    Inr (if status = 200 then (responseId, []) else (0, frame2)))) of
             Inl e \<Rightarrow> (Throws e, rest)
           | Inr r \<Rightarrow> (Returns r, rest)))"

text \<open>
  \<^verbatim>\<open>processCallback\<close>: the visitor's result decides only whether the record is counted, the loop goes on.
  The state of the visitor is kept also when the call throws or waits.
\<close>

definition callback_end :: "boost_lib \<Rightarrow> string \<Rightarrow> nat \<Rightarrow> nat io" where
  "callback_end B frame2 count =
     (case lexical_cast (bl_int B) frame2 of Inl e \<Rightarrow> Throws e | Inr n \<Rightarrow> Returns count)"

function processCallback ::
  "boost_lib \<Rightarrow> string record_codec \<Rightarrow> u64 \<Rightarrow> 'v visitor \<Rightarrow> zin list \<Rightarrow> nat \<Rightarrow> 'v \<Rightarrow> nat io \<times> zin list \<times> 'v" where
  "processCallback B C responseId visit ins count v =
     (case receive_two ins of
        (Blocks, rest) \<Rightarrow> (Blocks, rest, v)
      | (Throws e, rest) \<Rightarrow> (Returns count, rest, v)
      | (Returns (frame1, frame2), rest) \<Rightarrow>
          (case lexical_cast (bl_u64 B) frame1 of
             Inl e \<Rightarrow> (Throws e, rest, v)
           | Inr receivedId \<Rightarrow>
               if responseId \<noteq> receivedId then (Returns 0, rest, v)
               else (case pb_parse C frame2 of
                       Some r \<Rightarrow>
                         (let (v', counted) = visit v r
                          in processCallback B C responseId visit rest (if counted then count + 1 else count) v')
                     | None \<Rightarrow> (callback_end B frame2 count, rest, v))))"
  by pat_completeness auto

lemma receive_two_shorter: "receive_two ins = (Returns p, rest) \<Longrightarrow> length rest < length ins"
  by (auto simp: receive_two_def split: recv_result.splits prod.splits if_splits dest!: zmq_receive_shorter)

termination processCallback
  by (relation "measure (\<lambda>(B, C, i, visit, ins, count, v). length ins)")
    (auto dest!: sym [of "(Returns _, _)"] receive_two_shorter)

declare processCallback.simps [simp del]

text \<open>\<^verbatim>\<open>DbReactorClient::Query\<close>, with what the two sockets of the client deliver.\<close>

definition DbReactorClient_Query ::
  "boost_lib \<Rightarrow> string record_codec \<Rightarrow> (Query, string) codec \<Rightarrow> (Query \<Rightarrow> Query) \<Rightarrow> string \<Rightarrow> out_socket \<Rightarrow>
     zin list \<Rightarrow> zin list \<Rightarrow> 'v visitor \<Rightarrow> 'v \<Rightarrow> nat io \<times> 'v" where
  "DbReactorClient_Query B C CQ set_query callback s replies callback_ins visit v =
     (if 0 < fst (client_send CQ set_query callback s) then
        (case processQueryResponse B replies of
           (Blocks, _) \<Rightarrow> (Blocks, v)
         | (Throws e, _) \<Rightarrow> (Throws e, v)
         | (Returns (responseId, message), _) \<Rightarrow>
             if 0 < responseId
             then (let (r, _, v') = processCallback B C responseId visit callback_ins 0 v in (r, v'))
             else (Returns 0, v))
      else (Returns 0, v))"

definition client_connect :: "(string \<Rightarrow> bool) \<Rightarrow> (string \<Rightarrow> bool) \<Rightarrow> string \<Rightarrow> string \<Rightarrow> bool" where
  "client_connect bind_ok connect_ok callbackEndpoint endpoint = (bind_ok callbackEndpoint \<and> connect_ok endpoint)"

end
