(* ===== verification/Reactor_Laws.thy ===== *)
theory Reactor_Laws
  imports Historian_Reactor Historian_Laws Wire
begin

text \<open>
  The historian's service is faithful: what a client's visitor sees of a remote query is what a
  local query over the same database gives, unless the response id happens to be zero.
\<close>

section \<open>Streaming an answer\<close>

definition record_parts :: "string record_codec \<Rightarrow> u64 \<Rightarrow> Record \<Rightarrow> (string \<times> bool) list" where
  "record_parts C rid r = [(show_u64 rid, True), (snd (pb_serialize C r), False)]"

definition streamed :: "string record_codec \<Rightarrow> u64 \<Rightarrow> Record list \<Rightarrow> (string \<times> bool) list" where
  "streamed C rid rs = concat (map (record_parts C rid) rs)"

lemma streamed_simps [simp]:
  "streamed C rid [] = []" "streamed C rid (r # rs) = record_parts C rid r @ streamed C rid rs"
  by (simp_all add: streamed_def)

lemma show_u64_nonempty [simp]: "show_u64 w \<noteq> []"
  by (simp add: show_u64_def)

lemma DbVisitor_sends:
  assumes "proto_codec record_initialized C" "record_initialized r" "zs_faults s = []"
  shows "DbVisitor C rid s r = (s\<lparr>zs_sent := zs_sent s @ record_parts C rid r\<rparr>, True)"
proof -
  have "fst (pb_serialize C r)" using assms(1,2) by (rule proto_codec.serialize_ok)
  then show ?thesis
    using assms(3) by (cases "pb_serialize C r")
      (simp add: DbVisitor_def record_parts_def st_bind_def st_return_def)
qed

lemma query_loop_streams:
  assumes "proto_codec record_initialized C"
  shows "\<exists>k rs. (\<forall>r \<in> set rs. record_initialized r) \<and>
     (\<forall>rs0. query_loop C stop collect it n rs0 = (k, rs0 @ rs)) \<and>
     (\<forall>s. zs_faults s = [] \<longrightarrow>
        query_loop C stop (DbVisitor C rid) it n s = (k, s\<lparr>zs_sent := zs_sent s @ streamed C rid rs\<rparr>))"
proof (induction it arbitrary: n)
  case Nil
  show ?case by (rule exI [of _ n], rule exI [of _ "[]"]) simp
next
  case (Cons e it)
  obtain key v where e: "e = (key, v)" by fastforce
  show ?case
  proof (cases "key < stop")
    case False
    then show ?thesis by (intro exI [of _ n] exI [of _ "[]"]) (simp add: e)
  next
    case True
    from Cons [of "n + 1"] obtain k rs where IH: "\<forall>r \<in> set rs. record_initialized r"
      "\<And>rs0. query_loop C stop collect it (n + 1) rs0 = (k, rs0 @ rs)"
      "\<And>s. zs_faults s = [] \<Longrightarrow>
         query_loop C stop (DbVisitor C rid) it (n + 1) s = (k, s\<lparr>zs_sent := zs_sent s @ streamed C rid rs\<rparr>)"
      by blast
    show ?thesis
    proof (cases "pb_parse C v")
      case None
      with True IH show ?thesis by (intro exI [of _ k] exI [of _ rs]) (simp add: e)
    next
      case (Some r)
      let ?r = "r\<lparr>rec_key := Some key\<rparr>"
      have init: "record_initialized ?r"
        using proto_codec.parse_initialized [OF assms Some] by (simp add: record_initialized_def)
      have "collect rs0 ?r = (rs0 @ [?r], True)" for rs0 by (simp add: collect_def)
      with True Some IH init show ?thesis
        by (intro exI [of _ k] exI [of _ "?r # rs"]) (simp add: e DbVisitor_sends [OF assms init])
    qed
  qed
qed

text \<open>The same query answered locally.\<close>

definition local_query ::
  "('d, string) leveldb \<Rightarrow> string record_codec \<Rightarrow> 'v visitor \<Rightarrow> Query \<Rightarrow> 'v \<Rightarrow> 'd db \<Rightarrow> nat \<times> 'v" where
  "local_query L C visit q v db =
     (case case_option QUERY_BY_RANGE id (qy_type q) of
        QUERY_BY_RANGE \<Rightarrow>
          Db_Query_range L C
            (case_option \<lparr>qr_type = None, qr_first = None, qr_last = None, qr_index = None\<rparr> id (qy_by_range q)) visit v db
      | QUERY_BY_SYMBOL \<Rightarrow>
          Db_Query_symbol L C
            (case_option \<lparr>qs_type = None, qs_symbol = None, qs_utc_first_micros = None, qs_utc_last_micros = None,
                qs_index = None\<rparr> id (qy_by_symbol q)) visit v db)"

definition query_span :: "('d, 'b) leveldb \<Rightarrow> Query \<Rightarrow> 'd db \<Rightarrow> (string \<times> (string \<times> 'b) list) option" where
  "query_span L q db =
     (case levelDb db of None \<Rightarrow> None | Some d \<Rightarrow>
        (case case_option QUERY_BY_RANGE id (qy_type q) of
           QUERY_BY_RANGE \<Rightarrow>
             (let r = case_option \<lparr>qr_type = None, qr_first = None, qr_last = None, qr_index = None\<rparr> id (qy_by_range q)
              in Some (case_option [] id (qr_last r), ldb_seek L d (case_option [] id (qr_first r))))
         | QUERY_BY_SYMBOL \<Rightarrow>
             (let r = case_option \<lparr>qs_type = None, qs_symbol = None, qs_utc_first_micros = None, qs_utc_last_micros = None,
                        qs_index = None\<rparr> id (qy_by_symbol q);
                  symbol = case_option [] id (qs_symbol r);
                  first = case_option 0 id (qs_utc_first_micros r);
                  lst = case_option 0 id (qs_utc_last_micros r)
              in case case_option INDEXED_VALUE id (qs_type r) of
                   IB_MARKET_DATA \<Rightarrow> Some (marketdata_key symbol lst, ldb_seek L d (marketdata_key symbol first))
                 | IB_MARKET_DEPTH \<Rightarrow> Some (marketdepth_key symbol lst, ldb_seek L d (marketdepth_key symbol first))
                 | SESSION_LOG \<Rightarrow> Some (sessionlog_key symbol lst, ldb_seek L d (sessionlog_key symbol first))
                 | INDEXED_VALUE \<Rightarrow> map_option (\<lambda>index.
                     (buildIndexKey symbol index lst, ldb_seek L d (buildIndexKey symbol index first))) (qs_index r))))"

lemma local_query_span:
  "local_query L C visit q v db =
     (case query_span L q db of None \<Rightarrow> (0, v) | Some (stop, it) \<Rightarrow> query_loop C stop visit it 0 v)"
proof (cases "levelDb db")
  case None
  then show ?thesis
    by (simp add: local_query_def query_span_def Db_Query_range_def Db_Query_symbol_def Db_query_def Let_def
        split: Query_Type.splits RecordType.splits option.splits)
next
  case (Some d)
  then show ?thesis
    by (simp add: local_query_def query_span_def Db_Query_range_def Db_Query_symbol_def Db_query_def Let_def
        split: Query_Type.split RecordType.split option.split)
qed

lemma stream_query_local: "stream_query L C rid db q s = local_query L C (DbVisitor C rid) q s db"
  by (simp add: stream_query_def local_query_def)

lemma stream_query_streams:
  assumes "proto_codec record_initialized C" "zs_faults s = []"
  shows "\<exists>k rs. local_query L C collect q [] db = (k, rs) \<and> (\<forall>r \<in> set rs. record_initialized r) \<and>
     stream_query L C rid db q s = (k, s\<lparr>zs_sent := zs_sent s @ streamed C rid rs\<rparr>)"
proof (cases "query_span L q db")
  case None
  then show ?thesis by (simp add: stream_query_local local_query_span)
next
  case (Some x)
  obtain stop it where x: "x = (stop, it)" by fastforce
  from query_loop_streams [OF assms(1), of stop it 0 rid] assms(2) show ?thesis
    unfolding stream_query_local local_query_span Some x option.case prod.case by (metis append_Nil)
qed

lemma CallbackStreamer_sends:
  assumes "proto_codec record_initialized C" "connect (case_option [] id (qy_callback q)) = Some s" "zs_faults s = []"
  shows "\<exists>k rs. local_query L C collect q [] db = (k, rs) \<and> (\<forall>r \<in> set rs. record_initialized r) \<and>
     CallbackStreamer L C connect rid db q =
       (Inr k, Some (s\<lparr>zs_sent := zs_sent s @ streamed C rid rs @ [(show_u64 rid, True), (''200'', False)]\<rparr>))"
  using stream_query_streams [OF assms(1,3), of L q db rid] assms(2,3)
  by (auto simp: CallbackStreamer_def st_bind_def st_return_def)

section \<open>Reading an answer\<close>

text \<open>What the client's visitor makes of a list of records.\<close>

definition visit_all :: "'v visitor \<Rightarrow> Record list \<Rightarrow> nat \<times> 'v \<Rightarrow> nat \<times> 'v" where
  "visit_all visit rs p =
     fold (\<lambda>r (n, v). let (v', counted) = visit v r in (if counted then n + 1 else n, v')) rs p"

lemma visit_all_simps [simp]:
  "visit_all visit [] p = p"
  "visit_all visit (r # rs) (n, v) =
     visit_all visit rs (if snd (visit v r) then n + 1 else n, fst (visit v r))"
  by (simp_all add: visit_all_def split: prod.split)

lemma delivered_simps [simp]:
  "delivered [] = []" "delivered ((b, f) # fs) = ZFrame b f # delivered fs"
  by (simp_all add: delivered_def)

lemma delivered_append [simp]: "delivered (xs @ ys) = delivered xs @ delivered ys"
  by (simp add: delivered_def)

lemma receive_two_parts [simp]:
  "a \<noteq> [] \<Longrightarrow> b \<noteq> [] \<Longrightarrow> receive_two (ZFrame a True # ZFrame b f # rest) = (Returns (a, b), rest)"
  by (simp add: receive_two_def)

lemma serialized_nonempty:
  assumes "proto_codec init C" "pb_parse C [] = None" "init m"
  shows "snd (pb_serialize C m) \<noteq> []"
  using proto_codec.parse_serialize [OF assms(1,3)] assms(2) by auto

lemma processCallback_reads:
  assumes "boost_laws B" "proto_codec record_initialized C" "pb_parse C [] = None" "pb_parse C ''200'' = None"
    and "\<forall>r \<in> set rs. record_initialized r"
  shows "processCallback B C rid visit (delivered (streamed C rid rs @ [(show_u64 rid, True), (''200'', False)])) n v =
     (Returns (fst (visit_all visit rs (n, v))), [], snd (visit_all visit rs (n, v)))"
  using assms(5)
proof (induction rs arbitrary: n v)
  case Nil
  have "all_digits ''200''" "nat_of_digits ''200'' < 2 ^ 31"
    by (simp_all add: all_digits_def is_digit_def digit_val_def)
  then have "lexical_cast (bl_int B) ''200'' = Inr (of_nat (nat_of_digits ''200''))"
    using boost_laws.int_digits [OF assms(1)] by (simp add: lexical_cast_def)
  then show ?case
    using assms(4) boost_laws.cast_u64_show [OF assms(1)]
    by (subst processCallback.simps) (simp add: callback_end_def)
next
  case (Cons r rs)
  then have init: "record_initialized r" by simp
  have parse: "pb_parse C (snd (pb_serialize C r)) = Some r"
    using assms(2) init by (rule proto_codec.parse_serialize)
  obtain v' c where v: "visit v r = (v', c)" by fastforce
  show ?case
    using Cons.IH Cons.prems parse v boost_laws.cast_u64_show [OF assms(1)] serialized_nonempty [OF assms(2,3) init]
    by (subst processCallback.simps) (simp add: record_parts_def)
qed

section \<open>Question and answer\<close>

definition fresh_socket :: out_socket where
  "fresh_socket = \<lparr>zs_sent = [], zs_faults = []\<rparr>"

lemma fresh_socket_simps [simp]: "zs_sent fresh_socket = []" "zs_faults fresh_socket = []"
  by (simp_all add: fresh_socket_def)

lemma respond_to_client:
  assumes "proto_codec record_initialized C" "proto_codec query_initialized CQ" "pb_parse CQ [] = None"
    and env: "env = set_query (Query_default\<lparr>qy_callback := Some callback\<rparr>)" "query_initialized env"
      "qy_callback env = Some callback"
    and "connect callback = Some fresh_socket" and "reply_socket sv = fresh_socket"
  shows "\<exists>n req k rs. client_send CQ set_query callback fresh_socket = (n, req) \<and> 0 < n \<and>
     local_query L C collect env [] db = (k, rs) \<and> (\<forall>r \<in> set rs. record_initialized r) \<and>
     respond L C CQ connect db now (delivered (zs_sent req)) sv =
       (Returns True, [],
        sv\<lparr>reply_socket := fresh_socket\<lparr>zs_sent := [(''200'', True), (show_u64 (now mod 1000000), False)]\<rparr>,
           callbacks := callbacks sv @ [fresh_socket\<lparr>zs_sent := streamed C (now mod 1000000) rs @
             [(show_u64 (now mod 1000000), True), (''200'', False)]\<rparr>]\<rparr>)"
proof -
  obtain b where b: "pb_serialize CQ env = (True, b)" "b \<noteq> []" "pb_parse CQ b = Some env"
    using proto_codec.serialize_ok [OF assms(2) env(2)] proto_codec.parse_serialize [OF assms(2) env(2)]
      serialized_nonempty [OF assms(2,3) env(2)] by (cases "pb_serialize CQ env") auto
  have send: "client_send CQ set_query callback fresh_socket = (length b, fresh_socket\<lparr>zs_sent := [(b, False)]\<rparr>)"
    using b env by (simp add: client_send_def flip: env(1))
  have conn: "connect (case_option [] id (qy_callback env)) = Some fresh_socket" using assms(7) env(3) by simp
  have reply: "replyDataReady rid fresh_socket =
      (True, fresh_socket\<lparr>zs_sent := [(''200'', True), (show_u64 rid, False)]\<rparr>)" for rid
    by (simp add: replyDataReady_def st_bind_def)
  obtain k rs where rs: "local_query L C collect env [] db = (k, rs)" "\<forall>r \<in> set rs. record_initialized r"
    "CallbackStreamer L C connect (now mod 1000000) db env =
       (Inr k, Some (fresh_socket\<lparr>zs_sent := streamed C (now mod 1000000) rs @
          [(show_u64 (now mod 1000000), True), (''200'', False)]\<rparr>))"
    using CallbackStreamer_sends [where connect = connect and q = env, OF assms(1) conn, of L db "now mod 1000000"] by auto
  have "respond L C CQ connect db now (delivered [(b, False)]) sv =
     (Returns True, [],
        sv\<lparr>reply_socket := fresh_socket\<lparr>zs_sent := [(''200'', True), (show_u64 (now mod 1000000), False)]\<rparr>,
           callbacks := callbacks sv @ [fresh_socket\<lparr>zs_sent := streamed C (now mod 1000000) rs @
             [(show_u64 (now mod 1000000), True), (''200'', False)]\<rparr>]\<rparr>)"
    using b assms(8) rs(3) by (simp add: respond_def receive_query_def reply Let_def)
  with send b(2) rs(1,2) show ?thesis by simp
qed

lemma processQueryResponse_ok:
  assumes "boost_laws B"
  shows "processQueryResponse B (delivered [(''200'', True), (show_u64 rid, False)]) = (Returns (rid, []), [])"
proof -
  have "all_digits ''200''" "nat_of_digits ''200'' < 2 ^ 31"
    by (simp_all add: all_digits_def is_digit_def digit_val_def)
  then have "lexical_cast (bl_int B) ''200'' = Inr (200 :: i32)"
    using boost_laws.int_digits [OF assms, of "''200''"] by (simp add: lexical_cast_def digit_val_def)
  then show ?thesis using boost_laws.cast_u64_show [OF assms] by (simp add: processQueryResponse_def)
qed


text \<open>
  A response id of zero loses the answer. At a time whose microseconds are a multiple of a
  million the response id is zero, which the client takes for an error: it returns zero without
  calling its visitor, although the server has streamed all records of the answer, which stay
  unread on the callback socket.
\<close>

theorem response_id_zero_loses_answer:
  assumes "proto_codec record_initialized C" "proto_codec query_initialized CQ" "boost_laws B" "pb_parse CQ [] = None"
    and "env = set_query (Query_default\<lparr>qy_callback := Some callback\<rparr>)" "query_initialized env"
      "qy_callback env = Some callback"
    and "connect callback = Some fresh_socket" "reply_socket sv = fresh_socket"
    and "client_send CQ set_query callback fresh_socket = (n, req)"
    and "respond L C CQ connect db now (delivered (zs_sent req)) sv = (r, rest, sv')"
    and "now mod 1000000 = 0"
  shows "\<exists>cb. callbacks sv' = callbacks sv @ [cb] \<and>
     zs_sent cb = streamed C 0 (snd (local_query L C collect env [] db)) @ [(show_u64 0, True), (''200'', False)] \<and>
     DbReactorClient_Query B C CQ set_query callback fresh_socket (delivered (zs_sent (reply_socket sv')))
       (delivered (zs_sent cb)) visit v = (Returns 0, v)"
proof -
  obtain k rs where "local_query L C collect env [] db = (k, rs)" "0 < n"
    and "sv' = sv\<lparr>reply_socket := fresh_socket\<lparr>zs_sent := [(''200'', True), (show_u64 0, False)]\<rparr>,
       callbacks := callbacks sv @ [fresh_socket\<lparr>zs_sent := streamed C 0 rs @ [(show_u64 0, True), (''200'', False)]\<rparr>]\<rparr>"
    using respond_to_client [where connect = connect and set_query = set_query and callback = callback, OF assms(1,2,4-9), of L db now] assms(10-12) by auto
  then show ?thesis
    using processQueryResponse_ok [OF assms(3), of 0] assms(10)
    by (simp add: DbReactorClient_Query_def del: delivered_simps)
qed

section \<open>Witnesses\<close>

definition enc_Range :: "QueryByRange \<Rightarrow> nat list" where
  "enc_Range = enc_via (\<lambda>q. (qr_type q, qr_first q, qr_last q, qr_index q))
     (enc_pair (enc_option (enc_enum all_RecordType)) (enc_pair (enc_option enc_string) (enc_pair (enc_option enc_string) (enc_option enc_string))))"

definition dec_Range :: "nat list \<Rightarrow> (QueryByRange \<times> nat list) option" where
  "dec_Range = dec_via (\<lambda>(t, a, b, i). \<lparr>qr_type = t, qr_first = a, qr_last = b, qr_index = i\<rparr>)
     (dec_pair (dec_option (dec_enum all_RecordType)) (dec_pair (dec_option dec_string) (dec_pair (dec_option dec_string) (dec_option dec_string))))"

definition enc_Symbol :: "QueryBySymbol \<Rightarrow> nat list" where
  "enc_Symbol = enc_via (\<lambda>q. (qs_type q, qs_symbol q, qs_utc_first_micros q, qs_utc_last_micros q, qs_index q))
     (enc_pair (enc_option (enc_enum all_RecordType)) (enc_pair (enc_option enc_string) (enc_pair (enc_option enc_word)
       (enc_pair (enc_option enc_word) (enc_option enc_string)))))"

definition dec_Symbol :: "nat list \<Rightarrow> (QueryBySymbol \<times> nat list) option" where
  "dec_Symbol = dec_via (\<lambda>(t, s, a, b, i). \<lparr>qs_type = t, qs_symbol = s, qs_utc_first_micros = a, qs_utc_last_micros = b, qs_index = i\<rparr>)
     (dec_pair (dec_option (dec_enum all_RecordType)) (dec_pair (dec_option dec_string) (dec_pair (dec_option dec_word)
       (dec_pair (dec_option dec_word) (dec_option dec_string)))))"

definition "all_Query_Type = [QUERY_BY_RANGE, QUERY_BY_SYMBOL]"

definition enc_Query :: "Query \<Rightarrow> nat list" where
  "enc_Query = enc_via (\<lambda>q. (qy_type q, qy_callback q, qy_by_range q, qy_by_symbol q))
     (enc_pair (enc_option (enc_enum all_Query_Type)) (enc_pair (enc_option enc_string)
       (enc_pair (enc_option enc_Range) (enc_option enc_Symbol))))"

definition dec_Query :: "nat list \<Rightarrow> (Query \<times> nat list) option" where
  "dec_Query = dec_via (\<lambda>(t, c, r, s). \<lparr>qy_type = t, qy_callback = c, qy_by_range = r, qy_by_symbol = s\<rparr>)
     (dec_pair (dec_option (dec_enum all_Query_Type)) (dec_pair (dec_option dec_string)
       (dec_pair (dec_option dec_Range) (dec_option dec_Symbol))))"

interpretation wire_Query: wire enc_Query dec_Query
proof -
  have r: "wire enc_Range dec_Range"
    unfolding enc_Range_def dec_Range_def by (intro wire_basic wire_enums) simp
  have s: "wire enc_Symbol dec_Symbol"
    unfolding enc_Symbol_def dec_Symbol_def by (intro wire_basic wire_enums) simp
  have t: "wire (enc_enum all_Query_Type) (dec_enum all_Query_Type)"
    by (rule wire_enum) (metis (full_types) Query_Type.exhaust all_Query_Type_def list.set_intros)
  show "wire enc_Query dec_Query"
    unfolding enc_Query_def dec_Query_def by (intro wire_basic r s t) simp
qed

definition query_codec :: "(Query, string) codec" where
  "query_codec = wire_codec query_initialized enc_Query dec_Query"

interpretation query_codec: proto_codec query_initialized query_codec
  unfolding query_codec_def
proof (rule wire_codec_laws [OF wire_Query.wire_axioms])
  show "enc_Query m \<noteq> []" for m
    by (cases "qy_type m") (simp_all add: enc_Query_def enc_via_def enc_pair_def)
qed

definition demo_range :: QueryByRange where
  "demo_range = \<lparr>qr_type = Some IB_MARKET_DATA, qr_first = Some ''mkt:A'', qr_last = Some ''mkt:B'', qr_index = None\<rparr>"

definition demo_envelope :: Query where
  "demo_envelope = \<lparr>qy_type = Some QUERY_BY_RANGE, qy_callback = Some ''cb'', qy_by_range = Some demo_range, qy_by_symbol = None\<rparr>"

lemma demo_envelope_facts:
  "demo_envelope = set_range demo_range (Query_default\<lparr>qy_callback := Some ''cb''\<rparr>)"
  "query_initialized demo_envelope" "qy_callback demo_envelope = Some ''cb''"
  by (simp_all add: demo_envelope_def set_range_def query_initialized_def demo_range_def range_initialized_def)

definition demo_server :: server where
  "demo_server = \<lparr>reply_socket = fresh_socket, callbacks = []\<rparr>"

definition demo_remote_db :: "string kv_store db" where
  "demo_remote_db = (Db_new ''/tmp/db'')\<lparr>levelDb := Some
     (kv_put ''mkt:AAPL.STK:5'' (snd (pb_serialize rec_codec (record_wrap record_set_marketdata demo_md))) kv_empty)\<rparr>"


theorem response_id_zero_loses_answer_witness:
  "\<exists>n req sv' cb. client_send query_codec (set_range demo_range) ''cb'' fresh_socket = (n, req) \<and>
     respond kv_leveldb rec_codec query_codec (\<lambda>_. Some fresh_socket) demo_remote_db 2000000
       (delivered (zs_sent req)) demo_server = (Returns True, [], sv') \<and>
     callbacks sv' = [cb] \<and>
     DbReactorClient_Query ref_boost rec_codec query_codec (set_range demo_range) ''cb'' fresh_socket
       (delivered (zs_sent (reply_socket sv'))) (delivered (zs_sent cb)) collect [] = (Returns 0, [])"
proof -
  have sv: "reply_socket demo_server = fresh_socket" "callbacks demo_server = []" by (simp_all add: demo_server_def)
  have q: "pb_parse query_codec [] = None" by (simp add: query_codec_def)
  have c: "(\<lambda>_. Some fresh_socket) ''cb'' = Some fresh_socket" by simp
  obtain n req sv' where run: "client_send query_codec (set_range demo_range) ''cb'' fresh_socket = (n, req)"
    "respond kv_leveldb rec_codec query_codec (\<lambda>_. Some fresh_socket) demo_remote_db 2000000
       (delivered (zs_sent req)) demo_server = (Returns True, [], sv')"
    using respond_to_client [where connect = "\<lambda>_. Some fresh_socket" and set_query = "set_range demo_range" and
        callback = "''cb''", OF rec_codec.proto_codec_axioms query_codec.proto_codec_axioms q demo_envelope_facts c sv(1)]
    by blast
  from response_id_zero_loses_answer [where connect = "\<lambda>_. Some fresh_socket" and set_query = "set_range demo_range" and
      callback = "''cb''", OF rec_codec.proto_codec_axioms query_codec.proto_codec_axioms ref_boost.boost_laws_axioms q
      demo_envelope_facts c sv(1) run, of collect "[]"] run sv(2)
  show ?thesis by auto
qed

end
