(* ===== verification/Managers.thy ===== *)
theory Managers
  imports Handlers Event_Dispatch
begin

text \<open>
  Requests with asynchronous answers: \<^verbatim>\<open>common/async_response.hpp\<close>, \<^verbatim>\<open>service/OrderManager.cpp\<close> and
  \<^verbatim>\<open>service/ContractManager.cpp\<close>. A manager sends a request to a gateway, keeps a shared pointer to the
  response object in a table, and the thread of its message processor fills the object in when the
  gateway publishes the answer.

  The response objects live in a list, their address is the index; a shared pointer is an optional
  address. Sending and entering the table are separate steps, because the lock is taken only for the
  second: the processor's thread can run between them.
\<close>

section \<open>Response objects\<close>

record ('k, 'r) pending_table =
  responses :: "'r option list"
  pending :: "'k \<rightharpoonup> nat option"

definition async_new :: "('k, 'r) pending_table \<Rightarrow> nat \<times> ('k, 'r) pending_table" where
  "async_new p = (length (responses p), p\<lparr>responses := responses p @ [None]\<rparr>)"

definition async_is_ready :: "nat \<Rightarrow> ('k, 'r) pending_table \<Rightarrow> bool" where
  "async_is_ready i p = (i < length (responses p) \<and> responses p ! i \<noteq> None)"

definition async_set_response :: "nat \<Rightarrow> 'r \<Rightarrow> ('k, 'r) pending_table \<Rightarrow> ('k, 'r) pending_table" where
  "async_set_response i r p = p\<lparr>responses := (responses p)[i := Some r]\<rparr>"

text \<open>
  \<^verbatim>\<open>get\<close> waits once when the response is not there: \<open>later\<close> is the state when the wait ends, by a
  notification, by the timeout or spuriously. It dereferences the result whatever ended the wait.
\<close>

definition async_get :: "nat \<Rightarrow> ('k, 'r) pending_table \<Rightarrow> ('k, 'r) pending_table \<Rightarrow> 'r cpp" where
  "async_get i now later =
     (case responses (if async_is_ready i now then now else later) ! i of
        Some r \<Rightarrow> Inr r | None \<Rightarrow> Inl NullDereference)"

text \<open>The answer for a key: ignored without an entry, a null pointer is dereferenced.\<close>

definition complete_pending :: "'k \<Rightarrow> 'r \<Rightarrow> ('k, 'r) pending_table \<Rightarrow> unit cpp \<times> ('k, 'r) pending_table" where
  "complete_pending key r p =
     (case pending p key of
        None \<Rightarrow> (Inr (), p)
      | Some None \<Rightarrow> (Inl NullDereference, p)
      | Some (Some i) \<Rightarrow> (Inr (), async_set_response i r p))"

definition enter_pending :: "'k \<Rightarrow> nat option \<Rightarrow> ('k, 'r) pending_table \<Rightarrow> ('k, 'r) pending_table" where
  "enter_pending key status p = p\<lparr>pending := (pending p)(key \<mapsto> status)\<rparr>"

section \<open>OrderManager\<close>

record order_manager =
  em_socket :: "out_socket option"
  pendingOrders :: "(u64, OrderStatus) pending_table"

definition handleOrderStatus :: "(OrderStatus, string) codec \<Rightarrow> order_manager raw_handler" where
  "handleOrderStatus C topic message om =
     (case pb_parse C message of
        None \<Rightarrow> (Inr True, om)
      | Some status \<Rightarrow>
          (case complete_pending (get_os_order_id status) status (pendingOrders om) of
             (Inl e, t) \<Rightarrow> (Inl e, om\<lparr>pendingOrders := t\<rparr>)
           | (Inr _, t) \<Rightarrow> (Inr True, om\<lparr>pendingOrders := t\<rparr>)))"

definition handleStop :: "'h raw_handler" where
  "handleStop topic message h = (Inr False, h)"

definition order_manager_handlers :: "(OrderStatus, string) codec \<Rightarrow> order_manager handlers_map" where
  "order_manager_handlers C =
     snd (register_handler ''stop'' handleStop
       (snd (register_handler ''proto.ib.OrderStatus'' (handleOrderStatus C) \<lparr>handlers = Map.empty\<rparr>)))"

text \<open>The first half of \<^verbatim>\<open>send\<close>, without the lock: the message goes out and the response object is made.\<close>

definition order_send_out ::
  "('p, string) codec \<Rightarrow> string \<Rightarrow> (u64 \<Rightarrow> u64 \<Rightarrow> 'p \<Rightarrow> 'p) \<Rightarrow> u64 \<Rightarrow> u64 \<Rightarrow> 'p \<Rightarrow> order_manager \<Rightarrow>
     nat option \<times> 'p \<times> order_manager" where
  "order_send_out C type_name stamp ts mid proto om =
     (case em_socket om of
        None \<Rightarrow> (None, proto, om)
      | Some s \<Rightarrow>
          (let (sent, proto', s') = proto_send C type_name stamp ts mid proto s;
               (i, t) = async_new (pendingOrders om)
           in (Some i, proto', om\<lparr>em_socket := Some s', pendingOrders := t\<rparr>)))"

definition order_register :: "u64 \<Rightarrow> nat option \<Rightarrow> order_manager \<Rightarrow> order_manager" where
  "order_register key status om = om\<lparr>pendingOrders := enter_pending key status (pendingOrders om)\<rparr>"

definition OrderManager_send ::
  "('p, string) codec \<Rightarrow> string \<Rightarrow> (u64 \<Rightarrow> u64 \<Rightarrow> 'p \<Rightarrow> 'p) \<Rightarrow> ('p \<Rightarrow> u64) \<Rightarrow> u64 \<Rightarrow> u64 \<Rightarrow> 'p \<Rightarrow> order_manager \<Rightarrow>
     nat option \<times> 'p \<times> order_manager" where
  "OrderManager_send C type_name stamp order_id ts mid proto om =
     (let (status, proto', om1) = order_send_out C type_name stamp ts mid proto om
      in (status, proto', order_register (order_id proto) status om1))"

section \<open>ContractManager\<close>

record RequestContractDetails =
  rcd_timestamp :: "u64 option"
  rcd_message_id :: "u64 option"
  rcd_request_id :: "u32 option"
  rcd_contract :: "Contract option"

record contract_manager =
  cm_socket :: "out_socket option"
  pendingRequests :: "(i32, ContractDetailsEnd) pending_table"
  cm_contractDetails :: "string \<rightharpoonup> ContractDetails"

text \<open>Only contracts whose strike is in US dollars are kept; a second one of a symbol replaces the first.\<close>

definition details_currency :: "ContractDetails \<Rightarrow> Currency" where
  "details_currency d = get_money_currency (get_ct_strike (case_option Contract_default id (cd_summary d)))"

definition handleContractDetailsResponse :: "(ContractDetailsResponse, string) codec \<Rightarrow> contract_manager raw_handler" where
  "handleContractDetailsResponse C topic message cm =
     (case pb_parse C message of
        None \<Rightarrow> (Inr True, cm)
      | Some resp \<Rightarrow>
          (case cdr_details resp of
             None \<Rightarrow> (Inr True, cm)
           | Some d \<Rightarrow>
               (Inr True,
                if details_currency d = USD
                then cm\<lparr>cm_contractDetails := (cm_contractDetails cm)(case_option [] id (cd_symbol d) \<mapsto> d)\<rparr>
                else cm)))"

definition handleContractDetailsEnd :: "(ContractDetailsEnd, string) codec \<Rightarrow> contract_manager raw_handler" where
  "handleContractDetailsEnd C topic message cm =
     (case pb_parse C message of
        None \<Rightarrow> (Inr True, cm)
      | Some status \<Rightarrow>
          (case complete_pending (case_option 0 id (cde_request_id status)) status (pendingRequests cm) of
             (Inl e, t) \<Rightarrow> (Inl e, cm\<lparr>pendingRequests := t\<rparr>)
           | (Inr _, t) \<Rightarrow> (Inr True, cm\<lparr>pendingRequests := t\<rparr>)))"

definition contract_manager_handlers ::
  "(ContractDetailsResponse, string) codec \<Rightarrow> (ContractDetailsEnd, string) codec \<Rightarrow> contract_manager handlers_map" where
  "contract_manager_handlers CR CE =
     snd (register_handler ''stop'' handleStop
       (snd (register_handler ''proto.ib.ContractDetailsEnd'' (handleContractDetailsEnd CE)
         (snd (register_handler ''proto.ib.ContractDetailsResponse'' (handleContractDetailsResponse CR) \<lparr>handlers = Map.empty\<rparr>)))))"

definition stamp_request :: "u64 \<Rightarrow> u64 \<Rightarrow> RequestContractDetails \<Rightarrow> RequestContractDetails" where
  "stamp_request ts mid r = r\<lparr>rcd_timestamp := Some ts, rcd_message_id := Some mid\<rparr>"

definition request_send_out ::
  "(RequestContractDetails, string) codec \<Rightarrow> u64 \<Rightarrow> u64 \<Rightarrow> i32 \<Rightarrow> Contract \<Rightarrow> contract_manager \<Rightarrow>
     nat option \<times> contract_manager" where
  "request_send_out C ts mid reqId contract cm =
     (case cm_socket cm of
        None \<Rightarrow> (None, cm)
      | Some s \<Rightarrow>
          (let req = \<lparr>rcd_timestamp = None, rcd_message_id = None, rcd_request_id = Some reqId,
                      rcd_contract = Some (contract\<lparr>ct_id := Some 0\<rparr>)\<rparr>;
               (sent, req', s') = proto_send C ''proto.ib.RequestContractDetails'' stamp_request ts mid req s;
               (i, t) = async_new (pendingRequests cm)
           in (Some i, cm\<lparr>cm_socket := Some s', pendingRequests := t\<rparr>)))"

definition request_register :: "i32 \<Rightarrow> nat option \<Rightarrow> contract_manager \<Rightarrow> contract_manager" where
  "request_register reqId status cm = cm\<lparr>pendingRequests := enter_pending reqId status (pendingRequests cm)\<rparr>"

definition requestContractDetails ::
  "(RequestContractDetails, string) codec \<Rightarrow> u64 \<Rightarrow> u64 \<Rightarrow> i32 \<Rightarrow> Contract \<Rightarrow> contract_manager \<Rightarrow>
     nat option \<times> contract_manager" where
  "requestContractDetails C ts mid reqId contract cm =
     (let (status, cm1) = request_send_out C ts mid reqId contract cm
      in (status, request_register reqId status cm1))"

definition stock_contract :: "string \<Rightarrow> Contract" where
  "stock_contract symbol = Contract_default\<lparr>ct_symbol := Some symbol, ct_local_symbol := Some symbol,
     ct_type := Some STOCK, ct_strike := Some \<lparr>money_amount = Some 0, money_currency = Some USD\<rparr>\<rparr>"

definition option_contract :: "string \<Rightarrow> i32 \<Rightarrow> i32 \<Rightarrow> i32 \<Rightarrow> double \<Rightarrow> Right \<Rightarrow> Contract" where
  "option_contract symbol year month day strike putOrCall = Contract_default\<lparr>ct_symbol := Some symbol,
     ct_local_symbol := Some symbol, ct_type := Some OPTION, ct_right := Some putOrCall,
     ct_strike := Some \<lparr>money_amount = Some strike, money_currency = Some USD\<rparr>,
     ct_expiry := Some \<lparr>date_year = Some year, date_month = Some month, date_day = Some day\<rparr>\<rparr>"

definition option_chain_contract :: "string \<Rightarrow> Contract" where
  "option_chain_contract symbol = Contract_default\<lparr>ct_symbol := Some symbol, ct_type := Some OPTION\<rparr>"

definition index_contract :: "string \<Rightarrow> Contract" where
  "index_contract symbol = Contract_default\<lparr>ct_symbol := Some symbol, ct_local_symbol := Some symbol,
     ct_type := Some INDEX\<rparr>"

definition findContract :: "string \<Rightarrow> contract_manager \<Rightarrow> Contract option" where
  "findContract key cm =
     (case cm_contractDetails cm key of Some d \<Rightarrow> Some (case_option Contract_default id (cd_summary d)) | None \<Rightarrow> None)"

definition findOptionContract ::
  "boost_lib \<Rightarrow> string \<Rightarrow> i32 \<Rightarrow> i32 \<Rightarrow> i32 \<Rightarrow> double \<Rightarrow> Right \<Rightarrow> contract_manager \<Rightarrow> Contract option" where
  "findOptionContract B symbol year month day strike putOrCall cm =
     findContract (format_option_contract_key B symbol strike putOrCall year month day) cm"

end
