(* ===== verification/Manager_Laws.thy ===== *)
theory Manager_Laws
  imports Managers Market_Feed
begin

text \<open>
  The order manager: an answer never reaches the wrong caller, whatever the interleaving of senders
  and the processor's thread; an answer that comes after the registration reaches the caller; one
  that comes before is lost.
\<close>

section \<open>All interleavings\<close>

text \<open>
  The states the manager can reach when senders and the thread that handles answers interleave.
  \<open>keys\<close> lists, for every response object, the order it was made for; a sender may be preempted
  between sending and registering for any time. \<open>'p\<close> is the type of the order messages.
\<close>

inductive om_run :: "(OrderStatus, string) codec \<Rightarrow> ('p, string) codec \<Rightarrow> u64 list \<Rightarrow> order_manager \<Rightarrow> bool"
  for C CP where
  start: "om_run C CP [] \<lparr>em_socket = s, pendingOrders = \<lparr>responses = [], pending = Map.empty\<rparr>\<rparr>"
| send_out: "om_run C CP keys om \<Longrightarrow> order_send_out CP type_name stamp ts mid proto om = (Some i, proto', om') \<Longrightarrow>
     om_run C CP (keys @ [key]) om'"
| register: "om_run C CP keys om \<Longrightarrow> i < length keys \<Longrightarrow> om_run C CP keys (order_register (keys ! i) (Some i) om)"
| register_null: "om_run C CP keys om \<Longrightarrow> em_socket om = None \<Longrightarrow> om_run C CP keys (order_register key None om)"
| status: "om_run C CP keys om \<Longrightarrow> handleOrderStatus C topic message om = (r, om') \<Longrightarrow> om_run C CP keys om'"

definition answers_match :: "u64 list \<Rightarrow> order_manager \<Rightarrow> bool" where
  "answers_match keys om \<longleftrightarrow>
     length (responses (pendingOrders om)) = length keys \<and>
     (\<forall>key i. pending (pendingOrders om) key = Some (Some i) \<longrightarrow> i < length keys \<and> keys ! i = key) \<and>
     (\<forall>i st. i < length keys \<longrightarrow> responses (pendingOrders om) ! i = Some st \<longrightarrow> get_os_order_id st = keys ! i)"

lemma order_send_out_cases:
  "order_send_out CP n f ts mid p om = (Some i, p', om') \<Longrightarrow>
     i = length (responses (pendingOrders om)) \<and> responses (pendingOrders om') = responses (pendingOrders om) @ [None] \<and>
     pending (pendingOrders om') = pending (pendingOrders om)"
  by (auto simp: order_send_out_def async_new_def split: option.splits prod.splits)

lemma handleOrderStatus_cases:
  assumes "handleOrderStatus C topic message om = (r, om')"
  shows "om' = om \<or> (\<exists>st i. pending (pendingOrders om) (get_os_order_id st) = Some (Some i) \<and>
     om' = om\<lparr>pendingOrders := async_set_response i st (pendingOrders om)\<rparr>)"
  using assms by (auto simp: handleOrderStatus_def complete_pending_def split: option.splits prod.splits)

lemma om_run_answers_match: "om_run C CP keys om \<Longrightarrow> answers_match keys om"
proof (induction rule: om_run.induct)
  case (send_out keys om n f ts mid p i p' om' key)
  then show ?case
    using order_send_out_cases [OF send_out.hyps(2)]
    by (force simp: answers_match_def nth_append less_Suc_eq)
next
  case (status keys om topic message r om')
  from handleOrderStatus_cases [OF status.hyps(2)] status.IH show ?case
    by (auto simp: answers_match_def async_set_response_def nth_list_update split: if_splits)
qed (auto simp: answers_match_def order_register_def enter_pending_def split: if_splits)

text \<open>
  C11. An answer never reaches the wrong caller. In every interleaving of senders, registrations and
  incoming order status messages, the answer stored in a response object is for the order the object
  was made for.
\<close>

theorem order_answers_match:
  assumes "om_run C CP keys om" and "i < length keys" and "responses (pendingOrders om) ! i = Some st"
  shows "get_os_order_id st = keys ! i"
  using om_run_answers_match [OF assms(1)] assms(2,3) by (simp add: answers_match_def)

section \<open>Before and after the registration\<close>

text \<open>
  C40. An answer that overtakes the registration is lost. The manager sends the order before it enters
  the response object in its table. If the gateway's answer is handled in between, it is dropped: the
  response object is still empty after the registration, and a caller whose wait times out then
  dereferences a null pointer.
\<close>

theorem answer_before_registration_lost:
  assumes "order_send_out CP type_name stamp ts mid proto om = (Some i, proto', om1)"
    and "pending (pendingOrders om) key = None"
    and "pb_parse C message = Some st" and "get_os_order_id st = key"
    and "handleOrderStatus C topic message om1 = (r, om2)" and "om3 = order_register key (Some i) om2"
  shows "r = Inr True \<and> \<not> async_is_ready i (pendingOrders om3) \<and>
     async_get i (pendingOrders om3) (pendingOrders om3) = Inl NullDereference"
proof -
  note out = order_send_out_cases [OF assms(1)]
  have "r = Inr True" "om2 = om1"
    using assms(2-5) out by (simp_all add: handleOrderStatus_def complete_pending_def)
  then show ?thesis
    using out by (simp add: assms(6) order_register_def enter_pending_def async_is_ready_def async_get_def nth_append)
qed

definition orderstatus_initialized :: "OrderStatus \<Rightarrow> bool" where
  "orderstatus_initialized s \<longleftrightarrow>
     os_timestamp s \<noteq> None \<and> os_message_id s \<noteq> None \<and> os_order_id s \<noteq> None \<and> os_status s \<noteq> None \<and>
     os_filled s \<noteq> None \<and> os_remaining s \<noteq> None \<and> os_avg_fill_price s \<noteq> None \<and> os_last_fill_price s \<noteq> None \<and>
     os_client_id s \<noteq> None \<and> os_perm_id s \<noteq> None \<and> os_parent_id s \<noteq> None \<and> os_why_held s \<noteq> None"

lemma order_manager_handlers_at:
  "handlers (order_manager_handlers C) ''proto.ib.OrderStatus'' = Some (handleOrderStatus C)"
  by (simp add: order_manager_handlers_def register_handler_def map_insert_def)

lemma order_publish_ok:
  assumes "ds_socket st = Some s" "zs_faults s = []" "pb_serialize C p = (True, b)"
  shows "\<exists>v. order_publish C n p now finish st =
     (Inr (), \<lparr>ds_socket = Some (s\<lparr>zs_sent := zs_sent s @ [(n, True), (b, False)]\<rparr>), ds_varz = v\<rparr>)"
  using assms by (cases st) (simp add: order_publish_def send_parts_ok st_bind_def count_varz_def)


section \<open>Witnesses\<close>

definition "all_Currency = [OTHER, USD]"

definition enc_Money :: "Money \<Rightarrow> nat list" where
  "enc_Money = enc_via (\<lambda>m. (money_amount m, money_currency m))
     (enc_pair (enc_option enc_double) (enc_option (enc_enum all_Currency)))"

definition dec_Money :: "nat list \<Rightarrow> (Money \<times> nat list) option" where
  "dec_Money = dec_via (\<lambda>(a, c). \<lparr>money_amount = a, money_currency = c\<rparr>)
     (dec_pair (dec_option dec_double) (dec_option (dec_enum all_Currency)))"

definition enc_OrderStatus :: "OrderStatus \<Rightarrow> nat list" where
  "enc_OrderStatus = enc_via
     (\<lambda>s. (os_timestamp s, os_message_id s, os_order_id s, os_status s, os_filled s, os_remaining s,
          os_avg_fill_price s, os_last_fill_price s, os_client_id s, os_perm_id s, os_parent_id s, os_why_held s))
     (enc_pair (enc_option enc_word) (enc_pair (enc_option enc_word) (enc_pair (enc_option enc_word)
       (enc_pair (enc_option enc_string) (enc_pair (enc_option enc_word) (enc_pair (enc_option enc_word)
         (enc_pair (enc_option enc_Money) (enc_pair (enc_option enc_Money) (enc_pair (enc_option enc_word)
           (enc_pair (enc_option enc_word) (enc_pair (enc_option enc_word) (enc_option enc_string))))))))))))"

definition dec_OrderStatus :: "nat list \<Rightarrow> (OrderStatus \<times> nat list) option" where
  "dec_OrderStatus = dec_via
     (\<lambda>(a, b, c, d, e, f, g, h, i, j, k, l). \<lparr>os_timestamp = a, os_message_id = b, os_order_id = c, os_status = d,
        os_filled = e, os_remaining = f, os_avg_fill_price = g, os_last_fill_price = h, os_client_id = i,
        os_perm_id = j, os_parent_id = k, os_why_held = l\<rparr>)
     (dec_pair (dec_option dec_word) (dec_pair (dec_option dec_word) (dec_pair (dec_option dec_word)
       (dec_pair (dec_option dec_string) (dec_pair (dec_option dec_word) (dec_pair (dec_option dec_word)
         (dec_pair (dec_option dec_Money) (dec_pair (dec_option dec_Money) (dec_pair (dec_option dec_word)
           (dec_pair (dec_option dec_word) (dec_pair (dec_option dec_word) (dec_option dec_string))))))))))))"

interpretation wire_OrderStatus: wire enc_OrderStatus dec_OrderStatus
proof -
  have c: "wire (enc_enum all_Currency) (dec_enum all_Currency)"
    by (rule wire_enum) (metis (full_types) Currency.exhaust all_Currency_def list.set_intros)
  have m: "wire enc_Money dec_Money"
    unfolding enc_Money_def dec_Money_def by (intro wire_basic c) simp
  show "wire enc_OrderStatus dec_OrderStatus"
    unfolding enc_OrderStatus_def dec_OrderStatus_def by (intro wire_basic m) simp
qed

definition os_codec :: "(OrderStatus, string) codec" where
  "os_codec = wire_codec orderstatus_initialized enc_OrderStatus dec_OrderStatus"

interpretation os_codec: proto_codec orderstatus_initialized os_codec
  unfolding os_codec_def
proof (rule wire_codec_laws [OF wire_OrderStatus.wire_axioms])
  show "enc_OrderStatus m \<noteq> []" for m
    by (cases "os_timestamp m") (simp_all add: enc_OrderStatus_def enc_via_def enc_pair_def)
qed

text \<open>An order as its id, enough for sending.\<close>

definition id_codec :: "(u64, string) codec" where
  "id_codec = wire_codec (\<lambda>_. True) enc_word dec_word"

definition demo_om :: order_manager where
  "demo_om = \<lparr>em_socket = Some \<lparr>zs_sent = [], zs_faults = []\<rparr>, pendingOrders = \<lparr>responses = [], pending = Map.empty\<rparr>\<rparr>"

definition demo_om1 :: order_manager where
  "demo_om1 = snd (snd (order_send_out id_codec ''proto.ib.CancelOrder'' (\<lambda>_ _ p. p) 1 2 77 demo_om))"

lemma demo_send_out:
  "order_send_out id_codec ''proto.ib.CancelOrder'' (\<lambda>_ _ p. p) 1 2 77 demo_om = (Some 0, 77, demo_om1)"
proof -
  obtain sent p' s' where ps: "proto_send id_codec ''proto.ib.CancelOrder'' (\<lambda>_ _ p. p) 1 2 77
      \<lparr>zs_sent = [], zs_faults = []\<rparr> = (sent, p', s')"
    by (rule prod_cases3)
  moreover have "p' = 77" using ps by (simp add: proto_send_def id_codec_def wire_codec_def)
  ultimately show ?thesis
    by (simp add: demo_om1_def demo_om_def order_send_out_def async_new_def)
qed

definition demo_status :: OrderStatus where
  "demo_status = orderStatus_message 5 6 77 ''Filled'' 10 0 3 1 0 3 4 ''''"

definition demo_om2 :: order_manager where
  "demo_om2 = snd (handleOrderStatus os_codec ''proto.ib.OrderStatus'' (snd (pb_serialize os_codec demo_status))
     (order_register 77 (Some 0) demo_om1))"

lemma demo_status_parses: "pb_parse os_codec (snd (pb_serialize os_codec demo_status)) = Some demo_status"
  by (rule os_codec.parse_serialize) (simp add: demo_status_def orderStatus_message_def orderstatus_initialized_def)

lemma demo_status_id: "get_os_order_id demo_status = 77"
  by (simp add: demo_status_def orderStatus_message_def get_os_order_id_def)

lemma demo_om2_run: "om_run os_codec id_codec [77] demo_om2"
proof -
  have "om_run os_codec id_codec [] demo_om" unfolding demo_om_def by (rule om_run.start)
  from om_run.send_out [OF this demo_send_out, of 77] have "om_run os_codec id_codec [77] demo_om1" by simp
  from om_run.register [OF this, of 0] have "om_run os_codec id_codec [77] (order_register 77 (Some 0) demo_om1)" by simp
  then show ?thesis unfolding demo_om2_def by (rule om_run.status) (rule prod.collapse [symmetric])
qed

theorem order_answers_match_witness:
  "responses (pendingOrders demo_om2) ! 0 = Some demo_status \<and> get_os_order_id demo_status = [77] ! 0"
proof -
  have "responses (pendingOrders demo_om2) ! 0 = Some demo_status"
    using order_send_out_cases [OF demo_send_out] demo_status_parses
    by (simp add: demo_om2_def handleOrderStatus_def complete_pending_def demo_status_id order_register_def
        enter_pending_def async_set_response_def demo_om_def)
  with order_answers_match [OF demo_om2_run, of 0 demo_status] show ?thesis by simp
qed

theorem answer_before_registration_lost_witness:
  "\<exists>om2. handleOrderStatus os_codec ''proto.ib.OrderStatus'' (snd (pb_serialize os_codec demo_status)) demo_om1 = (Inr True, om2) \<and>
     \<not> async_is_ready 0 (pendingOrders (order_register 77 (Some 0) om2))"
proof -
  obtain r om2 where h: "handleOrderStatus os_codec ''proto.ib.OrderStatus'' (snd (pb_serialize os_codec demo_status)) demo_om1
      = (r, om2)"
    by (rule prod.exhaust)
  have "pending (pendingOrders demo_om) 77 = None" by (simp add: demo_om_def)
  from answer_before_registration_lost [OF demo_send_out this demo_status_parses demo_status_id h refl] h
  show ?thesis by auto
qed


end
