(* ===== verification/Api_Messages.thy ===== *)
theory Api_Messages
  imports Ticker_Map Managers
begin

text \<open>
  The requests a gateway connector accepts: \<^verbatim>\<open>ib/ZmqMessage.hpp\<close>, \<^verbatim>\<open>ib/ProtoBufferApiMessage.hpp\<close>,
  \<^verbatim>\<open>ib/api966/ZmqMessage.cpp\<close> and \<^verbatim>\<open>ib/api966/ApiMessages.hpp\<close>, with the sets of messages the three
  gateway applications support (\<^verbatim>\<open>main/em.hpp\<close>, \<^verbatim>\<open>main/cm.hpp\<close>, \<^verbatim>\<open>main/fh.hpp\<close>).

  The broker's client is library code: the calls made on it are recorded in the order they are made.
\<close>

section \<open>Messages\<close>

record RequestMarketData =
  rmd_timestamp :: "u64 option"
  rmd_message_id :: "u64 option"
  rmd_contract :: "Contract option"
  rmd_tick_types :: "string option"
  rmd_snapshot :: "bool option"

record RequestMarketDepth =
  rdp_timestamp :: "u64 option"
  rdp_message_id :: "u64 option"
  rdp_contract :: "Contract option"
  rdp_rows :: "u32 option"

text \<open>The two cancellations have the same fields.\<close>

record CancelRequest =
  cr_timestamp :: "u64 option"
  cr_message_id :: "u64 option"
  cr_contract :: "Contract option"

record CancelOrder =
  co_timestamp :: "u64 option"
  co_message_id :: "u64 option"
  co_order_id :: "u64 option"

record order_request = priced_order +
  oq_timestamp :: "u64 option"
  oq_message_id :: "u64 option"

datatype api_message =
    RequestContractDetails_msg RequestContractDetails
  | RequestMarketData_msg RequestMarketData
  | CancelMarketData_msg CancelRequest
  | RequestMarketDepth_msg RequestMarketDepth
  | CancelMarketDepth_msg CancelRequest
  | CancelOrder_msg CancelOrder
  | MarketOrder_msg order_request
  | LimitOrder_msg order_request
  | StopLimitOrder_msg order_request

text \<open>\<^verbatim>\<open>key()\<close> is the type name of the protocol buffer.\<close>

fun api_key :: "api_message \<Rightarrow> string" where
  "api_key (RequestContractDetails_msg _) = ''proto.ib.RequestContractDetails''"
| "api_key (RequestMarketData_msg _) = ''proto.ib.RequestMarketData''"
| "api_key (CancelMarketData_msg _) = ''proto.ib.CancelMarketData''"
| "api_key (RequestMarketDepth_msg _) = ''proto.ib.RequestMarketDepth''"
| "api_key (CancelMarketDepth_msg _) = ''proto.ib.CancelMarketDepth''"
| "api_key (CancelOrder_msg _) = ''proto.ib.CancelOrder''"
| "api_key (MarketOrder_msg _) = ''proto.ib.MarketOrder''"
| "api_key (LimitOrder_msg _) = ''proto.ib.LimitOrder''"
| "api_key (StopLimitOrder_msg _) = ''proto.ib.StopLimitOrder''"

abbreviation CancelRequest_default :: CancelRequest where
  "CancelRequest_default \<equiv> \<lparr>cr_timestamp = None, cr_message_id = None, cr_contract = None\<rparr>"

abbreviation order_request_default :: order_request where
  "order_request_default \<equiv> \<lparr>po_order = None, po_limit_price = None, po_stop_price = None,
     oq_timestamp = None, oq_message_id = None\<rparr>"

text \<open>One empty message of every type, in the order in which the handler map is filled.\<close>

definition handlerMap :: "api_message list" where
  "handlerMap =
     [RequestContractDetails_msg \<lparr>rcd_timestamp = None, rcd_message_id = None, rcd_request_id = None, rcd_contract = None\<rparr>,
      RequestMarketData_msg \<lparr>rmd_timestamp = None, rmd_message_id = None, rmd_contract = None, rmd_tick_types = None,
        rmd_snapshot = None\<rparr>,
      CancelMarketData_msg CancelRequest_default,
      RequestMarketDepth_msg \<lparr>rdp_timestamp = None, rdp_message_id = None, rdp_contract = None, rdp_rows = None\<rparr>,
      CancelMarketDepth_msg CancelRequest_default,
      CancelOrder_msg \<lparr>co_timestamp = None, co_message_id = None, co_order_id = None\<rparr>,
      MarketOrder_msg order_request_default,
      LimitOrder_msg order_request_default,
      StopLimitOrder_msg order_request_default]"

definition createMessage :: "string \<Rightarrow> api_message option" where
  "createMessage msgKey = List.find (\<lambda>m. api_key m = msgKey) handlerMap"

section \<open>Initialisation\<close>

definition opt_contract_initialized :: "Contract option \<Rightarrow> bool" where
  "opt_contract_initialized c = (case c of Some x \<Rightarrow> contract_initialized x | None \<Rightarrow> False)"

definition opt_money_initialized :: "Money option \<Rightarrow> bool" where
  "opt_money_initialized m = (case m of Some x \<Rightarrow> money_initialized x | None \<Rightarrow> False)"

definition opt_order_initialized :: "Order option \<Rightarrow> bool" where
  "opt_order_initialized r = (case r of Some x \<Rightarrow> order_initialized x | None \<Rightarrow> False)"

definition stamped :: "u64 option \<Rightarrow> u64 option \<Rightarrow> bool" where
  "stamped ts mid \<longleftrightarrow> ts \<noteq> None \<and> mid \<noteq> None"

text \<open>\<^verbatim>\<open>validate\<close>: the required fields of \<^verbatim>\<open>ib.proto\<close> are there.\<close>

fun api_validate :: "api_message \<Rightarrow> bool" where
  "api_validate (RequestContractDetails_msg p) \<longleftrightarrow> stamped (rcd_timestamp p) (rcd_message_id p) \<and>
     rcd_request_id p \<noteq> None \<and> opt_contract_initialized (rcd_contract p)"
| "api_validate (RequestMarketData_msg p) \<longleftrightarrow> stamped (rmd_timestamp p) (rmd_message_id p) \<and>
     opt_contract_initialized (rmd_contract p)"
| "api_validate (CancelMarketData_msg p) \<longleftrightarrow> stamped (cr_timestamp p) (cr_message_id p) \<and>
     opt_contract_initialized (cr_contract p)"
| "api_validate (RequestMarketDepth_msg p) \<longleftrightarrow> stamped (rdp_timestamp p) (rdp_message_id p) \<and>
     opt_contract_initialized (rdp_contract p)"
| "api_validate (CancelMarketDepth_msg p) \<longleftrightarrow> stamped (cr_timestamp p) (cr_message_id p) \<and>
     opt_contract_initialized (cr_contract p)"
| "api_validate (CancelOrder_msg p) \<longleftrightarrow> stamped (co_timestamp p) (co_message_id p) \<and> co_order_id p \<noteq> None"
| "api_validate (MarketOrder_msg p) \<longleftrightarrow> stamped (oq_timestamp p) (oq_message_id p) \<and>
     opt_order_initialized (po_order p)"
| "api_validate (LimitOrder_msg p) \<longleftrightarrow> stamped (oq_timestamp p) (oq_message_id p) \<and>
     opt_order_initialized (po_order p) \<and> opt_money_initialized (po_limit_price p)"
| "api_validate (StopLimitOrder_msg p) \<longleftrightarrow> stamped (oq_timestamp p) (oq_message_id p) \<and>
     opt_order_initialized (po_order p) \<and> opt_money_initialized (po_limit_price p) \<and>
     opt_money_initialized (po_stop_price p)"

section \<open>Receiving\<close>

text \<open>What \<^verbatim>\<open>ParseFromString\<close> leaves in a fresh message of each type.\<close>

record api_parsers =
  parse_RequestContractDetails :: "string \<Rightarrow> RequestContractDetails"
  parse_RequestMarketData :: "string \<Rightarrow> RequestMarketData"
  parse_CancelMarketData :: "string \<Rightarrow> CancelRequest"
  parse_RequestMarketDepth :: "string \<Rightarrow> RequestMarketDepth"
  parse_CancelMarketDepth :: "string \<Rightarrow> CancelRequest"
  parse_CancelOrder :: "string \<Rightarrow> CancelOrder"
  parse_MarketOrder :: "string \<Rightarrow> order_request"
  parse_LimitOrder :: "string \<Rightarrow> order_request"
  parse_StopLimitOrder :: "string \<Rightarrow> order_request"

fun api_parsed :: "api_parsers \<Rightarrow> api_message \<Rightarrow> string \<Rightarrow> api_message" where
  "api_parsed P (RequestContractDetails_msg _) b = RequestContractDetails_msg (parse_RequestContractDetails P b)"
| "api_parsed P (RequestMarketData_msg _) b = RequestMarketData_msg (parse_RequestMarketData P b)"
| "api_parsed P (CancelMarketData_msg _) b = CancelMarketData_msg (parse_CancelMarketData P b)"
| "api_parsed P (RequestMarketDepth_msg _) b = RequestMarketDepth_msg (parse_RequestMarketDepth P b)"
| "api_parsed P (CancelMarketDepth_msg _) b = CancelMarketDepth_msg (parse_CancelMarketDepth P b)"
| "api_parsed P (CancelOrder_msg _) b = CancelOrder_msg (parse_CancelOrder P b)"
| "api_parsed P (MarketOrder_msg _) b = MarketOrder_msg (parse_MarketOrder P b)"
| "api_parsed P (LimitOrder_msg _) b = LimitOrder_msg (parse_LimitOrder P b)"
| "api_parsed P (StopLimitOrder_msg _) b = StopLimitOrder_msg (parse_StopLimitOrder P b)"

definition api_receive ::
  "api_parsers \<Rightarrow> api_message \<Rightarrow> zin list \<Rightarrow> (bool \<times> api_message) cpp option \<times> zin list" where
  "api_receive P m ins = proto_receive (api_parsed P m) api_validate m ins"

fun api_set_timestamp :: "u64 \<Rightarrow> api_message \<Rightarrow> api_message" where
  "api_set_timestamp t (RequestContractDetails_msg p) = RequestContractDetails_msg (p\<lparr>rcd_timestamp := Some t\<rparr>)"
| "api_set_timestamp t (RequestMarketData_msg p) = RequestMarketData_msg (p\<lparr>rmd_timestamp := Some t\<rparr>)"
| "api_set_timestamp t (CancelMarketData_msg p) = CancelMarketData_msg (p\<lparr>cr_timestamp := Some t\<rparr>)"
| "api_set_timestamp t (RequestMarketDepth_msg p) = RequestMarketDepth_msg (p\<lparr>rdp_timestamp := Some t\<rparr>)"
| "api_set_timestamp t (CancelMarketDepth_msg p) = CancelMarketDepth_msg (p\<lparr>cr_timestamp := Some t\<rparr>)"
| "api_set_timestamp t (CancelOrder_msg p) = CancelOrder_msg (p\<lparr>co_timestamp := Some t\<rparr>)"
| "api_set_timestamp t (MarketOrder_msg p) = MarketOrder_msg (p\<lparr>oq_timestamp := Some t\<rparr>)"
| "api_set_timestamp t (LimitOrder_msg p) = LimitOrder_msg (p\<lparr>oq_timestamp := Some t\<rparr>)"
| "api_set_timestamp t (StopLimitOrder_msg p) = StopLimitOrder_msg (p\<lparr>oq_timestamp := Some t\<rparr>)"

section \<open>Calls on the broker's client\<close>

datatype eclient_call =
    reqContractDetails i64 ib_contract
  | reqMktData i64 ib_contract string bool
  | cancelMktData i64
  | reqMktDepth i64 ib_contract u32
  | cancelMktDepth i64
  | cancelOrder i64
  | placeOrder i64 ib_contract ib_order

text \<open>The library values a call starts from: Boost, and the contract and order the constructors give.\<close>

record api_env =
  env_boost :: boost_lib
  env_contract :: ib_contract
  env_order :: ib_order

record api_state =
  api_maps :: ticker_maps
  api_calls :: "eclient_call list"

definition eclient :: "eclient_call \<Rightarrow> api_state \<Rightarrow> api_state" where
  "eclient c s = s\<lparr>api_calls := api_calls s @ [c]\<rparr>"

definition get_contract :: "Contract option \<Rightarrow> Contract" where
  "get_contract c = case_option Contract_default id c"

text \<open>
  Requests for market data register the contract; the request goes out under the id of the
  protocol buffer's contract when the registration gave a positive id.
\<close>

definition request_market ::
  "api_env \<Rightarrow> Contract \<Rightarrow> (ib_contract \<Rightarrow> eclient_call) \<Rightarrow> api_state \<Rightarrow> bool \<times> api_state" where
  "request_market E contract request s =
     (let (ok, c) = contract_from_proto (env_boost E) contract (env_contract E)
      in if ok
         then let (tickerId, t) = registerContract (env_contract E) c (api_maps s);
                  s' = s\<lparr>api_maps := t\<rparr>
              in if 0 <s tickerId then (True, eclient (request c) s') else (False, s')
         else (False, s))"

text \<open>The three orders differ in the fields translated and in the type set afterwards.\<close>

definition place_order ::
  "api_env \<Rightarrow> (priced_order \<Rightarrow> ib_order \<Rightarrow> bool \<times> ib_order) \<Rightarrow> order_request \<Rightarrow> (ib_order \<Rightarrow> ib_order) \<Rightarrow>
     api_state \<Rightarrow> bool \<times> api_state" where
  "place_order E translate p set_type s =
     (let (ok, order) = translate (priced_order.truncate p) (env_order E)
      in if \<not> ok then (False, s)
         else
           let proto_order = case_option Order_default id (po_order p);
               (ok', contract) = contract_from_proto (env_boost E) (get_contract (or_contract proto_order)) (env_contract E)
           in if ok' then (True, eclient (placeOrder (case_option 0 id (or_id proto_order)) contract (set_type order)) s)
              else (False, s))"

fun callApi :: "api_env \<Rightarrow> api_message \<Rightarrow> api_state \<Rightarrow> bool \<times> api_state" where
  "callApi E (RequestContractDetails_msg p) s =
     (let requestId = ucast (case_option 0 id (rcd_request_id p));
          (ok, c) = contract_from_proto (env_boost E) (get_contract (rcd_contract p)) (env_contract E)
      in if ok then (True, eclient (reqContractDetails requestId c) s) else (False, s))"
| "callApi E (RequestMarketData_msg p) s =
     request_market E (get_contract (rmd_contract p))
       (\<lambda>c. reqMktData (get_ct_id (get_contract (rmd_contract p))) c (case_option [] id (rmd_tick_types p))
              (case_option False id (rmd_snapshot p))) s"
| "callApi E (CancelMarketData_msg p) s =
     (True, eclient (cancelMktData (get_ct_id (get_contract (cr_contract p)))) s)"
| "callApi E (RequestMarketDepth_msg p) s =
     request_market E (get_contract (rdp_contract p))
       (\<lambda>c. reqMktDepth (get_ct_id (get_contract (rdp_contract p))) c (case_option 20 id (rdp_rows p))) s"
| "callApi E (CancelMarketDepth_msg p) s =
     (True, eclient (cancelMktDepth (get_ct_id (get_contract (cr_contract p)))) s)"
| "callApi E (CancelOrder_msg p) s = (True, eclient (cancelOrder (case_option 0 id (co_order_id p))) s)"
| "callApi E (MarketOrder_msg p) s = place_order E market_order_from_proto p (o_orderType_update (\<lambda>_. ''MKT'')) s"
| "callApi E (LimitOrder_msg p) s = place_order E limit_order_from_proto p (o_orderType_update (\<lambda>_. ''LMT'')) s"
| "callApi E (StopLimitOrder_msg p) s =
     place_order E stop_limit_order_from_proto p (o_orderType_update (\<lambda>_. ''STPLMT'')) s"

text \<open>The base class stamps the message with the time at which it was made and passes it on.\<close>

definition ProtoBuffer_callApi :: "api_env \<Rightarrow> u64 \<Rightarrow> api_message \<Rightarrow> api_state \<Rightarrow> bool \<times> api_state" where
  "ProtoBuffer_callApi E timestamp m s = callApi E (api_set_timestamp timestamp m) s"

section \<open>The applications\<close>

definition EM_VALID_MESSAGES :: "string list" where
  "EM_VALID_MESSAGES = [''proto.ib.CancelOrder'', ''proto.ib.MarketOrder'', ''proto.ib.LimitOrder'',
     ''proto.ib.StopLimitOrder'']"

definition CM_VALID_MESSAGES :: "string list" where
  "CM_VALID_MESSAGES = [''proto.ib.RequestContractDetails'']"

definition FIREHOSE_VALID_MESSAGES :: "string list" where
  "FIREHOSE_VALID_MESSAGES = [''proto.ib.RequestMarketData'', ''proto.ib.RequestMarketDepth'',
     ''proto.ib.CancelMarketData'', ''proto.ib.CancelMarketDepth'']"

definition IsMessageSupported :: "string list \<Rightarrow> string \<Rightarrow> bool" where
  "IsMessageSupported valid key \<longleftrightarrow> key \<in> set valid"

section \<open>Lemmas\<close>

lemma createMessage_key: "createMessage k = Some m \<Longrightarrow> api_key m = k \<and> m \<in> set handlerMap"
  unfolding createMessage_def by (auto simp: find_Some_iff)

lemma createMessage_handler:
  "m \<in> set handlerMap \<Longrightarrow> createMessage (api_key m) = Some m"
  by (simp add: createMessage_def handlerMap_def, elim disjE) simp_all

lemma createMessage_None: "createMessage k = None \<longleftrightarrow> k \<notin> api_key ` set handlerMap"
  by (auto simp: createMessage_def find_None_iff)

lemma supported_is_created:
  "IsMessageSupported EM_VALID_MESSAGES k \<or> IsMessageSupported CM_VALID_MESSAGES k \<or>
     IsMessageSupported FIREHOSE_VALID_MESSAGES k \<Longrightarrow> \<exists>m. createMessage k = Some m"
  by (auto simp: IsMessageSupported_def EM_VALID_MESSAGES_def CM_VALID_MESSAGES_def FIREHOSE_VALID_MESSAGES_def
      createMessage_def handlerMap_def)

lemma api_parsed_key [simp]: "api_key (api_parsed P m b) = api_key m"
  by (cases m) simp_all

lemma api_set_timestamp_key [simp]: "api_key (api_set_timestamp t m) = api_key m"
  by (cases m) simp_all

lemma order_request_fields [simp]:
  "po_order (p\<lparr>oq_timestamp := t\<rparr>) = po_order p" "po_limit_price (p\<lparr>oq_timestamp := t\<rparr>) = po_limit_price p"
  "po_stop_price (p\<lparr>oq_timestamp := t\<rparr>) = po_stop_price p"
  by (cases p; simp)+

text \<open>The stamp is not read by any call, and setting it keeps a message initialised.\<close>

lemma callApi_set_timestamp [simp]: "callApi E (api_set_timestamp t m) s = callApi E m s"
  by (cases m) (simp_all add: place_order_def market_order_from_proto_def limit_order_from_proto_def
      stop_limit_order_from_proto_def priced_order.defs cong: if_cong)

lemma api_validate_set_timestamp: "api_validate m \<Longrightarrow> api_validate (api_set_timestamp t m)"
  by (cases m) (simp_all add: stamped_def)

text \<open>
  A call that succeeds makes exactly one call of the broker's client; one that fails makes none.
  The registry is left alone or changed by one registration.
\<close>

definition api_effect :: "api_env \<Rightarrow> api_state \<Rightarrow> bool \<Rightarrow> api_state \<Rightarrow> bool" where
  "api_effect E s ok s' \<longleftrightarrow>
     (\<exists>c. api_calls s' = api_calls s @ (if ok then [c] else [])) \<and>
     (api_maps s' = api_maps s \<or> (\<exists>c n. registerContract (env_contract E) c (api_maps s) = (n, api_maps s')))"

lemma eclient_effect: "api_effect E s True (eclient c s)"
  by (simp add: api_effect_def eclient_def)

lemma request_market_effect: "request_market E contract request s = (ok, s') \<Longrightarrow> api_effect E s ok s'"
  by (auto simp: request_market_def api_effect_def Let_def eclient_def split: prod.splits if_splits)

lemma place_order_effect: "place_order E translate p set_type s = (ok, s') \<Longrightarrow> api_effect E s ok s'"
  by (auto simp: place_order_def api_effect_def Let_def eclient_def split: prod.splits if_splits)

lemma no_effect: "api_effect E s False s"
  by (simp add: api_effect_def)

lemma callApi_effect:
  assumes "callApi E m s = (ok, s')"
  shows "api_effect E s ok s'"
proof (cases m)
  case (RequestContractDetails_msg p)
  then show ?thesis using assms
    by (auto simp: Let_def eclient_effect no_effect split: prod.splits if_splits)
qed (use assms in \<open>auto intro: request_market_effect place_order_effect eclient_effect\<close>)

lemma callApi_registered:
  "callApi E m s = (ok, s') \<Longrightarrow> registered (api_maps s) \<Longrightarrow> registered (api_maps s')"
  using callApi_effect [of E m s ok s'] by (auto simp: api_effect_def intro: registered.step)

end
