(* ===== verification/Connector.thy ===== *)
theory Connector
  imports Api_Messages
begin

text \<open>
  The inbound side of a gateway connector, \<^verbatim>\<open>ib/SocketConnectorBase.hpp\<close>: the requests a reactor
  thread (\<^verbatim>\<open>zmq/Reactor.cpp\<close>) reads from its socket, the response code of each, and the counters kept.
  A reactor on a \<^verbatim>\<open>REP\<close> socket answers with the code, one on a \<^verbatim>\<open>PULL\<close> socket does not.
\<close>

section \<open>State\<close>

record connector =
  cn_out :: out_socket
  cn_api :: api_state
  inbound_requests :: i64
  inbound_requests_ok :: i64
  inbound_requests_errors :: i64
  inbound_requests_exceptions :: i64

definition count_request :: "connector \<Rightarrow> connector" where
  "count_request c = c\<lparr>inbound_requests := inbound_requests c + 1\<rparr>"
definition count_ok :: "connector \<Rightarrow> connector" where
  "count_ok c = c\<lparr>inbound_requests_ok := inbound_requests_ok c + 1\<rparr>"
definition count_error :: "connector \<Rightarrow> connector" where
  "count_error c = c\<lparr>inbound_requests_errors := inbound_requests_errors c + 1\<rparr>"
definition count_exception :: "connector \<Rightarrow> connector" where
  "count_exception c = c\<lparr>inbound_requests_exceptions := inbound_requests_exceptions c + 1\<rparr>"

lemmas count_defs = count_request_def count_ok_def count_error_def count_exception_def

section \<open>One request\<close>

definition afterMessage :: "bool \<Rightarrow> nat \<Rightarrow> connector \<Rightarrow> unit cpp \<times> connector" where
  "afterMessage rep responseCode c =
     (if rep
      then case send_copy (show_nat responseCode) False (cn_out c) of
             (Inl e, s) \<Rightarrow> (Inl e, c\<lparr>cn_out := s\<rparr>)
           | (Inr _, s) \<Rightarrow> (Inr (), c\<lparr>cn_out := s\<rparr>)
      else (Inr (), c))"

lemma received_shorter: "(Received b rcvmore, rest) = zmq_receive ins \<Longrightarrow> length rest < length ins"
  by (rule zmq_receive_shorter) (auto dest: sym)

text \<open>The parts of an unsupported message are read to its end. \<open>None\<close>: the read waits.\<close>

function drain :: "bool \<Rightarrow> zin list \<Rightarrow> unit cpp option \<times> zin list" where
  "drain False ins = (Some (Inr ()), ins)"
| "drain True ins =
     (case zmq_receive ins of
        (Blocked, rest) \<Rightarrow> (None, rest)
      | (Threw e, rest) \<Rightarrow> (Some (Inl (ZmqError e)), rest)
      | (Received buff rcvmore, rest) \<Rightarrow> drain rcvmore rest)"
  by pat_completeness auto
termination
  by (relation "measure (length \<circ> snd)") (auto dest: received_shorter)

definition handle_supported ::
  "api_parsers \<Rightarrow> api_env \<Rightarrow> u64 \<Rightarrow> bool \<Rightarrow> string \<Rightarrow> zin list \<Rightarrow> connector \<Rightarrow>
     nat cpp option \<times> zin list \<times> connector" where
  "handle_supported P E now rcvmore key ins c =
     (if rcvmore
      then case createMessage key of
             None \<Rightarrow> (Some (Inr 503), ins, c)
           | Some m0 \<Rightarrow>
               (case api_receive P m0 ins of
                  (None, rest) \<Rightarrow> (None, rest, c)
                | (Some (Inl e), rest) \<Rightarrow> (Some (Inl e), rest, c)
                | (Some (Inr (success, m)), rest) \<Rightarrow>
                    if \<not> success then (Some (Inr 400), rest, c)
                    else if \<not> api_validate m then (Some (Inr 412), rest, count_error (count_request c))
                    else let (ok, a) = ProtoBuffer_callApi E now m (cn_api c);
                             c' = (count_request c)\<lparr>cn_api := a\<rparr>
                         in if ok then (Some (Inr 200), rest, count_ok c')
                            else (Some (Inr 502), rest, count_error c'))
      else (Some (Inr 500), ins, c))"

definition handle_message ::
  "(string \<Rightarrow> bool) \<Rightarrow> api_parsers \<Rightarrow> api_env \<Rightarrow> u64 \<Rightarrow> bool \<Rightarrow> string \<Rightarrow> zin list \<Rightarrow> connector \<Rightarrow>
     nat cpp option \<times> zin list \<times> connector" where
  "handle_message supported P E now rcvmore key ins c =
     (if \<not> supported key
      then let (r, rest) = drain rcvmore ins in (map_option (\<lambda>x. cpp_bind x (\<lambda>_. Inr 404)) r, rest, c)
      else handle_supported P E now rcvmore key ins c)"

lemma drain_shorter: "drain rcvmore ins = (r, rest) \<Longrightarrow> length rest \<le> length ins"
proof (induction rcvmore ins arbitrary: r rest rule: drain.induct)
  case (2 ins)
  obtain x rest' where x: "zmq_receive ins = (x, rest')" by (rule prod.exhaust)
  show ?case
  proof (cases x)
    case Blocked
    then show ?thesis using 2(2) x zmq_receive_blocked [of ins rest'] by auto
  next
    case (Threw e)
    then show ?thesis using 2(2) x zmq_receive_shorter [OF x] by auto
  next
    case (Received b mo)
    then show ?thesis using 2(2) x zmq_receive_shorter [OF x] 2(1) [OF x [symmetric] Received, of r rest] by auto
  qed
qed simp

lemma proto_receive_shorter: "proto_receive parsed init p ins = (r, rest) \<Longrightarrow> length rest \<le> length ins"
  unfolding proto_receive_def
  by (cases "zmq_receive ins")
    (auto split: recv_result.splits dest: zmq_receive_blocked zmq_receive_shorter)

lemma handle_message_shorter:
  "handle_message supported P E now rcvmore key ins c = (r, rest, c') \<Longrightarrow> length rest \<le> length ins"
  unfolding handle_message_def handle_supported_def api_receive_def Let_def
  by (auto split: if_splits option.splits sum.splits prod.splits dest: drain_shorter proto_receive_shorter)

section \<open>The loop\<close>

text \<open>
  \<^verbatim>\<open>handleReactorInboundMessages\<close>: every pass reads a key and deals with the message; only a socket
  error ends the loop, with \<^verbatim>\<open>false\<close>. The clock, read for each message made, is an argument: the
  time as a function of the number of frames still to come.
\<close>

function handle_inbound ::
  "bool \<Rightarrow> (string \<Rightarrow> bool) \<Rightarrow> api_parsers \<Rightarrow> api_env \<Rightarrow> (nat \<Rightarrow> u64) \<Rightarrow> zin list \<Rightarrow> connector \<Rightarrow>
     loop_end \<times> zin list \<times> connector" where
  "handle_inbound rep supported P E clock ins c =
     (case zmq_receive ins of
        (Blocked, rest) \<Rightarrow> (Waiting, rest, c)
      | (Threw e, rest) \<Rightarrow> (Stopped, rest, count_exception c)
      | (Received key rcvmore, rest) \<Rightarrow>
          (case handle_message supported P E (clock (length rest)) rcvmore key rest c of
             (None, rest', c') \<Rightarrow> (Waiting, rest', c')
           | (Some (Inl e), rest', c') \<Rightarrow> (Stopped, rest', count_exception c')
           | (Some (Inr code), rest', c') \<Rightarrow>
               (case afterMessage rep code c' of
                  (Inl e, c'') \<Rightarrow> (Stopped, rest', count_exception c'')
                | (Inr _, c'') \<Rightarrow> handle_inbound rep supported P E clock rest' c'')))"
  by pat_completeness auto
termination
  by (relation "measure (\<lambda>(_, _, _, _, _, ins, _). length ins)")
    (auto dest!: received_shorter handle_message_shorter [OF sym])

declare handle_inbound.simps [simp del]

text \<open>
  \<^verbatim>\<open>respond\<close>: before the driver runs nothing is read, and the call returns \<^verbatim>\<open>true\<close> at once. The reactor
  calls it until it returns \<^verbatim>\<open>false\<close>; what the driver is at each call is an argument.
\<close>

definition connector_respond ::
  "bool \<Rightarrow> bool \<Rightarrow> bool \<Rightarrow> (string \<Rightarrow> bool) \<Rightarrow> api_parsers \<Rightarrow> api_env \<Rightarrow> (nat \<Rightarrow> u64) \<Rightarrow> zin list \<Rightarrow> connector \<Rightarrow>
     bool option \<times> zin list \<times> connector" where
  "connector_respond skipConnection IsDriverRunning rep supported P E clock ins c =
     (if \<not> skipConnection \<and> \<not> IsDriverRunning then (Some True, ins, c)
      else case handle_inbound rep supported P E clock ins c of
             (Waiting, rest, c') \<Rightarrow> (None, rest, c')
           | (Stopped, rest, c') \<Rightarrow> (Some False, rest, c'))"

fun reactor_process ::
  "bool \<Rightarrow> bool list \<Rightarrow> bool \<Rightarrow> (string \<Rightarrow> bool) \<Rightarrow> api_parsers \<Rightarrow> api_env \<Rightarrow> (nat \<Rightarrow> u64) \<Rightarrow> zin list \<Rightarrow> connector \<Rightarrow>
     loop_end \<times> zin list \<times> connector" where
  "reactor_process skip [] rep supported P E clock ins c = (Waiting, ins, c)"
| "reactor_process skip (running # later) rep supported P E clock ins c =
     (case connector_respond skip running rep supported P E clock ins c of
        (Some True, rest, c') \<Rightarrow> reactor_process skip later rep supported P E clock rest c'
      | (Some False, rest, c') \<Rightarrow> (Stopped, rest, c')
      | (None, rest, c') \<Rightarrow> (Waiting, rest, c'))"

end
