(* ===== verification/Connector_Laws.thy ===== *)
theory Connector_Laws
  imports Connector
begin

text \<open>
  What the inbound side of a connector promises: a server that gives every request one response
  code, in order (\<open>serve\<close>), the proof that the loop over the socket's frames implements it, and what
  goes wrong for a message with more parts than its type has.
\<close>

section \<open>Requests and their answers\<close>

text \<open>A request is the list of its parts; on the wire all but the last say that more follows.\<close>

fun multipart :: "string list \<Rightarrow> zin list" where
  "multipart [] = []"
| "multipart [f] = [ZFrame f False]"
| "multipart (f # fs) = ZFrame f True # multipart fs"

definition request_ok :: "(string \<Rightarrow> bool) \<Rightarrow> string list \<Rightarrow> bool" where
  "request_ok supported r \<longleftrightarrow> r \<noteq> [] \<and> [] \<notin> set r \<and>
     (supported (hd r) \<longrightarrow> length r \<le> 2 \<and> createMessage (hd r) \<noteq> None)"

fun serve_one :: "(string \<Rightarrow> bool) \<Rightarrow> api_parsers \<Rightarrow> api_env \<Rightarrow> string list \<Rightarrow> api_state \<Rightarrow> nat \<times> api_state" where
  "serve_one supported P E (key # body) a =
     (if \<not> supported key then (404, a)
      else case body of
             [] \<Rightarrow> (500, a)
           | b # _ \<Rightarrow>
               (case createMessage key of
                  None \<Rightarrow> (503, a)
                | Some m0 \<Rightarrow>
                    if api_validate (api_parsed P m0 b)
                    then let (ok, a') = callApi E (api_parsed P m0 b) a in (if ok then 200 else 502, a')
                    else (400, a)))"
| "serve_one supported P E [] a = (404, a)"

fun serve :: "(string \<Rightarrow> bool) \<Rightarrow> api_parsers \<Rightarrow> api_env \<Rightarrow> string list list \<Rightarrow> api_state \<Rightarrow> nat list \<times> api_state" where
  "serve supported P E [] a = ([], a)"
| "serve supported P E (r # rs) a =
     (let (n, a1) = serve_one supported P E r a; (ns, a2) = serve supported P E rs a1 in (n # ns, a2))"

text \<open>How one response shows in the connector.\<close>

definition note_code :: "bool \<Rightarrow> nat \<Rightarrow> api_state \<Rightarrow> connector \<Rightarrow> connector" where
  "note_code rep n a c =
     (let c1 = c\<lparr>cn_api := a\<rparr>;
          c2 = (if n = 200 then count_ok (count_request c1)
                else if n = 502 then count_error (count_request c1) else c1)
      in if rep then c2\<lparr>cn_out := (cn_out c)\<lparr>zs_sent := zs_sent (cn_out c) @ [(show_nat n, False)]\<rparr>\<rparr> else c2)"

section \<open>One request\<close>

lemma zmq_receive_frame [simp]: "f \<noteq> [] \<Longrightarrow> zmq_receive (ZFrame f mo # rest) = (Received f mo, rest)"
  by simp

lemma multipart_Cons: "fs \<noteq> [] \<Longrightarrow> multipart (f # fs) = ZFrame f True # multipart fs"
  by (cases fs) simp_all

lemma drain_multipart:
  "fs \<noteq> [] \<Longrightarrow> [] \<notin> set fs \<Longrightarrow> drain True (multipart fs @ rest) = (Some (Inr ()), rest)"
proof (induction fs rule: multipart.induct)
  case (3 f g fs)
  then show ?case by (simp del: multipart.simps add: multipart_Cons)
qed auto

lemma handle_message_request:
  assumes "request_ok supported (key # body)"
    and "serve_one supported P E (key # body) (cn_api c) = (n, a)"
  shows "handle_message supported P E now (body \<noteq> []) key (multipart body @ rest) c =
     (Some (Inr n), rest, note_code False n a c)"
proof (cases "supported key")
  case False
  have "drain (body \<noteq> []) (multipart body @ rest) = (Some (Inr ()), rest)"
    using assms(1) drain_multipart [of body rest] by (cases "body = []") (auto simp: request_ok_def)
  with False assms(2) show ?thesis by (simp add: handle_message_def note_code_def cpp_bind_def)
next
  case True
  then have "length body \<le> 1" and create: "createMessage key \<noteq> None"
    using assms(1) by (auto simp: request_ok_def)
  then consider "body = []" | b where "body = [b]" by (cases body) auto
  then show ?thesis
  proof cases
    case 1
    then show ?thesis using True assms(2)
      by (simp add: handle_message_def handle_supported_def note_code_def)
  next
    case (2 b)
    obtain m0 where m0: "createMessage key = Some m0" using create by auto
    let ?m = "api_parsed P m0 b"
    have "b \<noteq> []" using assms(1) 2 by (auto simp: request_ok_def)
    then have recv: "api_receive P m0 (multipart body @ rest) =
        (Some (Inr (if api_validate ?m then (True, ?m) else (False, m0))), rest)"
      using 2 by (simp add: api_receive_def proto_receive_def)
    obtain ok a' where call: "callApi E ?m (cn_api c) = (ok, a')" by (rule prod.exhaust)
    show ?thesis
      using True assms(2) 2 m0 recv call
      by (cases "api_validate ?m"; cases ok)
        (simp_all add: handle_message_def handle_supported_def note_code_def ProtoBuffer_callApi_def count_defs)
  qed
qed

lemma handle_inbound_request:
  assumes ok: "request_ok supported r" and serve: "serve_one supported P E r (cn_api c) = (n, a)"
    and "zs_faults (cn_out c) = []"
  shows "handle_inbound rep supported P E clock (multipart r @ rest) c =
     handle_inbound rep supported P E clock rest (note_code rep n a c)"
proof -
  obtain key body where r: "r = key # body" using ok by (cases r) (auto simp: request_ok_def)
  have "key \<noteq> []" using ok r by (auto simp: request_ok_def)
  then have recv: "zmq_receive (multipart r @ rest) = (Received key (body \<noteq> []), multipart body @ rest)"
    by (cases body) (simp_all add: r)
  have "afterMessage rep n (note_code False n a c) = (Inr (), note_code rep n a c)"
    using assms(3) by (simp add: afterMessage_def note_code_def count_defs Let_def)
  then show ?thesis
    using recv handle_message_request [OF ok [unfolded r] serve [unfolded r]]
    by (subst handle_inbound.simps) simp
qed

lemma note_code_simps [simp]:
  "cn_api (note_code rep n a c) = a"
  "zs_faults (cn_out (note_code rep n a c)) = zs_faults (cn_out c)"
  "zs_sent (cn_out (note_code rep n a c)) = zs_sent (cn_out c) @ (if rep then [(show_nat n, False)] else [])"
  "inbound_requests_ok (note_code rep n a c) = inbound_requests_ok c + (if n = 200 then 1 else 0)"
  "inbound_requests_errors (note_code rep n a c) = inbound_requests_errors c + (if n = 502 then 1 else 0)"
  "inbound_requests_exceptions (note_code rep n a c) = inbound_requests_exceptions c"
  by (simp_all add: note_code_def count_defs Let_def)

section \<open>Properties\<close>

text \<open>
  C5. The connector implements its abstract server. For any stream of requests - an unsupported one of
  any number of parts, a supported one of a key and at most one part - the loop reads exactly the
  stream and waits for more. On a \<^verbatim>\<open>REP\<close> socket every request is answered by one frame with its code,
  in the order of the requests; on a \<^verbatim>\<open>PULL\<close> socket nothing is sent. The registry and the calls made on
  the broker's client are those of the abstract server, and the two counters count the codes 200 and 502.
\<close>

theorem inbound_implements_server:
  assumes "\<forall>r \<in> set rs. request_ok supported r" and "zs_faults (cn_out c) = []"
    and "serve supported P E rs (cn_api c) = (codes, a)"
  shows "\<exists>c'. handle_inbound rep supported P E clock (concat (map multipart rs)) c = (Waiting, [], c') \<and>
     cn_api c' = a \<and> length codes = length rs \<and>
     zs_sent (cn_out c') = zs_sent (cn_out c) @ (if rep then map (\<lambda>n. (show_nat n, False)) codes else []) \<and>
     inbound_requests_ok c' = inbound_requests_ok c + of_nat (count_list codes 200) \<and>
     inbound_requests_errors c' = inbound_requests_errors c + of_nat (count_list codes 502)"
  using assms
proof (induction rs arbitrary: c codes)
  case Nil
  then show ?case by (subst handle_inbound.simps) simp
next
  case (Cons r rs)
  obtain n a1 where one: "serve_one supported P E r (cn_api c) = (n, a1)" by (rule prod.exhaust)
  obtain ns a2 where more: "serve supported P E rs a1 = (ns, a2)" by (rule prod.exhaust)
  have codes: "codes = n # ns" "a = a2" using Cons.prems(3) one more by simp_all
  have step: "handle_inbound rep supported P E clock (concat (map multipart (r # rs))) c =
      handle_inbound rep supported P E clock (concat (map multipart rs)) (note_code rep n a1 c)"
    using handle_inbound_request [OF _ one Cons.prems(2)] Cons.prems(1) by simp
  have "\<exists>c'. handle_inbound rep supported P E clock (concat (map multipart rs)) (note_code rep n a1 c) = (Waiting, [], c') \<and>
    cn_api c' = a \<and> length ns = length rs \<and>
    zs_sent (cn_out c') = zs_sent (cn_out (note_code rep n a1 c)) @ (if rep then map (\<lambda>n. (show_nat n, False)) ns else []) \<and>
    inbound_requests_ok c' = inbound_requests_ok (note_code rep n a1 c) + of_nat (count_list ns 200) \<and>
    inbound_requests_errors c' = inbound_requests_errors (note_code rep n a1 c) + of_nat (count_list ns 502)"
    by (rule Cons.IH) (use Cons.prems codes more in simp_all)
  then obtain c' where c': "handle_inbound rep supported P E clock (concat (map multipart rs)) (note_code rep n a1 c) = (Waiting, [], c')"
    "cn_api c' = a" "length ns = length rs"
    "zs_sent (cn_out c') = zs_sent (cn_out (note_code rep n a1 c)) @ (if rep then map (\<lambda>n. (show_nat n, False)) ns else [])"
    "inbound_requests_ok c' = inbound_requests_ok (note_code rep n a1 c) + of_nat (count_list ns 200)"
    "inbound_requests_errors c' = inbound_requests_errors (note_code rep n a1 c) + of_nat (count_list ns 502)"
    by (elim exE conjE)
  show ?case unfolding step codes(1)
    by (rule exI [of _ c']) (use c' in simp)
qed

text \<open>A concrete connector: parsers that read any order cancellation as that of order 7.\<close>

definition demo_parsers :: api_parsers where
  "demo_parsers = \<lparr>parse_RequestContractDetails = (\<lambda>b. \<lparr>rcd_timestamp = None, rcd_message_id = None, rcd_request_id = None,
       rcd_contract = None\<rparr>),
     parse_RequestMarketData = (\<lambda>b. \<lparr>rmd_timestamp = Some 1, rmd_message_id = Some 1,
       rmd_contract = Some (Contract_default\<lparr>ct_id := Some 5, ct_symbol := Some b\<rparr>), rmd_tick_types = None,
       rmd_snapshot = None\<rparr>),
     parse_CancelMarketData = (\<lambda>b. CancelRequest_default),
     parse_RequestMarketDepth = (\<lambda>b. \<lparr>rdp_timestamp = None, rdp_message_id = None, rdp_contract = None, rdp_rows = None\<rparr>),
     parse_CancelMarketDepth = (\<lambda>b. CancelRequest_default),
     parse_CancelOrder = (\<lambda>b. \<lparr>co_timestamp = Some 1, co_message_id = Some 1, co_order_id = Some 7\<rparr>),
     parse_MarketOrder = (\<lambda>b. order_request_default),
     parse_LimitOrder = (\<lambda>b. order_request_default),
     parse_StopLimitOrder = (\<lambda>b. order_request_default)\<rparr>"

definition demo_env :: api_env where
  "demo_env = \<lparr>env_boost = ref_boost, env_contract = blank_contract, env_order = blank_order\<rparr>"

definition demo_connector :: connector where
  "demo_connector = \<lparr>cn_out = \<lparr>zs_sent = [], zs_faults = []\<rparr>, cn_api = \<lparr>api_maps = empty_maps, api_calls = []\<rparr>,
     inbound_requests = 0, inbound_requests_ok = 0, inbound_requests_errors = 0, inbound_requests_exceptions = 0\<rparr>"

definition demo_requests :: "string list list" where
  "demo_requests = [[''proto.ib.CancelOrder'', ''x''], [''nonsense'', ''1'', ''2''], [''proto.ib.CancelOrder'']]"

lemma demo_served:
  "serve (IsMessageSupported EM_VALID_MESSAGES) demo_parsers demo_env demo_requests (cn_api demo_connector) =
     ([200, 404, 500], \<lparr>api_maps = empty_maps, api_calls = [cancelOrder 7]\<rparr>)"
  by (simp add: demo_requests_def IsMessageSupported_def EM_VALID_MESSAGES_def createMessage_def handlerMap_def
      demo_parsers_def demo_connector_def stamped_def eclient_def)

theorem inbound_implements_server_witness:
  "\<exists>c'. handle_inbound True (IsMessageSupported EM_VALID_MESSAGES) demo_parsers demo_env (\<lambda>_. 0)
       (concat (map multipart demo_requests)) demo_connector = (Waiting, [], c') \<and>
     zs_sent (cn_out c') = [(''200'', False), (''404'', False), (''500'', False)] \<and>
     api_calls (cn_api c') = [cancelOrder 7]"
proof -
  have ok: "\<forall>r \<in> set demo_requests. request_ok (IsMessageSupported EM_VALID_MESSAGES) r"
    by (simp add: demo_requests_def request_ok_def IsMessageSupported_def EM_VALID_MESSAGES_def createMessage_def
        handlerMap_def)
  have "zs_faults (cn_out demo_connector) = []" "zs_sent (cn_out demo_connector) = []"
    by (simp_all add: demo_connector_def)
  moreover have "map (\<lambda>n. (show_nat n, False)) [200, 404, 500] = [(''200'', False), (''404'', False), (''500'', False)]"
    by (simp add: show_nat.simps digit_char_def char_of_def bit_Suc_0_iff)
  ultimately show ?thesis
    using inbound_implements_server [OF ok _ demo_served, of True "\<lambda>_. 0"] by auto
qed

text \<open>
  A supported message with one part too many is torn apart. Its second part is read and refused, its
  third part stays in the socket. A reactor that does not answer takes the third part for the key of a
  next message; one that answers breaks the request and answer discipline of its socket: where the
  library refuses to send before the request is read to its end, the loop ends.
\<close>

theorem extra_part_desynchronises:
  assumes "supported key" "createMessage key \<noteq> None" "key \<noteq> []" "b \<noteq> []"
    and "zs_faults (cn_out c) = [Some e]"
  shows "handle_inbound False supported P E clock (multipart [key, b, x] @ rest) c =
       handle_inbound False supported P E clock (ZFrame x False # rest) c \<and>
     handle_inbound True supported P E clock (multipart [key, b, x] @ rest) c =
       (Stopped, ZFrame x False # rest, count_exception (c\<lparr>cn_out := (cn_out c)\<lparr>zs_faults := []\<rparr>\<rparr>))"
proof -
  obtain m0 where m0: "createMessage key = Some m0" using assms(2) by auto
  have recv: "zmq_receive (multipart [key, b, x] @ rest) = (Received key True, multipart [b, x] @ rest)"
    using assms(3) by simp
  have msg: "handle_message supported P E now True key (multipart [b, x] @ rest) c =
      (Some (Inr 400), ZFrame x False # rest, c)" for now
    using assms(1,4) m0 by (simp add: handle_message_def handle_supported_def api_receive_def proto_receive_def)
  have send: "afterMessage False 400 c = (Inr (), c)"
    "afterMessage True 400 c = (Inl (ZmqError e), c\<lparr>cn_out := (cn_out c)\<lparr>zs_faults := []\<rparr>\<rparr>)"
    using assms(5) by (simp_all add: afterMessage_def send_copy_def st_bind_def socket_send_def)
  show ?thesis
    by (intro conjI; subst handle_inbound.simps) (simp_all only: recv msg send recv_result.case prod.case
        option.case sum.case)
qed

theorem extra_part_desynchronises_witness:
  "handle_inbound True (IsMessageSupported EM_VALID_MESSAGES) demo_parsers demo_env (\<lambda>_. 0)
     (multipart [''proto.ib.CancelOrder'', ''a'', ''b''] @ [])
     (demo_connector\<lparr>cn_out := \<lparr>zs_sent = [], zs_faults = [Some 156]\<rparr>\<rparr>) =
   (Stopped, [ZFrame ''b'' False], count_exception demo_connector)"
  using extra_part_desynchronises [of "IsMessageSupported EM_VALID_MESSAGES" "''proto.ib.CancelOrder''" "''a''"
      "demo_connector\<lparr>cn_out := \<lparr>zs_sent = [], zs_faults = [Some 156]\<rparr>\<rparr>" 156 demo_parsers demo_env
      "\<lambda>_. 0" "''b''" "[]"]
  by (simp add: IsMessageSupported_def EM_VALID_MESSAGES_def createMessage_def handlerMap_def demo_connector_def)


definition demo_stock_message :: Contract where
  "demo_stock_message = Contract_default\<lparr>ct_id := Some 5, ct_symbol := Some ''AAPL''\<rparr>"


end
