(* ===== verification/Eclient_Driver.thy ===== *)
theory Eclient_Driver
  imports Prelude
begin

text \<open>
  The connection to the broker's gateway: \<^verbatim>\<open>ib/AsioEClientDriver.cpp\<close>. A driver owns a socket and a
  listener thread; the calls of other threads and the passes of the listener are the actions of a
  transition system. The socket and the broker's protocol handler are library code: the outcomes of
  socket operations and what the handler does while it checks messages are part of the action. The
  handler counts as connected only through checking messages, when the gateway has answered.

  The latency figures, which only the exported counters show, are left out.
\<close>

section \<open>State\<close>

datatype driver_state = STARTING | RUNNING | STOPPING | STOPPED

text \<open>The listener waits for the connection, listens, or has returned from \<^verbatim>\<open>block\<close>.\<close>

datatype listener = Awaiting | Listening | Returned

datatype driver_event = onEventThreadStart | onEventThreadStop | onSocketConnect bool | onSocketClose bool | onError

record driver =
  socketOk :: bool
  driver_state :: driver_state
  driver_clientId :: i32
  socket_is_open :: bool
  handler_connected :: bool
  listener_state :: listener
  processed :: bool
  driver_callback :: bool
  driver_events :: "driver_event list"
  connection_exceptions :: i64
  connection_resets :: i64
  connection_closes :: i64
  socket_connects :: i64
  socket_disconnects :: i64
  send_errors :: i64
  send_count :: i64
  receive_errors :: i64
  event_loop_errors :: i64
  event_loop_stopped :: bool

definition call_back :: "driver_event \<Rightarrow> driver \<Rightarrow> driver" where
  "call_back e d = (if driver_callback d then d\<lparr>driver_events := driver_events d @ [e]\<rparr> else d)"

text \<open>A new driver: its listener has announced itself and waits.\<close>

definition AsioEClientDriver :: "bool \<Rightarrow> driver" where
  "AsioEClientDriver cb = call_back onEventThreadStart
     \<lparr>socketOk = False, driver_state = STARTING, driver_clientId = - 1, socket_is_open = False,
      handler_connected = False, listener_state = Awaiting, processed = True, driver_callback = cb, driver_events = [],
      connection_exceptions = 0, connection_resets = 0, connection_closes = 0, socket_connects = 0,
      socket_disconnects = 0, send_errors = 0, send_count = 0, receive_errors = 0, event_loop_errors = 0,
      event_loop_stopped = False\<rparr>"

definition IsSocketOK :: "driver \<Rightarrow> bool" where
  "IsSocketOK d \<longleftrightarrow> socketOk d \<and> driver_state d = RUNNING"

section \<open>Operations\<close>

definition driver_reset :: "driver \<Rightarrow> driver" where
  "driver_reset d =
     (if socket_is_open d then d\<lparr>connection_resets := connection_resets d + 1, socket_is_open := False\<rparr> else d)"

text \<open>\<open>close_ok\<close>: the close reports no error. The socket is closed in either case.\<close>

definition closeSocket :: "bool \<Rightarrow> driver \<Rightarrow> bool \<times> driver" where
  "closeSocket close_ok d =
     (if socket_is_open d
      then let d1 = d\<lparr>socket_is_open := False\<rparr>
           in if driver_callback d \<and> close_ok
              then (close_ok, call_back (onSocketClose True) (d1\<lparr>connection_closes := connection_closes d1 + 1\<rparr>))
              else (close_ok, d1)
      else (True, d))"

definition Send :: "bool \<Rightarrow> driver \<Rightarrow> driver" where
  "Send sent d =
     (if sent then d\<lparr>send_count := send_count d + 1\<rparr>
      else d\<lparr>send_errors := send_errors d + 1, socketOk := False, driver_state := STOPPING\<rparr>)"

definition Receive :: "bool \<Rightarrow> bool \<Rightarrow> driver \<Rightarrow> driver" where
  "Receive received close_ok d =
     (if received then d
      else snd (closeSocket close_ok (d\<lparr>receive_errors := receive_errors d + 1, socketOk := False,
                                     driver_state := STOPPING\<rparr>)))"

text \<open>
  \<^verbatim>\<open>Connect\<close>: the address is parsed outside the try block. A connecting socket opens first; \<open>opened\<close> tells
  whether a failed attempt leaves it open. The handler greets the gateway with the sends \<open>sends\<close>.
\<close>

datatype tcp_outcome = Tcp_connected "bool list" | Tcp_failed bool

definition Connect :: "bool \<Rightarrow> tcp_outcome \<Rightarrow> i32 \<Rightarrow> driver \<Rightarrow> bool cpp \<times> driver" where
  "Connect host_ok tcp clientId d =
     (let d1 = d\<lparr>driver_clientId := clientId\<rparr>
      in if \<not> host_ok then (Inl SystemError, d1)
         else
           let d2 = d1\<lparr>socket_connects := socket_connects d1 + 1\<rparr>;
               d3 = (case tcp of
                       Tcp_connected sends \<Rightarrow>
                         (fold Send sends (d2\<lparr>socketOk := True, socket_is_open := True\<rparr>))\<lparr>driver_state := RUNNING\<rparr>
                     | Tcp_failed opened \<Rightarrow>
                         d2\<lparr>connection_exceptions := connection_exceptions d2 + 1, socketOk := False,
                            socket_is_open := opened\<rparr>);
               result = IsSocketOK d3
           in (Inr result, if socketOk d3 then call_back (onSocketConnect result) d3 else d3))"

text \<open>\<^verbatim>\<open>Disconnect\<close> up to the wait for the listener, and after it.\<close>

definition Disconnect_begin :: "bool \<Rightarrow> driver \<Rightarrow> bool \<times> driver" where
  "Disconnect_begin close_ok d =
     closeSocket close_ok (d\<lparr>handler_connected := False, socket_disconnects := socket_disconnects d + 1,
                          driver_state := STOPPING\<rparr>)"

definition Disconnect_end :: "driver \<Rightarrow> driver" where
  "Disconnect_end d = d\<lparr>driver_state := STOPPED\<rparr>"

section \<open>The listener\<close>

text \<open>What the protocol handler does to the driver while it checks messages.\<close>

datatype handler_io = Handler_send bool | Handler_receive bool bool | Handler_connected bool

fun handler_step :: "handler_io \<Rightarrow> driver \<Rightarrow> driver" where
  "handler_step (Handler_send sent) d = Send sent d"
| "handler_step (Handler_receive received close_ok) d = Receive received close_ok d"
| "handler_step (Handler_connected b) d = d\<lparr>handler_connected := b\<rparr>"

text \<open>The result of the check, or \<open>None\<close> when it throws.\<close>

definition check_messages :: "handler_io list \<Rightarrow> bool option \<Rightarrow> bool \<Rightarrow> driver \<Rightarrow> driver" where
  "check_messages io result close_ok d =
     (let d1 = fold handler_step io d
      in case result of
           Some ok \<Rightarrow> d1\<lparr>processed := ok\<rparr>
         | None \<Rightarrow>
             let d2 = d1\<lparr>event_loop_errors := event_loop_errors d1 + 1\<rparr>;
                 d3 = d2\<lparr>driver_events := driver_events d2 @ [onError]\<rparr>
             in snd (closeSocket close_ok (d3\<lparr>processed := False, driver_state := STOPPING\<rparr>)))"

definition listener_return :: "driver \<Rightarrow> driver" where
  "listener_return d = call_back onEventThreadStop (d\<lparr>event_loop_stopped := True, listener_state := Returned\<rparr>)"

section \<open>The transition system\<close>

datatype driver_action =
    Act_connect tcp_outcome i32
  | Act_reset
  | Act_disconnect bool
  | Act_joined
  | Act_send bool
  | Act_wake
  | Act_check "handler_io list" "bool option" bool
  | Act_leave

text \<open>
  The guards: a reset follows a failed \<^verbatim>\<open>Connect\<close>; a thread that has disconnected waits until the listener
  has returned, unless the socket did not close; the listener wakes when the state is \<open>RUNNING\<close>, checks messages while the socket is good and the
  last check succeeded, and leaves otherwise.
\<close>

fun driver_step :: "driver_action \<Rightarrow> driver \<Rightarrow> driver option" where
  "driver_step (Act_connect tcp clientId) d = Some (snd (Connect True tcp clientId d))"
| "driver_step Act_reset d = (if socketOk d then None else Some (driver_reset d))"
| "driver_step (Act_disconnect close_ok) d =
     (let (ok, d') = Disconnect_begin close_ok d in Some (if ok then d' else Disconnect_end d'))"
| "driver_step Act_joined d =
     (if driver_state d = STOPPING \<and> listener_state d = Returned then Some (Disconnect_end d) else None)"
| "driver_step (Act_send sent) d = Some (Send sent d)"
| "driver_step Act_wake d =
     (if listener_state d = Awaiting \<and> driver_state d = RUNNING then Some (d\<lparr>listener_state := Listening\<rparr>) else None)"
| "driver_step (Act_check io result close_ok) d =
     (if listener_state d = Listening \<and> IsSocketOK d \<and> processed d
      then Some (check_messages io result close_ok d) else None)"
| "driver_step Act_leave d =
     (if listener_state d = Listening \<and> \<not> (IsSocketOK d \<and> processed d) then Some (listener_return d) else None)"

inductive driver_steps :: "driver \<Rightarrow> driver \<Rightarrow> bool" for d where
  idle: "driver_steps d d"
| act: "driver_steps d d' \<Longrightarrow> driver_step a d' = Some d'' \<Longrightarrow> driver_steps d d''"

inductive_cases driver_steps_cases: "driver_steps d d'"

section \<open>Invariants\<close>

lemmas driver_defs = Let_def call_back_def closeSocket_def Send_def Receive_def Connect_def Disconnect_begin_def
  Disconnect_end_def check_messages_def listener_return_def driver_reset_def IsSocketOK_def AsioEClientDriver_def

text \<open>What the operations of other threads and the handler leave alone.\<close>

lemma fold_preserves: "(\<And>x d. f (g x d) = f d) \<Longrightarrow> f (fold g xs d) = f d"
  by (induction xs arbitrary: d) simp_all

lemma Send_fields [simp]:
  "listener_state (Send b d) = listener_state d" "handler_connected (Send b d) = handler_connected d"
  "driver_events (Send b d) = driver_events d" "driver_callback (Send b d) = driver_callback d"
  "socket_is_open (Send b d) = socket_is_open d" "event_loop_stopped (Send b d) = event_loop_stopped d"
  "driver_clientId (Send b d) = driver_clientId d"
  by (simp_all add: Send_def)

lemma fold_Send_fields [simp]:
  "listener_state (fold Send bs d) = listener_state d" "handler_connected (fold Send bs d) = handler_connected d"
  "driver_events (fold Send bs d) = driver_events d" "driver_callback (fold Send bs d) = driver_callback d"
  "socket_is_open (fold Send bs d) = socket_is_open d" "event_loop_stopped (fold Send bs d) = event_loop_stopped d"
  "driver_clientId (fold Send bs d) = driver_clientId d"
  by (simp_all add: fold_preserves)

lemma handler_step_fields [simp]:
  "listener_state (handler_step io d) = listener_state d" "driver_callback (handler_step io d) = driver_callback d"
  "event_loop_stopped (handler_step io d) = event_loop_stopped d"
  by (cases io; simp add: driver_defs)+

lemma fold_handler_fields [simp]:
  "listener_state (fold handler_step ios d) = listener_state d"
  "driver_callback (fold handler_step ios d) = driver_callback d"
  "event_loop_stopped (fold handler_step ios d) = event_loop_stopped d"
  by (simp_all add: fold_preserves)

text \<open>
  The life of the listener: its announcement is the first event and it announces its end exactly when it has
  returned; a good socket is an open one.
\<close>

definition listener_inv :: "driver \<Rightarrow> bool" where
  "listener_inv d \<longleftrightarrow>
     driver_callback d \<and> (\<exists>es. driver_events d = onEventThreadStart # es \<and> onEventThreadStart \<notin> set es) \<and>
     count_list (driver_events d) onEventThreadStop = (if listener_state d = Returned then 1 else 0) \<and>
     (event_loop_stopped d \<longleftrightarrow> listener_state d = Returned)"

definition socket_inv :: "driver \<Rightarrow> bool" where
  "socket_inv d \<longleftrightarrow> (IsSocketOK d \<longrightarrow> socket_is_open d)"

lemma listener_inv_event:
  "listener_inv d \<Longrightarrow> e \<noteq> onEventThreadStart \<Longrightarrow> e \<noteq> onEventThreadStop \<Longrightarrow>
     listener_inv (d\<lparr>driver_events := driver_events d @ [e]\<rparr>)"
  by (auto simp: listener_inv_def)

lemma listener_inv_cong:
  "listener_inv d \<Longrightarrow> driver_callback d' = driver_callback d \<Longrightarrow> driver_events d' = driver_events d \<Longrightarrow>
     listener_state d' = listener_state d \<Longrightarrow> event_loop_stopped d' = event_loop_stopped d \<Longrightarrow> listener_inv d'"
  by (simp add: listener_inv_def)

lemma closeSocket_listener: "listener_inv d \<Longrightarrow> listener_inv (snd (closeSocket close_ok d))"
  by (auto simp: closeSocket_def call_back_def Let_def listener_inv_def)

lemma closeSocket_fields [simp]:
  "listener_state (snd (closeSocket b d)) = listener_state d"
  "handler_connected (snd (closeSocket b d)) = handler_connected d"
  "driver_state (snd (closeSocket b d)) = driver_state d" "socketOk (snd (closeSocket b d)) = socketOk d"
  "IsSocketOK (snd (closeSocket b d)) = IsSocketOK d"
  by (simp_all add: closeSocket_def call_back_def Let_def IsSocketOK_def)

lemma handler_step_inv: "listener_inv d \<and> socket_inv d \<Longrightarrow> listener_inv (handler_step io d) \<and> socket_inv (handler_step io d)"
proof (cases io)
  case (Handler_receive received close_ok)
  assume inv: "listener_inv d \<and> socket_inv d"
  then have "listener_inv (d\<lparr>receive_errors := receive_errors d + 1, socketOk := False, driver_state := STOPPING\<rparr>)"
    by (auto intro: listener_inv_cong)
  with inv Handler_receive show ?thesis
    by (auto simp: Receive_def closeSocket_listener socket_inv_def IsSocketOK_def)
qed (auto simp: Send_def listener_inv_def socket_inv_def IsSocketOK_def)

lemma fold_handler_inv:
  "listener_inv d \<and> socket_inv d \<Longrightarrow> listener_inv (fold handler_step ios d) \<and> socket_inv (fold handler_step ios d)"
  by (induction ios arbitrary: d) (simp_all add: handler_step_inv)

lemma check_messages_inv:
  assumes "listener_inv d \<and> socket_inv d"
  shows "listener_inv (check_messages ios result close_ok d) \<and> socket_inv (check_messages ios result close_ok d)"
proof (cases result)
  case None
  let ?d = "fold handler_step ios d"
  let ?d3 = "?d\<lparr>event_loop_errors := event_loop_errors ?d + 1, driver_events := driver_events ?d @ [onError],
     processed := False, driver_state := STOPPING\<rparr>"
  have "listener_inv ?d" using fold_handler_inv [OF assms] by blast
  then have "listener_inv ?d3"
    using listener_inv_event [of ?d onError] by (auto intro: listener_inv_cong)
  with None show ?thesis
    by (auto simp: check_messages_def Let_def closeSocket_listener socket_inv_def IsSocketOK_def)
next
  case (Some ok)
  then show ?thesis using fold_handler_inv [OF assms, of ios]
    by (auto simp: check_messages_def socket_inv_def IsSocketOK_def intro: listener_inv_cong)
qed

lemma Connect_inv:
  assumes "listener_inv d" "socket_inv d"
  shows "listener_inv (snd (Connect True tcp clientId d)) \<and> socket_inv (snd (Connect True tcp clientId d))"
  using assms
  by (cases tcp) (auto simp: Connect_def Let_def call_back_def listener_inv_def socket_inv_def IsSocketOK_def)

lemma driver_step_inv:
  assumes "driver_step a d = Some d'" and inv: "listener_inv d \<and> socket_inv d"
  shows "listener_inv d' \<and> socket_inv d'"
proof (cases a)
  case (Act_connect tcp clientId)
  then show ?thesis using assms Connect_inv by auto
next
  case (Act_disconnect close_ok)
  let ?d = "d\<lparr>handler_connected := False, socket_disconnects := socket_disconnects d + 1, driver_state := STOPPING\<rparr>"
  have "listener_inv ?d" using inv by (auto intro: listener_inv_cong)
  obtain ok d1 where eq: "closeSocket close_ok ?d = (ok, d1)" by (rule prod.exhaust)
  have "listener_inv d1" using closeSocket_listener [OF \<open>listener_inv ?d\<close>, of close_ok] eq by simp
  moreover have "driver_state d1 = STOPPING" using closeSocket_fields(3) [of close_ok ?d] eq by simp
  ultimately show ?thesis using Act_disconnect assms(1) eq
    by (auto simp: Disconnect_begin_def Disconnect_end_def socket_inv_def IsSocketOK_def
        intro: listener_inv_cong split: if_splits)
next
  case (Act_check ios result close_ok)
  then show ?thesis using assms check_messages_inv by (auto split: if_splits)
qed (use assms in \<open>auto simp: driver_reset_def Disconnect_end_def Send_def listener_return_def call_back_def
     listener_inv_def socket_inv_def IsSocketOK_def split: if_splits\<close>)

lemma new_driver_inv: "listener_inv (AsioEClientDriver True) \<and> socket_inv (AsioEClientDriver True)"
  by (auto simp: AsioEClientDriver_def call_back_def listener_inv_def socket_inv_def IsSocketOK_def)

lemma driver_steps_inv: "driver_steps d d' \<Longrightarrow> listener_inv d \<and> socket_inv d \<Longrightarrow> listener_inv d' \<and> socket_inv d'"
  by (induction rule: driver_steps.induct) (use driver_step_inv in blast)+

text \<open>Once the listener has returned nobody checks messages: the handler stays as it is or is disconnected.\<close>

lemma call_back_fields [simp]:
  "listener_state (call_back e d) = listener_state d" "handler_connected (call_back e d) = handler_connected d"
  "driver_clientId (call_back e d) = driver_clientId d"
  by (simp_all add: call_back_def)

lemma Connect_fields [simp]:
  "listener_state (snd (Connect h tcp clientId d)) = listener_state d"
  "handler_connected (snd (Connect h tcp clientId d)) = handler_connected d"
  "driver_clientId (snd (Connect h tcp clientId d)) = clientId"
  by (auto simp: Connect_def Let_def split: tcp_outcome.splits)

lemma driver_step_returned:
  assumes "driver_step a d = Some d'" "listener_state d = Returned"
  shows "listener_state d' = Returned \<and> (handler_connected d' \<longrightarrow> handler_connected d)"
proof (cases a)
  case (Act_connect tcp clientId)
  then show ?thesis using assms by auto
next
  case (Act_disconnect close_ok)
  let ?d = "d\<lparr>handler_connected := False, socket_disconnects := socket_disconnects d + 1, driver_state := STOPPING\<rparr>"
  obtain ok d1 where eq: "closeSocket close_ok ?d = (ok, d1)" by (rule prod.exhaust)
  have "listener_state d1 = Returned" "\<not> handler_connected d1"
    using closeSocket_fields(1,2) [of close_ok ?d] eq assms(2) by simp_all
  then show ?thesis using Act_disconnect assms(1) eq
    by (auto simp: Disconnect_begin_def Disconnect_end_def split: if_splits)
qed (use assms in \<open>auto simp: driver_reset_def Disconnect_end_def split: if_splits\<close>)

lemma driver_steps_returned:
  "driver_steps d d' \<Longrightarrow> listener_state d = Returned \<Longrightarrow>
     listener_state d' = Returned \<and> (handler_connected d' \<longrightarrow> handler_connected d)"
  by (induction rule: driver_steps.induct) (use driver_step_returned in blast)+

section \<open>Properties\<close>


text \<open>The driver after a connection the gateway accepted and a handshake, and one whose gateway went away.\<close>

fun run_actions :: "driver_action list \<Rightarrow> driver \<Rightarrow> driver option" where
  "run_actions [] d = Some d"
| "run_actions (a # as) d = (case driver_step a d of None \<Rightarrow> None | Some d' \<Rightarrow> run_actions as d')"

lemma run_actions_steps: "run_actions as d = Some d' \<Longrightarrow> driver_steps d d'"
proof (induction as arbitrary: d' rule: rev_induct)
  case (snoc a as)
  have "run_actions (as @ [a]) d = Option.bind (run_actions as d) (driver_step a)" for as
    by (induction as arbitrary: d) (auto split: option.splits)
  then show ?case using snoc by (auto simp: Option.bind_eq_Some_conv intro: driver_steps.act)
qed (simp add: driver_steps.idle)

definition lost_connection :: "driver_action list" where
  "lost_connection = [Act_connect (Tcp_connected [True]) 7, Act_wake, Act_check [Handler_connected True] (Some True) True,
     Act_check [Handler_receive False True] (Some False) True, Act_leave]"


end
