(* ===== verification/Gateway.thy ===== *)
theory Gateway
  imports Eclient_Driver
begin

text \<open>
  The gateway side of a connector, \<^verbatim>\<open>ib/SocketConnectorBase.hpp\<close>: the outbound channels the listener opens
  when it starts, connecting with a bounded number of attempts, and stopping.
\<close>

section \<open>Outbound channels\<close>

text \<open>A socket of a channel: its address, and whether it has been destroyed.\<close>

record outbound_socket =
  channel_address :: string
  destroyed :: bool

type_synonym outbound_sockets = "(i32 \<rightharpoonup> outbound_socket) option"

text \<open>
  Connecting one channel: \<open>ok n\<close> is the outcome of the attempt after \<open>n\<close> failed ones. The result is the number of
  retries the loop ends with, 0 after a success.
\<close>

function try_channel :: "(nat \<Rightarrow> bool) \<Rightarrow> nat \<Rightarrow> nat" where
  "try_channel ok retry = (if ok retry then 0 else if Suc retry < 5 then try_channel ok (Suc retry) else Suc retry)"
  by pat_completeness auto
termination
  by (relation "measure (\<lambda>(_, retry). 5 - retry)") auto

declare try_channel.simps [simp del]

definition open_channel :: "(nat \<Rightarrow> bool) \<Rightarrow> i32 \<Rightarrow> string \<Rightarrow> outbound_sockets \<Rightarrow> outbound_sockets" where
  "open_channel ok channel address sockets =
     (if try_channel ok 0 = 0
      then Some ((case sockets of None \<Rightarrow> Map.empty | Some m \<Rightarrow> m)(channel \<mapsto> \<lparr>channel_address = address, destroyed = False\<rparr>))
      else sockets)"

fun start_channels ::
  "(i32 \<Rightarrow> nat \<Rightarrow> bool) \<Rightarrow> (i32 \<times> string) list \<Rightarrow> outbound_sockets \<Rightarrow> outbound_sockets" where
  "start_channels ok [] sockets = sockets"
| "start_channels ok ((channel, address) # rest) sockets =
     start_channels ok rest (open_channel (ok channel) channel address sockets)"

definition event_thread_start ::
  "(i32 \<Rightarrow> nat \<Rightarrow> bool) \<Rightarrow> (i32 \<times> string) list \<Rightarrow> outbound_sockets \<Rightarrow> outbound_sockets" where
  "event_thread_start ok channels sockets =
     (if sockets \<noteq> None then sockets else start_channels ok channels None)"

text \<open>The sockets are destroyed; the map keeps its entries.\<close>

definition event_thread_stop :: "outbound_sockets \<Rightarrow> outbound_sockets" where
  "event_thread_stop sockets =
     map_option (\<lambda>m channel. map_option (\<lambda>s. s\<lparr>destroyed := True\<rparr>) (m channel)) sockets"

definition getOutboundSocket :: "outbound_sockets \<Rightarrow> i32 \<Rightarrow> outbound_socket option" where
  "getOutboundSocket sockets channel = (case sockets of None \<Rightarrow> None | Some m \<Rightarrow> m channel)"

section \<open>Connecting\<close>

datatype strategy_call = onConnect i32 | onTimeout

record gateway =
  gw_driver :: "driver option"
  connection_retries :: i64
  connection_timeouts :: i64
  strategy_calls :: "strategy_call list"

definition driver_running :: "gateway \<Rightarrow> bool" where
  "driver_running g \<longleftrightarrow> (case gw_driver g of Some d \<Rightarrow> handler_connected d | None \<Rightarrow> False)"

text \<open>
  One attempt: the outcome of the socket's connection, and what other threads do to the driver until the wait for
  the handshake is over. The wait ends with the first action that connects the handler.
\<close>

record connect_attempt =
  at_tcp :: tcp_outcome
  at_wait :: "driver_action list"

fun spin :: "driver_action list \<Rightarrow> driver \<Rightarrow> driver" where
  "spin [] d = d"
| "spin (a # as) d =
     (if handler_connected d then d
      else case driver_step a d of None \<Rightarrow> spin as d | Some d' \<Rightarrow> spin as d')"

text \<open>The attempts are as many as \<^verbatim>\<open>maxAttempts\<close>.\<close>

fun connect_loop :: "bool \<Rightarrow> i32 \<Rightarrow> connect_attempt list \<Rightarrow> driver \<Rightarrow> gateway \<Rightarrow> i32 cpp \<times> gateway" where
  "connect_loop host_ok clientId [] d g =
     (Inr (- 1), g\<lparr>gw_driver := Some d, connection_timeouts := connection_timeouts g + 1,
                   strategy_calls := strategy_calls g @ [onTimeout]\<rparr>)"
| "connect_loop host_ok clientId (a # as) d g =
     (case Connect host_ok (at_tcp a) clientId d of
        (Inl e, d1) \<Rightarrow> (Inl e, g\<lparr>gw_driver := Some d1\<rparr>)
      | (Inr True, d1) \<Rightarrow>
          (let d2 = spin (at_wait a) d1
           in if handler_connected d2
              then (Inr clientId, g\<lparr>gw_driver := Some d2, strategy_calls := strategy_calls g @ [onConnect clientId]\<rparr>)
              else connect_loop host_ok clientId as d2 (g\<lparr>connection_retries := connection_retries g + 1\<rparr>))
      | (Inr False, d1) \<Rightarrow>
          connect_loop host_ok clientId as (driver_reset d1) (g\<lparr>connection_retries := connection_retries g + 1\<rparr>))"

definition gateway_connect :: "bool \<Rightarrow> i32 \<Rightarrow> connect_attempt list \<Rightarrow> gateway \<Rightarrow> i32 cpp \<times> gateway" where
  "gateway_connect host_ok clientId attempts g =
     (case gw_driver g of
        Some d \<Rightarrow> if handler_connected d then (Inr (driver_clientId d), g)
                  else connect_loop host_ok clientId attempts d g
      | None \<Rightarrow> connect_loop host_ok clientId attempts (AsioEClientDriver True) g)"

text \<open>Stopping a connected gateway disconnects, waits and drops the driver; otherwise the driver is kept.\<close>

definition gateway_stop :: "gateway \<Rightarrow> bool \<times> gateway" where
  "gateway_stop g = (True, if driver_running g then g\<lparr>gw_driver := None\<rparr> else g)"

section \<open>Lemmas\<close>

lemma spin_steps: "driver_steps d (spin as d)"
proof (induction as d rule: spin.induct)
  case (2 a as d)
  show ?case
  proof (cases "handler_connected d")
    case True
    then show ?thesis by (simp add: driver_steps.idle)
  next
    case False
    have trans: "driver_steps d' d'' \<Longrightarrow> driver_steps d d' \<Longrightarrow> driver_steps d d''" for d' d''
      by (induction rule: driver_steps.induct) (auto intro: driver_steps.act)
    show ?thesis
    proof (cases "driver_step a d")
      case None
      with 2(1) [OF False None] False show ?thesis by simp
    next
      case (Some d')
      have "driver_steps d d'" using Some by (rule driver_steps.act [OF driver_steps.idle])
      with 2(2) [OF False Some] False Some show ?thesis by (simp add: trans)
    qed
  qed
qed (simp add: driver_steps.idle)

lemma reset_fields [simp]:
  "listener_state (driver_reset d) = listener_state d" "handler_connected (driver_reset d) = handler_connected d"
  by (simp_all add: driver_reset_def)

lemma try_channel_iff: "try_channel ok n = 0 \<longleftrightarrow> (\<exists>k. n \<le> k \<and> (k = n \<or> k < 5) \<and> ok k)"
proof (induction ok n rule: try_channel.induct)
  case (1 ok n)
  show ?case
  proof (cases "ok n")
    case True
    then show ?thesis by (subst try_channel.simps) auto
  next
    case False
    have "(\<exists>k. n \<le> k \<and> (k = n \<or> k < 5) \<and> ok k) \<longleftrightarrow> (\<exists>k. Suc n \<le> k \<and> k < 5 \<and> ok k)"
      using False by (metis Suc_leD Suc_leI le_neq_implies_less)
    moreover have "Suc n < 5 \<Longrightarrow> try_channel ok n = 0 \<longleftrightarrow> (\<exists>k. Suc n \<le> k \<and> k < 5 \<and> ok k)"
      using 1 False by (subst try_channel.simps) auto
    ultimately show ?thesis using False by (cases "Suc n < 5") (auto simp: try_channel.simps [of ok n])
  qed
qed

lemma try_channel_0: "try_channel ok 0 = 0 \<longleftrightarrow> (\<exists>k<5. ok k)"
  unfolding try_channel_iff by (metis le0 zero_less_numeral)

lemma try_channel_bound: "n < 5 \<Longrightarrow> try_channel ok n \<le> 5"
proof (induction ok n rule: try_channel.induct)
  case (1 ok n)
  then show ?case by (subst try_channel.simps) auto
qed

lemma start_channels_lookup:
  "distinct (map fst channels) \<Longrightarrow>
   getOutboundSocket (start_channels ok channels sockets) ch =
     (case map_of channels ch of
        Some address \<Rightarrow> if \<exists>k<5. ok ch k then Some \<lparr>channel_address = address, destroyed = False\<rparr>
                         else getOutboundSocket sockets ch
      | None \<Rightarrow> getOutboundSocket sockets ch)"
proof (induction ok channels sockets rule: start_channels.induct)
  case (2 ok channel address rest sockets)
  have open_it: "getOutboundSocket (open_channel (ok channel) channel address sockets) ch =
      (if ch = channel \<and> (\<exists>k<5. ok channel k) then Some \<lparr>channel_address = address, destroyed = False\<rparr>
       else getOutboundSocket sockets ch)"
    using try_channel_0 [of "ok channel"]
    by (auto simp: open_channel_def getOutboundSocket_def split: option.splits)
  have "ch = channel \<Longrightarrow> map_of rest ch = None" using 2(2) by (auto simp: map_of_eq_None_iff)
  with 2 open_it show ?case by (auto split: option.splits)
qed simp

lemma connect_loop_result:
  assumes "\<not> handler_connected d"
  shows "\<exists>k r g'. connect_loop True clientId attempts d g = (Inr r, g') \<and> k \<le> length attempts \<and>
     connection_retries g' = connection_retries g + of_nat k \<and>
     (if driver_running g'
      then r = clientId \<and> k < length attempts \<and> connection_timeouts g' = connection_timeouts g \<and>
           strategy_calls g' = strategy_calls g @ [onConnect clientId]
      else r = - 1 \<and> k = length attempts \<and> connection_timeouts g' = connection_timeouts g + 1 \<and>
           strategy_calls g' = strategy_calls g @ [onTimeout])"
  using assms
proof (induction attempts arbitrary: d g)
  case Nil
  then show ?case by (auto simp: driver_running_def)
next
  case (Cons a as)
  obtain res d1 where conn: "Connect True (at_tcp a) clientId d = (res, d1)" by (rule prod.exhaust)
  obtain ok where ok: "res = Inr ok" using conn by (auto simp: Connect_def Let_def)
  have d1: "\<not> handler_connected d1" using Connect_fields(2) [of True "at_tcp a" clientId d] conn Cons.prems by simp
  let ?g = "g\<lparr>connection_retries := connection_retries g + 1\<rparr>"
  have retry: ?case
    if idle: "\<not> handler_connected d2"
      and eq: "connect_loop True clientId (a # as) d g = connect_loop True clientId as d2 ?g" for d2
  proof -
    obtain k r g' where "connect_loop True clientId as d2 ?g = (Inr r, g')" "k \<le> length as"
      "connection_retries g' = connection_retries ?g + of_nat k"
      "if driver_running g'
       then r = clientId \<and> k < length as \<and> connection_timeouts g' = connection_timeouts ?g \<and>
            strategy_calls g' = strategy_calls ?g @ [onConnect clientId]
       else r = - 1 \<and> k = length as \<and> connection_timeouts g' = connection_timeouts ?g + 1 \<and>
            strategy_calls g' = strategy_calls ?g @ [onTimeout]"
      using Cons.IH [OF idle, of ?g] by blast
    then show ?thesis unfolding eq
      by (intro exI [of _ "Suc k"] exI [of _ r] exI [of _ g']) (auto split: if_splits)
  qed
  show ?case
  proof (cases "ok \<and> handler_connected (spin (at_wait a) d1)")
    case True
    then show ?thesis using conn ok
      by (intro exI [of _ "0 :: nat"] exI [of _ clientId]) (auto simp: driver_running_def Let_def)
  next
    case False
    show ?thesis
    proof (cases ok)
      case True
      with False conn ok show ?thesis by (intro retry [of "spin (at_wait a) d1"]) (auto simp: Let_def)
    next
      case False
      with conn ok d1 show ?thesis by (intro retry [of "driver_reset d1"]) auto
    qed
  qed
qed

lemma connect_loop_returned:
  assumes "listener_state d = Returned" "\<not> handler_connected d"
  shows "\<exists>g'. connect_loop True clientId attempts d g = (Inr (- 1), g') \<and>
     (\<exists>d'. gw_driver g' = Some d' \<and> listener_state d' = Returned \<and> \<not> handler_connected d')"
  using assms
proof (induction attempts arbitrary: d g)
  case (Cons a as)
  obtain res d1 where conn: "Connect True (at_tcp a) clientId d = (res, d1)" by (rule prod.exhaust)
  obtain ok where ok: "res = Inr ok" using conn by (auto simp: Connect_def Let_def)
  have d1: "listener_state d1 = Returned" "\<not> handler_connected d1"
    using Connect_fields(1,2) [of True "at_tcp a" clientId d] conn Cons.prems by simp_all
  then have d2: "listener_state (spin (at_wait a) d1) = Returned" "\<not> handler_connected (spin (at_wait a) d1)"
    using driver_steps_returned [OF spin_steps, of d1 "at_wait a"] by auto
  show ?case
    using Cons.IH [OF d2] Cons.IH [of "driver_reset d1"] d1 d2 conn ok by (cases ok) (auto simp: Let_def)
qed simp

section \<open>Properties\<close>


definition demo_gateway :: gateway where
  "demo_gateway = \<lparr>gw_driver = None, connection_retries = 0, connection_timeouts = 0, strategy_calls = []\<rparr>"


text \<open>
  C32. A driver whose listener has returned never connects again. Once the listener has given up, whether because
  the gateway refused to talk or because an attempt failed after a handshake that timed out, every further attempt
  is in vain, even one whose socket connects: the connector keeps the driver, and only a listener completes a
  handshake.
\<close>

theorem returned_listener_never_connects:
  assumes "gw_driver g = Some d" "listener_state d = Returned" "\<not> handler_connected d"
  shows "\<exists>g'. gateway_connect True clientId attempts g = (Inr (- 1), g') \<and>
     (\<exists>d'. gw_driver g' = Some d' \<and> listener_state d' = Returned \<and> \<not> handler_connected d')"
  using assms connect_loop_returned [of d clientId attempts g] by (simp add: gateway_connect_def)

text \<open>
  How a time-out leads there: the first attempt's handshake does not come, the second attempt fails on the socket
  that is still open, the listener leaves, and later attempts connect for nothing.
\<close>

definition timed_out_handshake :: "connect_attempt list" where
  "timed_out_handshake =
     [\<lparr>at_tcp = Tcp_connected [True], at_wait = [Act_wake, Act_check [] (Some True) True]\<rparr>,
      \<lparr>at_tcp = Tcp_failed True, at_wait = []\<rparr>]"

theorem returned_listener_never_connects_witness:
  "\<exists>g g'. gateway_connect True 7 timed_out_handshake demo_gateway = (Inr (- 1), g) \<and>
     gateway_connect True 7 [\<lparr>at_tcp = Tcp_connected [True], at_wait = [Act_wake, Act_check [Handler_connected True] (Some True) True]\<rparr>]
       (g\<lparr>gw_driver := map_option (\<lambda>d. the (driver_step Act_leave d)) (gw_driver g)\<rparr>) = (Inr (- 1), g')"
proof -
  obtain g d where g: "gateway_connect True 7 timed_out_handshake demo_gateway = (Inr (- 1), g)" "gw_driver g = Some d"
    "driver_step Act_leave d = Some (listener_return d)" "\<not> handler_connected d"
    by (simp add: gateway_connect_def demo_gateway_def timed_out_handshake_def driver_defs)
  let ?g = "g\<lparr>gw_driver := Some (listener_return d)\<rparr>"
  have "gw_driver ?g = Some (listener_return d)" "listener_state (listener_return d) = Returned"
    "\<not> handler_connected (listener_return d)"
    using g(4) by (simp_all add: listener_return_def)
  from returned_listener_never_connects [OF this] obtain g' where
    "gateway_connect True 7 [\<lparr>at_tcp = Tcp_connected [True], at_wait = [Act_wake, Act_check [Handler_connected True] (Some True) True]\<rparr>]
       ?g = (Inr (- 1), g')" by blast
  moreover have "map_option (\<lambda>d. the (driver_step Act_leave d)) (gw_driver g) = Some (listener_return d)"
    unfolding g(2) by (simp only: option.map g(3) option.sel)
  ultimately show ?thesis using g(1) by (intro exI [of _ g] exI [of _ g']) (simp only: simp_thms)
qed

text \<open>
  C33. The listener opens the outbound channels. Each channel has a socket to its address exactly when one of its
  first five attempts connects, whatever happens to the other channels; and after the listener has stopped the
  connector still hands out the socket of every channel it had opened, destroyed.
\<close>

theorem outbound_channels_open:
  assumes "distinct (map fst channels)"
  shows "getOutboundSocket (event_thread_start ok channels None) ch =
      (case map_of channels ch of
         Some address \<Rightarrow> if \<exists>k<5. ok ch k then Some \<lparr>channel_address = address, destroyed = False\<rparr> else None
       | None \<Rightarrow> None) \<and>
    getOutboundSocket (event_thread_stop (event_thread_start ok channels None)) ch =
      (case map_of channels ch of
         Some address \<Rightarrow> if \<exists>k<5. ok ch k then Some \<lparr>channel_address = address, destroyed = True\<rparr> else None
       | None \<Rightarrow> None)"
proof -
  have start: "getOutboundSocket (event_thread_start ok channels None) ch =
      (case map_of channels ch of
         Some address \<Rightarrow> if \<exists>k<5. ok ch k then Some \<lparr>channel_address = address, destroyed = False\<rparr> else None
       | None \<Rightarrow> None)"
    using start_channels_lookup [OF assms, of ok None ch]
    by (simp add: event_thread_start_def getOutboundSocket_def split: option.splits)
  have "getOutboundSocket (event_thread_stop s) ch = map_option (\<lambda>s. s\<lparr>destroyed := True\<rparr>) (getOutboundSocket s ch)" for s
    by (cases s) (simp_all add: event_thread_stop_def getOutboundSocket_def)
  then show ?thesis using start by (auto split: option.splits)
qed

theorem outbound_channels_open_witness:
  "getOutboundSocket (event_thread_start (\<lambda>ch k. 2 \<le> k) [(0, ''inproc://a''), (1, ''inproc://b'')] None) 1 =
     Some \<lparr>channel_address = ''inproc://b'', destroyed = False\<rparr>"
proof -
  have "distinct (map fst [(0 :: i32, ''inproc://a''), (1, ''inproc://b'')])" by simp
  moreover have "\<exists>k<5. (2 :: nat) \<le> k" by (intro exI [of _ 2]) simp
  ultimately show ?thesis
    using outbound_channels_open [of "[(0, ''inproc://a''), (1, ''inproc://b'')]" "\<lambda>ch k. 2 \<le> k" 1] by simp
qed

end
