(* ===== verification/Initiator.thy ===== *)
theory Initiator
  imports Gateway Boost_Strings
begin

text \<open>
  \<^verbatim>\<open>ib/SocketInitiator.cpp\<close> and \<^verbatim>\<open>ib/SessionSetting.cpp\<close>: the settings a gateway program reads from its flags,
  the channels it publishes or pushes on, and the connectors it starts and stops.
\<close>

section \<open>Settings\<close>

record session_setting =
  setting_id :: u32
  gatewayIp :: string
  gatewayPort :: u32
  connectorReactorAddress :: string

text \<open>\<^verbatim>\<open>std::getline\<close> with a delimiter, and extraction of a word from a stream.\<close>

definition getline :: "char \<Rightarrow> string \<Rightarrow> string \<times> string" where
  "getline d s = (takeWhile (\<lambda>c. c \<noteq> d) s, drop 1 (dropWhile (\<lambda>c. c \<noteq> d) s))"

definition is_space :: "char \<Rightarrow> bool" where
  "is_space c \<longleftrightarrow> c \<in> {CHR '' '', CHR 0x09, CHR 0x0A, CHR 0x0B, CHR 0x0C, CHR 0x0D}"

definition extract_word :: "string \<Rightarrow> string" where
  "extract_word s = takeWhile (\<lambda>c. \<not> is_space c) (dropWhile is_space s)"

definition ParseSessionSettingFromString :: "boost_lib \<Rightarrow> string \<Rightarrow> session_setting cpp" where
  "ParseSessionSettingFromString B input =
     (let (session_id, rest) = getline (CHR ''='') input
      in cpp_bind (lexical_cast (bl_uint B) session_id) (\<lambda>sessionId.
           let (gateway_ip_port, rest') = getline (CHR ''@'') rest;
               gatewayParts = bl_split B '':'' gateway_ip_port
           in if length gatewayParts < 2 then Inl MemoryFault
              else cpp_bind (lexical_cast (bl_int B) (gatewayParts ! 1)) (\<lambda>port.
                     Inr \<lparr>setting_id = sessionId, gatewayIp = gatewayParts ! 0, gatewayPort = port,
                          connectorReactorAddress = extract_word rest'\<rparr>)))"

text \<open>Settings read before an exception stay in the list.\<close>

fun parse_settings ::
  "boost_lib \<Rightarrow> string list \<Rightarrow> session_setting list \<Rightarrow> bool cpp \<times> session_setting list" where
  "parse_settings B [] settings = (Inr True, settings)"
| "parse_settings B (spec # specs) settings =
     (case ParseSessionSettingFromString B spec of
        Inl e \<Rightarrow> (Inl e, settings)
      | Inr setting \<Rightarrow> parse_settings B specs (settings @ [setting]))"

definition ParseSessionSettingsFromFlag ::
  "boost_lib \<Rightarrow> string \<Rightarrow> session_setting list \<Rightarrow> bool cpp \<times> session_setting list" where
  "ParseSessionSettingsFromFlag B flagValue settings = parse_settings B (bl_split B '','' flagValue) settings"

definition ParseChannelSettingFromString :: "boost_lib \<Rightarrow> string \<Rightarrow> (u32 \<times> string) cpp" where
  "ParseChannelSettingFromString B input =
     (let (channel_id, rest) = getline (CHR ''='') input
      in cpp_bind (lexical_cast (bl_uint B) channel_id) (\<lambda>channelId. Inr (channelId, extract_word rest)))"

fun parse_channels :: "boost_lib \<Rightarrow> string list \<Rightarrow> (i32 \<rightharpoonup> string) \<Rightarrow> bool cpp \<times> (i32 \<rightharpoonup> string)" where
  "parse_channels B [] m = (Inr True, m)"
| "parse_channels B (spec # specs) m =
     (case ParseChannelSettingFromString B spec of
        Inl e \<Rightarrow> (Inl e, m)
      | Inr (channel, endpoint) \<Rightarrow> parse_channels B specs (m(channel \<mapsto> endpoint)))"

definition ParseOutboundChannelMapFromFlag ::
  "boost_lib \<Rightarrow> string \<Rightarrow> (i32 \<rightharpoonup> string) \<Rightarrow> bool cpp \<times> (i32 \<rightharpoonup> string)" where
  "ParseOutboundChannelMapFromFlag B flagValue m = parse_channels B (bl_split B '','' flagValue) m"

section \<open>The initiator\<close>

datatype initiator_event = onDisconnect u32 | onStrategyError u32

text \<open>A publisher is known by the address it receives on.\<close>

record initiator =
  sessionSettings :: "session_setting list"
  connectorsRunning :: bool
  socketConnectors :: "u32 \<rightharpoonup> gateway"
  skipped :: "u32 set"
  outboundChannels :: "i32 \<rightharpoonup> string"
  publishers :: "string \<rightharpoonup> string"
  initiator_events :: "initiator_event list"

definition new_initiator :: "session_setting list \<Rightarrow> initiator" where
  "new_initiator settings = \<lparr>sessionSettings = settings, connectorsRunning = False, socketConnectors = Map.empty,
     skipped = {}, outboundChannels = Map.empty, publishers = Map.empty, initiator_events = []\<rparr>"

definition channel_inproc :: "i32 \<Rightarrow> string" where
  "channel_inproc channel = ''inproc://channel-'' @ show_int (sint channel)"

definition publish :: "i32 \<Rightarrow> string \<Rightarrow> initiator \<Rightarrow> unit cpp \<times> initiator" where
  "publish channel address s =
     (if connectorsRunning s then (Inl (RuntimeErr ''SocketConnectors are already running.''), s)
      else if outboundChannels s channel = None
      then let connectorOutboundAddress = channel_inproc channel;
               s1 = (if publishers s address = None
                     then s\<lparr>publishers := (publishers s)(address \<mapsto> connectorOutboundAddress)\<rparr> else s)
           in (Inr (), s1\<lparr>outboundChannels := (outboundChannels s1)(channel \<mapsto> connectorOutboundAddress)\<rparr>)
      else (Inr (), s))"

definition push :: "i32 \<Rightarrow> string \<Rightarrow> initiator \<Rightarrow> unit cpp \<times> initiator" where
  "push channel address s =
     (if connectorsRunning s then (Inl (RuntimeErr ''SocketConnectors are already running.''), s)
      else if outboundChannels s channel = None
      then (Inr (), s\<lparr>outboundChannels := (outboundChannels s)(channel \<mapsto> address)\<rparr>)
      else (Inr (), s))"

text \<open>The channels of the map in the order of their numbers.\<close>

fun Configure :: "bool \<Rightarrow> (i32 \<times> string) list \<Rightarrow> initiator \<Rightarrow> bool cpp \<times> initiator" where
  "Configure publishing [] s = (Inr True, s)"
| "Configure publishing ((channel, endpoint) # rest) s =
     (case (if publishing then publish channel endpoint s else push channel endpoint s) of
        (Inl e, s') \<Rightarrow> (Inl e, s')
      | (Inr _, s') \<Rightarrow> Configure publishing rest s')"

text \<open>
  Starting: the environment of each session's connection attempts is an argument. A session that cannot connect
  ends the process. The result of a connection is compared as an unsigned number.
\<close>

definition new_gateway :: gateway where
  "new_gateway = \<lparr>gw_driver = None, connection_retries = 0, connection_timeouts = 0, strategy_calls = []\<rparr>"

fun start_sessions ::
  "bool \<Rightarrow> (u32 \<Rightarrow> connect_attempt list) \<Rightarrow> (string \<Rightarrow> bool) \<Rightarrow> session_setting list \<Rightarrow> initiator \<Rightarrow> unit cpp \<times> initiator" where
  "start_sessions connect attempts host_ok [] s = (Inr (), s\<lparr>connectorsRunning := True\<rparr>)"
| "start_sessions connect attempts host_ok (setting # rest) s =
     (let sessionId = setting_id setting
      in if socketConnectors s sessionId \<noteq> None then start_sessions connect attempts host_ok rest s
         else if connect
         then case gateway_connect (host_ok (gatewayIp setting)) sessionId (attempts sessionId) new_gateway of
                (Inl e, g) \<Rightarrow> (Inl e, s\<lparr>socketConnectors := (socketConnectors s)(sessionId \<mapsto> g)\<rparr>)
              | (Inr r, g) \<Rightarrow>
                  (let s' = s\<lparr>socketConnectors := (socketConnectors s)(sessionId \<mapsto> g)\<rparr>
                   in if r = sessionId then start_sessions connect attempts host_ok rest s'
                      else (Inl FatalLog, s'\<lparr>initiator_events := initiator_events s' @ [onStrategyError sessionId]\<rparr>))
         else start_sessions connect attempts host_ok rest
                (s\<lparr>socketConnectors := (socketConnectors s)(sessionId \<mapsto> new_gateway),
                   skipped := insert sessionId (skipped s)\<rparr>))"

definition initiator_start ::
  "bool \<Rightarrow> (u32 \<Rightarrow> connect_attempt list) \<Rightarrow> (string \<Rightarrow> bool) \<Rightarrow> initiator \<Rightarrow> unit cpp \<times> initiator" where
  "initiator_start connect attempts host_ok s = start_sessions connect attempts host_ok (sessionSettings s) s"

text \<open>Stopping visits the connectors in the order of their ids, given as a list.\<close>

fun stop_connectors :: "u32 list \<Rightarrow> initiator \<Rightarrow> initiator" where
  "stop_connectors [] s = s"
| "stop_connectors (i # is) s =
     (case socketConnectors s i of
        None \<Rightarrow> stop_connectors is s
      | Some g \<Rightarrow>
          (let (stopped, g') = gateway_stop g;
               e = (if stopped then onDisconnect i else onStrategyError i)
           in stop_connectors is (s\<lparr>socketConnectors := (socketConnectors s)(i \<mapsto> g'),
                                    initiator_events := initiator_events s @ [e]\<rparr>)))"

definition initiator_stop :: "u32 list \<Rightarrow> initiator \<Rightarrow> initiator" where
  "initiator_stop ids s = (if connectorsRunning s then (stop_connectors ids s)\<lparr>connectorsRunning := False\<rparr> else s)"

definition isLoggedOn :: "initiator \<Rightarrow> bool" where
  "isLoggedOn s = connectorsRunning s"

section \<open>Lemmas\<close>

lemma getline_sep [str_simps]: "d \<notin> set a \<Longrightarrow> getline d (a @ d # b) = (a, b)"
  unfolding getline_def by (induction a) auto

lemma extract_word_id [str_simps]: "\<forall>c \<in> set s. \<not> is_space c \<Longrightarrow> extract_word s = s"
  by (cases s) (simp_all add: extract_word_def)

lemma Configure_publish:
  assumes "\<not> connectorsRunning s" "distinct (map fst chans)" "\<forall>c \<in> fst ` set chans. outboundChannels s c = None"
  shows "\<exists>s'. Configure True chans s = (Inr True, s') \<and> connectorsRunning s' = connectorsRunning s \<and>
     publishers s' = (\<lambda>x. case publishers s x of Some p \<Rightarrow> Some p
        | None \<Rightarrow> map_of (map (\<lambda>(c, a). (a, channel_inproc c)) chans) x) \<and>
     outboundChannels s' = (\<lambda>c. if c \<in> fst ` set chans then Some (channel_inproc c) else outboundChannels s c)"
  using assms
proof (induction chans arbitrary: s)
  case Nil
  show ?case by (rule exI [of _ s]) (auto simp: fun_eq_iff split: option.splits)
next
  case (Cons ca chans)
  obtain c a where ca: "ca = (c, a)" by (rule prod.exhaust)
  define s1 where "s1 = snd (publish c a s)"
  have pub: "publish c a s = (Inr (), s1)" and run: "\<not> connectorsRunning s1"
    and out: "outboundChannels s1 = (outboundChannels s)(c \<mapsto> channel_inproc c)"
    and pubs: "publishers s1 = (if publishers s a = None then (publishers s)(a \<mapsto> channel_inproc c) else publishers s)"
    using Cons.prems ca by (auto simp: s1_def publish_def Let_def)
  have fresh: "\<forall>c' \<in> fst ` set chans. outboundChannels s1 c' = None" using Cons.prems(2,3) ca out by auto
  obtain s' where s': "Configure True chans s1 = (Inr True, s')" "connectorsRunning s' = connectorsRunning s1"
    "publishers s' = (\<lambda>x. case publishers s1 x of Some p \<Rightarrow> Some p
        | None \<Rightarrow> map_of (map (\<lambda>(c, a). (a, channel_inproc c)) chans) x)"
    "outboundChannels s' = (\<lambda>c. if c \<in> fst ` set chans then Some (channel_inproc c) else outboundChannels s1 c)"
    using Cons.IH [OF run _ fresh] Cons.prems(2) by auto
  show ?case
    by (rule exI [of _ s']) (use ca pub run s' out pubs Cons.prems(1) in \<open>auto simp: fun_eq_iff split: option.splits\<close>)
qed

lemma gateway_connect_new:
  assumes "gateway_connect host_ok clientId attempts new_gateway = (Inr r, g)" "r = clientId" "clientId \<noteq> - 1"
  shows "driver_running g"
proof (cases host_ok)
  case True
  have "\<not> handler_connected (AsioEClientDriver True)" by (simp add: AsioEClientDriver_def call_back_def)
  from connect_loop_result [OF this, of clientId attempts new_gateway] show ?thesis
    using assms True by (auto simp: gateway_connect_def new_gateway_def split: if_splits)
next
  case False
  then show ?thesis using assms
    by (cases attempts) (auto simp: gateway_connect_def new_gateway_def Connect_def Let_def)
qed

lemma start_sessions_running:
  assumes "start_sessions True attempts host_ok settings s = (Inr (), s')"
    and "\<forall>st \<in> set settings. setting_id st \<noteq> - 1"
    and "\<forall>i g. socketConnectors s i = Some g \<longrightarrow> driver_running g"
  shows "connectorsRunning s' \<and> (\<forall>i g. socketConnectors s' i = Some g \<longrightarrow> driver_running g) \<and>
     dom (socketConnectors s') = dom (socketConnectors s) \<union> setting_id ` set settings"
  using assms
proof (induction settings arbitrary: s)
  case (Cons st rest)
  let ?i = "setting_id st"
  show ?case
  proof (cases "socketConnectors s ?i")
    case None
    obtain res g where conn: "gateway_connect (host_ok (gatewayIp st)) ?i (attempts ?i) new_gateway = (res, g)"
      by (rule prod.exhaust)
    have res: "res = Inr ?i" using Cons.prems(1) None conn by (simp add: Let_def split: sum.splits if_splits)
    have rest: "start_sessions True attempts host_ok rest (s\<lparr>socketConnectors := (socketConnectors s)(?i \<mapsto> g)\<rparr>) = (Inr (), s')"
      using Cons.prems(1) None conn res by (simp add: Let_def)
    have "driver_running g" using gateway_connect_new [OF conn [unfolded res] refl] Cons.prems(2) by simp
    then have "\<forall>i g'. ((socketConnectors s)(?i \<mapsto> g)) i = Some g' \<longrightarrow> driver_running g'"
      using Cons.prems(3) by simp
    with Cons.IH [OF rest] Cons.prems(2) show ?thesis by (simp del: fun_upd_apply)
  next
    case (Some g)
    have "start_sessions True attempts host_ok rest s = (Inr (), s')" using Cons.prems(1) Some by (simp add: Let_def)
    from Cons.IH [OF this _ Cons.prems(3)] Cons.prems(2) Some show ?thesis by (simp add: insert_absorb domI)
  qed
qed auto

section \<open>Properties\<close>

text \<open>The flag that describes a list of settings, as its users write it.\<close>

definition show_setting :: "session_setting \<Rightarrow> string" where
  "show_setting s = show_nat (unat (setting_id s)) @ CHR ''='' # gatewayIp s @ CHR '':'' #
     show_nat (unat (gatewayPort s)) @ CHR ''@'' # connectorReactorAddress s"

definition setting_ok :: "session_setting \<Rightarrow> bool" where
  "setting_ok s \<longleftrightarrow> set (gatewayIp s) \<inter> {CHR '':'', CHR ''@'', CHR '',''} = {} \<and> unat (gatewayPort s) < 2 ^ 31 \<and>
     (\<forall>c \<in> set (connectorReactorAddress s). c \<noteq> CHR '','' \<and> \<not> is_space c)"

lemma parse_show_setting:
  assumes "boost_laws B" "setting_ok s"
  shows "ParseSessionSettingFromString B (show_setting s) = Inr s"
proof -
  let ?id = "show_nat (unat (setting_id s))" and ?port = "show_nat (unat (gatewayPort s))"
  have digits: "all_digits ?id" "all_digits ?port" by (simp_all add: all_digits_def show_nat_digits)
  have "unat (setting_id s) < 2 ^ 32" using unsigned_less [of "setting_id s", where ?'a = nat] by simp
  then have id: "lexical_cast (bl_uint B) ?id = Inr (setting_id s)"
    using boost_laws.uint_digits [OF assms(1) digits(1)] by (simp add: lexical_cast_def)
  have port: "lexical_cast (bl_int B) ?port = Inr (gatewayPort s)"
    using boost_laws.int_digits [OF assms(1) digits(2)] assms(2) by (simp add: lexical_cast_def setting_ok_def)
  have get1: "getline (CHR ''='') (show_setting s) =
      (?id, gatewayIp s @ CHR '':'' # ?port @ CHR ''@'' # connectorReactorAddress s)"
    unfolding show_setting_def by (rule getline_sep) (simp add: not_in_show_nat is_digit_def)
  have "CHR ''@'' \<notin> set (gatewayIp s @ CHR '':'' # ?port)"
    using assms(2) by (simp add: setting_ok_def not_in_show_nat is_digit_def)
  from getline_sep [OF this, of "connectorReactorAddress s"]
  have get2: "getline (CHR ''@'') (gatewayIp s @ CHR '':'' # ?port @ CHR ''@'' # connectorReactorAddress s) =
      (gatewayIp s @ CHR '':'' # ?port, connectorReactorAddress s)" by simp
  have "split_any '':'' (gatewayIp s @ CHR '':'' # ?port) = gatewayIp s # split_any '':'' ?port"
    using assms(2) by (intro split_any_sep) (auto simp: setting_ok_def)
  also have "split_any '':'' ?port = [?port]"
    using show_nat_digits [of "unat (gatewayPort s)"] by (intro split_any_none) (auto simp: is_digit_def)
  finally have split: "bl_split B '':'' (gatewayIp s @ CHR '':'' # ?port) = [gatewayIp s, ?port]"
    by (simp add: boost_laws.split [OF assms(1)])
  have "extract_word (connectorReactorAddress s) = connectorReactorAddress s"
    using assms(2) by (intro extract_word_id) (auto simp: setting_ok_def)
  then show ?thesis
    by (simp add: ParseSessionSettingFromString_def get1 get2 id port split)
qed

lemma show_setting_no_comma: "setting_ok s \<Longrightarrow> CHR '','' \<notin> set (show_setting s)"
  by (auto simp: show_setting_def setting_ok_def not_in_show_nat is_digit_def)

lemma parse_settings_all:
  "boost_laws B \<Longrightarrow> \<forall>s \<in> set ss. setting_ok s \<Longrightarrow> parse_settings B (map show_setting ss) acc = (Inr True, acc @ ss)"
  by (induction ss arbitrary: acc) (simp_all add: parse_show_setting)

text \<open>
  C35. Session flags are read back. For a nonempty list of settings whose hosts, ports and reactor addresses are free
  of the separators, reading the flag that lists them gives them back, in order, after whatever the list held.
\<close>

theorem session_flag_roundtrip:
  assumes "boost_laws B" "ss \<noteq> []" "\<forall>s \<in> set ss. setting_ok s"
  shows "ParseSessionSettingsFromFlag B (join (CHR '','') (map show_setting ss)) acc = (Inr True, acc @ ss)"
proof -
  have "split_any [CHR '',''] (join (CHR '','') (map show_setting ss)) = map show_setting ss"
    using assms(2,3) show_setting_no_comma by (intro split_join) auto
  then show ?thesis
    by (simp add: ParseSessionSettingsFromFlag_def boost_laws.split [OF assms(1)] parse_settings_all assms)
qed

definition demo_settings :: "session_setting list" where
  "demo_settings =
     [\<lparr>setting_id = 1, gatewayIp = ''127.0.0.1'', gatewayPort = 4001, connectorReactorAddress = ''tcp://127.0.0.1:5555''\<rparr>,
      \<lparr>setting_id = 2, gatewayIp = ''10.0.0.2'', gatewayPort = 4002, connectorReactorAddress = ''tcp://127.0.0.1:5556''\<rparr>]"

theorem session_flag_roundtrip_witness:
  "ParseSessionSettingsFromFlag ref_boost (join (CHR '','') (map show_setting demo_settings)) [] = (Inr True, demo_settings)"
proof -
  have "\<forall>s \<in> set demo_settings. setting_ok s" "demo_settings \<noteq> []"
    by (simp_all add: demo_settings_def setting_ok_def is_space_def)
  from session_flag_roundtrip [OF ref_boost.boost_laws_axioms this(2,1), of "[]"] show ?thesis by simp
qed

lemma show_int_inj: "show_int a = show_int b \<longleftrightarrow> a = b"
proof -
  have "\<not> is_digit (CHR ''-'')" by (simp add: is_digit_def)
  then have minus: "CHR ''-'' # s \<noteq> show_nat n" for s n
    using not_in_show_nat [of "CHR ''-''" n] by (metis list.set_intros(1))
  show ?thesis using minus minus [symmetric] by (auto simp: show_int_def)
qed

lemma channel_inproc_inj: "channel_inproc c = channel_inproc c' \<longleftrightarrow> c = c'"
  by (auto simp: channel_inproc_def show_int_inj intro: signed_word_eqI)

lemma map_of_first:
  assumes "distinct (map fst chans)" "chans = pre @ (c, a) # post"
  shows "(\<exists>x. map_of (map (\<lambda>(c, a). (a, channel_inproc c)) chans) x = Some (channel_inproc c)) \<longleftrightarrow> a \<notin> snd ` set pre"
    and "a \<notin> snd ` set pre \<Longrightarrow> map_of (map (\<lambda>(c, a). (a, channel_inproc c)) chans) a = Some (channel_inproc c)"
proof -
  let ?m = "\<lambda>chans. map_of (map (\<lambda>(c, a). (a, channel_inproc c)) chans)"
  have dom: "?m pre x = None \<longleftrightarrow> x \<notin> snd ` set pre" for x
    by (auto simp: map_of_eq_None_iff image_iff split: prod.splits)
  show first: "a \<notin> snd ` set pre \<Longrightarrow> ?m chans a = Some (channel_inproc c)"
    using dom [of a] assms(2) by (simp add: map_add_def)
  have "a \<notin> snd ` set pre" if x: "?m chans x = Some (channel_inproc c)" for x
  proof -
    obtain c' where "(c', x) \<in> set chans" "channel_inproc c' = channel_inproc c"
      using map_of_SomeD [OF x] by auto
    then have "(c, x) \<in> set chans" by (simp add: channel_inproc_inj)
    then have "x = a" using eq_key_imp_eq_value [OF assms(1), of c x a] assms(2) by simp
    have "(c, a) \<notin> set pre" using assms by (force simp: image_iff)
    show ?thesis
    proof
      assume "a \<in> snd ` set pre"
      then obtain p where p: "?m pre a = Some p" using dom [of a] by (cases "?m pre a") auto
      then obtain c' where c': "(c', a) \<in> set pre" "p = channel_inproc c'" using map_of_SomeD [OF p] by auto
      have "?m chans a = Some p" using p assms(2) by (simp add: map_add_def)
      then have "c' = c" using x \<open>x = a\<close> c' by (simp add: channel_inproc_inj)
      then show False using c' \<open>(c, a) \<notin> set pre\<close> by simp
    qed
  qed
  then show "(\<exists>x. ?m chans x = Some (channel_inproc c)) \<longleftrightarrow> a \<notin> snd ` set pre"
    using first by blast
qed

text \<open>
  C31. Which channels a publisher serves. Publishing a list of channels under distinct numbers routes every channel to
  an in-process address of its own. A channel whose endpoint no earlier channel of the list has is received there by
  the publisher of its endpoint; for a channel that shares its endpoint with an earlier one no publisher receives.
\<close>

theorem published_channels_served:
  assumes "distinct (map fst chans)" "chans = pre @ (c, a) # post"
  shows "\<exists>s'. Configure True chans (new_initiator settings) = (Inr True, s') \<and>
     outboundChannels s' c = Some (channel_inproc c) \<and>
     (if a \<notin> snd ` set pre then publishers s' a = Some (channel_inproc c)
      else \<forall>x. publishers s' x \<noteq> Some (channel_inproc c))"
proof -
  have new: "\<not> connectorsRunning (new_initiator settings)" "outboundChannels (new_initiator settings) = Map.empty"
    "publishers (new_initiator settings) = Map.empty"
    by (simp_all add: new_initiator_def)
  have "\<forall>c \<in> fst ` set chans. outboundChannels (new_initiator settings) c = None" by (simp add: new)
  from Configure_publish [OF new(1) assms(1) this] obtain s' where s':
    "Configure True chans (new_initiator settings) = (Inr True, s')"
    "publishers s' = (\<lambda>x. case publishers (new_initiator settings) x of Some p \<Rightarrow> Some p
       | None \<Rightarrow> map_of (map (\<lambda>(c, a). (a, channel_inproc c)) chans) x)"
    "outboundChannels s' = (\<lambda>c. if c \<in> fst ` set chans then Some (channel_inproc c)
       else outboundChannels (new_initiator settings) c)" by blast
  have "publishers s' = map_of (map (\<lambda>(c, a). (a, channel_inproc c)) chans)" unfolding s'(2) new(3) by simp
  moreover have "outboundChannels s' c = Some (channel_inproc c)"
    unfolding s'(3) using assms(2) by force
  ultimately show ?thesis using s'(1) map_of_first [OF assms] by (intro exI [of _ s']) auto
qed

theorem published_channels_served_witness:
  "\<exists>s'. Configure True [(0, ''tcp://*:7777''), (1, ''tcp://*:7777'')] (new_initiator []) = (Inr True, s') \<and>
     outboundChannels s' 1 = Some ''inproc://channel-1'' \<and> (\<forall>x. publishers s' x \<noteq> Some ''inproc://channel-1'')"
proof -
  have "show_nat 1 = ''1''" by (subst show_nat.simps) (simp add: digit_char_def char_of_def bit_Suc_0_iff)
  then have "channel_inproc 1 = ''inproc://channel-1''" by (simp add: channel_inproc_def show_int_def)
  moreover have distinct: "distinct (map fst [(0 :: i32, ''tcp://*:7777''), (1, ''tcp://*:7777'')])" by simp
  have split: "[(0 :: i32, ''tcp://*:7777''), (1, ''tcp://*:7777'')] = [(0, ''tcp://*:7777'')] @ (1, ''tcp://*:7777'') # []"
    by simp
  have shared: "''tcp://*:7777'' \<in> snd ` set [(0 :: i32, ''tcp://*:7777'')]" by simp
  note published_channels_served [OF distinct split, of "[]"]
  ultimately show ?thesis using shared by (elim exE conjE, intro exI conjI) (assumption | simp)+
qed

text \<open>
  C18. A started program is connected. When starting with connections returns at all, every session of the settings has a
  connector whose handler has completed its handshake, and the program counts as logged on; a session that cannot
  connect ends the process. The session number 4294967295, which is also the result of a failed connection read as
  an unsigned number, is excluded.
\<close>

theorem started_sessions_connected:
  assumes "initiator_start True attempts host_ok (new_initiator settings) = (Inr (), s')"
    and "\<forall>st \<in> set settings. setting_id st \<noteq> - 1"
  shows "isLoggedOn s' \<and> (\<forall>st \<in> set settings. \<exists>g. socketConnectors s' (setting_id st) = Some g \<and> driver_running g)"
proof -
  have "connectorsRunning s' \<and> (\<forall>i g. socketConnectors s' i = Some g \<longrightarrow> driver_running g) \<and>
     dom (socketConnectors s') = dom (socketConnectors (new_initiator settings)) \<union> setting_id ` set settings"
    using assms by (intro start_sessions_running) (auto simp: initiator_start_def new_initiator_def)
  moreover from this have "\<exists>g. socketConnectors s' (setting_id st) = Some g" if "st \<in> set settings" for st
    using that by blast
  ultimately show ?thesis unfolding isLoggedOn_def by blast
qed

definition good_attempts :: "connect_attempt list" where
  "good_attempts = [\<lparr>at_tcp = Tcp_connected [True],
     at_wait = [Act_wake, Act_check [Handler_connected True] (Some True) True]\<rparr>]"

lemma good_attempts_connect: "\<exists>g. gateway_connect True i good_attempts new_gateway = (Inr i, g)"
  by (simp add: gateway_connect_def new_gateway_def good_attempts_def driver_defs)

theorem started_sessions_connected_witness:
  "\<exists>s'. initiator_start True (\<lambda>_. good_attempts) (\<lambda>_. True) (new_initiator demo_settings) = (Inr (), s') \<and>
     isLoggedOn s' \<and>
     (\<forall>st \<in> set demo_settings. \<exists>g. socketConnectors s' (setting_id st) = Some g \<and> driver_running g)"
proof -
  obtain g1 g2 where "gateway_connect True 1 good_attempts new_gateway = (Inr 1, g1)"
    "gateway_connect True 2 good_attempts new_gateway = (Inr 2, g2)" using good_attempts_connect by meson
  then have "\<exists>s'. initiator_start True (\<lambda>_. good_attempts) (\<lambda>_. True) (new_initiator demo_settings) = (Inr (), s')"
    by (simp add: initiator_start_def new_initiator_def demo_settings_def Let_def)
  then obtain s' where s': "initiator_start True (\<lambda>_. good_attempts) (\<lambda>_. True) (new_initiator demo_settings) = (Inr (), s')" ..
  have "\<forall>st \<in> set demo_settings. setting_id st \<noteq> - 1" by (simp add: demo_settings_def)
  from started_sessions_connected [OF s' this] s' show ?thesis by blast
qed

end
