(* ===== verification/Subscriber.thy ===== *)
theory Subscriber
  imports Historian_Db Zmq Wire
begin

text \<open>
  \<^verbatim>\<open>service/MarketDataSubscriber.hpp\<close> and its base \<^verbatim>\<open>service/ManagedAgent.hpp\<close>: an agent that feeds ticks and order book
  updates to its two \<^verbatim>\<open>process\<close> methods and obeys admin messages. The subclass is a pair of functions on a state of
  its own; what they throw leaves the loop. The offset latency, which nothing reads, is left out.
\<close>

section \<open>State\<close>

record process_varz =
  pv_latency :: i64
  pv_latency_total :: i64
  pv_latency_count :: i64
  pv_over_budget :: i64
  pv_drift :: i64
  pv_last_ts :: i64
  pv_interval :: i64

text \<open>
  The socket's side: endpoints and topics, every subscription counting once more; \<open>None\<close> when there is no socket.
\<close>

record sub_socket =
  sub_endpoints :: "string list"
  sub_topics :: "string list"

record 'h subscriber =
  agent_id :: string
  agent_running :: bool
  sub_socket :: "sub_socket option"
  varz_subscribes :: string
  varz_unsubscribes :: string
  md_varz :: process_varz
  dp_varz :: process_varz
  process_stopped :: bool
  sub_state :: 'h

type_synonym 'h admin_handler = "string \<Rightarrow> string \<Rightarrow> 'h subscriber \<Rightarrow> bool cpp \<times> 'h subscriber"

section \<open>Admin operations\<close>

text \<open>The outcome of a call on the socket is an argument: \<open>Some e\<close> when it throws.\<close>

definition sub_connect :: "(string \<Rightarrow> nat option) \<Rightarrow> string \<Rightarrow> 'h subscriber \<Rightarrow> bool cpp \<times> 'h subscriber" where
  "sub_connect fails endpoint s =
     (case sub_socket s of
        None \<Rightarrow> (Inr False, s)
      | Some k \<Rightarrow>
          (case fails endpoint of
             Some e \<Rightarrow> (Inl (ZmqError e), s)
           | None \<Rightarrow> (Inr True, s\<lparr>sub_socket := Some (k\<lparr>sub_endpoints := sub_endpoints k @ [endpoint]\<rparr>)\<rparr>)))"

definition subscribe :: "string \<Rightarrow> 'h subscriber \<Rightarrow> bool \<times> 'h subscriber" where
  "subscribe topic s =
     (case sub_socket s of
        None \<Rightarrow> (False, s)
      | Some k \<Rightarrow> (True, s\<lparr>sub_socket := Some (k\<lparr>sub_topics := sub_topics k @ [topic]\<rparr>),
                          varz_subscribes := varz_subscribes s @ topic @ '' ''\<rparr>))"

definition unsubscribe :: "string \<Rightarrow> 'h subscriber \<Rightarrow> bool \<times> 'h subscriber" where
  "unsubscribe topic s =
     (case sub_socket s of
        None \<Rightarrow> (False, s)
      | Some k \<Rightarrow> (True, s\<lparr>sub_socket := Some (k\<lparr>sub_topics := remove1 topic (sub_topics k)\<rparr>),
                          varz_unsubscribes := varz_unsubscribes s @ topic @ '' ''\<rparr>))"

definition sub_stop :: "'h subscriber \<Rightarrow> bool \<times> 'h subscriber" where
  "sub_stop s = (False, s)"

definition never_throws :: "(bool \<times> 'h subscriber) \<Rightarrow> bool cpp \<times> 'h subscriber" where
  "never_throws r = (Inr (fst r), snd r)"

text \<open>The handlers the constructor binds; a subclass may bind more, which replace those of the same verb.\<close>

definition admin_handlers :: "(string \<Rightarrow> nat option) \<Rightarrow> string \<rightharpoonup> 'h admin_handler" where
  "admin_handlers fails =
     [''connect'' \<mapsto> (\<lambda>verb dat. sub_connect fails dat), ''subscribe'' \<mapsto> (\<lambda>verb dat s. never_throws (subscribe dat s)),
      ''unsubscribe'' \<mapsto> (\<lambda>verb dat s. never_throws (unsubscribe dat s)), ''stop'' \<mapsto> (\<lambda>verb dat s. never_throws (sub_stop s))]"

definition registerHandler :: "string \<Rightarrow> 'h admin_handler \<Rightarrow> (string \<rightharpoonup> 'h admin_handler) \<Rightarrow> string \<rightharpoonup> 'h admin_handler" where
  "registerHandler verb h hs = hs(verb \<mapsto> h)"

definition isAdminMessage :: "string \<Rightarrow> string \<Rightarrow> string \<Rightarrow> 'h subscriber \<Rightarrow> bool" where
  "isAdminMessage topic verb dat s \<longleftrightarrow> topic = agent_id s"

definition handleAdminMessage :: "(string \<rightharpoonup> 'h admin_handler) \<Rightarrow> 'h admin_handler" where
  "handleAdminMessage hs verb dat s = (case hs verb of None \<Rightarrow> (Inr True, s) | Some h \<Rightarrow> h verb dat s)"

text \<open>The base class's \<^verbatim>\<open>stop\<close> reports whether the agent still runs, which it never does.\<close>

definition agent_stop :: "'h subscriber \<Rightarrow> bool \<times> 'h subscriber" where
  "agent_stop s = (False, s\<lparr>agent_running := False\<rparr>)"

definition reportEventReady :: "string \<Rightarrow> i32 \<Rightarrow> out_socket \<Rightarrow> unit cpp \<times> out_socket" where
  "reportEventReady agent varzPort =
     st_bind (send_copy ''UP'' True) (\<lambda>_. st_bind (send_copy agent True) (\<lambda>_.
       st_bind (send_copy (''http://localhost:'' @ show_int (sint varzPort) @ ''/varz'') False) (\<lambda>_. st_return ())))"

text \<open>\<^verbatim>\<open>initialize\<close> subscribes to the agent's id and announces the agent; an error is caught.\<close>

definition agent_initialize ::
  "(string \<Rightarrow> nat option) \<Rightarrow> string \<Rightarrow> string \<Rightarrow> i32 \<Rightarrow> out_socket \<Rightarrow> 'h subscriber \<Rightarrow>
     bool \<times> out_socket \<times> 'h subscriber" where
  "agent_initialize fails adminEndpoint eventEndpoint varzPort events s =
     (case sub_socket s of
        None \<Rightarrow> (False, events, s)
      | Some k \<Rightarrow>
          if fails adminEndpoint \<noteq> None then (False, events, s)
          else
            let s1 = s\<lparr>sub_socket := Some (k\<lparr>sub_endpoints := sub_endpoints k @ [adminEndpoint],
                                            sub_topics := sub_topics k @ [agent_id s]\<rparr>)\<rparr>
            in if fails eventEndpoint \<noteq> None then (False, events, s1)
               else case reportEventReady (agent_id s) varzPort events of
                      (Inl e, events') \<Rightarrow> (False, events', s1)
                    | (Inr _, events') \<Rightarrow> (True, events', s1))"

section \<open>The loop\<close>

text \<open>The three readings of the clock a processed message costs.\<close>

record process_times =
  t_start :: u64
  t_end :: u64
  t_drift :: u64

definition count_event :: "u64 \<Rightarrow> process_varz \<Rightarrow> process_varz" where
  "count_event ts v = v\<lparr>pv_interval := ts - pv_last_ts v, pv_last_ts := ts\<rparr>"

definition count_process :: "u64 \<Rightarrow> process_times \<Rightarrow> process_varz \<Rightarrow> process_varz" where
  "count_process ts t v =
     (let dt = t_end t - t_start t;
          v1 = v\<lparr>pv_latency := dt, pv_latency_total := pv_latency_total v + dt,
                 pv_latency_count := pv_latency_count v + 1, pv_drift := t_drift t - ts\<rparr>
      in if pv_interval v1 \<le>s pv_latency v1 then v1\<lparr>pv_over_budget := pv_over_budget v1 + 1\<rparr> else v1)"

type_synonym ('m, 'h) process = "string \<Rightarrow> 'm \<Rightarrow> 'h \<Rightarrow> bool cpp \<times> 'h"

definition process_md ::
  "(MarketData, 'h) process \<Rightarrow> process_times \<Rightarrow> string \<Rightarrow> MarketData \<Rightarrow> 'h subscriber \<Rightarrow> bool cpp \<times> 'h subscriber" where
  "process_md process t topic m s =
     (let ts = get_md_timestamp m;
          s1 = s\<lparr>md_varz := count_event ts (md_varz s)\<rparr>;
          (r, h) = process topic m (sub_state s1);
          s2 = s1\<lparr>sub_state := h\<rparr>
      in case r of Inl e \<Rightarrow> (Inl e, s2) | Inr b \<Rightarrow> (Inr b, s2\<lparr>md_varz := count_process ts t (md_varz s2)\<rparr>))"

definition process_dp ::
  "(MarketDepth, 'h) process \<Rightarrow> process_times \<Rightarrow> string \<Rightarrow> MarketDepth \<Rightarrow> 'h subscriber \<Rightarrow> bool cpp \<times> 'h subscriber" where
  "process_dp process t topic m s =
     (let ts = case_option 0 id (dp_timestamp m);
          s1 = s\<lparr>dp_varz := count_event ts (dp_varz s)\<rparr>;
          (r, h) = process topic m (sub_state s1);
          s2 = s1\<lparr>sub_state := h\<rparr>
      in case r of Inl e \<Rightarrow> (Inl e, s2) | Inr b \<Rightarrow> (Inr b, s2\<lparr>dp_varz := count_process ts t (dp_varz s2)\<rparr>))"

text \<open>
  Reading a part when there is one: an exception is caught, the part stays empty and the flag as it was. \<open>None\<close>: the
  read waits.
\<close>

definition read_part :: "bool \<Rightarrow> zin list \<Rightarrow> (string \<times> bool \<times> zin list) option" where
  "read_part rcvmore ins =
     (if \<not> rcvmore then Some ([], rcvmore, ins)
      else case zmq_receive ins of
             (Blocked, rest) \<Rightarrow> None
           | (Threw e, rest) \<Rightarrow> Some ([], rcvmore, rest)
           | (Received b rcvmore', rest) \<Rightarrow> Some (b, rcvmore', rest))"

definition starts_with :: "string \<Rightarrow> string \<Rightarrow> bool" where
  "starts_with s p \<longleftrightarrow> take (length p) s = p"

record 'h agent =
  ag_md :: "(MarketData, 'h) process"
  ag_dp :: "(MarketDepth, 'h) process"
  ag_handlers :: "string \<rightharpoonup> 'h admin_handler"
  ag_md_codec :: "(MarketData, string) codec"
  ag_dp_codec :: "(MarketDepth, string) codec"

text \<open>One message: whether to go on, or an exception that leaves the loop.\<close>

definition subscriber_message ::
  "'h agent \<Rightarrow> process_times \<Rightarrow> string \<Rightarrow> bool \<Rightarrow> zin list \<Rightarrow> 'h subscriber \<Rightarrow>
     (bool cpp \<times> 'h subscriber \<times> zin list) option" where
  "subscriber_message A t frame1 rcvmore ins s =
     (if starts_with frame1 ENTITY_IB_MARKET_DEPTH
      then case read_part rcvmore ins of
             None \<Rightarrow> None
           | Some (frame2, _, rest) \<Rightarrow>
               (case pb_parse (ag_dp_codec A) frame2 of
                  None \<Rightarrow> Some (Inr True, s, rest)
                | Some m \<Rightarrow> let (r, s') = process_dp (ag_dp A) t frame1 m s in Some (r, s', rest))
      else if starts_with frame1 ''admin:''
      then case read_part rcvmore ins of
             None \<Rightarrow> None
           | Some (frame2, rcvmore2, rest) \<Rightarrow>
               (case read_part rcvmore2 rest of
                  None \<Rightarrow> None
                | Some (frame3, _, rest') \<Rightarrow>
                    let (r, s') = handleAdminMessage (ag_handlers A) frame2 frame3 s in Some (r, s', rest'))
      else case read_part rcvmore ins of
             None \<Rightarrow> None
           | Some (frame2, _, rest) \<Rightarrow>
               (case pb_parse (ag_md_codec A) frame2 of
                  None \<Rightarrow> Some (Inr True, s, rest)
                | Some m \<Rightarrow> let (r, s') = process_md (ag_md A) t frame1 m s in Some (r, s', rest)))"

lemma read_part_shorter: "read_part rcvmore ins = Some (b, m, rest) \<Longrightarrow> length rest \<le> length ins"
  by (cases "zmq_receive ins")
    (auto simp: read_part_def split: if_splits recv_result.splits dest: zmq_receive_shorter)

lemma read_part_first: "read_part True ins = Some (b, m, rest) \<Longrightarrow> length rest < length ins"
  by (cases "zmq_receive ins") (auto simp: read_part_def split: recv_result.splits dest: zmq_receive_shorter)

lemma subscriber_message_shorter:
  "subscriber_message A t frame1 rcvmore ins s = Some (r, s', rest) \<Longrightarrow> length rest \<le> length ins"
  unfolding subscriber_message_def Let_def
  by (auto split: if_splits option.splits prod.splits dest!: read_part_shorter)

datatype agent_end = Agent_waits | Agent_stopped | Agent_threw cpp_error

function processInbound ::
  "'h agent \<Rightarrow> (nat \<Rightarrow> process_times) \<Rightarrow> zin list \<Rightarrow> 'h subscriber \<Rightarrow> agent_end \<times> 'h subscriber \<times> zin list" where
  "processInbound A clock ins s =
     (case read_part True ins of
        None \<Rightarrow> (Agent_waits, s, [])
      | Some (frame1, rcvmore, rest) \<Rightarrow>
          (case subscriber_message A (clock (length rest)) frame1 rcvmore rest s of
             None \<Rightarrow> (Agent_waits, s, [])
           | Some (Inl e, s', rest') \<Rightarrow> (Agent_threw e, s', rest')
           | Some (Inr True, s', rest') \<Rightarrow> processInbound A clock rest' s'
           | Some (Inr False, s', rest') \<Rightarrow> (Agent_stopped, s'\<lparr>process_stopped := True\<rparr>, rest')))"
  by pat_completeness auto
termination
  by (relation "measure (\<lambda>(_, _, ins, _). length ins)")
    (auto dest!: sym [of "Some _"] read_part_first subscriber_message_shorter)

declare processInbound.simps [simp del]

section \<open>What the loop promises\<close>

text \<open>The reference: the messages are processed in order until a call returns false or throws.\<close>

fun feed :: "('m, 'h) process \<Rightarrow> (string \<times> 'm) list \<Rightarrow> 'h \<Rightarrow> bool cpp \<times> 'h \<times> (string \<times> 'm) list" where
  "feed process [] h = (Inr True, h, [])"
| "feed process ((topic, m) # ms) h =
     (case process topic m h of
        (Inr True, h') \<Rightarrow> feed process ms h'
      | (r, h') \<Rightarrow> (r, h', ms))"

definition data_topic :: "string \<Rightarrow> bool" where
  "data_topic t \<longleftrightarrow> t \<noteq> [] \<and> \<not> starts_with t ENTITY_IB_MARKET_DEPTH \<and> \<not> starts_with t ''admin:''"

definition agent_end_of :: "bool cpp \<Rightarrow> agent_end" where
  "agent_end_of r = (case r of Inl e \<Rightarrow> Agent_threw e | Inr True \<Rightarrow> Agent_waits | Inr False \<Rightarrow> Agent_stopped)"

text \<open>How a message comes over the wire, its bytes given by a function.\<close>

definition message_frames :: "('m \<Rightarrow> string) \<Rightarrow> string \<times> 'm \<Rightarrow> zin list" where
  "message_frames bytes tm = [ZFrame (fst tm) True, ZFrame (bytes (snd tm)) False]"

lemma process_md_state:
  "process_md p t topic m s = (r, s') \<Longrightarrow> p topic m (sub_state s) = (r, sub_state s') \<and> dp_varz s' = dp_varz s \<and>
     (case r of Inr _ \<Rightarrow> pv_latency_count (md_varz s') = pv_latency_count (md_varz s) + 1 \<and>
                       pv_last_ts (md_varz s') = get_md_timestamp m
      | Inl _ \<Rightarrow> pv_latency_count (md_varz s') = pv_latency_count (md_varz s))"
  by (auto simp: process_md_def count_event_def count_process_def Let_def split: prod.splits sum.splits if_splits)

lemma processInbound_data:
  assumes "data_topic topic" "bytes m \<noteq> []" "pb_parse (ag_md_codec A) (bytes m) = Some m"
    and "process_md (ag_md A) (clock (length rest + 1)) topic m s = (r, s')"
  shows "processInbound A clock (message_frames bytes (topic, m) @ rest) s =
    (case r of Inl e \<Rightarrow> (Agent_threw e, s', rest)
     | Inr True \<Rightarrow> processInbound A clock rest s'
     | Inr False \<Rightarrow> (Agent_stopped, s'\<lparr>process_stopped := True\<rparr>, rest))"
  using assms
  by (subst processInbound.simps)
    (simp add: message_frames_def read_part_def data_topic_def subscriber_message_def split: sum.split bool.split)

text \<open>
  C23. The subscriber feeds its subclass. For a stream of ticks on data topics whose bytes parse, the loop calls the
  subclass for every tick, in order, until a call returns false, which stops the loop, or throws, which leaves it; what
  comes after stays in the socket. Every call that returned is counted, and the order book's figures are untouched.
\<close>

theorem subscriber_feeds_in_order:
  assumes "\<forall>(topic, m) \<in> set ms. data_topic topic \<and> bytes m \<noteq> [] \<and> pb_parse (ag_md_codec A) (bytes m) = Some m"
    and "feed (ag_md A) ms (sub_state s) = (r, h, rest)"
  shows "\<exists>s'. processInbound A clock (concat (map (message_frames bytes) ms)) s =
      (agent_end_of r, s', concat (map (message_frames bytes) rest)) \<and>
    sub_state s' = h \<and> dp_varz s' = dp_varz s \<and>
    pv_latency_count (md_varz s') = pv_latency_count (md_varz s) +
      of_nat (length ms - length rest - (case r of Inl _ \<Rightarrow> 1 | Inr _ \<Rightarrow> 0))"
  using assms
proof (induction ms arbitrary: s)
  case Nil
  then show ?case
    by (subst processInbound.simps) (auto simp: read_part_def agent_end_of_def)
next
  case (Cons tm ms)
  obtain topic m where tm: "tm = (topic, m)" by (rule prod.exhaust)
  let ?rest = "concat (map (message_frames bytes) ms)"
  obtain r1 s1 where p: "process_md (ag_md A) (clock (length ?rest + 1)) topic m s = (r1, s1)" by (rule prod.exhaust)
  note st = process_md_state [OF p]
  have ok: "data_topic topic" "bytes m \<noteq> []" "pb_parse (ag_md_codec A) (bytes m) = Some m"
    using Cons.prems(1) tm by auto
  have run: "processInbound A clock (concat (map (message_frames bytes) (tm # ms))) s =
    (case r1 of Inl e \<Rightarrow> (Agent_threw e, s1, ?rest)
     | Inr True \<Rightarrow> processInbound A clock ?rest s1
     | Inr False \<Rightarrow> (Agent_stopped, s1\<lparr>process_stopped := True\<rparr>, ?rest))"
    using processInbound_data [where bytes = bytes and clock = clock and rest = ?rest, OF ok p] tm by simp
  have len: "length l \<le> length ms" if "feed (ag_md A) ms h0 = (x, y, l)" for h0 x y l
    using that by (induction ms arbitrary: h0) (fastforce split: prod.splits sum.splits bool.splits)+
  show ?case
  proof (cases "r1 = Inr True")
    case True
    then have feed: "feed (ag_md A) ms (sub_state s1) = (r, h, rest)" using Cons.prems(2) st tm by simp
    obtain s' where s': "processInbound A clock ?rest s1 = (agent_end_of r, s', concat (map (message_frames bytes) rest))"
      "sub_state s' = h" "dp_varz s' = dp_varz s1"
      "pv_latency_count (md_varz s') = pv_latency_count (md_varz s1) +
        of_nat (length ms - length rest - (case r of Inl _ \<Rightarrow> 1 | Inr _ \<Rightarrow> 0))"
      using Cons.IH [OF _ feed] Cons.prems(1) by auto
    have strict: "length l < length ms" if "feed (ag_md A) ms h0 = (Inl x, y, l)" for h0 x y l
      using that by (induction ms arbitrary: h0) (fastforce split: prod.splits sum.splits bool.splits)+
    have lt: "length rest < length ms" if "r = Inl e" for e using strict feed that by blast
    have count: "Suc (length ms - length rest - (case r of Inl _ \<Rightarrow> 1 | Inr _ \<Rightarrow> 0)) =
        length (tm # ms) - length rest - (case r of Inl _ \<Rightarrow> 1 | Inr _ \<Rightarrow> 0)"
      using len [OF feed] lt by (cases r) (auto simp: Suc_diff_le Suc_diff_Suc)
    show ?thesis unfolding run True
      by (rule exI [of _ s']) (use s' st True count [symmetric] in simp)
  next
    case False
    then have "r = r1 \<and> h = sub_state s1 \<and> rest = ms" using Cons.prems(2) st tm
      by (auto split: sum.splits bool.splits)
    then show ?thesis unfolding run using st False
      by (cases r1) (auto simp: agent_end_of_def split: bool.splits)
  qed
qed

definition demo_trade :: "double \<Rightarrow> MarketData" where
  "demo_trade x = \<lparr>md_timestamp = Some 1, md_symbol = Some ''AAPL.STK'', md_event = Some ''LAST'',
     md_value = Some (Value_default\<lparr>val_type := Some Value_Type_DOUBLE, double_value := Some x\<rparr>), md_contract_id = Some 5\<rparr>"

definition demo_agent :: "MarketData list agent" where
  "demo_agent = \<lparr>ag_md = (\<lambda>topic m h. (Inr (length h < 1), h @ [m])), ag_dp = (\<lambda>topic m h. (Inr True, h)),
     ag_handlers = admin_handlers (\<lambda>_. None), ag_md_codec = md_codec,
     ag_dp_codec = \<lparr>pb_serialize = (\<lambda>_. (False, [])), pb_parse = (\<lambda>_. None)\<rparr>\<rparr>"

definition zero_varz :: process_varz where
  "zero_varz = \<lparr>pv_latency = 0, pv_latency_total = 0, pv_latency_count = 0, pv_over_budget = 0, pv_drift = 0,
     pv_last_ts = 0, pv_interval = 0\<rparr>"

definition demo_subscriber :: "MarketData list subscriber" where
  "demo_subscriber = \<lparr>agent_id = ''agent-1'', agent_running = True, sub_socket = Some \<lparr>sub_endpoints = [], sub_topics = []\<rparr>,
     varz_subscribes = [], varz_unsubscribes = [], md_varz = zero_varz, dp_varz = zero_varz, process_stopped = False,
     sub_state = []\<rparr>"

definition demo_clock :: "nat \<Rightarrow> process_times" where
  "demo_clock n = \<lparr>t_start = of_nat n, t_end = of_nat n, t_drift = of_nat n\<rparr>"

lemma demo_trade_bytes:
  "pb_parse md_codec (snd (pb_serialize md_codec (demo_trade x))) = Some (demo_trade x)"
  "snd (pb_serialize md_codec (demo_trade x)) \<noteq> []"
proof -
  show parse: "pb_parse md_codec (snd (pb_serialize md_codec (demo_trade x))) = Some (demo_trade x)"
    by (rule md_codec.parse_serialize)
      (simp add: demo_trade_def marketdata_initialized_def value_initialized_def)
  then show "snd (pb_serialize md_codec (demo_trade x)) \<noteq> []"
    by (metis md_codec_def option.distinct(1) wire_codec_empty)
qed

text \<open>The subclass of the example stops at its second tick; the third stays in the socket.\<close>

theorem subscriber_feeds_in_order_witness:
  "\<exists>s'. processInbound demo_agent demo_clock
       (concat (map (message_frames (\<lambda>m. snd (pb_serialize md_codec m)))
          [(''AAPL.STK'', demo_trade 1), (''AAPL.STK'', demo_trade 2), (''AAPL.STK'', demo_trade 3)])) demo_subscriber =
     (Agent_stopped, s', message_frames (\<lambda>m. snd (pb_serialize md_codec m)) (''AAPL.STK'', demo_trade 3)) \<and>
     sub_state s' = [demo_trade 1, demo_trade 2] \<and> pv_latency_count (md_varz s') = 2"
proof -
  let ?ms = "[(''AAPL.STK'', demo_trade 1), (''AAPL.STK'', demo_trade 2), (''AAPL.STK'', demo_trade 3)]"
  have ok: "\<forall>(topic, m) \<in> set ?ms. data_topic topic \<and> snd (pb_serialize md_codec m) \<noteq> [] \<and>
      pb_parse (ag_md_codec demo_agent) (snd (pb_serialize md_codec m)) = Some m"
    using demo_trade_bytes
    by (simp add: demo_agent_def data_topic_def starts_with_def ENTITY_IB_MARKET_DEPTH_def)
  have "feed (ag_md demo_agent) ?ms (sub_state demo_subscriber) =
      (Inr False, [demo_trade 1, demo_trade 2], [(''AAPL.STK'', demo_trade 3)])"
    by (simp add: demo_agent_def demo_subscriber_def)
  from subscriber_feeds_in_order [where bytes = "\<lambda>m. snd (pb_serialize md_codec m)" and clock = demo_clock, OF ok this]
  show ?thesis by (auto simp: agent_end_of_def demo_subscriber_def zero_varz_def)
qed

text \<open>
  Admin messages sent to the agent's id are lost. \<^verbatim>\<open>ManagedAgent\<close> subscribes to its id as the topic of admin messages, but
  the loop knows admin messages by the prefix \<^verbatim>\<open>admin:\<close>. A message of id, verb and argument is taken for a tick: nothing
  is called, and its third part is left to be read as the topic of a next message.
\<close>

theorem admin_by_id_lost:
  assumes "agent_initialize fails adminEndpoint eventEndpoint port events s = (True, events', s')"
    and "data_topic (agent_id s')" "verb \<noteq> []" "pb_parse (ag_md_codec A) verb = None"
  shows "(\<exists>k. sub_socket s' = Some k \<and> agent_id s' \<in> set (sub_topics k)) \<and>
    isAdminMessage (agent_id s') verb dat s' \<and>
    processInbound A clock (ZFrame (agent_id s') True # ZFrame verb True # ZFrame dat False # rest) s' =
      processInbound A clock (ZFrame dat False # rest) s'"
proof (intro conjI)
  show "\<exists>k. sub_socket s' = Some k \<and> agent_id s' \<in> set (sub_topics k)"
    using assms(1) by (auto simp: agent_initialize_def Let_def split: option.splits if_splits prod.splits sum.splits)
  show "isAdminMessage (agent_id s') verb dat s'" by (simp add: isAdminMessage_def)
  show "processInbound A clock (ZFrame (agent_id s') True # ZFrame verb True # ZFrame dat False # rest) s' =
      processInbound A clock (ZFrame dat False # rest) s'"
    using assms(2-4) by (subst processInbound.simps) (simp add: read_part_def data_topic_def subscriber_message_def)
qed

theorem admin_by_id_lost_witness:
  "\<exists>events' s'. agent_initialize (\<lambda>_. None) ''tcp://a'' ''tcp://e'' 18000 \<lparr>zs_sent = [], zs_faults = []\<rparr> demo_subscriber =
       (True, events', s') \<and>
     processInbound demo_agent demo_clock [ZFrame ''agent-1'' True, ZFrame ''stop'' True, ZFrame ''now'' False] s' =
       processInbound demo_agent demo_clock [ZFrame ''now'' False] s'"
proof -
  obtain events' s' where s': "agent_initialize (\<lambda>_. None) ''tcp://a'' ''tcp://e'' 18000 \<lparr>zs_sent = [], zs_faults = []\<rparr> demo_subscriber =
       (True, events', s')" "agent_id s' = ''agent-1''"
    by (simp add: agent_initialize_def demo_subscriber_def reportEventReady_def st_bind_def st_return_def Let_def)
  have "data_topic (agent_id s')"
    by (simp add: s' data_topic_def starts_with_def ENTITY_IB_MARKET_DEPTH_def)
  moreover have "pb_parse (ag_md_codec demo_agent) ''stop'' = None"
    by (simp add: demo_agent_def md_codec_def wire_codec_def from_bytes_def dec_MarketData_def dec_via_def dec_pair_def
        dec_option_def)
  ultimately show ?thesis
    using admin_by_id_lost [OF s'(1), of "''stop''" demo_agent "''now''" demo_clock "[]"] s' by auto
qed

end
