(* ===== verification/Historian_Loader.thy ===== *)
theory Historian_Loader
  imports Log_Reader Historian_Db Ticker_Id
begin

text \<open>
  \<^verbatim>\<open>main/historian_loader_main.cpp\<close>: the loader that reads event logs into the historian's database and keeps, for
  each symbol, a log of the sessions it has seen. Its static maps are the state; the progress it prints is left out.
\<close>

section \<open>Environment and state\<close>

text \<open>Flags, libraries and, for each write so far, the two readings of the clock around the next one.\<close>

record ('d, 'b, 'pt) loader_env =
  le_boost :: boost_lib
  le_time :: "'pt posix_time"
  le_leveldb :: "('d, 'b) leveldb"
  le_codec :: "'b record_codec"
  le_atof :: "string \<Rightarrow> double"
  le_clock :: "i64 \<Rightarrow> i64 \<times> i64"
  FLAGS_rth :: bool
  FLAGS_logfile :: string
  FLAGS_gapInMinutes :: i64
  FLAGS_checkDuplicate :: bool

record 'd loader =
  TickerIdSymbolMap :: "i64 \<rightharpoonup> string"
  SymbolSessionLogs :: "(string \<times> SessionLog) list"   \<comment> \<open>a map in the order of its keys\<close>
  loader_db :: "'d db"
  loader_matched :: nat
  loader_written :: nat
  loader_duplicates :: nat

section \<open>Numbers from text\<close>

text \<open>\<^verbatim>\<open>strtoll\<close> skips white space, takes a sign and digits, and saturates; \<^verbatim>\<open>atoi\<close> cuts the result to an \<^verbatim>\<open>int\<close>.\<close>

definition strtoll :: "string \<Rightarrow> i64" where
  "strtoll s =
     (let t = dropWhile (\<lambda>c. c \<in> set white_space) s;
          (neg, u) = (case t of c # cs \<Rightarrow> if c = CHR ''-'' then (True, cs) else if c = CHR ''+'' then (False, cs) else (False, t)
                      | [] \<Rightarrow> (False, []));
          n = int (nat_of_digits (takeWhile is_digit u));
          i = (if neg then - n else n)
      in of_int (max (- (2 ^ 63)) (min (2 ^ 63 - 1) i)))"

definition atoi :: "string \<Rightarrow> i32" where
  "atoi s = ucast (strtoll s)"

text \<open>The conversion of a double to an integer cuts towards zero.\<close>

definition double_to_i64 :: "double \<Rightarrow> i64" where
  "double_to_i64 x = of_int (if 0 \<le> x then \<lfloor>x\<rfloor> else \<lceil>x\<rceil>)"

section \<open>Events\<close>

definition ACTIONS :: "string \<rightharpoonup> string" where
  "ACTIONS = [''reqMktData'' \<mapsto> ''contract'', ''reqMktDepth'' \<mapsto> ''contract'', ''reqRealTimeBars'' \<mapsto> ''contract'',
     ''reqHistoricalData'' \<mapsto> ''contract'']"

definition EVENTS :: "string \<rightharpoonup> string \<times> Value_Type" where
  "EVENTS = [''tickPrice'' \<mapsto> (''price'', Value_Type_DOUBLE), ''tickSize'' \<mapsto> (''size'', Value_Type_INT),
     ''tickGeneric'' \<mapsto> (''value'', Value_Type_STRING)]"

definition register_ticker_id_symbol :: "i64 \<Rightarrow> string \<Rightarrow> 'd loader \<Rightarrow> 'd loader" where
  "register_ticker_id_symbol tickerId symbol s = s\<lparr>TickerIdSymbolMap := (TickerIdSymbolMap s)(tickerId \<mapsto> symbol)\<rparr>"

text \<open>An id without a symbol gets the one its letters spell, as a stock.\<close>

definition GetSymbol :: "i64 \<Rightarrow> 'd loader \<Rightarrow> string \<times> 'd loader" where
  "GetSymbol code s =
     (case TickerIdSymbolMap s code of
        Some known \<Rightarrow> (known, s)
      | None \<Rightarrow> let symbol = SymbolFromTickerId (ucast code) @ ''.STK''
              in (symbol, register_ticker_id_symbol code symbol s))"

definition checkEvent :: "log_record \<Rightarrow> bool" where
  "checkEvent event = (case event ''event'' of None \<Rightarrow> False | Some e \<Rightarrow> EVENTS e \<noteq> None)"

definition checkBookEvent :: "log_record \<Rightarrow> bool" where
  "checkBookEvent event =
     (case event ''event'' of None \<Rightarrow> False | Some e \<Rightarrow> e = ''updateMktDepth'' \<or> e = ''updateMktDepthL2'')"

definition checkAction :: "log_record \<Rightarrow> bool" where
  "checkAction event = (case event ''action'' of None \<Rightarrow> False | Some a \<Rightarrow> ACTIONS a \<noteq> None)"

text \<open>The parser of name-value pairs is, line by line, that of the log reader.\<close>

definition ParseMap :: "boost_lib \<Rightarrow> string \<Rightarrow> log_record \<Rightarrow> char \<Rightarrow> string \<Rightarrow> bool \<times> log_record" where
  "ParseMap B line result nvDelim pDelim = line_to_record B line nvDelim pDelim result"

definition MapActions :: "boost_lib \<Rightarrow> log_record \<Rightarrow> 'd loader \<Rightarrow> bool cpp \<times> 'd loader" where
  "MapActions B nv s =
     (case map_option strtoll (nv ''id'') of
        None \<Rightarrow> (Inr False, s)
      | Some tickerId \<Rightarrow>
          (case nv ''contract'' of
             None \<Rightarrow> (Inr True, snd (GetSymbol tickerId s))
           | Some contractString \<Rightarrow>
               (let (parsed, spec) = ParseMap B contractString Map.empty (CHR '':'') '';''
                in if \<not> parsed then (Inl FatalLog, s)
                   else case symbol_from_map spec of
                          None \<Rightarrow> (Inl FatalLog, s)
                        | Some symbol \<Rightarrow>
                            (case TickerIdSymbolMap s tickerId of
                               None \<Rightarrow> (Inr True, register_ticker_id_symbol tickerId symbol s)
                             | Some known \<Rightarrow> if known \<noteq> symbol then (Inl FatalLog, s) else (Inr True, s)))))"

section \<open>Conversion\<close>

text \<open>The value of a tick; an unknown event reads as the default pair of an empty name and the first type.\<close>

definition tick_value :: "(string \<Rightarrow> double) \<Rightarrow> log_record \<Rightarrow> string \<Rightarrow> Value option" where
  "tick_value atof nv method =
     (let (fieldToUse, ty) = case_option ([], Value_Type_DOUBLE) id (EVENTS method)
      in case nv fieldToUse of
           None \<Rightarrow> None
         | Some t \<Rightarrow>
             (let v = Value_default\<lparr>val_type := Some ty\<rparr>
              in Some (case ty of
                         Value_Type_INT \<Rightarrow> v\<lparr>int_value := Some (double_to_i64 (atof t))\<rparr>
                       | Value_Type_DOUBLE \<Rightarrow> v\<lparr>double_value := Some (atof t)\<rparr>
                       | Value_Type_STRING \<Rightarrow> v\<lparr>string_value := Some []\<rparr>
                       | Value_Type_TIMESTAMP \<Rightarrow> v)))"

definition Convert_md :: "(string \<Rightarrow> double) \<Rightarrow> log_record \<Rightarrow> 'd loader \<Rightarrow> MarketData option \<times> 'd loader" where
  "Convert_md atof nv s =
     (case nv ''ts_utc'' of None \<Rightarrow> (None, s) | Some ts \<Rightarrow>
      case nv ''tickerId'' of None \<Rightarrow> (None, s) | Some tid \<Rightarrow>
        let code = strtoll tid; (symbol, s') = GetSymbol code s; nv = nv(''symbol'' \<mapsto> symbol)
        in case nv ''field'' of None \<Rightarrow> (None, s') | Some event \<Rightarrow>
             let m = \<lparr>md_timestamp = Some (strtoll ts), md_symbol = Some symbol, md_event = Some event, md_value = None,
                      md_contract_id = Some code\<rparr>
             in case nv ''event'' of
                  None \<Rightarrow> (Some m, s')
                | Some method \<Rightarrow>
                    (case tick_value atof nv method of
                       None \<Rightarrow> (None, s')
                     | Some v \<Rightarrow> (Some (m\<lparr>md_value := Some v\<rparr>), s')))"

text \<open>A side or an operation that is no number of the enumeration leaves its field unset.\<close>

definition Convert_dp :: "(string \<Rightarrow> double) \<Rightarrow> log_record \<Rightarrow> 'd loader \<Rightarrow> MarketDepth option \<times> 'd loader" where
  "Convert_dp atof nv s =
     (case nv ''ts_utc'' of None \<Rightarrow> (None, s) | Some ts \<Rightarrow>
      case nv ''id'' of None \<Rightarrow> (None, s) | Some tid \<Rightarrow>
        let code = strtoll tid; (symbol, s') = GetSymbol code s; nv = nv(''symbol'' \<mapsto> symbol)
        in (case (nv ''side'', nv ''operation'', nv ''position'', nv ''price'', nv ''size'') of
              (Some side, Some operation, Some level, Some price, Some sz) \<Rightarrow>
                Some \<lparr>dp_timestamp = Some (strtoll ts), dp_symbol = Some symbol,
                  dp_side = (if atoi side = 0 then Some ASK else if atoi side = 1 then Some BID else None),
                  dp_price = Some (atof price), dp_size = Some (scast (atoi sz)),
                  dp_operation = (if atoi operation = 0 then Some INSERT else if atoi operation = 2 then Some DELETE
                                  else if atoi operation = 1 then Some UPDATE else None),
                  dp_level = Some (atoi level), dp_mm = Some (case_option [] id (nv ''marketMaker'')),
                  dp_contract_id = Some code\<rparr>
            | _ \<Rightarrow> None, s'))"

section \<open>Session logs\<close>

definition last_part :: "boost_lib \<Rightarrow> string \<Rightarrow> string" where
  "last_part B filename = List.last (bl_split B ''/'' filename)"

text \<open>
  The difference of two times in microseconds, and the minutes of a duration, which are its minutes
  after the full hours.
\<close>

definition pt_micros :: "'pt posix_time \<Rightarrow> 'pt \<Rightarrow> int" where
  "pt_micros P t = pt_days P t * micros_per_day + pt_tod P t"

definition duration_minutes :: "int \<Rightarrow> int" where
  "duration_minutes d = sgn d * (\<bar>d\<bar> div 60000000 mod 60)"

definition gap_passed :: "('d, 'b, 'pt) loader_env \<Rightarrow> u64 \<Rightarrow> u64 \<Rightarrow> bool" where
  "gap_passed E stopped now =
     (duration_minutes (pt_micros (le_time E) (as_ptime (le_time E) now) - pt_micros (le_time E) (as_ptime (le_time E) stopped))
      > sint (FLAGS_gapInMinutes E))"

definition write_session :: "('d, 'b, 'pt) loader_env \<Rightarrow> SessionLog \<Rightarrow> bool \<Rightarrow> 'd loader \<Rightarrow> bool cpp \<times> 'd loader" where
  "write_session E l overwrite s =
     (let (t0, t1) = le_clock E (leveldb_writes (db_varz (loader_db s)))
      in case Db_Write_SessionLog (le_leveldb E) (le_codec E) t0 t1 l overwrite (loader_db s) of
           Inl e \<Rightarrow> (Inl e, s)
         | Inr (ok, d) \<Rightarrow> (Inr ok, s\<lparr>loader_db := d\<rparr>))"

definition put_session :: "string \<Rightarrow> SessionLog \<Rightarrow> 'd loader \<Rightarrow> 'd loader" where
  "put_session symbol l s = s\<lparr>SymbolSessionLogs := sorted_put symbol l (SymbolSessionLogs s)\<rparr>"

text \<open>When the write of the old session throws, its new source is already set.\<close>

definition updateSessionLog ::
  "('d, 'b, 'pt) loader_env \<Rightarrow> string \<Rightarrow> string \<Rightarrow> u64 \<Rightarrow> 'd loader \<Rightarrow> unit cpp \<times> 'd loader" where
  "updateSessionLog E source symbol ts s =
     (case map_of (SymbolSessionLogs s) symbol of
        None \<Rightarrow> (Inr (), put_session symbol \<lparr>sl_symbol = Some symbol, sl_start_timestamp = Some ts,
                    sl_stop_timestamp = Some 0, sl_source = Some source\<rparr> s)
      | Some l \<Rightarrow>
          if 0 < get_sl_stop_timestamp l \<and> gap_passed E (get_sl_stop_timestamp l) ts
          then let l1 = l\<lparr>sl_source := Some (last_part (le_boost E) (FLAGS_logfile E))\<rparr>
               in case write_session E l1 True (put_session symbol l1 s) of
                    (Inl e, s1) \<Rightarrow> (Inl e, s1)
                  | (Inr _, s1) \<Rightarrow>
                      (Inr (), put_session symbol (l1\<lparr>sl_start_timestamp := Some ts, sl_stop_timestamp := Some ts\<rparr>) s1)
          else (Inr (), put_session symbol (l\<lparr>sl_stop_timestamp := Some ts\<rparr>) s))"

fun write_sessions ::
  "('d, 'b, 'pt) loader_env \<Rightarrow> string \<Rightarrow> string list \<Rightarrow> nat \<Rightarrow> 'd loader \<Rightarrow> nat cpp \<times> 'd loader" where
  "write_sessions E source [] n s = (Inr n, s)"
| "write_sessions E source (symbol # rest) n s =
     (case map_of (SymbolSessionLogs s) symbol of
        None \<Rightarrow> (Inl NullDereference, s)
      | Some l \<Rightarrow>
          let l1 = l\<lparr>sl_source := Some source\<rparr>
          in case write_session E l1 (\<not> FLAGS_checkDuplicate E) (put_session symbol l1 s) of
               (Inl e, s1) \<Rightarrow> (Inl e, s1)
             | (Inr ok, s1) \<Rightarrow> write_sessions E source rest (if ok then n + 1 else n) s1)"

definition WriteSessionLogs :: "('d, 'b, 'pt) loader_env \<Rightarrow> string \<Rightarrow> 'd loader \<Rightarrow> bool cpp \<times> 'd loader" where
  "WriteSessionLogs E source s =
     (case write_sessions E source (map fst (SymbolSessionLogs s)) 0 s of
        (Inl e, s1) \<Rightarrow> (Inl e, s1)
      | (Inr n, s1) \<Rightarrow> (Inr (n = length (SymbolSessionLogs s1)), s1))"

section \<open>Writing a record\<close>

definition WriteDb ::
  "('d, 'b, 'pt) loader_env \<Rightarrow> (i64 \<Rightarrow> i64 \<Rightarrow> bool \<Rightarrow> 'd db \<Rightarrow> (bool \<times> 'd db) cpp) \<Rightarrow> string \<Rightarrow> string \<Rightarrow> u64 \<Rightarrow>
     'd loader \<Rightarrow> bool cpp \<times> 'd loader" where
  "WriteDb E db_write source symbol ts s =
     (case updateSessionLog E source symbol ts s of
        (Inl e, s1) \<Rightarrow> (Inl e, s1)
      | (Inr _, s1) \<Rightarrow>
          let (t0, t1) = le_clock E (leveldb_writes (db_varz (loader_db s1)))
          in case db_write t0 t1 (\<not> FLAGS_checkDuplicate E) (loader_db s1) of
               Inl e \<Rightarrow> (Inl e, s1)
             | Inr (written, d) \<Rightarrow> (Inr written, s1\<lparr>loader_db := d\<rparr>))"

definition in_hours :: "('d, 'b, 'pt) loader_env \<Rightarrow> u64 \<Rightarrow> bool" where
  "in_hours E ts =
     (let t = as_ptime (le_time E) ts
      in checkEXT (le_time E) t \<and> \<not> (\<not> checkRTH (le_time E) t \<and> FLAGS_rth E))"

definition count_record :: "bool \<Rightarrow> 'd loader \<Rightarrow> 'd loader" where
  "count_record written s =
     (let s1 = (if written then s\<lparr>loader_written := loader_written s + 1\<rparr>
                else s\<lparr>loader_duplicates := loader_duplicates s + 1\<rparr>)
      in s1\<lparr>loader_matched := loader_matched s1 + 1\<rparr>)"

definition store_record ::
  "('d, 'b, 'pt) loader_env \<Rightarrow> (i64 \<Rightarrow> i64 \<Rightarrow> bool \<Rightarrow> 'd db \<Rightarrow> (bool \<times> 'd db) cpp) \<Rightarrow> string \<Rightarrow> string \<Rightarrow> u64 \<Rightarrow>
     'd loader \<Rightarrow> unit cpp \<times> 'd loader" where
  "store_record E db_write source symbol ts s =
     (if in_hours E ts
      then case WriteDb E db_write source symbol ts s of
             (Inl e, s1) \<Rightarrow> (Inl e, s1)
           | (Inr written, s1) \<Rightarrow> (Inr (), count_record written s1)
      else (Inr (), s))"

section \<open>The program\<close>

definition load_record :: "('d, 'b, 'pt) loader_env \<Rightarrow> string \<Rightarrow> log_record \<Rightarrow> 'd loader \<Rightarrow> unit cpp \<times> 'd loader" where
  "load_record E source nv s =
     (case (if checkEvent nv then Convert_md (le_atof E) nv s else (None, s)) of
        (Some m, s1) \<Rightarrow>
          store_record E (\<lambda>t0 t1. Db_Write_MarketData (le_leveldb E) (le_codec E) t0 t1 m) source (get_md_symbol m)
            (get_md_timestamp m) s1
      | (None, s1) \<Rightarrow>
          if checkBookEvent nv
          then (case Convert_dp (le_atof E) nv s1 of
                  (Some m, s2) \<Rightarrow>
                    store_record E (\<lambda>t0 t1. Db_Write_MarketDepth (le_leveldb E) (le_codec E) t0 t1 m) source
                      (get_dp_symbol m) (get_dp_timestamp m) s2
                | (None, s2) \<Rightarrow> (Inr (), s2))
          else if checkAction nv
          then (case MapActions (le_boost E) nv s1 of (Inl e, s2) \<Rightarrow> (Inl e, s2) | (Inr _, s2) \<Rightarrow> (Inr (), s2))
          else (Inr (), s1))"

definition load_line :: "('d, 'b, 'pt) loader_env \<Rightarrow> string \<Rightarrow> string \<Rightarrow> 'd loader \<Rightarrow> unit cpp \<times> 'd loader" where
  "load_line E source line s =
     (if CHR '','' \<in> set line
      then case ParseMap (le_boost E) line Map.empty (CHR ''='') '','' of
             (False, _) \<Rightarrow> (Inr (), s)
           | (True, nv) \<Rightarrow> load_record E source nv s
      else (Inr (), s))"

text \<open>A step that fails ends the process.\<close>

fun run_each :: "('a \<Rightarrow> 's \<Rightarrow> unit cpp \<times> 's) \<Rightarrow> 'a list \<Rightarrow> 's \<Rightarrow> unit cpp \<times> 's" where
  "run_each f [] s = (Inr (), s)"
| "run_each f (x # xs) s = (case f x s of (Inl e, s1) \<Rightarrow> (Inl e, s1) | (Inr _, s1) \<Rightarrow> run_each f xs s1)"

definition load_file ::
  "('d, 'b, 'pt) loader_env \<Rightarrow> (bool \<Rightarrow> string \<Rightarrow> string option) \<Rightarrow> string \<Rightarrow> 'd loader \<Rightarrow> unit cpp \<times> 'd loader" where
  "load_file E read_file filename s =
     (case read_file (contains filename ''.gz'') filename of
        None \<Rightarrow> (Inr (), s)
      | Some text \<Rightarrow>
          let source = last_part (le_boost E) filename;
              s0 = s\<lparr>loader_matched := 0, loader_written := 0, loader_duplicates := 0\<rparr>
          in case run_each (load_line E source) (tokens text) s0 of
               (Inl e, s1) \<Rightarrow> (Inl e, s1)
             | (Inr _, s1) \<Rightarrow>
                 (case WriteSessionLogs E source s1 of (Inl e, s2) \<Rightarrow> (Inl e, s2) | (Inr _, s2) \<Rightarrow> (Inr (), s2)))"

definition loader_main ::
  "('d, 'b, 'pt) loader_env \<Rightarrow> (leveldb_options \<Rightarrow> string \<Rightarrow> 'd option) \<Rightarrow> leveldb_options \<Rightarrow> leveldb_flags \<Rightarrow>
     string \<Rightarrow> (bool \<Rightarrow> string \<Rightarrow> string option) \<Rightarrow> unit cpp \<times> 'd loader" where
  "loader_main E open_fn defaults flags leveldb_file read_file =
     (let (opened, d) = Db_Open open_fn defaults flags (Db_new leveldb_file);
          s = \<lparr>TickerIdSymbolMap = Map.empty, SymbolSessionLogs = [], loader_db = d, loader_matched = 0,
               loader_written = 0, loader_duplicates = 0\<rparr>
      in if \<not> opened then (Inl FatalLog, s)
         else run_each (load_file E read_file) (bl_split (le_boost E) '','' (FLAGS_logfile E)) s)"

end
