(* ===== verification/Loader_Laws.thy ===== *)
theory Loader_Laws
  imports Historian_Loader Historian_Laws
begin

text \<open>
  What the loader keeps: a complete table of sessions, where it splits sessions, and what it asks of the database.
\<close>

section \<open>The table of sessions\<close>

lemma set_sorted_put: "set (sorted_put k v m) \<subseteq> insert (k, v) (set m)"
  by (induction k v m rule: sorted_put.induct) auto

text \<open>Every entry is a complete session log of its own symbol, and the keys are in order.\<close>

definition sessions_typed :: "'d loader \<Rightarrow> bool" where
  "sessions_typed s \<longleftrightarrow>
     sorted_wrt (<) (map fst (SymbolSessionLogs s)) \<and>
     (\<forall>(k, l) \<in> set (SymbolSessionLogs s). sl_symbol l = Some k \<and> sessionlog_initialized l)"

lemma typed_same_sessions: "SymbolSessionLogs s' = SymbolSessionLogs s \<Longrightarrow> sessions_typed s \<Longrightarrow> sessions_typed s'"
  by (simp add: sessions_typed_def)

lemma typed_put_session:
  assumes "sessions_typed s" "sl_symbol l = Some k" "sessionlog_initialized l"
  shows "sessions_typed (put_session k l s)"
  using assms set_sorted_put [of k l "SymbolSessionLogs s"]
  by (auto simp: sessions_typed_def put_session_def sorted_put_sorted)

lemma typed_lookup:
  "sessions_typed s \<Longrightarrow> map_of (SymbolSessionLogs s) k = Some l \<Longrightarrow> sl_symbol l = Some k \<and> sessionlog_initialized l"
  by (auto simp: sessions_typed_def dest!: map_of_SomeD)

lemma write_session_sessions [simp]: "SymbolSessionLogs (snd (write_session E l ow s)) = SymbolSessionLogs s"
  by (auto simp: write_session_def split: prod.splits sum.splits)

lemma GetSymbol_sessions [simp]: "SymbolSessionLogs (snd (GetSymbol c s)) = SymbolSessionLogs s"
  by (auto simp: GetSymbol_def register_ticker_id_symbol_def Let_def split: option.splits)

lemma MapActions_sessions: "SymbolSessionLogs (snd (MapActions B nv s)) = SymbolSessionLogs s"
  by (auto simp: MapActions_def register_ticker_id_symbol_def Let_def split: option.splits prod.splits)

lemma Convert_md_sessions: "SymbolSessionLogs (snd (Convert_md atof nv s)) = SymbolSessionLogs s"
proof (cases "nv ''tickerId''")
  case (Some tid)
  obtain symbol s' where g: "GetSymbol (strtoll tid) s = (symbol, s')" by (rule prod.exhaust)
  then have "SymbolSessionLogs s' = SymbolSessionLogs s" using GetSymbol_sessions [of "strtoll tid" s] by simp
  then show ?thesis by (simp add: Convert_md_def Some Let_def g split: option.split)
qed (simp add: Convert_md_def split: option.split)

lemma Convert_dp_sessions: "SymbolSessionLogs (snd (Convert_dp atof nv s)) = SymbolSessionLogs s"
proof (cases "nv ''id''")
  case (Some tid)
  obtain symbol s' where g: "GetSymbol (strtoll tid) s = (symbol, s')" by (rule prod.exhaust)
  then have "SymbolSessionLogs s' = SymbolSessionLogs s" using GetSymbol_sessions [of "strtoll tid" s] by simp
  then show ?thesis by (simp add: Convert_dp_def Some Let_def g split: option.split)
qed (simp add: Convert_dp_def split: option.split)

lemma updateSessionLog_typed:
  assumes "sessions_typed s"
  shows "sessions_typed (snd (updateSessionLog E source symbol ts s))"
proof (cases "map_of (SymbolSessionLogs s) symbol")
  case None
  then show ?thesis
    by (auto simp: updateSessionLog_def sessionlog_initialized_def intro!: typed_put_session assms)
next
  case (Some l)
  let ?l1 = "l\<lparr>sl_source := Some (last_part (le_boost E) (FLAGS_logfile E))\<rparr>"
  note l = typed_lookup [OF assms Some]
  have put: "sessions_typed (put_session symbol ?l1 s)"
    using l by (intro typed_put_session assms) (auto simp: sessionlog_initialized_def)
  obtain r s1 where w: "write_session E ?l1 True (put_session symbol ?l1 s) = (r, s1)"
    by (rule prod.exhaust)
  then have s1: "sessions_typed s1"
    using write_session_sessions [of E ?l1 True "put_session symbol ?l1 s"]
    by (intro typed_same_sessions [OF _ put]) simp
  show ?thesis
    using Some l assms s1
    by (auto simp: updateSessionLog_def Let_def w sessionlog_initialized_def intro!: typed_put_session split: sum.splits)
qed

lemma write_sessions_typed: "sessions_typed s \<Longrightarrow> sessions_typed (snd (write_sessions E source ks n s))"
proof (induction E source ks n s rule: write_sessions.induct)
  case (2 E source symbol rest n s)
  show ?case
  proof (cases "map_of (SymbolSessionLogs s) symbol")
    case (Some l)
    let ?l1 = "l\<lparr>sl_source := Some source\<rparr>"
    let ?p = "put_session symbol ?l1 s"
    have put: "sessions_typed ?p"
      using typed_lookup [OF "2.prems" Some] "2.prems"
      by (intro typed_put_session) (auto simp: sessionlog_initialized_def)
    obtain r s1 where w: "write_session E ?l1 (\<not> FLAGS_checkDuplicate E) ?p = (r, s1)"
      by (rule prod.exhaust)
    then have s1: "sessions_typed s1"
      using write_session_sessions [of E ?l1 "\<not> FLAGS_checkDuplicate E" ?p]
      by (intro typed_same_sessions [OF _ put]) simp
    show ?thesis
      using Some s1 "2.IH" [OF Some refl w [symmetric]] by (auto simp: Let_def w split: sum.splits)
  qed (use 2 in simp)
qed simp

lemma WriteSessionLogs_typed: "sessions_typed s \<Longrightarrow> sessions_typed (snd (WriteSessionLogs E source s))"
  using write_sessions_typed [of s E source "map fst (SymbolSessionLogs s)" 0]
  by (auto simp: WriteSessionLogs_def split: prod.splits sum.splits)

lemma store_record_typed:
  assumes "sessions_typed s"
  shows "sessions_typed (snd (store_record E w source symbol ts s))"
  using updateSessionLog_typed [OF assms, of E source symbol ts] assms
  by (auto simp: store_record_def WriteDb_def count_record_def Let_def sessions_typed_def split: prod.splits sum.splits)

lemma load_record_typed:
  assumes "sessions_typed s"
  shows "sessions_typed (snd (load_record E source nv s))"
proof -
  obtain m s1 where c: "(if checkEvent nv then Convert_md (le_atof E) nv s else (None, s)) = (m, s1)"
    by (rule prod.exhaust)
  then have s1: "sessions_typed s1"
    using Convert_md_sessions [of "le_atof E" nv s] assms
    by (auto intro: typed_same_sessions split: if_splits)
  obtain d s2 where d: "Convert_dp (le_atof E) nv s1 = (d, s2)" by (rule prod.exhaust)
  have s2: "sessions_typed s2"
    using Convert_dp_sessions [of "le_atof E" nv s1] d s1 by (auto intro: typed_same_sessions)
  obtain a s3 where a: "MapActions (le_boost E) nv s1 = (a, s3)" by (rule prod.exhaust)
  have s3: "sessions_typed s3"
    using MapActions_sessions [of "le_boost E" nv s1] a s1 by (auto intro: typed_same_sessions)
  show ?thesis
    using s1 s2 s3 unfolding load_record_def c
    by (auto simp: d a intro: store_record_typed split: option.splits sum.splits)
qed

lemma run_each_invariant:
  "(\<And>x s. I s \<Longrightarrow> I (snd (f x s))) \<Longrightarrow> I s \<Longrightarrow> I (snd (run_each f xs s))"
proof (induction f xs s rule: run_each.induct)
  case (2 f x xs s)
  obtain r s1 where f: "f x s = (r, s1)" by (rule prod.exhaust)
  with 2(2,3) have "I s1" by (metis snd_conv)
  then show ?case using 2(1) [OF f [symmetric] _ 2(2)] f by (cases r) auto
qed simp

lemma load_file_typed:
  assumes "sessions_typed s"
  shows "sessions_typed (snd (load_file E read_file filename s))"
proof (cases "read_file (contains filename ''.gz'') filename")
  case (Some content)
  let ?src = "last_part (le_boost E) filename"
  let ?s0 = "s\<lparr>loader_matched := 0, loader_written := 0, loader_duplicates := 0\<rparr>"
  have line: "sessions_typed s' \<Longrightarrow> sessions_typed (snd (load_line E ?src line s'))" for line s'
    by (auto simp: load_line_def load_record_typed split: prod.splits bool.splits)
  obtain r s1 where r: "run_each (load_line E ?src) (tokens content) ?s0 = (r, s1)" by (rule prod.exhaust)
  have "sessions_typed (snd (run_each (load_line E ?src) (tokens content) ?s0))"
    using assms by (intro run_each_invariant [where I = sessions_typed, OF line]) (auto simp: sessions_typed_def)
  with r have "sessions_typed s1" by simp
  from WriteSessionLogs_typed [OF this, of E ?src] this show ?thesis
    by (auto simp: load_file_def Some Let_def r split: prod.splits sum.splits)
qed (simp add: load_file_def assms)

text \<open>
  C39. Whatever the files hold, and wherever the loader stops, each entry of its table of sessions is a session log of the
  symbol that is its key, with all required fields set, and the table is in the order of its keys.
\<close>

theorem loader_sessions_typed: "sessions_typed (snd (loader_main E open_fn defaults flags leveldb_file read_file))"
proof -
  obtain opened d where d: "Db_Open open_fn defaults flags (Db_new leveldb_file) = (opened, d)" by (rule prod.exhaust)
  have "sessions_typed \<lparr>TickerIdSymbolMap = Map.empty, SymbolSessionLogs = [], loader_db = d,
      loader_matched = 0, loader_written = 0, loader_duplicates = 0\<rparr>" (is "sessions_typed ?s")
    by (simp add: sessions_typed_def)
  moreover have "sessions_typed s \<Longrightarrow> sessions_typed (snd (run_each (load_file E read_file) xs s))" for xs s
    by (erule run_each_invariant [rotated]) (rule load_file_typed)
  ultimately show ?thesis by (simp add: loader_main_def Let_def d)
qed

section \<open>Splitting sessions\<close>

context posix_time_laws
begin

lemma pt_micros_as_ptime:
  assumes "uint ts < max_ptime_seconds * 1000000"
  shows "pt_micros P (as_ptime P ts) = uint ts"
proof -
  let ?s = "uint ts div 1000000" and ?m = "uint ts mod 1000000"
  note s = seconds_split(1,2) [OF assms] and r = seconds_split(3-) [OF assms]
  have eq: "?s * 1000000 + ?m = uint ts" by simp
  show ?thesis
    using days_from_time_t [OF r] tod_from_time_t [OF r]
    unfolding eq pt_micros_def as_ptime_def s by simp
qed

end

lemma duration_minutes_nonneg: "0 \<le> d \<Longrightarrow> duration_minutes d = d div 60000000 mod 60"
  by (cases "d = 0") (simp_all add: duration_minutes_def)

text \<open>
  C27. The session of a symbol ends, its log is written under the name of the log file, and a new one starts, when the
  minutes since its last record, counted after the full hours, exceed the gap: a pause of one hour and one minute counts as
  one minute. In both cases the record's time is the new end of the session.
\<close>

theorem session_splits_on_minutes:
  fixes s :: "'d loader"
  assumes "posix_time_laws (le_time E)" "levelDb (loader_db s) \<noteq> None"
    and l: "map_of (SymbolSessionLogs s) symbol = Some l" "0 < get_sl_stop_timestamp l"
    and t: "get_sl_stop_timestamp l \<le> ts" "uint ts < max_ptime_seconds * 1000000"
    and gap: "gap \<longleftrightarrow> (uint ts - uint (get_sl_stop_timestamp l)) div 60000000 mod 60 > sint (FLAGS_gapInMinutes E)"
    and l1: "l1 = l\<lparr>sl_source := Some (last_part (le_boost E) (FLAGS_logfile E))\<rparr>"
  shows "\<exists>s'. updateSessionLog E source symbol ts s = (Inr (), s') \<and>
     map_of (SymbolSessionLogs s') symbol =
       Some (if gap then l1\<lparr>sl_start_timestamp := Some ts, sl_stop_timestamp := Some ts\<rparr> else l\<lparr>sl_stop_timestamp := Some ts\<rparr>) \<and>
     (if gap then \<exists>t0 t1 ok. Db_Write_SessionLog (le_leveldb E) (le_codec E) t0 t1 l1 True (loader_db s) = Inr (ok, loader_db s')
      else loader_db s' = loader_db s)"
proof -
  let ?stop = "get_sl_stop_timestamp l"
  have le: "uint ?stop \<le> uint ts" using t(1) by (simp add: word_le_def)
  with t(2) have "uint ?stop < max_ptime_seconds * 1000000" by simp
  then have passed: "gap_passed E ?stop ts \<longleftrightarrow> gap"
    using posix_time_laws.pt_micros_as_ptime [OF assms(1)] t(2) le
    by (simp add: gap gap_passed_def duration_minutes_nonneg)
  obtain t0 t1 where clock: "le_clock E (leveldb_writes (db_varz (loader_db s))) = (t0, t1)" by (rule prod.exhaust)
  have "\<exists>ok d. Db_Write_SessionLog (le_leveldb E) (le_codec E) t0 t1 l1 True (loader_db s) = Inr (ok, d)"
    using assms(2) by (auto simp: Db_Write_SessionLog_def impl_write_def split: prod.splits)
  then obtain ok d where w: "Db_Write_SessionLog (le_leveldb E) (le_codec E) t0 t1 l1 True (loader_db s) = Inr (ok, d)"
    by blast
  show ?thesis
  proof (cases gap)
    case True
    then show ?thesis
      using l w by (auto simp: updateSessionLog_def passed Let_def put_session_def map_of_sorted_put write_session_def clock l1 [symmetric])
  qed (use l in \<open>simp add: updateSessionLog_def passed put_session_def map_of_sorted_put\<close>)
qed

text \<open>An environment of the reference libraries, with a fixed clock.\<close>

definition ref_loader :: "bool \<Rightarrow> string \<Rightarrow> (Record kv_store, Record, int) loader_env" where
  "ref_loader rth logfile = \<lparr>le_boost = ref_boost, le_time = int_ptime, le_leveldb = kv_leveldb,
     le_codec = plain_codec record_initialized, le_atof = (\<lambda>t. of_nat (nat_of_digits t)), le_clock = (\<lambda>n. (n, n + 1)),
     FLAGS_rth = rth, FLAGS_logfile = logfile, FLAGS_gapInMinutes = 5, FLAGS_checkDuplicate = False\<rparr>"

theorem session_splits_on_minutes_witness:
  "\<exists>s'. updateSessionLog (ref_loader False ''x/a.log'') ''a.log'' ''AAPL.STK'' 1334683870000000
     \<lparr>TickerIdSymbolMap = Map.empty,
      SymbolSessionLogs = [(''AAPL.STK'', \<lparr>sl_symbol = Some ''AAPL.STK'', sl_start_timestamp = Some 1334680000000000,
         sl_stop_timestamp = Some 1334680210000000, sl_source = Some ''a.log''\<rparr>)],
      loader_db = (Db_new ''db'')\<lparr>levelDb := Some kv_empty\<rparr>, loader_matched = 0, loader_written = 0, loader_duplicates = 0\<rparr> =
       (Inr (), s') \<and>
     map_option get_sl_start_timestamp (map_of (SymbolSessionLogs s') ''AAPL.STK'') = Some 1334680000000000"
  using session_splits_on_minutes
    [of "ref_loader False ''x/a.log''"
      "\<lparr>TickerIdSymbolMap = Map.empty,
        SymbolSessionLogs = [(''AAPL.STK'', \<lparr>sl_symbol = Some ''AAPL.STK'', sl_start_timestamp = Some 1334680000000000,
           sl_stop_timestamp = Some 1334680210000000, sl_source = Some ''a.log''\<rparr>)],
        loader_db = (Db_new ''db'')\<lparr>levelDb := Some kv_empty\<rparr>, loader_matched = 0, loader_written = 0, loader_duplicates = 0\<rparr>"
      "''AAPL.STK''" _ 1334683870000000 False _ "''a.log''"]
    int_time.posix_time_laws_axioms
  by (force simp: ref_loader_def get_sl_stop_timestamp_def get_sl_start_timestamp_def max_ptime_seconds_def)

section \<open>What reaches the database\<close>

text \<open>The writes the loader makes: records of its hours under the flag, and complete session logs.\<close>

primrec op_admitted :: "('d, 'b, 'pt) loader_env \<Rightarrow> db_op \<Rightarrow> bool" where
  "op_admitted E (WriteMarketData v ow) \<longleftrightarrow> in_hours E (get_md_timestamp v) \<and> ow = (\<not> FLAGS_checkDuplicate E)"
| "op_admitted E (WriteMarketDepth v ow) \<longleftrightarrow> in_hours E (get_dp_timestamp v) \<and> ow = (\<not> FLAGS_checkDuplicate E)"
| "op_admitted E (WriteSessionLog v ow) \<longleftrightarrow> sessionlog_initialized v"

definition loader_writes :: "('d, 'b, 'pt) loader_env \<Rightarrow> 'd loader \<Rightarrow> 'd loader \<Rightarrow> bool" where
  "loader_writes E s s' \<longleftrightarrow>
     (\<exists>xs. (\<forall>(w, _) \<in> set xs. op_admitted E w) \<and>
        db_run (le_leveldb E) (le_codec E) xs (loader_db s) = Inr (loader_db s'))"

lemma db_run_append: "db_run L C (xs @ ys) db = cpp_bind (db_run L C xs db) (db_run L C ys)"
proof (induction xs arbitrary: db)
  case (Cons x xs)
  then show ?case by (cases "db_step L C x db") auto
qed simp

lemma writes_same: "loader_db s' = loader_db s \<Longrightarrow> loader_writes E s s'"
  unfolding loader_writes_def by (intro exI [of _ "[]"]) simp

lemma writes_trans:
  assumes "loader_writes E s s1" "loader_writes E s1 s2"
  shows "loader_writes E s s2"
proof -
  obtain xs ys where "\<forall>(w, _) \<in> set (xs @ ys). op_admitted E w"
    "db_run (le_leveldb E) (le_codec E) xs (loader_db s) = Inr (loader_db s1)"
    "db_run (le_leveldb E) (le_codec E) ys (loader_db s1) = Inr (loader_db s2)"
    using assms unfolding loader_writes_def set_append ball_Un by blast
  then show ?thesis unfolding loader_writes_def by (intro exI [of _ "xs @ ys"]) (simp add: db_run_append)
qed

lemma writes_one:
  assumes "op_admitted E w" "db_step (le_leveldb E) (le_codec E) (w, t0, t1) (loader_db s) = Inr (ok, loader_db s')"
  shows "loader_writes E s s'"
  unfolding loader_writes_def using assms by (intro exI [of _ "[(w, t0, t1)]"]) simp

lemma put_session_db [simp]: "loader_db (put_session k l s) = loader_db s"
  by (simp add: put_session_def)

lemma writes_put [simp]: "loader_writes E s (put_session k l s1) \<longleftrightarrow> loader_writes E s s1"
    "loader_writes E (put_session k l s) s1 \<longleftrightarrow> loader_writes E s s1"
  by (simp_all add: loader_writes_def)

lemma write_session_writes:
  assumes "sessionlog_initialized l"
  shows "loader_writes E s (snd (write_session E l ow s))"
proof -
  obtain t0 t1 where clock: "le_clock E (leveldb_writes (db_varz (loader_db s))) = (t0, t1)" by (rule prod.exhaust)
  show ?thesis
    using assms writes_one [of E "WriteSessionLog l ow" t0 t1]
    by (auto simp: write_session_def clock Let_def db_step_def intro: writes_same split: sum.splits)
qed

lemma updateSessionLog_writes:
  assumes "sessions_typed s"
  shows "loader_writes E s (snd (updateSessionLog E source symbol ts s))"
proof (cases "map_of (SymbolSessionLogs s) symbol")
  case (Some l)
  let ?l1 = "l\<lparr>sl_source := Some (last_part (le_boost E) (FLAGS_logfile E))\<rparr>"
  obtain r s1 where w: "write_session E ?l1 True (put_session symbol ?l1 s) = (r, s1)" by (rule prod.exhaust)
  have "sessionlog_initialized ?l1"
    using typed_lookup [OF assms Some] by (simp add: sessionlog_initialized_def)
  from write_session_writes [OF this, of E "put_session symbol ?l1 s" True]
  have "loader_writes E s s1" by (simp add: w)
  then show ?thesis
    by (auto simp: updateSessionLog_def Some Let_def w intro: writes_same split: sum.splits)
qed (simp add: updateSessionLog_def writes_same)

lemma write_sessions_writes: "sessions_typed s \<Longrightarrow> loader_writes E s (snd (write_sessions E source ks n s))"
proof (induction E source ks n s rule: write_sessions.induct)
  case (2 E source symbol rest n s)
  show ?case
  proof (cases "map_of (SymbolSessionLogs s) symbol")
    case (Some l)
    let ?l1 = "l\<lparr>sl_source := Some source\<rparr>"
    let ?p = "put_session symbol ?l1 s"
    obtain r s1 where w: "write_session E ?l1 (\<not> FLAGS_checkDuplicate E) ?p = (r, s1)"
      by (rule prod.exhaust)
    have l1: "sl_symbol ?l1 = Some symbol" "sessionlog_initialized ?l1"
      using typed_lookup [OF "2.prems" Some] by (auto simp: sessionlog_initialized_def)
    have s1: "sessions_typed s1"
      using write_session_sessions [of E ?l1 "\<not> FLAGS_checkDuplicate E" ?p] w
      by (intro typed_same_sessions [OF _ typed_put_session [OF "2.prems" l1]]) simp
    have "loader_writes E s s1"
      using write_session_writes [OF l1(2), of E ?p] w by (metis writes_put(2) snd_conv)
    then show ?thesis
      using Some "2.IH" [OF Some refl w [symmetric] _ s1]
      by (auto simp: Let_def w intro: writes_trans split: sum.splits)
  qed (simp add: writes_same)
qed (simp add: writes_same)

lemma WriteSessionLogs_writes: "sessions_typed s \<Longrightarrow> loader_writes E s (snd (WriteSessionLogs E source s))"
  using write_sessions_writes [of s E source "map fst (SymbolSessionLogs s)" 0]
  by (auto simp: WriteSessionLogs_def split: prod.splits sum.splits)

lemma store_record_writes:
  assumes "sessions_typed s"
    and "\<And>t0 t1 d ok d'. in_hours E ts \<Longrightarrow> w t0 t1 (\<not> FLAGS_checkDuplicate E) d = Inr (ok, d') \<Longrightarrow>
           \<exists>x. op_admitted E x \<and> db_step (le_leveldb E) (le_codec E) (x, t0, t1) d = Inr (ok, d')"
  shows "loader_writes E s (snd (store_record E w source symbol ts s))"
proof (cases "in_hours E ts")
  case True
  obtain r s1 where u: "updateSessionLog E source symbol ts s = (r, s1)" by (rule prod.exhaust)
  with updateSessionLog_writes [OF assms(1), of E source symbol ts] have s1: "loader_writes E s s1" by simp
  obtain t0 t1 where clock: "le_clock E (leveldb_writes (db_varz (loader_db s1))) = (t0, t1)" by (rule prod.exhaust)
  have "loader_writes E s (snd (WriteDb E w source symbol ts s))"
  proof (cases r)
    case (Inr x)
    show ?thesis
    proof (cases "w t0 t1 (\<not> FLAGS_checkDuplicate E) (loader_db s1)")
      case (Inr y)
      obtain ok d where y: "y = (ok, d)" by (cases y)
      obtain x where x: "op_admitted E x" "db_step (le_leveldb E) (le_codec E) (x, t0, t1) (loader_db s1) = Inr (ok, d)"
        using assms(2) [OF True Inr [unfolded y]] by blast
      have "loader_writes E s1 (s1\<lparr>loader_db := d\<rparr>)"
        using x by (intro writes_one [of E x t0 t1 s1 ok]) simp_all
      then show ?thesis
        using Inr \<open>r = Inr _\<close> y by (simp add: WriteDb_def u clock writes_trans [OF s1])
    qed (use Inr s1 in \<open>simp add: WriteDb_def u clock\<close>)
  qed (use s1 in \<open>simp add: WriteDb_def u\<close>)
  moreover have "loader_writes E s (count_record b s2) = loader_writes E s s2" for b s2
    by (simp add: loader_writes_def count_record_def Let_def)
  ultimately show ?thesis
    using True by (auto simp: store_record_def split: prod.splits sum.splits)
qed (simp add: store_record_def writes_same)

lemma GetSymbol_db [simp]: "loader_db (snd (GetSymbol c s)) = loader_db s"
  by (auto simp: GetSymbol_def register_ticker_id_symbol_def Let_def split: option.splits)

lemma MapActions_db: "loader_db (snd (MapActions B nv s)) = loader_db s"
  by (auto simp: MapActions_def register_ticker_id_symbol_def Let_def split: option.splits prod.splits)

lemma Convert_md_db: "loader_db (snd (Convert_md atof nv s)) = loader_db s"
proof (cases "nv ''tickerId''")
  case (Some tid)
  obtain symbol s' where g: "GetSymbol (strtoll tid) s = (symbol, s')" by (rule prod.exhaust)
  then have "loader_db s' = loader_db s" using GetSymbol_db [of "strtoll tid" s] by simp
  then show ?thesis by (simp add: Convert_md_def Some Let_def g split: option.split)
qed (simp add: Convert_md_def split: option.split)

lemma Convert_dp_db: "loader_db (snd (Convert_dp atof nv s)) = loader_db s"
proof (cases "nv ''id''")
  case (Some tid)
  obtain symbol s' where g: "GetSymbol (strtoll tid) s = (symbol, s')" by (rule prod.exhaust)
  then have "loader_db s' = loader_db s" using GetSymbol_db [of "strtoll tid" s] by simp
  then show ?thesis by (simp add: Convert_dp_def Some Let_def g split: option.split)
qed (simp add: Convert_dp_def split: option.split)

lemma load_record_writes:
  assumes "sessions_typed s"
  shows "loader_writes E s (snd (load_record E source nv s))"
proof -
  obtain m s1 where c: "(if checkEvent nv then Convert_md (le_atof E) nv s else (None, s)) = (m, s1)"
    by (rule prod.exhaust)
  then have s1: "sessions_typed s1" "loader_db s1 = loader_db s"
    using Convert_md_sessions [of "le_atof E" nv s] Convert_md_db [of "le_atof E" nv s] assms
    by (auto intro: typed_same_sessions split: if_splits)
  obtain d s2 where d: "Convert_dp (le_atof E) nv s1 = (d, s2)" by (rule prod.exhaust)
  have s2: "sessions_typed s2" "loader_db s2 = loader_db s"
    using Convert_dp_sessions [of "le_atof E" nv s1] Convert_dp_db [of "le_atof E" nv s1] d s1
    by (auto intro: typed_same_sessions)
  obtain a s3 where a: "MapActions (le_boost E) nv s1 = (a, s3)" by (rule prod.exhaust)
  have s3: "loader_db s3 = loader_db s"
    using MapActions_db [of "le_boost E" nv s1] a s1 by simp
  have md: "loader_writes E s (snd (store_record E (\<lambda>t0 t1. Db_Write_MarketData (le_leveldb E) (le_codec E) t0 t1 v)
      source (get_md_symbol v) (get_md_timestamp v) s1))" for v
  proof (rule writes_trans [OF writes_same [OF s1(2)] store_record_writes [OF s1(1)]], goal_cases)
    case 1
    then show ?case
      by (intro exI [of _ "WriteMarketData v (\<not> FLAGS_checkDuplicate E)"]) (simp add: db_step_def)
  qed
  have dp: "loader_writes E s (snd (store_record E (\<lambda>t0 t1. Db_Write_MarketDepth (le_leveldb E) (le_codec E) t0 t1 v)
      source (get_dp_symbol v) (get_dp_timestamp v) s2))" for v
  proof (rule writes_trans [OF writes_same [OF s2(2)] store_record_writes [OF s2(1)]], goal_cases)
    case 1
    then show ?case
      by (intro exI [of _ "WriteMarketDepth v (\<not> FLAGS_checkDuplicate E)"]) (simp add: db_step_def)
  qed
  show ?thesis
    using md dp s1 s2 s3 unfolding load_record_def c
    by (auto simp: d a intro: writes_same split: option.splits sum.splits)
qed

lemma load_file_writes:
  assumes "sessions_typed s"
  shows "loader_writes E s (snd (load_file E read_file filename s))"
proof (cases "read_file (contains filename ''.gz'') filename")
  case (Some content)
  let ?src = "last_part (le_boost E) filename"
  let ?s0 = "s\<lparr>loader_matched := 0, loader_written := 0, loader_duplicates := 0\<rparr>"
  let ?I = "\<lambda>s'. sessions_typed s' \<and> loader_writes E s s'"
  have line: "?I s' \<Longrightarrow> ?I (snd (load_line E ?src line s'))" for line s'
    using load_record_typed [of s' E ?src] load_record_writes [of s' E ?src] writes_trans [of E s s']
    by (simp add: load_line_def split: prod.split bool.split)
  obtain r s1 where r: "run_each (load_line E ?src) (tokens content) ?s0 = (r, s1)" by (rule prod.exhaust)
  have "?I ?s0" using assms by (simp add: sessions_typed_def writes_same)
  from run_each_invariant [where I = ?I and f = "load_line E ?src", OF line this, of "tokens content"]
  have s1: "sessions_typed s1" "loader_writes E s s1" by (simp_all add: r)
  moreover obtain r' s2 where r': "WriteSessionLogs E ?src s1 = (r', s2)" by (rule prod.exhaust)
  ultimately have "loader_writes E s s2"
    using WriteSessionLogs_writes [of s1 E ?src] writes_trans [of E s s1 s2] by simp
  with s1 show ?thesis by (simp add: load_file_def Some Let_def r r' split: sum.split)
qed (simp add: load_file_def writes_same)

text \<open>
  C26. The loader as a client of the database. Over a database that opens empty, all that the loader does to it is a
  sequence of writes: of ticks and book entries whose time is in the hours the flag asks for, under the flag for
  duplicates, and of complete session logs. So the database's invariant and its index hold afterwards, if symbols and
  event names are without colons.
\<close>

theorem loader_writes_in_hours:
  assumes "historian (le_leveldb E) entries (le_codec E)"
    and "Db_Open open_fn defaults flags (Db_new file) = (True, db)" "levelDb db = Some d" "entries d = Map.empty"
  shows "\<exists>xs. (\<forall>(w, _) \<in> set xs. op_admitted E w) \<and>
     db_run (le_leveldb E) (le_codec E) xs db = Inr (loader_db (snd (loader_main E open_fn defaults flags file read_file))) \<and>
     ((\<forall>(w, _) \<in> set xs. op_colonless w) \<longrightarrow>
        (\<exists>d'. levelDb (loader_db (snd (loader_main E open_fn defaults flags file read_file))) = Some d' \<and>
           db_inv (le_codec E) (entries d') \<and> index_inv (le_codec E) (entries d')))"
proof -
  let ?s = "\<lparr>TickerIdSymbolMap = Map.empty, SymbolSessionLogs = [], loader_db = db,
      loader_matched = 0, loader_written = 0, loader_duplicates = 0\<rparr>"
  let ?I = "\<lambda>s'. sessions_typed s' \<and> loader_writes E ?s s'"
  have step: "?I s \<Longrightarrow> ?I (snd (load_file E read_file filename s))" for filename s
    using load_file_typed load_file_writes writes_trans by blast
  have "?I ?s" by (simp add: sessions_typed_def writes_same)
  then have "?I (snd (loader_main E open_fn defaults flags file read_file))"
    using run_each_invariant [where I = ?I and s = ?s, OF step]
    by (simp add: loader_main_def assms(2) Let_def)
  then obtain xs where xs: "\<forall>(w, _) \<in> set xs. op_admitted E w"
    "db_run (le_leveldb E) (le_codec E) xs db = Inr (loader_db (snd (loader_main E open_fn defaults flags file read_file)))"
    by (auto simp: loader_writes_def)
  moreover have "db_inv (le_codec E) (entries d)" "index_inv (le_codec E) (entries d)"
    by (simp_all add: assms(4) db_inv_def index_inv_def)
  ultimately show ?thesis
    using historian.db_run_inv [OF assms(1,3), of xs] by (intro exI [of _ xs]) auto
qed

definition demo_opts :: leveldb_options where
  "demo_opts = \<lparr>opt_create_if_missing = True, opt_max_open_files = 0, opt_block_size = 0, opt_write_buffer_size = 0\<rparr>"

definition demo_log :: "bool \<Rightarrow> string \<Rightarrow> string option" where
  "demo_log compressed file =
     Some ''event=tickPrice,ts_utc=1334683810012345,tickerId=1,field=BID,price=580 event=none,ts_utc=1''"

definition demo_main :: "unit cpp \<times> Record kv_store loader" where
  "demo_main = loader_main (ref_loader False ''a.log'') (\<lambda>_ _. Some kv_empty) demo_opts
     \<lparr>flag_max_open_files = 0, flag_block_size = 0, flag_write_buffer_size = 0\<rparr> ''db'' demo_log"

theorem loader_writes_in_hours_witness:
  "\<exists>xs. (\<forall>(w, _) \<in> set xs. op_admitted (ref_loader False ''a.log'') w) \<and>
     db_run kv_leveldb (plain_codec record_initialized) xs ((Db_new ''db'')\<lparr>levelDb := Some kv_empty\<rparr>) =
       Inr (loader_db (snd demo_main))"
  using loader_writes_in_hours
    [of "ref_loader False ''a.log''" kv_entries "\<lambda>_ _. Some kv_empty" demo_opts
      "\<lparr>flag_max_open_files = 0, flag_block_size = 0, flag_write_buffer_size = 0\<rparr>" "''db''"
      "(Db_new ''db'')\<lparr>levelDb := Some kv_empty\<rparr>" kv_empty demo_log]
    demo_laws
  unfolding demo_main_def [symmetric]
  by (force simp: ref_loader_def Db_Open_def Db_new_def kv_entries_empty demo_opts_def)

end
