(* ===== verification/Log_Replay.thy ===== *)
theory Log_Replay
  imports Log_Reader_Laws Market_Feed
begin

text \<open>
  Replay of a log over sockets, \<^verbatim>\<open>service/LogReaderZmq.cpp\<close> (\<^verbatim>\<open>main/lp_main.cpp\<close> does the same under flags): what the log
  reader visits is sent as messages of market data, and then the mark of the end. A processor in a client program gets it.
\<close>

section \<open>The publisher of the log\<close>

definition DATA_END :: string where "DATA_END = ''__DATA_END__''"

text \<open>The visitors send; what they return is not used, and exceptions of the socket end in them.\<close>

fun dispatch_visit ::
  "(MarketData, string) codec \<Rightarrow> (MarketDepth, string) codec \<Rightarrow> visit \<Rightarrow> out_socket \<Rightarrow> out_socket" where
  "dispatch_visit C D (Visit_MarketData md) s = snd (MarketDataDispatcher C md s)"
| "dispatch_visit C D (Visit_MarketDepth dp) s = snd (MarketDepthDispatcher D ENTITY_IB_MARKET_DEPTH dp s)"

text \<open>
  The visits of one call of \<^verbatim>\<open>Process\<close> are those the reader appends; the reader does not depend on what they do. An exception
  of the reader leaves before the mark of the end is sent.
\<close>

definition DispatchEvents ::
  "boost_lib \<Rightarrow> 'pt posix_time \<Rightarrow> ('pt, 'td) pt_order \<Rightarrow> (bool \<Rightarrow> string \<Rightarrow> string option) \<Rightarrow> string \<Rightarrow> bool \<Rightarrow>
     'pt \<Rightarrow> (MarketData, string) codec \<Rightarrow> (MarketDepth, string) codec \<Rightarrow> 'td \<Rightarrow> 'pt reader \<Rightarrow> out_socket \<Rightarrow>
     unit cpp \<times> 'pt reader \<times> out_socket" where
  "DispatchEvents B P Q read_file logfile rth neg_infin C D duration r sock =
     (let (processed, r') = LogReader_Process B P Q read_file logfile rth duration neg_infin r;
          sock1 = fold (dispatch_visit C D) (drop (length (visits r)) (visits r')) sock
      in case processed of
           Inl e \<Rightarrow> (Inl e, r', sock1)
         | Inr n \<Rightarrow>
             (case st_bind (send_copy DATA_END True) (\<lambda>_. send_copy DATA_END False) sock1 of
                (Inl e, sock2) \<Rightarrow> (Inl e, r', sock2)
              | (Inr _, sock2) \<Rightarrow> (Inr (), r', sock2)))"

section \<open>The messages of a replay\<close>

fun visit_messages ::
  "(MarketData, string) codec \<Rightarrow> (MarketDepth, string) codec \<Rightarrow> visit \<Rightarrow> (string \<times> string) list" where
  "visit_messages C D (Visit_MarketData md) =
     (let (ok, b) = pb_serialize C md in if ok then [(get_md_symbol md, b)] else [])"
| "visit_messages C D (Visit_MarketDepth dp) =
     (let (ok, b) = pb_serialize D dp
      in if ok then [(ENTITY_IB_MARKET_DEPTH @ '':'' @ get_dp_symbol dp, b)] else [])"

definition replay_frames :: "(string \<times> string) list \<Rightarrow> (string \<times> bool) list" where
  "replay_frames ms = concat (map (\<lambda>(t, b). [(t, True), (b, False)]) ms)"

lemma replay_frames_append [simp]: "replay_frames (xs @ ys) = replay_frames xs @ replay_frames ys"
  by (simp add: replay_frames_def)

lemma delivered_replay_frames: "delivered (replay_frames ms) = two_part ms"
  by (induction ms) (auto simp: replay_frames_def delivered_def)

lemma dispatch_visit_sends:
  assumes "zs_faults s = []"
  shows "dispatch_visit C D v s = s\<lparr>zs_sent := zs_sent s @ replay_frames (visit_messages C D v)\<rparr>"
proof (cases v)
  case (Visit_MarketData md)
  obtain ok b where "pb_serialize C md = (ok, b)" by (rule prod.exhaust)
  then show ?thesis
    using assms Visit_MarketData
    by (cases ok) (simp_all add: MarketDataDispatcher_def dispatch_ok replay_frames_def dispatch_def)
next
  case (Visit_MarketDepth dp)
  obtain ok b where "pb_serialize D dp = (ok, b)" by (rule prod.exhaust)
  then show ?thesis
    using assms Visit_MarketDepth
    by (cases ok) (simp_all add: MarketDepthDispatcher_def dispatch_ok replay_frames_def dispatch_def)
qed

lemma dispatch_visits_send:
  assumes "zs_faults s = []"
  shows "fold (dispatch_visit C D) vs s =
     s\<lparr>zs_sent := zs_sent s @ replay_frames (concat (map (visit_messages C D) vs))\<rparr>"
  using assms
proof (induction vs arbitrary: s)
  case Nil
  then show ?case by (cases s) (simp add: replay_frames_def)
qed (simp add: dispatch_visit_sends)

lemma send_end:
  "zs_faults s = [] \<Longrightarrow> st_bind (send_copy DATA_END True) (\<lambda>_. send_copy DATA_END False) s =
     (Inr (length DATA_END), s\<lparr>zs_sent := zs_sent s @ replay_frames [(DATA_END, DATA_END)]\<rparr>)"
  by (simp add: replay_frames_def st_bind_def)

section \<open>The client\<close>

text \<open>The handler \<^verbatim>\<open>main/watcher_main.cpp\<close> registers for the mark of the end.\<close>

definition stop_function :: "'h raw_handler" where
  "stop_function topic message h = (Inr False, h)"

text \<open>A client with market data handlers for the symbols and some handlers for the order book.\<close>

definition replay_client ::
  "(MarketData, string) codec \<Rightarrow> (string \<Rightarrow> 'h value_updater) \<Rightarrow> (string \<Rightarrow> string \<Rightarrow> 'h \<Rightarrow> 'h) \<Rightarrow> string set \<Rightarrow>
     'h handlers_map \<Rightarrow> bool" where
  "replay_client C U g symbols H \<longleftrightarrow>
     handlers H DATA_END = Some stop_function \<and>
     (\<forall>s \<in> symbols. s \<noteq> [] \<and> handlers H s = Some (marketdata_handler C (U s)) \<and>
        handlers H (ENTITY_IB_MARKET_DEPTH @ '':'' @ s) = Some (\<lambda>_ b h. (Inr True, g s b h)))"

text \<open>What such a client does for a visit: the callbacks bound to the event, with the time and the value.\<close>

fun client_visit ::
  "(string \<Rightarrow> 'h value_updater) \<Rightarrow> (MarketDepth, string) codec \<Rightarrow> (string \<Rightarrow> string \<Rightarrow> 'h \<Rightarrow> 'h) \<Rightarrow> visit \<Rightarrow> 'h \<Rightarrow> 'h" where
  "client_visit U D g (Visit_MarketData md) h =
     snd (value_updater_call (U (get_md_symbol md)) (get_md_timestamp md) (get_md_event md) md h)"
| "client_visit U D g (Visit_MarketDepth dp) h =
     (let (ok, b) = pb_serialize D dp in if ok then g (get_dp_symbol dp) b h else h)"

fun visit_symbol :: "visit \<Rightarrow> string option" where
  "visit_symbol (Visit_MarketData md) = md_symbol md"
| "visit_symbol (Visit_MarketDepth dp) = dp_symbol dp"

lemma visit_ok_symbol: "visit_ok P Q rth start m v \<Longrightarrow> \<exists>s \<in> ran m. visit_symbol v = Some s"
  by (cases v) (auto simp: marketdata_initialized_def intro: ranI)

lemma run_visit:
  assumes "proto_codec marketdata_initialized C" "replay_client C U g (ran m) H" "visit_ok P Q rth start m v"
  shows "run_messages H (visit_messages C D v @ ms) h = run_messages H ms (client_visit U D g v h)"
proof -
  obtain s where s: "s \<in> ran m" "visit_symbol v = Some s" using visit_ok_symbol [OF assms(3)] by blast
  show ?thesis
  proof (cases v)
    case (Visit_MarketData md)
    have md: "marketdata_initialized md" using assms(3) Visit_MarketData by simp
    obtain b where b: "pb_serialize C md = (True, b)"
      using proto_codec.serialize_ok [OF assms(1) md] by (cases "pb_serialize C md") auto
    moreover have "pb_parse C b = Some md" using proto_codec.parse_serialize [OF assms(1) md] b by simp
    moreover have "handlers H (get_md_symbol md) = Some (marketdata_handler C (U (get_md_symbol md)))"
      using assms(2) s Visit_MarketData by (auto simp: replay_client_def get_md_symbol_def)
    ultimately show ?thesis
      by (simp add: Visit_MarketData process_raw_message_def marketdata_handler_true process_event_def)
  next
    case (Visit_MarketDepth dp)
    obtain ok b where b: "pb_serialize D dp = (ok, b)" by (rule prod.exhaust)
    have "handlers H (ENTITY_IB_MARKET_DEPTH @ '':'' @ get_dp_symbol dp) = Some (\<lambda>_ b h. (Inr True, g (get_dp_symbol dp) b h))"
      using assms(2) s Visit_MarketDepth by (auto simp: replay_client_def get_dp_symbol_def)
    then show ?thesis
      by (simp add: Visit_MarketDepth b process_raw_message_def)
  qed
qed

lemma run_visits:
  assumes "proto_codec marketdata_initialized C" "replay_client C U g (ran m) H" "\<forall>v \<in> set vs. visit_ok P Q rth start m v"
  shows "run_messages H (concat (map (visit_messages C D) vs) @ ms) h = run_messages H ms (fold (client_visit U D g) vs h)"
  using assms(3)
proof (induction vs arbitrary: h)
  case (Cons v vs)
  then show ?case using run_visit [OF assms(1,2), of P Q rth start v D] by simp
qed simp

lemma visit_messages_parts:
  assumes "proto_codec marketdata_initialized C" "pb_parse C [] = None" "\<And>dp. pb_serialize D dp \<noteq> (True, [])"
    and "replay_client C U g (ran m) H" "visit_ok P Q rth start m v"
  shows "no_empty_part (visit_messages C D v)"
proof -
  obtain s where s: "s \<in> ran m" "visit_symbol v = Some s" using visit_ok_symbol [OF assms(5)] by blast
  then have "s \<noteq> []" using assms(4) by (simp add: replay_client_def)
  show ?thesis
  proof (cases v)
    case (Visit_MarketData md)
    have md: "marketdata_initialized md" using assms(5) Visit_MarketData by simp
    then have "snd (pb_serialize C md) \<noteq> []"
      using proto_codec.parse_serialize [OF assms(1) md] assms(2) by force
    then show ?thesis
      using \<open>s \<noteq> []\<close> s(2) Visit_MarketData
      by (cases "pb_serialize C md") (simp add: no_empty_part_def get_md_symbol_def)
  next
    case (Visit_MarketDepth dp)
    then show ?thesis using assms(3) [of dp] by (auto simp: no_empty_part_def split: prod.splits)
  qed
qed

text \<open>
  C12. A replayed log reaches the client. When the replay of a log ends without an exception over a socket that accepts
  its frames, a client that listens from its start and has handlers for the symbols is called for everything the reader
  visited, in the order of the log and with the time and value of each tick, and then stops at the mark of the end with
  nothing left to read.
\<close>

theorem replay_reaches_client:
  assumes "proto_codec marketdata_initialized C" and "pb_parse C [] = None" and "\<And>dp. pb_serialize D dp \<noteq> (True, [])"
    and "read_file (contains logfile ''.gz'') logfile = Some content" and "zs_faults sock = []"
    and "DispatchEvents B P Q read_file logfile rth neg_infin C D duration r sock = (Inr (), r', sock')"
    and "replay_client C U g (ran (symbol_map r')) H"
  shows "\<exists>vs. visits r' = visits r @ vs \<and> (\<forall>v \<in> set vs. visit_ok P Q rth neg_infin (symbol_map r') v) \<and>
     processor_loop H (delivered (drop (length (zs_sent sock)) (zs_sent sock'))) h =
       (Stopped, [], fold (client_visit U D g) vs h)"
proof -
  obtain n r1 where run: "LogReader_Process B P Q read_file logfile rth duration neg_infin r = (n, r1)" by (rule prod.exhaust)
  with assms(5,6) have r1: "r1 = r'"
    by (auto simp: DispatchEvents_def Let_def split: sum.splits prod.splits)
  obtain vs where vs: "visits r' = visits r @ vs" "\<forall>v \<in> set vs. visit_ok P Q rth neg_infin (symbol_map r') v"
    using log_reader_run [OF assms(4) run] r1 by blast
  let ?ms = "concat (map (visit_messages C D) vs) @ [(DATA_END, DATA_END)]"
  have sent: "drop (length (zs_sent sock)) (zs_sent sock') = replay_frames ?ms"
    using assms(5,6) unfolding DispatchEvents_def run Let_def prod.case r1 vs(1)
    by (auto simp: dispatch_visits_send send_end split: sum.splits)
  have "\<forall>v \<in> set vs. no_empty_part (visit_messages C D v)"
    using visit_messages_parts [OF assms(1,2,3,7), of P Q rth neg_infin] vs(2) by simp
  then have "no_empty_part ?ms"
    by (auto simp: no_empty_part_def DATA_END_def)
  moreover have "run_messages H ?ms h = (Stopped, [], fold (client_visit U D g) vs h)"
    using run_visits [OF assms(1,7) vs(2), of D] assms(7)
    by (simp add: process_raw_message_def replay_client_def stop_function_def)
  ultimately show ?thesis
    using vs processor_loop_run_messages [of ?ms H h] unfolding sent delivered_replay_frames
    by (intro exI [of _ vs]) (simp add: Let_def)
qed

section \<open>Witnesses\<close>

definition demo_sizes :: "(u64 \<times> i32) list value_updater" where
  "demo_sizes = bind_int ''BID_SIZE'' (\<lambda>ts v h. (Inr (), h @ [(ts, v)]))
     \<lparr>int_dispatcher = Map.empty, double_dispatcher = Map.empty, string_dispatcher = Map.empty,
      timestamp_dispatcher = Map.empty\<rparr>"

definition demo_watcher :: "(u64 \<times> i32) list handlers_map" where
  "demo_watcher = \<lparr>handlers = [''SPY.STK'' \<mapsto> marketdata_handler md_codec demo_sizes,
     ''depth:SPY.STK'' \<mapsto> (\<lambda>_ b h. (Inr True, h)), DATA_END \<mapsto> stop_function]\<rparr>"

definition demo_bid :: MarketData where
  "demo_bid = \<lparr>md_timestamp = Some 54000000000, md_symbol = Some ''SPY.STK'', md_event = Some ''BID_SIZE'',
     md_value = Some (Value_default\<lparr>val_type := Some Value_Type_INT, int_value := Some 300\<rparr>), md_contract_id = Some 7\<rparr>"

lemma demo_line_word: "one_word (print_line demo_tick)"
  by (rule one_word_print_line) (simp add: demo_tick_def white_space_code)

lemma demo_replay:
  "\<exists>r' s'. DispatchEvents ref_boost int_ptime demo_order_of_time (\<lambda>_ _. Some (print_line demo_tick)) ''a.log'' True 0
       md_codec no_depth_codec 100000000000 demo_reader \<lparr>zs_sent = [], zs_faults = []\<rparr> = (Inr (), r', s') \<and>
     symbol_map r' = [7 \<mapsto> ''SPY.STK''] \<and> visits r' = [Visit_MarketData demo_bid]"
proof -
  let ?r0 = "demo_reader\<lparr>matchedRecords := 0, lines_read := 0, last_log_t := -1, first_log_t := -1, current_log_t := -1\<rparr>"
  have t: "as_ptime int_ptime 54000000000 = 54000000000" by (simp add: as_ptime_def int_ptime_def)
  obtain r' where line: "process_line ref_boost int_ptime demo_order_of_time True 100000000000 0 (print_line demo_tick) ?r0
      = (Continue_Loop, r')" and r': "visits r' = [Visit_MarketData demo_bid]" "symbol_map r' = [7 \<mapsto> ''SPY.STK'']"
    using tick_line_visited [OF ref_boost.boost_laws_axioms demo_tick_plain, of "''BID_SIZE''" 7 300 54000000000
        ?r0 "''SPY.STK''" int_ptime demo_order_of_time True 0 100000000000] demo_time_ok t
    by (auto simp: demo_tick_def demo_reader_def demo_order_of_time_def int_ptime_def demo_bid_def)
  have "print_line demo_tick \<noteq> []" by (simp add: print_line_def demo_tick_def print_pair_def)
  then have tok: "tokens (print_line demo_tick) = [print_line demo_tick]"
    using demo_line_word by (rule tokens_word)
  have "LogReader_Process ref_boost int_ptime demo_order_of_time (\<lambda>_ _. Some (print_line demo_tick)) ''a.log'' True
      100000000000 0 demo_reader = (Inr (matchedRecords r'), r')"
    using line by (simp add: LogReader_Process_def tok Let_def int_ptime_def)
  then show ?thesis
    using r' by (simp add: DispatchEvents_def dispatch_visits_send send_end)
qed

theorem replay_reaches_client_witness:
  "\<exists>r' s'. DispatchEvents ref_boost int_ptime demo_order_of_time (\<lambda>_ _. Some (print_line demo_tick)) ''a.log'' True 0
       md_codec no_depth_codec 100000000000 demo_reader \<lparr>zs_sent = [], zs_faults = []\<rparr> = (Inr (), r', s') \<and>
     processor_loop demo_watcher (delivered (zs_sent s')) [] = (Stopped, [], [(54000000000, 300)])"
proof -
  obtain r' s' where run: "DispatchEvents ref_boost int_ptime demo_order_of_time (\<lambda>_ _. Some (print_line demo_tick))
      ''a.log'' True 0 md_codec no_depth_codec 100000000000 demo_reader \<lparr>zs_sent = [], zs_faults = []\<rparr> = (Inr (), r', s')"
    and r': "symbol_map r' = [7 \<mapsto> ''SPY.STK'']" "visits r' = [Visit_MarketData demo_bid]"
    using demo_replay by blast
  have client: "replay_client md_codec (\<lambda>_. demo_sizes) (\<lambda>_ _ h. h) (ran (symbol_map r')) demo_watcher"
    by (simp add: r' replay_client_def demo_watcher_def DATA_END_def ENTITY_IB_MARKET_DEPTH_def)
  have md_codec_empty: "pb_parse md_codec [] = None"
    by (simp add: md_codec_def)
  have depth: "pb_serialize no_depth_codec dp \<noteq> (True, [])" for dp
    by (simp add: no_depth_codec_def)
  obtain vs where vs: "visits r' = visits demo_reader @ vs"
    "processor_loop demo_watcher (delivered (drop (length (zs_sent \<lparr>zs_sent = [], zs_faults = []\<rparr>)) (zs_sent s'))) [] =
      (Stopped, [], fold (client_visit (\<lambda>_. demo_sizes) no_depth_codec (\<lambda>_ _ h. h)) vs [])"
    using replay_reaches_client [where h = "[]", OF md_codec.proto_codec_axioms md_codec_empty depth _ _ run client] by auto
  have "vs = [Visit_MarketData demo_bid]" using vs(1) r'(2) by (simp add: demo_reader_def)
  then have "fold (client_visit (\<lambda>_. demo_sizes) no_depth_codec (\<lambda>_ _ h. h)) vs [] = [(54000000000, 300)]"
    by (simp add: demo_bid_def get_md_timestamp_def get_md_event_def get_md_value_def value_updater_call_def
        get_value_type_def get_int_value_def demo_sizes_def bind_int_def typed_bind_def map_insert_def typed_dispatch_def Let_def)
  with run vs(2) show ?thesis by auto
qed

end
