(* ===== verification/Api_Log.thy ===== *)
theory Api_Log
  imports Api_Messages Event_Dispatch
begin

text \<open>
  The log of the gateway's calls and events, \<^verbatim>\<open>ib/api966/ApiImpl.cpp\<close> with the printers of \<^verbatim>\<open>ib/api966/ostream.cpp\<close>: every
  call of the broker's client and every event of the broker is written as a line of name-value pairs, which the log reader
  and the loader read. The types printed are those of the broker's library; a pointer is printed as the text \<open>ptr\<close> of its
  address, and a line is what is written to the stream of the logging library.
\<close>

section \<open>Printing\<close>

text \<open>The macro \<^verbatim>\<open>__f__\<close> writes the name of a variable and its value, \<^verbatim>\<open>__tick_type_enum\<close> the name of a tick type.\<close>

definition fld :: "string \<Rightarrow> string \<Rightarrow> string" where
  "fld name val = '','' @ name @ ''='' @ val"

definition tick_fld :: "nat \<Rightarrow> string cpp" where
  "tick_fld m = cpp_bind (tick_name m) (\<lambda>n. Inr (fld ''field'' n))"

definition show_i32 :: "i32 \<Rightarrow> string" where "show_i32 x = show_int (sint x)"
definition show_i64 :: "i64 \<Rightarrow> string" where "show_i64 x = show_int (sint x)"
definition show_u32 :: "u32 \<Rightarrow> string" where "show_u32 x = show_nat (unat x)"
definition show_bool :: "bool \<Rightarrow> string" where "show_bool b = (if b then ''1'' else ''0'')"

record ib_logged_order = ib_order +
  o_clientId :: i64
  o_permId :: i64

record ib_order_state =
  os_status :: string
  os_initMargin :: string
  os_maintMargin :: string
  os_equityWithLoan :: string
  os_commission :: double
  os_minCommission :: double
  os_maxCommission :: double
  os_commissionCurrency :: string
  os_warningText :: string

record ib_execution =
  ex_execId :: string
  ex_time :: string
  ex_acctNumber :: string
  ex_exchange :: string
  ex_side :: string
  ex_shares :: i32
  ex_price :: double
  ex_permId :: i32
  ex_clientId :: i64
  ex_orderId :: i64
  ex_liquidation :: i32
  ex_cumQty :: i32
  ex_avgPrice :: double
  ex_orderRef :: string

definition show_contract :: "ib_contract \<Rightarrow> string" where
  "show_contract c =
     ''contract='' @ ''conId:'' @ show_i64 (c_conId c) @ '';symbol:'' @ c_symbol c @ '';secType:'' @ c_secType c @
     '';right:'' @ c_right c @ '';strike:'' @ show_double (c_strike c) @ '';currency:'' @ c_currency c @
     '';multiplier:'' @ c_multiplier c @ '';expiry:'' @ c_expiry c @ '';localSymbol:'' @ c_localSymbol c @ ''}''"

definition show_order :: "ib_logged_order \<Rightarrow> string" where
  "show_order r =
     ''order='' @ ''orderId:'' @ show_i64 (o_orderId r) @ '';clientId:'' @ show_i64 (o_clientId r) @
     '';permId:'' @ show_i64 (o_permId r) @ '';orderRef:'' @ o_orderRef r @ '';action:'' @ o_action r @
     '';totalQuantity:'' @ show_i64 (o_totalQuantity r) @ '';orderType:'' @ o_orderType r @
     '';lmtPrice:'' @ show_double (o_lmtPrice r) @ '';auxPrice:'' @ show_double (o_auxPrice r) @
     '';outsideRth:'' @ show_bool (o_outsideRth r) @ '';tif:'' @ o_tif r @ '';allOrNone:'' @ show_bool (o_allOrNone r) @
     '';minQty:'' @ show_i32 (o_minQty r)"

definition show_order_state :: "ib_order_state \<Rightarrow> string" where
  "show_order_state v =
     ''orderState='' @ ''status:'' @ os_status v @ '';initMargin:'' @ os_initMargin v @ '';maintMagrin:'' @ os_maintMargin v @
     '';equityWithLoan:'' @ os_equityWithLoan v @ '';commission:'' @ show_double (os_commission v) @
     '';minCommission:'' @ show_double (os_minCommission v) @ '';maxCommission:'' @ show_double (os_maxCommission v) @
     '';commissionCurrency:'' @ os_commissionCurrency v @ '';warningText:'' @ os_warningText v"

definition show_execution :: "ib_execution \<Rightarrow> string" where
  "show_execution v =
     ''execution='' @ ''execId:'' @ ex_execId v @ '';time:'' @ ex_time v @ '';acctNumber:'' @ ex_acctNumber v @
     '';exchange:'' @ ex_exchange v @ '';side:'' @ ex_side v @ '';shares:'' @ show_i32 (ex_shares v) @
     '';price:'' @ show_double (ex_price v) @ '';permId:'' @ show_i32 (ex_permId v) @
     '';clientId:'' @ show_i64 (ex_clientId v) @ '';orderId:'' @ show_i64 (ex_orderId v) @
     '';liquidation:'' @ show_i32 (ex_liquidation v) @ '';cumQty:'' @ show_i32 (ex_cumQty v) @
     '';avgPrice:'' @ show_double (ex_avgPrice v) @ '';orderRef:'' @ ex_orderRef v"

section \<open>Events of the broker\<close>

text \<open>
  The events in the groups of the source. Each has its name, the text after it, and whether its handling is timed
  (\<^verbatim>\<open>TIME_EVENT_MARKETDATA\<close>).
\<close>

datatype tick_event =
    EW_tickPrice i64 nat double i32
  | EW_tickSize i64 nat i32
  | EW_tickOptionComputation i64 nat double double double double double double double double
  | EW_tickGeneric i64 nat double
  | EW_tickString i64 nat string
  | EW_tickEFP i64 nat double string double i32 string double double

fun tick_event_line :: "tick_event \<Rightarrow> string \<times> string cpp" where
  "tick_event_line (EW_tickPrice tickerId field price canAutoExecute) =
     (''tickPrice'', cpp_bind (tick_fld field) (\<lambda>f. Inr (fld ''tickerId'' (show_i64 tickerId) @ f @
        fld ''price'' (show_double price) @ fld ''canAutoExecute'' (show_i32 canAutoExecute))))"
| "tick_event_line (EW_tickSize tickerId field sz) =
     (''tickSize'', cpp_bind (tick_fld field) (\<lambda>f. Inr (fld ''tickerId'' (show_i64 tickerId) @ f @
        fld ''size'' (show_i32 sz))))"
| "tick_event_line (EW_tickOptionComputation tickerId tickType impliedVol delta optPrice pvDividend gamma vega theta undPrice) =
     (''tickOptionComputation'', cpp_bind (tick_fld tickType) (\<lambda>f. Inr (fld ''tickerId'' (show_i64 tickerId) @ f @
        fld ''impliedVol'' (show_double impliedVol) @ fld ''delta'' (show_double delta) @
        fld ''optPrice'' (show_double optPrice) @ fld ''pvDividend'' (show_double pvDividend) @
        fld ''gamma'' (show_double gamma) @ fld ''vega'' (show_double vega) @ fld ''theta'' (show_double theta) @
        fld ''undPrice'' (show_double undPrice))))"
| "tick_event_line (EW_tickGeneric tickerId tickType val) =
     (''tickGeneric'', cpp_bind (tick_fld tickType) (\<lambda>f. Inr (fld ''tickerId'' (show_i64 tickerId) @ f @
        fld ''value'' (show_double val))))"
| "tick_event_line (EW_tickString tickerId tickType val) =
     (''tickString'', cpp_bind (tick_fld tickType) (\<lambda>f. Inr (fld ''tickerId'' (show_i64 tickerId) @ f @ fld ''value'' val)))"
| "tick_event_line (EW_tickEFP tickerId tickType basisPoints formattedBasisPoints totalDividends holdDays futureExpiry
       dividendImpact dividendsToExpiry) =
     (''tickEFP'', cpp_bind (tick_fld tickType) (\<lambda>f. Inr (fld ''tickerId'' (show_i64 tickerId) @ f @
        fld ''basisPoints'' (show_double basisPoints) @ fld ''formattedBasisPoints'' formattedBasisPoints @
        fld ''totalDividends'' (show_double totalDividends) @ fld ''holdDays'' (show_i32 holdDays) @
        fld ''futureExpiry'' futureExpiry @ fld ''dividendImpact'' (show_double dividendImpact) @
        fld ''dividendsToExpiry'' (show_double dividendsToExpiry))))"

datatype account_event =
    EW_openOrder i64 ib_contract ib_logged_order ib_order_state
  | EW_openOrderEnd
  | EW_winError string i32
  | EW_connectionClosed
  | EW_updateAccountValue string string string string
  | EW_updatePortfolio i32 double double double double double string
  | EW_updateAccountTime string
  | EW_accountDownloadEnd string
  | EW_contractDetails i32 ib_contract
  | EW_bondContractDetails i32 ib_contract
  | EW_contractDetailsEnd i32
  | EW_execDetails i32 ib_contract ib_execution
  | EW_execDetailsEnd i32

fun account_event_line :: "string \<Rightarrow> account_event \<Rightarrow> string \<times> string" where
  "account_event_line ptr (EW_openOrder orderId contract order state) =
     (''openOrder'', fld ''orderId'' (show_i64 orderId) @ '','' @ show_contract contract @ '','' @ show_order order @ '','' @
        show_order_state state)"
| "account_event_line ptr EW_openOrderEnd = (''openOrderEnd'', [])"
| "account_event_line ptr (EW_winError str lastError) =
     (''winError'', fld ''str'' str @ fld ''lastError'' (show_i32 lastError))"
| "account_event_line ptr EW_connectionClosed = (''connectionClosed'', [])"
| "account_event_line ptr (EW_updateAccountValue key val currency accountName) =
     (''updateAccountValue'', fld ''key'' key @ fld ''val'' val @ fld ''currency'' currency @ fld ''accountName'' accountName)"
| "account_event_line ptr (EW_updatePortfolio position marketPrice marketValue averageCost unrealizedPNL realizedPNL accountName) =
     (''updatePortfolio'', fld ''&contract'' ptr @ fld ''position'' (show_i32 position) @
        fld ''marketPrice'' (show_double marketPrice) @ fld ''marketValue'' (show_double marketValue) @
        fld ''averageCost'' (show_double averageCost) @ fld ''unrealizedPNL'' (show_double unrealizedPNL) @
        fld ''realizedPNL'' (show_double realizedPNL) @ fld ''accountName'' accountName)"
| "account_event_line ptr (EW_updateAccountTime timeStamp) = (''updateAccountTime'', fld ''timeStamp'' timeStamp)"
| "account_event_line ptr (EW_accountDownloadEnd accountName) = (''accountDownloadEnd'', fld ''accountName'' accountName)"
| "account_event_line ptr (EW_contractDetails reqId summary) =
     (''contractDetails'', fld ''reqId'' (show_i32 reqId) @ fld ''&contractDetails'' ptr @ '','' @ show_contract summary)"
| "account_event_line ptr (EW_bondContractDetails reqId summary) =
     (''bondContractDetails'', fld ''reqId'' (show_i32 reqId) @ fld ''&contractDetails'' ptr @ '','' @ show_contract summary)"
| "account_event_line ptr (EW_contractDetailsEnd reqId) = (''contractDetailsEnd'', fld ''reqId'' (show_i32 reqId))"
| "account_event_line ptr (EW_execDetails reqId contract execution) =
     (''execDetails'', fld ''reqId'' (show_i32 reqId) @ '','' @ show_contract contract @ '','' @ show_execution execution)"
| "account_event_line ptr (EW_execDetailsEnd reqId) = (''execDetailsEnd'', fld ''reqId'' (show_i32 reqId))"

datatype depth_event =
    EW_updateMktDepth i64 i32 i32 i32 double i32
  | EW_updateMktDepthL2 i64 i32 string i32 i32 double i32

fun depth_event_line :: "depth_event \<Rightarrow> string \<times> string" where
  "depth_event_line (EW_updateMktDepth i position operation side price sz) =
     (''updateMktDepth'', fld ''id'' (show_i64 i) @ fld ''position'' (show_i32 position) @
        fld ''operation'' (show_i32 operation) @ fld ''side'' (show_i32 side) @ fld ''price'' (show_double price) @
        fld ''size'' (show_i32 sz))"
| "depth_event_line (EW_updateMktDepthL2 i position marketMaker operation side price sz) =
     (''updateMktDepthL2'', fld ''id'' (show_i64 i) @ fld ''position'' (show_i32 position) @ fld ''marketMaker'' marketMaker @
        fld ''operation'' (show_i32 operation) @ fld ''side'' (show_i32 side) @ fld ''price'' (show_double price) @
        fld ''size'' (show_i32 sz))"

datatype report_event =
    EW_updateNewsBulletin i32 i32 string string
  | EW_managedAccounts string
  | EW_receiveFA i32 string
  | EW_historicalData i64 string double double double double i32 i32 double i32
  | EW_scannerParameters string
  | EW_scannerData i32 i32 string string string string
  | EW_scannerDataEnd i32
  | EW_realtimeBar i64 i64 double double double double i64 double i32
  | EW_fundamentalData i64 string
  | EW_deltaNeutralValidation i32
  | EW_tickSnapshotEnd i32
  | EW_marketDataType i64 i32
  | EW_orderStatus i64 string i32 i32 double i32 i32 double i32 string
  | EW_nextValidId i64
  | EW_currentTime i64
  | EW_error i32 i32 string

fun report_event_line :: "string \<Rightarrow> report_event \<Rightarrow> string \<times> string" where
  "report_event_line ptr (EW_updateNewsBulletin msgId msgType newsMessage originExch) =
     (''updateNewsBulletin'', fld ''msgId'' (show_i32 msgId) @ fld ''msgType'' (show_i32 msgType) @
        fld ''newsMessage'' newsMessage @ fld ''originExch'' originExch)"
| "report_event_line ptr (EW_managedAccounts accountsList) = (''managedAccounts'', fld ''accountsList'' accountsList)"
| "report_event_line ptr (EW_receiveFA pFaDataType cxml) =
     (''receiveFA'', fld ''pFaDataType'' (show_i32 pFaDataType) @ fld ''cxml'' cxml)"
| "report_event_line ptr (EW_historicalData reqId date opn high low close volume barCount WAP hasGaps) =
     (''historicalData'', fld ''reqId'' (show_i64 reqId) @ fld ''date'' date @ fld ''open'' (show_double opn) @
        fld ''high'' (show_double high) @ fld ''low'' (show_double low) @ fld ''close'' (show_double close) @
        fld ''volume'' (show_i32 volume) @ fld ''barCount'' (show_i32 barCount) @ fld ''WAP'' (show_double WAP) @
        fld ''hasGaps'' (show_i32 hasGaps))"
| "report_event_line ptr (EW_scannerParameters xml) = (''scannerParameters'', fld ''xml'' xml)"
| "report_event_line ptr (EW_scannerData reqId rank distance benchmark projection legsStr) =
     (''scannerData'', fld ''reqId'' (show_i32 reqId) @ fld ''rank'' (show_i32 rank) @ fld ''&contractDetails'' ptr @
        fld ''distance'' distance @ fld ''benchmark'' benchmark @ fld ''projection'' projection @ fld ''legsStr'' legsStr)"
| "report_event_line ptr (EW_scannerDataEnd reqId) = (''scannerDataEnd'', fld ''reqId'' (show_i32 reqId))"
| "report_event_line ptr (EW_realtimeBar reqId time opn high low close volume wap count) =
     (''realtimeBar'', fld ''reqId'' (show_i64 reqId) @ fld ''time'' (show_i64 time) @ fld ''open'' (show_double opn) @
        fld ''high'' (show_double high) @ fld ''low'' (show_double low) @ fld ''close'' (show_double close) @
        fld ''volume'' (show_i64 volume) @ fld ''wap'' (show_double wap) @ fld ''count'' (show_i32 count))"
| "report_event_line ptr (EW_fundamentalData reqId dat) =
     (''fundamentalData'', fld ''reqId'' (show_i64 reqId) @ fld ''data'' dat)"
| "report_event_line ptr (EW_deltaNeutralValidation reqId) =
     (''deltaNeutralValidation'', fld ''reqId'' (show_i32 reqId) @ fld ''&underComp'' ptr)"
| "report_event_line ptr (EW_tickSnapshotEnd reqId) = (''tickSnapshotEnd'', fld ''reqId'' (show_i32 reqId))"
| "report_event_line ptr (EW_marketDataType reqId marketDataType) =
     (''marketDataType'', fld ''reqId'' (show_i64 reqId) @ fld ''marketDataType'' (show_i32 marketDataType))"
| "report_event_line ptr (EW_orderStatus orderId status filled remaining avgFillPrice permId parentId lastFillPrice clientId whyHeld) =
     (''orderStatus'', fld ''orderId'' (show_i64 orderId) @ fld ''status'' status @ fld ''filled'' (show_i32 filled) @
        fld ''remaining'' (show_i32 remaining) @ fld ''avgFillPrice'' (show_double avgFillPrice) @
        fld ''permId'' (show_i32 permId) @ fld ''parentId'' (show_i32 parentId) @
        fld ''lastFillPrice'' (show_double lastFillPrice) @ fld ''clientId'' (show_i32 clientId) @ fld ''whyHeld'' whyHeld)"
| "report_event_line ptr (EW_nextValidId orderId) = (''nextValidId'', fld ''orderId'' (show_i64 orderId))"
| "report_event_line ptr (EW_currentTime time) = (''currentTime'', fld ''time'' (show_i64 time))"
| "report_event_line ptr (EW_error i errorCode errorString) =
     (''error'', fld ''id'' (show_i32 i) @ fld ''errorCode'' (show_i32 errorCode) @ fld ''errorString'' errorString)"

datatype ewrapper_event =
    Tick_event tick_event
  | Account_event account_event
  | Depth_event depth_event
  | Report_event report_event

fun ewrapper_line :: "string \<Rightarrow> ewrapper_event \<Rightarrow> string \<times> string cpp" where
  "ewrapper_line ptr (Tick_event e) = tick_event_line e"
| "ewrapper_line ptr (Account_event e) = (let (n, l) = account_event_line ptr e in (n, Inr l))"
| "ewrapper_line ptr (Depth_event e) = (let (n, l) = depth_event_line e in (n, Inr l))"
| "ewrapper_line ptr (Report_event e) = (let (n, l) = report_event_line ptr e in (n, Inr l))"

fun ewrapper_timed :: "ewrapper_event \<Rightarrow> bool" where
  "ewrapper_timed (Tick_event _) = True"
| "ewrapper_timed (Depth_event _) = True"
| "ewrapper_timed (Account_event e) = (case e of EW_updateAccountValue _ _ _ _ \<Rightarrow> True | _ \<Rightarrow> False)"
| "ewrapper_timed (Report_event _) = False"

section \<open>LoggingEWrapper\<close>

text \<open>
  The lines so far, the exported figures, and the time of the event (\<^verbatim>\<open>currentMicros_\<close> of \<^verbatim>\<open>TimeTracking\<close>), which every
  reading of the clock by \<^verbatim>\<open>now\<close> sets.
\<close>

record api_log =
  al_lines :: "string list"
  al_connection_id :: u32
  currentMicros :: u64
  varz_api_events :: i64
  varz_api_last_ts :: i64
  varz_api_event_interval_micros :: i64
  varz_api_event_marketdata_process_micros :: i64

definition log_now :: "u64 \<Rightarrow> api_log \<Rightarrow> api_log" where
  "log_now t s = s\<lparr>currentMicros := t\<rparr>"

definition al_print :: "string \<Rightarrow> api_log \<Rightarrow> api_log" where
  "al_print l s = s\<lparr>al_lines := al_lines s @ [l]\<rparr>"

definition set_connection_id :: "u32 \<Rightarrow> api_log \<Rightarrow> api_log" where
  "set_connection_id i s = al_print (''Connection id updated to '' @ show_u32 i) (s\<lparr>al_connection_id := i\<rparr>)"

text \<open>\<open>LOG_EVENT\<close> reads the clock once, the timing of the handling once more.\<close>

definition log_event :: "string \<Rightarrow> u64 \<Rightarrow> u64 \<Rightarrow> ewrapper_event \<Rightarrow> api_log \<Rightarrow> unit cpp \<times> api_log" where
  "log_event ptr t t' e s =
     (let s1 = log_now t s;
          s2 = s1\<lparr>varz_api_events := varz_api_events s1 + 1,
                  varz_api_event_interval_micros := t - varz_api_last_ts s1, varz_api_last_ts := t\<rparr>;
          (name, rest) = ewrapper_line ptr e
      in case rest of
           Inl err \<Rightarrow> (Inl err, s2)
         | Inr body \<Rightarrow>
             let s3 = al_print (''cid='' @ show_u32 (al_connection_id s2) @ '',ts_utc='' @ show_u64 t @ '',event='' @ name @
                                 body) s2
             in (Inr (), if ewrapper_timed e
                         then (log_now t' s3)\<lparr>varz_api_event_marketdata_process_micros := t' - t\<rparr> else s3))"

section \<open>LoggingEClientSocket\<close>

datatype eclient_request =
    EC_serverVersion
  | EC_TwsConnectionTime
  | EC_reqMktData i64 ib_contract string bool
  | EC_cancelMktData i64
  | EC_placeOrder i64 ib_contract ib_logged_order
  | EC_cancelOrder i64
  | EC_reqOpenOrders
  | EC_reqAccountUpdates bool string
  | EC_reqExecutions i32
  | EC_reqIds i32
  | EC_reqContractDetails i32 ib_contract
  | EC_reqMktDepth i64 ib_contract i32
  | EC_cancelMktDepth i64
  | EC_reqNewsBulletins bool
  | EC_cancelNewsBulletins
  | EC_setServerLogLevel i32
  | EC_reqAutoOpenOrders bool
  | EC_reqAllOpenOrders
  | EC_reqManagedAccts
  | EC_requestFA i32
  | EC_replaceFA i32 string

fun eclient_line :: "string \<Rightarrow> eclient_request \<Rightarrow> string \<times> string" where
  "eclient_line ptr EC_serverVersion = (''serverVersion'', [])"
| "eclient_line ptr EC_TwsConnectionTime = (''TwsConnectionTime'', [])"
| "eclient_line ptr (EC_reqMktData i contract genericTicks snapshot) =
     (''reqMktData'', fld ''id'' (show_i64 i) @ fld ''&contract'' ptr @ fld ''genericTicks'' genericTicks @
        fld ''snapshot'' (show_bool snapshot) @ '','' @ show_contract contract)"
| "eclient_line ptr (EC_cancelMktData i) = (''cancelMktData'', [])"
| "eclient_line ptr (EC_placeOrder i contract order) =
     (''placeOrder'', fld ''id'' (show_i64 i) @ fld ''&contract'' ptr @ '','' @ show_order order)"
| "eclient_line ptr (EC_cancelOrder i) = (''cancelOrder'', fld ''id'' (show_i64 i))"
| "eclient_line ptr EC_reqOpenOrders = (''reqOpenOrders'', [])"
| "eclient_line ptr (EC_reqAccountUpdates sub acctCode) =
     (''reqAccountUpdates'', fld ''subscribe'' (show_bool sub) @ fld ''acctCode'' acctCode)"
| "eclient_line ptr (EC_reqExecutions reqId) =
     (''reqExecutions'', fld ''reqId'' (show_i32 reqId) @ fld ''&filter'' ptr)"
| "eclient_line ptr (EC_reqIds numIds) = (''reqIds'', fld ''numIds'' (show_i32 numIds))"
| "eclient_line ptr (EC_reqContractDetails reqId contract) =
     (''reqContractDetails'', fld ''reqId'' (show_i32 reqId) @ fld ''&contract'' ptr @ '','' @ show_contract contract)"
| "eclient_line ptr (EC_reqMktDepth i contract numRows) =
     (''reqMktDepth'', fld ''id'' (show_i64 i) @ fld ''&contract'' ptr @ fld ''numRows'' (show_i32 numRows) @ '','' @
        show_contract contract)"
| "eclient_line ptr (EC_cancelMktDepth i) = (''cancelMktDepth'', fld ''id'' (show_i64 i))"
| "eclient_line ptr (EC_reqNewsBulletins allMsgs) = (''reqNewsBulletins'', fld ''allMsgs'' (show_bool allMsgs))"
| "eclient_line ptr EC_cancelNewsBulletins = (''cancelNewsBulletins'', [])"
| "eclient_line ptr (EC_setServerLogLevel level) = (''setServerLogLevel'', fld ''level'' (show_i32 level))"
| "eclient_line ptr (EC_reqAutoOpenOrders bAutoBind) = (''reqAutoOpenOrders'', fld ''bAutoBind'' (show_bool bAutoBind))"
| "eclient_line ptr EC_reqAllOpenOrders = (''reqAllOpenOrders'', [])"
| "eclient_line ptr EC_reqManagedAccts = (''reqManagedAccts'', [])"
| "eclient_line ptr (EC_requestFA pFaDataType) = (''requestFA'', fld ''pFaDataType'' (show_i32 pFaDataType))"
| "eclient_line ptr (EC_replaceFA pFaDataType cxml) =
     (''replaceFA'', fld ''pFaDataType'' (show_i32 pFaDataType) @ fld ''cxml'' cxml)"

datatype eclient_history =
    EC_reqHistoricalData i64 ib_contract string string string string i32 i32
  | EC_exerciseOptions i64 ib_contract i32 i32 string i32
  | EC_cancelHistoricalData i64
  | EC_reqRealTimeBars i64 ib_contract i32 string bool
  | EC_cancelRealTimeBars i64
  | EC_cancelScannerSubscription i32
  | EC_reqScannerParameters
  | EC_reqScannerSubscription i32
  | EC_reqCurrentTime
  | EC_reqFundamentalData i64 ib_contract string
  | EC_cancelFundamentalData i64
  | EC_calculateImpliedVolatility i64 ib_contract double double
  | EC_calculateOptionPrice i64 ib_contract double double
  | EC_cancelCalculateImpliedVolatility i64
  | EC_cancelCalculateOptionPrice i64
  | EC_reqGlobalCancel
  | EC_reqMarketDataType i32

fun eclient_history_line :: "string \<Rightarrow> eclient_history \<Rightarrow> string \<times> string" where
  "eclient_history_line ptr (EC_reqHistoricalData i contract endDateTime durationStr barSizeSetting whatToShow useRTH formatDate) =
     (''reqHistoricalData'', fld ''id'' (show_i64 i) @ fld ''&contract'' ptr @ fld ''endDateTime'' endDateTime @
        fld ''durationStr'' durationStr @ fld ''barSizeSetting'' barSizeSetting @ fld ''whatToShow'' whatToShow @
        fld ''useRTH'' (show_i32 useRTH) @ fld ''formatDate'' (show_i32 formatDate) @ '','' @ show_contract contract)"
| "eclient_history_line ptr (EC_exerciseOptions i contract exerciseAction exerciseQuantity account override) =
     (''exerciseOptions'', fld ''id'' (show_i64 i) @ fld ''&contract'' ptr @ fld ''exerciseAction'' (show_i32 exerciseAction) @
        fld ''exerciseQuantity'' (show_i32 exerciseQuantity) @ fld ''account'' account @ fld ''override'' (show_i32 override))"
| "eclient_history_line ptr (EC_cancelHistoricalData tickerId) =
     (''cancelHistoricalData'', fld ''tickerId'' (show_i64 tickerId))"
| "eclient_history_line ptr (EC_reqRealTimeBars i contract barSize whatToShow useRTH) =
     (''reqRealTimeBars'', fld ''id'' (show_i64 i) @ fld ''&contract'' ptr @ fld ''barSize'' (show_i32 barSize) @
        fld ''whatToShow'' whatToShow @ fld ''useRTH'' (show_bool useRTH) @ '','' @ show_contract contract)"
| "eclient_history_line ptr (EC_cancelRealTimeBars tickerId) = (''cancelRealTimeBars'', fld ''tickerId'' (show_i64 tickerId))"
| "eclient_history_line ptr (EC_cancelScannerSubscription tickerId) =
     (''cancelScannerSubscription'', fld ''tickerId'' (show_i32 tickerId))"
| "eclient_history_line ptr EC_reqScannerParameters = (''reqScannerParameters'', [])"
| "eclient_history_line ptr (EC_reqScannerSubscription tickerId) =
     (''reqScannerSubscription'', fld ''tickerId'' (show_i32 tickerId) @ fld ''&subscription'' ptr)"
| "eclient_history_line ptr EC_reqCurrentTime = (''reqCurrentTime'', [])"
| "eclient_history_line ptr (EC_reqFundamentalData reqId contract reportType) =
     (''reqFundamentalData'', fld ''reqId'' (show_i64 reqId) @ fld ''&contract'' ptr @ fld ''reportType'' reportType)"
| "eclient_history_line ptr (EC_cancelFundamentalData reqId) = (''cancelFundamentalData'', fld ''reqId'' (show_i64 reqId))"
| "eclient_history_line ptr (EC_calculateImpliedVolatility reqId contract optionPrice underPrice) =
     (''calculateImpliedVolatility'', fld ''reqId'' (show_i64 reqId) @ fld ''&contract'' ptr @
        fld ''optionPrice'' (show_double optionPrice) @ fld ''underPrice'' (show_double underPrice))"
| "eclient_history_line ptr (EC_calculateOptionPrice reqId contract volatility underPrice) =
     (''calculateOptionPrice'', fld ''reqId'' (show_i64 reqId) @ fld ''&contract'' ptr @
        fld ''volatility'' (show_double volatility) @ fld ''underPrice'' (show_double underPrice))"
| "eclient_history_line ptr (EC_cancelCalculateImpliedVolatility reqId) =
     (''cancelCalculateImpliedVolatility'', fld ''reqId'' (show_i64 reqId))"
| "eclient_history_line ptr (EC_cancelCalculateOptionPrice reqId) =
     (''cancelCalculateOptionPrice'', fld ''reqId'' (show_i64 reqId))"
| "eclient_history_line ptr EC_reqGlobalCancel = (''reqGlobalCancel'', [])"
| "eclient_history_line ptr (EC_reqMarketDataType marketDataType) =
     (''reqMarketDataType'', fld ''marketDataType'' (show_i32 marketDataType))"

text \<open>
  The client's state; \<open>client_calls\<close> is what reached the broker's base class. A call writes a line before and a line after
  it; the readings of the clocks are \<open>ts\<close> (local), \<open>ts_utc\<close> and \<open>ts_end\<close>.
\<close>

datatype eclient_call_made = Eclient_request eclient_request | Eclient_history eclient_history

record eclient_log =
  ec_lines :: "string list"
  ec_connection_id :: u32
  ec_call_start :: u64
  varz_api_requests :: i64
  client_calls :: "eclient_call_made list"

definition eclient_log_new :: eclient_log where
  "eclient_log_new = \<lparr>ec_lines = [], ec_connection_id = - 1, ec_call_start = 0, varz_api_requests = 0, client_calls = []\<rparr>"

definition ec_print :: "string \<Rightarrow> eclient_log \<Rightarrow> eclient_log" where
  "ec_print l s = s\<lparr>ec_lines := ec_lines s @ [l]\<rparr>"

fun eclient_call_line :: "string \<Rightarrow> eclient_call_made \<Rightarrow> string \<times> string" where
  "eclient_call_line ptr (Eclient_request c) = eclient_line ptr c"
| "eclient_call_line ptr (Eclient_history c) = eclient_history_line ptr c"

definition log_start :: "u64 \<Rightarrow> u64 \<Rightarrow> string \<Rightarrow> string \<Rightarrow> eclient_log \<Rightarrow> eclient_log" where
  "log_start ts ts_utc name body s =
     (let s1 = s\<lparr>varz_api_requests := varz_api_requests s + 1, ec_call_start := ts\<rparr>
      in ec_print (''cid='' @ show_u32 (ec_connection_id s1) @ '',ts='' @ show_u64 ts @ '',ts_utc='' @ show_u64 ts_utc @
                   '',action='' @ name @ body) s1)"

definition log_end :: "u64 \<Rightarrow> string \<Rightarrow> eclient_log \<Rightarrow> eclient_log" where
  "log_end ts_end name s =
     ec_print (''cid='' @ show_u32 (ec_connection_id s) @ '',ts='' @ show_u64 (ec_call_start s) @ '',action='' @ name @
               '',elapsed='' @ show_u64 (ts_end - ec_call_start s)) s"

definition eclient_logged_call :: "string \<Rightarrow> u64 \<Rightarrow> u64 \<Rightarrow> u64 \<Rightarrow> eclient_call_made \<Rightarrow> eclient_log \<Rightarrow> eclient_log" where
  "eclient_logged_call ptr ts ts_utc ts_end c s =
     (let (name, body) = eclient_call_line ptr c;
          s1 = log_start ts ts_utc name body s;
          s2 = s1\<lparr>client_calls := client_calls s1 @ [c]\<rparr>
      in log_end ts_end name s2)"

end
