(* ===== verification/Log_Session.thy ===== *)
theory Log_Session
  imports Api_Log Log_Replay
begin

text \<open>
  From the gateway to its log and back: what the log reader makes of the lines the gateway writes for requests of market
  data and for ticks, compared with what the gateway publishes for the same ticks.
\<close>

section \<open>Texts\<close>

text \<open>Text that a line of the log can hold: no white space, no comma and no semicolon.\<close>

definition plain_text :: "string \<Rightarrow> bool" where
  "plain_text s \<longleftrightarrow> (\<forall>c \<in> set s. c \<notin> set white_space \<and> c \<noteq> CHR '','' \<and> c \<noteq> CHR '';'')"

lemma plain_text_simps [simp]:
  "plain_text []"
  "plain_text (c # s) \<longleftrightarrow> c \<notin> set white_space \<and> c \<noteq> CHR '','' \<and> c \<noteq> CHR '';'' \<and> plain_text s"
  "plain_text (a @ b) \<longleftrightarrow> plain_text a \<and> plain_text b"
  by (auto simp: plain_text_def)

lemma plain_text_word: "plain_text s \<Longrightarrow> one_word s"
  by (simp add: plain_text_def one_word_def)

lemma plain_text_no: "plain_text s \<Longrightarrow> CHR '','' \<notin> set s \<and> CHR '';'' \<notin> set s"
  by (auto simp: plain_text_def)

definition number_char :: "char \<Rightarrow> bool" where
  "number_char c \<longleftrightarrow> is_digit c \<or> c \<in> {CHR ''.'', CHR ''-'', CHR ''e'', CHR ''+''}"

lemma plain_number: "\<forall>c \<in> set s. number_char c \<Longrightarrow> plain_text s"
  by (auto simp: plain_text_def number_char_def white_space_code is_digit_def)

lemma number_show_nat: "\<forall>c \<in> set (show_nat n). number_char c"
  using show_nat_digits by (auto simp: number_char_def)

lemma number_show_int: "\<forall>c \<in> set (show_int i). number_char c"
  using number_show_nat by (auto simp: show_int_def number_char_def)

lemma number_fraction: "\<forall>c \<in> set (with_fraction m dec). number_char c"
proof -
  have strip: "set (strip_zeros s) \<subseteq> set s" for s
    unfolding strip_zeros_def by (metis set_dropWhileD set_rev subsetI)
  have zero: "number_char (CHR ''0'')" "number_char (CHR ''.'')" by (simp_all add: number_char_def is_digit_def)
  have "\<forall>c \<in> set (strip_zeros (pad_zeros dec (show_nat k))). number_char c" for k
    using strip [of "pad_zeros dec (show_nat k)"] number_show_nat zero
    by (auto simp: pad_zeros_def split: if_splits)
  then show ?thesis using number_show_nat zero by (auto simp: with_fraction_def)
qed

lemma number_show_double: "\<forall>c \<in> set (show_double x). number_char c"
proof -
  have sign: "number_char (CHR ''0'')" "number_char (CHR ''-'')" "number_char (CHR ''+'')" "number_char (CHR ''e'')"
    by (simp_all add: number_char_def is_digit_def)
  have pad: "\<forall>c \<in> set (pad_zeros 2 (show_nat k)). number_char c" for k
    using number_show_nat sign by (auto simp: pad_zeros_def)
  show ?thesis
    using number_fraction pad sign
    unfolding show_double_def Let_def by (auto split: prod.splits if_splits)
qed

lemma plain_numbers [simp]:
  "plain_text (show_nat n)" "plain_text (show_u64 t)" "plain_text (show_u32 u)" "plain_text (show_i64 x)"
  "plain_text (show_i32 y)" "plain_text (show_double z)" "plain_text (show_bool b)"
  using plain_number number_show_nat number_show_int number_show_double
  by (simp_all add: show_u64_def show_u32_def show_i64_def show_i32_def show_bool_def white_space_code)

lemma show_i64_nat: "n < 2 ^ 63 \<Longrightarrow> show_i64 (of_nat n) = show_nat n"
  by (simp add: show_i64_def show_int_def sint_of_nat64)

lemma show_i32_nat: "n < 2 ^ 31 \<Longrightarrow> show_i32 (of_nat n) = show_nat n"
  by (simp add: show_i32_def show_int_def sint_of_nat32)

section \<open>Lines of requests\<close>

definition contract_pairs :: "ib_contract \<Rightarrow> (string \<times> string) list" where
  "contract_pairs c =
     [(''conId'', show_i64 (c_conId c)), (''symbol'', c_symbol c), (''secType'', c_secType c), (''right'', c_right c),
      (''strike'', show_double (c_strike c)), (''currency'', c_currency c), (''multiplier'', c_multiplier c),
      (''expiry'', c_expiry c), (''localSymbol'', c_localSymbol c @ ''}'')]"

definition contract_body :: "ib_contract \<Rightarrow> string" where
  "contract_body c = join (CHR '';'') (map (print_pair (CHR '':'')) (contract_pairs c))"

lemma show_contract_body: "show_contract c = ''contract='' @ contract_body c"
  by (simp add: show_contract_def contract_body_def contract_pairs_def print_pair_def)

definition plain_contract :: "ib_contract \<Rightarrow> bool" where
  "plain_contract c \<longleftrightarrow> plain_text (c_symbol c) \<and> plain_text (c_secType c) \<and> plain_text (c_right c) \<and>
     plain_text (c_currency c) \<and> plain_text (c_multiplier c) \<and> plain_text (c_expiry c) \<and> plain_text (c_localSymbol c)"

text \<open>The contract in the log has the symbol the registry gives it, options included.\<close>

lemma contract_body_read:
  assumes "boost_laws B" "plain_contract c"
  shows "\<exists>spec. line_to_record B (contract_body c) (CHR '':'') '';'' Map.empty = (True, spec) \<and>
    symbol_from_map spec = Some (symbol_from_ib c)"
proof -
  have plain: "\<forall>kv \<in> set (contract_pairs c). plain_pair (CHR '':'') (CHR '';'') kv"
    using assms(2) plain_text_no [OF plain_numbers(4) [of "c_conId c"]] plain_text_no [OF plain_numbers(6) [of "c_strike c"]]
    by (auto simp: contract_pairs_def plain_contract_def plain_pair_def dest: plain_text_no)
  have "line_to_record B (contract_body c) (CHR '':'') '';'' Map.empty = (True, Map.empty ++ map_of (rev (contract_pairs c)))"
    unfolding contract_body_def using line_to_record_join [OF assms(1) _ plain, of Map.empty]
    by (simp add: contract_pairs_def)
  then show ?thesis
    by (simp add: symbol_from_map_def symbol_from_ib_def contract_pairs_def)
qed

definition request_pairs :: "u32 \<Rightarrow> u64 \<Rightarrow> u64 \<Rightarrow> string \<Rightarrow> string \<Rightarrow> i64 \<Rightarrow> ib_contract \<Rightarrow> string \<Rightarrow> bool \<Rightarrow> (string \<times> string) list" where
  "request_pairs cid ts ts_utc ptr name n c ticks snapshot =
     [(''cid'', show_u32 cid), (''ts'', show_u64 ts), (''ts_utc'', show_u64 ts_utc), (''action'', name),
      (''id'', show_i64 n), (''&contract'', ptr), (''genericTicks'', ticks), (''snapshot'', show_bool snapshot),
      (''contract'', contract_body c)]"

definition end_pairs :: "u32 \<Rightarrow> u64 \<Rightarrow> u64 \<Rightarrow> string \<Rightarrow> (string \<times> string) list" where
  "end_pairs cid ts elapsed name =
     [(''cid'', show_u32 cid), (''ts'', show_u64 ts), (''action'', name), (''elapsed'', show_u64 elapsed)]"

lemma contract_body_plain:
  assumes "plain_contract c"
  shows "CHR '','' \<notin> set (contract_body c)" "one_word (contract_body c)"
  using assms plain_text_no [OF plain_numbers(4) [of "c_conId c"]] plain_text_no [OF plain_numbers(6) [of "c_strike c"]]
    plain_text_word [OF plain_numbers(4) [of "c_conId c"]] plain_text_word [OF plain_numbers(6) [of "c_strike c"]]
  by (auto simp: contract_body_def contract_pairs_def print_pair_def plain_contract_def white_space_code
      dest: plain_text_no plain_text_word)

lemma request_pairs_plain:
  assumes "plain_contract c" "plain_text ptr" "plain_text ticks" "name \<in> {''reqMktData''}"
  shows "\<forall>kv \<in> set (request_pairs cid ts ts_utc ptr name n c ticks snapshot). plain_pair (CHR ''='') (CHR '','') kv"
    "one_word (print_line (request_pairs cid ts ts_utc ptr name n c ticks snapshot))"
proof -
  note nums = plain_text_no [OF plain_numbers(3) [of cid]] plain_text_no [OF plain_numbers(2) [of ts]]
    plain_text_no [OF plain_numbers(2) [of ts_utc]] plain_text_no [OF plain_numbers(4) [of n]]
    plain_text_no [OF plain_numbers(7) [of snapshot]]
  show "\<forall>kv \<in> set (request_pairs cid ts ts_utc ptr name n c ticks snapshot). plain_pair (CHR ''='') (CHR '','') kv"
    using assms nums contract_body_plain [OF assms(1)]
    by (auto simp: request_pairs_def plain_pair_def dest: plain_text_no)
  show "one_word (print_line (request_pairs cid ts ts_utc ptr name n c ticks snapshot))"
    using assms contract_body_plain [OF assms(1)]
    by (intro one_word_print_line) (auto simp: request_pairs_def white_space_code intro: plain_text_word)
qed

lemma end_pairs_plain:
  assumes "name \<in> {''reqMktData''}"
  shows "\<forall>kv \<in> set (end_pairs cid ts el name). plain_pair (CHR ''='') (CHR '','') kv"
    "one_word (print_line (end_pairs cid ts el name))"
proof -
  note nums = plain_text_no [OF plain_numbers(3) [of cid]] plain_text_no [OF plain_numbers(2) [of ts]]
    plain_text_no [OF plain_numbers(2) [of el]]
  show "\<forall>kv \<in> set (end_pairs cid ts el name). plain_pair (CHR ''='') (CHR '','') kv"
    using assms nums by (auto simp: end_pairs_def plain_pair_def)
  show "one_word (print_line (end_pairs cid ts el name))"
    using assms by (intro one_word_print_line) (auto simp: end_pairs_def white_space_code intro: plain_text_word)
qed

lemma record_without_event:
  "nv ''event'' = None \<Longrightarrow> process_record B P Q rth duration start nv r = (Continue_Loop, r)"
  by (simp add: process_record_def is_supported_def)

text \<open>The line of a request gives its id the symbol of its contract, or finds it there; the line after it does nothing.\<close>

lemma request_line_processed:
  assumes "boost_laws B" "plain_contract c" "plain_text ptr" "plain_text ticks" "k < 2 ^ 63"
    and "symbol_map r (of_nat k) \<in> {None, Some (symbol_from_ib c)}"
  shows "\<exists>r'. process_line B P Q rth duration start
      (print_line (request_pairs cid ts ts_utc ptr ''reqMktData'' (of_nat k) c ticks snapshot)) r = (Continue_Loop, r') \<and>
     symbol_map r' = (symbol_map r)(of_nat k \<mapsto> symbol_from_ib c) \<and> visits r' = visits r"
proof -
  let ?kvs = "request_pairs cid ts ts_utc ptr ''reqMktData'' (of_nat k) c ticks snapshot"
  let ?nv = "map_of (rev ?kvs)"
  have plain: "\<forall>kv \<in> set ?kvs. plain_pair (CHR ''='') (CHR '','') kv"
    using request_pairs_plain(1) [OF assms(2,3,4)] by simp
  have read: "line_to_record B (print_line ?kvs) (CHR ''='') '','' Map.empty = (True, ?nv)"
    unfolding print_line_def using line_to_record_join [OF assms(1) _ plain, of Map.empty]
    by (simp add: request_pairs_def)
  have comma: "CHR '','' \<in> set (print_line ?kvs)"
    by (rule comma_in_print_line) (simp add: request_pairs_def)
  have nv: "?nv ''action'' = Some ''reqMktData''" "?nv ''id'' = Some (show_nat k)" "?nv ''contract'' = Some (contract_body c)"
    "?nv ''event'' = None"
    using assms(5) by (simp_all add: request_pairs_def show_i64_nat)
  have cast: "lexical_cast (bl_long B) (show_nat k) = Inr (of_nat k)"
    using boost_laws.long_digits [OF assms(1), of "show_nat k"] assms(5)
    by (simp add: lexical_cast_def all_digits_def show_nat_digits)
  obtain spec where spec: "line_to_record B (contract_body c) (CHR '':'') '';'' Map.empty = (True, spec)"
    "symbol_from_map spec = Some (symbol_from_ib c)"
    using contract_body_read [OF assms(1,2)] by blast
  have act: "is_action ?nv" using nv(1) by (simp add: is_action_def action_map_def)
  show ?thesis
  proof (cases "symbol_map r (of_nat k)")
    case None
    then have "map_id_to_symbols B ?nv (symbol_map r) = Inr (True, (symbol_map r)(of_nat k \<mapsto> symbol_from_ib c))"
      using nv cast spec by (simp add: map_id_to_symbols_def)
    then show ?thesis using comma read act by (simp add: process_line_def)
  next
    case (Some s)
    then have "map_id_to_symbols B ?nv (symbol_map r) = Inr (False, symbol_map r)"
      using nv cast spec assms(6) by (simp add: map_id_to_symbols_def)
    moreover have "process_record B P Q rth duration start ?nv r = (Continue_Loop, r)"
      by (rule record_without_event [where nv = ?nv, OF nv(4)])
    ultimately have "process_line B P Q rth duration start (print_line ?kvs) r = (Continue_Loop, r)"
      using comma read act by (simp add: process_line_def)
    moreover have "(symbol_map r)(of_nat k \<mapsto> symbol_from_ib c) = symbol_map r"
      using Some assms(6) by (intro map_upd_triv) simp
    ultimately show ?thesis by simp
  qed
qed

lemma end_line_processed:
  assumes "boost_laws B"
  shows "process_line B P Q rth duration start (print_line (end_pairs cid ts el ''reqMktData'')) r = (Continue_Loop, r)"
proof -
  let ?kvs = "end_pairs cid ts el ''reqMktData''"
  let ?nv = "map_of (rev ?kvs)"
  have read: "line_to_record B (print_line ?kvs) (CHR ''='') '','' Map.empty = (True, ?nv)"
    unfolding print_line_def using line_to_record_join [OF assms _ end_pairs_plain(1), of _ _ _ _ Map.empty]
    by (simp add: end_pairs_def)
  have nv: "?nv ''id'' = None" "?nv ''event'' = None" by (simp_all add: end_pairs_def)
  have "map_id_to_symbols B ?nv (symbol_map r) = Inr (False, symbol_map r)"
    using nv(1) by (simp add: map_id_to_symbols_def)
  moreover have "process_record B P Q rth duration start ?nv r = (Continue_Loop, r)"
    by (rule record_without_event [where nv = ?nv, OF nv(2)])
  moreover have "CHR '','' \<in> set (print_line ?kvs)"
    by (rule comma_in_print_line) (simp add: end_pairs_def)
  ultimately show ?thesis
    using read by (cases "is_action ?nv") (simp_all add: process_line_def)
qed

section \<open>A session of the gateway\<close>

text \<open>
  Requests of market data (\<open>Asked\<close>: the address printed for the contract, the readings of the clocks, and what is asked) and
  ticks (\<open>Heard\<close>: the readings of the clocks and the tick). Every tick is logged first and then published with the time
  that \<open>TimeTracking\<close> has, as \<^verbatim>\<open>MarketEventDispatcher.cpp\<close> does; the two loggers write to one log.
\<close>

datatype session_step =
    Asked string u64 u64 u64 i64 ib_contract string bool
  | Heard u64 u64 u64 u64 tick_event

record gateway_session =
  gs_requests :: eclient_log
  gs_events :: api_log
  gs_file :: "string list"
  gs_out :: dispatch_state

fun heard_event :: "tick_event \<Rightarrow> market_event" where
  "heard_event (EW_tickPrice i f price _) = TickPrice i f price"
| "heard_event (EW_tickSize i f sz) = TickSize i f sz"
| "heard_event (EW_tickGeneric i f val) = TickGeneric i f val"
| "heard_event (EW_tickString i f val) = TickString i f val"
| "heard_event (EW_tickOptionComputation _ _ _ _ _ _ _ _ _ _) = LoggedOnly"
| "heard_event (EW_tickEFP _ _ _ _ _ _ _ _ _) = LoggedOnly"

fun session_next ::
  "(MarketData, string) codec \<Rightarrow> (MarketDepth, string) codec \<Rightarrow> ticker_maps \<Rightarrow> session_step \<Rightarrow> gateway_session \<Rightarrow>
     gateway_session" where
  "session_next C D maps (Asked ptr ts ts_utc ts_end i contract ticks snapshot) g =
     (let q = eclient_logged_call ptr ts ts_utc ts_end (Eclient_request (EC_reqMktData i contract ticks snapshot)) (gs_requests g)
      in g\<lparr>gs_requests := q, gs_file := gs_file g @ drop (length (ec_lines (gs_requests g))) (ec_lines q)\<rparr>)"
| "session_next C D maps (Heard t t' now finish e) g =
     (let (r, a) = log_event [] t t' (Tick_event e) (gs_events g);
          g1 = g\<lparr>gs_events := a, gs_file := gs_file g @ drop (length (al_lines (gs_events g))) (al_lines a)\<rparr>
      in case r of
           Inl _ \<Rightarrow> g1
         | Inr _ \<Rightarrow>
             g1\<lparr>gs_out := snd (market_ewrapper C D maps (currentMicros a) now finish (heard_event e) (gs_out g1))\<rparr>)"

text \<open>The text of the log.\<close>

definition log_text :: "string list \<Rightarrow> string" where
  "log_text ls = concat (map (\<lambda>l. l @ [char_of (10 :: nat)]) ls)"

text \<open>The message of a tick with the time \<open>t\<close>.\<close>

fun tick_message :: "(i64 \<rightharpoonup> string) \<Rightarrow> u64 \<Rightarrow> tick_event \<Rightarrow> MarketData" where
  "tick_message symbols t (EW_tickPrice i f price _) =
     \<lparr>md_timestamp = Some t, md_symbol = symbols i, md_event = Some (TickTypeNames ! f),
      md_value = Some (set_as_double price Value_default), md_contract_id = Some i\<rparr>"
| "tick_message symbols t (EW_tickSize i f sz) =
     \<lparr>md_timestamp = Some t, md_symbol = symbols i, md_event = Some (TickTypeNames ! f),
      md_value = Some (set_as_int sz Value_default), md_contract_id = Some i\<rparr>"
| "tick_message symbols t _ = MarketData_default"

text \<open>The messages of a session, with the time in the log and with the time published.\<close>

fun session_logged :: "(i64 \<rightharpoonup> string) \<Rightarrow> session_step list \<Rightarrow> MarketData list" where
  "session_logged symbols [] = []"
| "session_logged symbols (Heard t t' now finish e # ss) = tick_message symbols t e # session_logged symbols ss"
| "session_logged symbols (_ # ss) = session_logged symbols ss"

fun session_published :: "(i64 \<rightharpoonup> string) \<Rightarrow> session_step list \<Rightarrow> MarketData list" where
  "session_published symbols [] = []"
| "session_published symbols (Heard t t' now finish e # ss) = tick_message symbols t' e # session_published symbols ss"
| "session_published symbols (_ # ss) = session_published symbols ss"

text \<open>
  The ticks the log reader converts: the three sizes and the four prices, at a time of trading, for an id asked before; a
  price has to be read back as it was printed. The requests name contracts the registry has under their ids.
\<close>

fun heard_ok :: "boost_lib \<Rightarrow> tick_event \<Rightarrow> bool" where
  "heard_ok B (EW_tickPrice i f price _) \<longleftrightarrow>
     f \<in> {1, 2, 4, 9} \<and> lexical_cast (bl_double B) (show_double price) = Inr price"
| "heard_ok B (EW_tickSize i f sz) \<longleftrightarrow> f \<in> {0, 3, 5} \<and> 0 \<le> sint sz"
| "heard_ok B _ \<longleftrightarrow> False"

fun tick_id :: "tick_event \<Rightarrow> i64" where
  "tick_id (EW_tickPrice i _ _ _) = i"
| "tick_id (EW_tickSize i _ _) = i"
| "tick_id (EW_tickOptionComputation i _ _ _ _ _ _ _ _ _) = i"
| "tick_id (EW_tickGeneric i _ _) = i"
| "tick_id (EW_tickString i _ _) = i"
| "tick_id (EW_tickEFP i _ _ _ _ _ _ _ _) = i"

fun session_ok ::
  "boost_lib \<Rightarrow> 'pt posix_time \<Rightarrow> ('pt, 'td) pt_order \<Rightarrow> bool \<Rightarrow> 'pt \<Rightarrow> ticker_maps \<Rightarrow> i64 set \<Rightarrow> session_step list \<Rightarrow>
     bool" where
  "session_ok B P Q rth start maps asked [] \<longleftrightarrow> True"
| "session_ok B P Q rth start maps asked (Asked ptr ts ts_utc ts_end i contract ticks snapshot # ss) \<longleftrightarrow>
     0 \<le> sint i \<and> ticker_symbol maps i = Some (symbol_from_ib contract) \<and> plain_contract contract \<and> plain_text ptr \<and>
     plain_text ticks \<and> session_ok B P Q rth start maps (insert i asked) ss"
| "session_ok B P Q rth start maps asked (Heard t t' now finish e # ss) \<longleftrightarrow>
     tick_id e \<in> asked \<and> 0 \<le> sint (tick_id e) \<and> heard_ok B e \<and> time_ok P Q rth start t \<and>
     session_ok B P Q rth start maps asked ss"

lemma tokens_log_text:
  "\<forall>l \<in> set ls. l \<noteq> [] \<and> one_word l \<Longrightarrow> tokens (log_text ls) = ls"
proof (induction ls)
  case (Cons l ls)
  have "split_any white_space (l @ char_of (10 :: nat) # log_text ls) = l # split_any white_space (log_text ls)"
    using Cons.prems by (intro split_any_sep) (auto simp: one_word_def white_space_def)
  then show ?case using Cons by (simp add: tokens_def log_text_def)
qed (simp add: tokens_def log_text_def)

section \<open>Lines of ticks\<close>

definition price_pairs :: "u32 \<Rightarrow> u64 \<Rightarrow> i64 \<Rightarrow> nat \<Rightarrow> double \<Rightarrow> i32 \<Rightarrow> (string \<times> string) list" where
  "price_pairs cid t i f price auto_exec =
     [(''cid'', show_u32 cid), (''ts_utc'', show_u64 t), (''event'', ''tickPrice''), (''tickerId'', show_i64 i),
      (''field'', TickTypeNames ! f), (''price'', show_double price), (''canAutoExecute'', show_i32 auto_exec)]"

definition size_pairs :: "u32 \<Rightarrow> u64 \<Rightarrow> i64 \<Rightarrow> nat \<Rightarrow> i32 \<Rightarrow> (string \<times> string) list" where
  "size_pairs cid t i f sz =
     [(''cid'', show_u32 cid), (''ts_utc'', show_u64 t), (''event'', ''tickSize''), (''tickerId'', show_i64 i),
      (''field'', TickTypeNames ! f), (''size'', show_i32 sz)]"

fun tick_pairs :: "u32 \<Rightarrow> u64 \<Rightarrow> tick_event \<Rightarrow> (string \<times> string) list" where
  "tick_pairs cid t (EW_tickPrice i f price a) = price_pairs cid t i f price a"
| "tick_pairs cid t (EW_tickSize i f sz) = size_pairs cid t i f sz"
| "tick_pairs cid t _ = []"

lemma tick_names:
  "TickTypeNames ! 0 = ''BID_SIZE''" "TickTypeNames ! Suc 0 = ''BID''" "TickTypeNames ! 2 = ''ASK''"
  "TickTypeNames ! 3 = ''ASK_SIZE''" "TickTypeNames ! 4 = ''LAST''" "TickTypeNames ! 5 = ''LAST_SIZE''"
  "TickTypeNames ! 9 = ''CLOSE''" "length TickTypeNames = 59"
  by code_simp+

text \<open>The line the gateway writes for a tick is the line of its pairs.\<close>

lemma log_event_line:
  assumes "heard_ok B e"
  shows "\<exists>a. log_event ptr t t' (Tick_event e) s = (Inr (), a) \<and>
    al_lines a = al_lines s @ [print_line (tick_pairs (al_connection_id s) t e)] \<and> currentMicros a = t' \<and>
    al_connection_id a = al_connection_id s"
proof (cases e)
  case (EW_tickPrice i f p a)
  then have "f < length TickTypeNames" using assms by (auto simp: tick_names)
  then show ?thesis
    using EW_tickPrice
    by (simp add: log_event_def log_now_def al_print_def tick_fld_def tick_name_def fld_def price_pairs_def print_line_def
        print_pair_def Let_def)
next
  case (EW_tickSize i f sz)
  then have "f < length TickTypeNames" using assms by (auto simp: tick_names)
  then show ?thesis
    using EW_tickSize
    by (simp add: log_event_def log_now_def al_print_def tick_fld_def tick_name_def fld_def size_pairs_def print_line_def
        print_pair_def Let_def)
qed (use assms in simp_all)

lemma tick_pairs_plain:
  assumes "heard_ok B e"
  shows "\<forall>kv \<in> set (tick_pairs cid t e). plain_pair (CHR ''='') (CHR '','') kv" "''action'' \<notin> fst ` set (tick_pairs cid t e)"
    "2 \<le> length (tick_pairs cid t e)" "one_word (print_line (tick_pairs cid t e))"
proof -
  have names: "CHR '','' \<notin> set (TickTypeNames ! f) \<and> one_word (TickTypeNames ! f)" if "f \<in> {0, 1, 2, 3, 4, 5, 9}" for f
    using that by (auto simp: tick_names white_space_code)
  note nums = plain_text_no [OF plain_numbers(2)] plain_text_no [OF plain_numbers(3)] plain_text_no [OF plain_numbers(4)]
    plain_text_no [OF plain_numbers(5)] plain_text_no [OF plain_numbers(6)]
  note words = plain_text_word [OF plain_numbers(3)] plain_text_word [OF plain_numbers(4)]
    plain_text_word [OF plain_numbers(5)] plain_text_word [OF plain_numbers(6)]
  show "\<forall>kv \<in> set (tick_pairs cid t e). plain_pair (CHR ''='') (CHR '','') kv"
    using assms names nums by (cases e) (auto simp: price_pairs_def size_pairs_def plain_pair_def)
  show "''action'' \<notin> fst ` set (tick_pairs cid t e)"
    using assms by (cases e) (simp_all add: price_pairs_def size_pairs_def)
  show "2 \<le> length (tick_pairs cid t e)"
    using assms by (cases e) (simp_all add: price_pairs_def size_pairs_def)
  show "one_word (print_line (tick_pairs cid t e))"
    using assms names words
    by (intro one_word_print_line; cases e) (auto simp: price_pairs_def size_pairs_def white_space_code)
qed

section \<open>Reading them back\<close>

lemma nat_of_long: "0 \<le> sint (i :: i64) \<Longrightarrow> \<exists>k < 2 ^ 63. i = of_nat k"
proof -
  assume pos: "0 \<le> sint i"
  have "sint i < 2 ^ 63" using sint_lt [of i] by simp
  then have "nat (sint i) < 2 ^ 63" using pos by (simp add: nat_less_iff)
  moreover have "i = of_nat (nat (sint i))" using pos by simp
  ultimately show ?thesis by blast
qed

lemma nat_of_int: "0 \<le> sint (x :: i32) \<Longrightarrow> \<exists>k < 2 ^ 31. x = of_nat k"
proof -
  assume pos: "0 \<le> sint x"
  have "sint x < 2 ^ 31" using sint_lt [of x] by simp
  then have "nat (sint x) < 2 ^ 31" using pos by (simp add: nat_less_iff)
  moreover have "x = of_nat (nat (sint x))" using pos by simp
  ultimately show ?thesis by blast
qed

lemma cast_shown:
  assumes "boost_laws B"
  shows "0 \<le> sint i \<Longrightarrow> lexical_cast (bl_long B) (show_i64 i) = Inr i"
    and "0 \<le> sint x \<Longrightarrow> lexical_cast (bl_int B) (show_i32 x) = Inr x"
    and "lexical_cast (bl_u64 B) (show_u64 t) = Inr t"
proof -
  show "lexical_cast (bl_long B) (show_i64 i) = Inr i" if pos: "0 \<le> sint i"
  proof -
    obtain k where k: "k < 2 ^ 63" "i = of_nat k" using nat_of_long [OF pos] by blast
    then show ?thesis
      using boost_laws.long_digits [OF assms, of "show_nat k"]
      by (simp add: show_i64_nat lexical_cast_def all_digits_def show_nat_digits)
  qed
  show "lexical_cast (bl_int B) (show_i32 x) = Inr x" if pos: "0 \<le> sint x"
  proof -
    obtain k where k: "k < 2 ^ 31" "x = of_nat k" using nat_of_int [OF pos] by blast
    then show ?thesis using boost_laws.cast_int_show [OF assms k(1)] by (simp add: show_i32_nat)
  qed
  show "lexical_cast (bl_u64 B) (show_u64 t) = Inr t" by (rule boost_laws.cast_u64_show [OF assms])
qed

text \<open>The record of a tick is converted to the message the gateway builds for it, except for the time.\<close>

lemma tick_converted:
  assumes "boost_laws B" "heard_ok B e" "0 \<le> sint (tick_id e)" "symbols (tick_id e) = Some s"
  shows "marketdata_from_log B symbols MarketData_default (map_of (rev (tick_pairs cid t e))) =
     Inr (Some (tick_message symbols t e))"
proof (cases e)
  case (EW_tickPrice i f p a)
  then have f: "f \<in> {1, 2, 4, 9}" and cast: "lexical_cast (bl_double B) (show_double p) = Inr p"
    using assms(2) by simp_all
  have ev: "get_event_type (''tickPrice'' @ ''/'' @ (TickTypeNames ! f)) = Some (''price'', Value_Type_DOUBLE)"
    using f by (auto simp: tick_names get_event_type_def event_value_map_def)
  show ?thesis
    using EW_tickPrice cast ev cast_shown [OF assms(1)] assms(3,4)
    by (simp add: price_pairs_def marketdata_from_log_def code_to_symbol_def value_from_log_def get_md_value_def
        set_as_double_def set_field_double_def Let_def)
next
  case (EW_tickSize i f x)
  then have f: "f \<in> {0, 3, 5}" and pos: "0 \<le> sint x"
    using assms(2) by simp_all
  have ev: "get_event_type (''tickSize'' @ ''/'' @ (TickTypeNames ! f)) = Some (''size'', Value_Type_INT)"
    using f by (auto simp: tick_names get_event_type_def event_value_map_def)
  show ?thesis
    using EW_tickSize pos ev cast_shown [OF assms(1)] assms(3,4)
    by (simp add: size_pairs_def marketdata_from_log_def code_to_symbol_def value_from_log_def get_md_value_def
        set_as_int_def set_field_int_def Let_def)
qed (use assms in simp_all)

lemma tick_line_read:
  assumes "boost_laws B" "heard_ok B e" "0 \<le> sint (tick_id e)" "symbol_map r (tick_id e) = Some s"
    and "time_ok P Q rth start t" and "\<forall>a b. \<not> pto_exceeds Q a b duration"
  shows "\<exists>r'. process_line B P Q rth duration start (print_line (tick_pairs cid t e)) r = (Continue_Loop, r') \<and>
     visits r' = visits r @ [Visit_MarketData (tick_message (symbol_map r) t e)] \<and> symbol_map r' = symbol_map r"
proof -
  let ?kvs = "tick_pairs cid t e"
  let ?nv = "map_of (rev ?kvs)"
  obtain ev where nv: "?nv ''event'' = Some ev" "event_value_map ev \<noteq> None" "?nv ''ts_utc'' = Some (show_u64 t)"
    using assms(2) by (cases e) (auto simp: price_pairs_def size_pairs_def event_value_map_def)
  note conv = tick_converted [where symbols = "symbol_map r" and cid = cid and t = t, OF assms(1-4)]
  show ?thesis
    using record_line_visited [where nv = ?nv and t = t and duration = duration, OF assms(1) tick_pairs_plain(3,1,2) [OF assms(2)] refl
        nv assms(5) disjI2 [OF assms(6)] conv]
    by auto
qed

section \<open>The whole session\<close>

lemma request_lines:
  "ec_lines (eclient_logged_call ptr ts ts_utc ts_end (Eclient_request (EC_reqMktData i c ticks snapshot)) q) =
     ec_lines q @ [print_line (request_pairs (ec_connection_id q) ts ts_utc ptr ''reqMktData'' i c ticks snapshot),
       print_line (end_pairs (ec_connection_id q) ts (ts_end - ts) ''reqMktData'')]"
  by (simp add: eclient_logged_call_def log_start_def log_end_def ec_print_def fld_def request_pairs_def end_pairs_def
      print_line_def print_pair_def show_contract_body Let_def)

lemma print_line_nonempty: "2 \<le> length kvs \<Longrightarrow> print_line kvs \<noteq> []"
  using comma_in_print_line by fastforce

lemma tick_message_submap:
  "heard_ok B e \<Longrightarrow> m \<subseteq>\<^sub>m m' \<Longrightarrow> tick_id e \<in> dom m \<Longrightarrow> tick_message m t e = tick_message m' t e"
  by (cases e) (auto simp: map_le_def)

text \<open>What one step writes, and what the reader does with it.\<close>

lemma session_next_read:
  assumes "boost_laws B" "\<forall>a b. \<not> pto_exceeds Q a b duration" "session_ok B P Q rth start maps asked [s]"
    and "symbol_map r \<subseteq>\<^sub>m ticker_symbol maps" "asked \<subseteq> dom (symbol_map r)"
  shows "\<exists>ls r'. gs_file (session_next C D maps s g) = gs_file g @ ls \<and> (\<forall>l \<in> set ls. l \<noteq> [] \<and> one_word l) \<and>
     (\<forall>rest. process_lines B P Q rth duration start (ls @ rest) r = process_lines B P Q rth duration start rest r') \<and>
     visits r' = visits r @ map Visit_MarketData (session_logged (ticker_symbol maps) [s]) \<and>
     symbol_map r' \<subseteq>\<^sub>m ticker_symbol maps \<and> dom (symbol_map r) \<subseteq> dom (symbol_map r') \<and>
     (\<forall>ptr ts tu te i c tk sn. s = Asked ptr ts tu te i c tk sn \<longrightarrow> i \<in> dom (symbol_map r'))"
proof (cases s)
  case (Asked ptr ts ts_utc ts_end i c ticks snapshot)
  then have ok: "0 \<le> sint i" "ticker_symbol maps i = Some (symbol_from_ib c)" "plain_contract c" "plain_text ptr" "plain_text ticks"
    using assms(3) by simp_all
  obtain k where k: "k < 2 ^ 63" "i = of_nat k" using nat_of_long [OF ok(1)] by blast
  let ?cid = "ec_connection_id (gs_requests g)"
  let ?l1 = "print_line (request_pairs ?cid ts ts_utc ptr ''reqMktData'' (of_nat k) c ticks snapshot)"
  let ?l2 = "print_line (end_pairs ?cid ts (ts_end - ts) ''reqMktData'')"
  have known: "symbol_map r (of_nat k) \<in> {None, Some (symbol_from_ib c)}"
    using assms(4) ok(2) k(2) by (cases "symbol_map r i") (auto simp: map_le_def dom_def)
  obtain r' where r': "process_line B P Q rth duration start ?l1 r = (Continue_Loop, r')"
    "symbol_map r' = (symbol_map r)(i \<mapsto> symbol_from_ib c)" "visits r' = visits r"
    using request_line_processed [OF assms(1) ok(3-5) k(1) known] k(2) by metis
  have next_line: "process_line B P Q rth duration start ?l2 r' = (Continue_Loop, r')"
    by (rule end_line_processed [OF assms(1)])
  have "symbol_map r' \<subseteq>\<^sub>m ticker_symbol maps" using assms(4) ok(2) r'(2) by (auto simp: map_le_def)
  moreover have "gs_file (session_next C D maps s g) = gs_file g @ [?l1, ?l2]"
    using Asked k(2) by (simp add: request_lines Let_def)
  moreover have "\<forall>l \<in> set [?l1, ?l2]. l \<noteq> [] \<and> one_word l"
    using request_pairs_plain(2) [OF ok(3,4,5)] end_pairs_plain(2)
    by (simp add: print_line_nonempty request_pairs_def end_pairs_def)
  ultimately show ?thesis
    using r' next_line Asked
    by (intro exI [of _ "[?l1, ?l2]"] exI [of _ r']) auto
next
  case (Heard t t' now finish e)
  then have ok: "tick_id e \<in> asked" "0 \<le> sint (tick_id e)" "heard_ok B e" "time_ok P Q rth start t"
    using assms(3) by simp_all
  obtain sy where sy: "symbol_map r (tick_id e) = Some sy" using ok(1) assms(5) by blast
  let ?l = "print_line (tick_pairs (al_connection_id (gs_events g)) t e)"
  obtain a where a: "log_event [] t t' (Tick_event e) (gs_events g) = (Inr (), a)" "al_lines a = al_lines (gs_events g) @ [?l]"
    using log_event_line [OF ok(3)] by blast
  obtain r' where r': "process_line B P Q rth duration start ?l r = (Continue_Loop, r')"
    "visits r' = visits r @ [Visit_MarketData (tick_message (symbol_map r) t e)]" "symbol_map r' = symbol_map r"
    using tick_line_read [OF assms(1) ok(3,2) sy ok(4) assms(2)] by blast
  have "tick_message (symbol_map r) t e = tick_message (ticker_symbol maps) t e"
    using tick_message_submap [OF ok(3) assms(4)] sy by blast
  moreover have "gs_file (session_next C D maps s g) = gs_file g @ [?l]"
    using Heard a by (simp add: Let_def)
  moreover have "\<forall>l \<in> set [?l]. l \<noteq> [] \<and> one_word l"
    using tick_pairs_plain(3,4) [OF ok(3)] by (simp add: print_line_nonempty)
  ultimately show ?thesis
    using r' assms(4) Heard by (intro exI [of _ "[?l]"] exI [of _ r']) auto
qed

lemma session_read:
  assumes "boost_laws B" "\<forall>a b. \<not> pto_exceeds Q a b duration" "session_ok B P Q rth start maps asked ss"
    and "symbol_map r \<subseteq>\<^sub>m ticker_symbol maps" "asked \<subseteq> dom (symbol_map r)"
  shows "\<exists>ls r'. gs_file (fold (session_next C D maps) ss g) = gs_file g @ ls \<and> (\<forall>l \<in> set ls. l \<noteq> [] \<and> one_word l) \<and>
     process_lines B P Q rth duration start ls r = (None, r') \<and>
     visits r' = visits r @ map Visit_MarketData (session_logged (ticker_symbol maps) ss)"
  using assms(3-5)
proof (induction ss arbitrary: asked g r)
  case Nil
  then show ?case by simp
next
  case (Cons s ss)
  let ?asked = "case s of Asked ptr ts tu te i c tk sn \<Rightarrow> insert i asked | _ \<Rightarrow> asked"
  have one: "session_ok B P Q rth start maps asked [s]" and rest: "session_ok B P Q rth start maps ?asked ss"
    using Cons.prems(1) by (cases s; simp)+
  obtain ls r1 where ls: "gs_file (session_next C D maps s g) = gs_file g @ ls" "\<forall>l \<in> set ls. l \<noteq> [] \<and> one_word l"
    "\<And>rest. process_lines B P Q rth duration start (ls @ rest) r = process_lines B P Q rth duration start rest r1"
    "visits r1 = visits r @ map Visit_MarketData (session_logged (ticker_symbol maps) [s])"
    "symbol_map r1 \<subseteq>\<^sub>m ticker_symbol maps" "dom (symbol_map r) \<subseteq> dom (symbol_map r1)"
    "\<And>ptr ts tu te i c tk sn. s = Asked ptr ts tu te i c tk sn \<Longrightarrow> i \<in> dom (symbol_map r1)"
    using session_next_read [where C = C and D = D and g = g, OF assms(1,2) one Cons.prems(2,3)] by blast
  have "?asked \<subseteq> dom (symbol_map r1)"
    using Cons.prems(3) ls(6) ls(7) by (cases s) auto
  from Cons.IH [OF rest ls(5) this, of "session_next C D maps s g"]
  obtain ls' r' where ls': "gs_file (fold (session_next C D maps) ss (session_next C D maps s g)) = gs_file g @ ls @ ls'"
    "\<forall>l \<in> set ls'. l \<noteq> [] \<and> one_word l" "process_lines B P Q rth duration start ls' r1 = (None, r')"
    "visits r' = visits r1 @ map Visit_MarketData (session_logged (ticker_symbol maps) ss)"
    using ls(1) by auto
  have "session_logged m (s # ss) = session_logged m [s] @ session_logged m ss" for m by (cases s) simp_all
  then show ?case
    using ls(2-4) ls' by (intro exI [of _ "ls @ ls'"] exI [of _ r']) auto
qed

text \<open>What is published: every tick of the session, under its symbol, if the socket takes it.\<close>

lemma tick_message_initialized: "heard_ok B e \<Longrightarrow> m (tick_id e) \<noteq> None \<Longrightarrow> marketdata_initialized (tick_message m t e)"
  by (cases e) (auto simp: marketdata_initialized_def value_initialized_def set_as_double_def set_field_double_def
      set_as_int_def set_field_int_def)

lemma heard_published:
  assumes "proto_codec marketdata_initialized C" "heard_ok B e" "ticker_symbol maps (tick_id e) = Some topic"
    and "ds_socket st = Some sock" "zs_faults sock = []"
  shows "ds_socket (snd (market_ewrapper C D maps t' now finish (heard_event e) st)) = Some (sock\<lparr>zs_sent := zs_sent sock @
     replay_frames (visit_messages C D (Visit_MarketData (tick_message (ticker_symbol maps) t' e)))\<rparr>)"
proof -
  let ?m = "tick_message (ticker_symbol maps) t' e"
  obtain b where b: "pb_serialize C ?m = (True, b)"
    using proto_codec.serialize_ok [OF assms(1) tick_message_initialized [OF assms(2), of "ticker_symbol maps" t']] assms(3)
    by (cases "pb_serialize C ?m") auto
  have names: "f \<in> {0, 1, 2, 3, 4, 5, 9} \<Longrightarrow> tick_name f = Inr (TickTypeNames ! f)" for f
    by (auto simp: tick_name_def tick_names)
  show ?thesis
  proof (cases e)
    case (EW_tickPrice i f p a)
    then show ?thesis
      using market_publish_ok [where set_value = "set_as_double p", OF names [of f] _ assms(4,5) refl, of maps i topic C t' b now finish] assms(2,3) b
      by (auto simp: replay_frames_def get_md_symbol_def)
  next
    case (EW_tickSize i f x)
    then show ?thesis
      using market_publish_ok [where set_value = "set_as_int x", OF names [of f] _ assms(4,5) refl, of maps i topic C t' b now finish] assms(2,3) b
      by (auto simp: replay_frames_def get_md_symbol_def)
  qed (use assms in simp_all)
qed

lemma session_sends:
  assumes "proto_codec marketdata_initialized C" "session_ok B P Q rth start maps asked ss"
    and "asked \<subseteq> dom (ticker_symbol maps)" "ds_socket (gs_out g) = Some sock" "zs_faults sock = []"
  shows "ds_socket (gs_out (fold (session_next C D maps) ss g)) = Some (sock\<lparr>zs_sent := zs_sent sock @
     replay_frames (concat (map (visit_messages C D \<circ> Visit_MarketData) (session_published (ticker_symbol maps) ss)))\<rparr>)"
  using assms(2-5)
proof (induction ss arbitrary: asked g sock)
  case Nil
  then show ?case by (simp add: replay_frames_def)
next
  case (Cons s ss)
  show ?case
  proof (cases s)
    case (Asked ptr ts ts_utc ts_end i c ticks snapshot)
    then show ?thesis
      using Cons.IH [of "insert i asked" "session_next C D maps s g" sock] Cons.prems by (auto simp: Let_def)
  next
    case (Heard t t' now finish e)
    then have ok: "tick_id e \<in> asked" "heard_ok B e" "session_ok B P Q rth start maps asked ss"
      using Cons.prems(1) by simp_all
    obtain topic where topic: "ticker_symbol maps (tick_id e) = Some topic" using ok(1) Cons.prems(2) by blast
    obtain a where a: "log_event [] t t' (Tick_event e) (gs_events g) = (Inr (), a)" "currentMicros a = t'"
      using log_event_line [OF ok(2)] by blast
    have "ds_socket (gs_out (session_next C D maps s g)) = Some (sock\<lparr>zs_sent := zs_sent sock @
        replay_frames (visit_messages C D (Visit_MarketData (tick_message (ticker_symbol maps) t' e)))\<rparr>)"
      using heard_published [OF assms(1) ok(2) topic Cons.prems(3,4)] Heard a by (simp add: Let_def)
    from Cons.IH [OF ok(3) Cons.prems(2) this] Cons.prems(4) Heard
    show ?thesis by simp
  qed
qed

lemma session_untimed:
  "map (md_timestamp_update (\<lambda>_. None)) (session_logged symbols ss) =
   map (md_timestamp_update (\<lambda>_. None)) (session_published symbols ss)"
proof -
  have "md_timestamp_update (\<lambda>_. None) (tick_message symbols t e) = md_timestamp_update (\<lambda>_. None) (tick_message symbols t' e)"
    for t t' e by (cases e) simp_all
  then show ?thesis by (induction symbols ss rule: session_logged.induct) simp_all
qed

lemma session_replayed:
  assumes "boost_laws B" "\<forall>a b. \<not> pto_exceeds Q a b duration" "session_ok B P Q rth start maps {} ss"
    and "symbol_map r \<subseteq>\<^sub>m ticker_symbol maps" "gs_file g = []" "zs_faults sock = []"
    and "read_file (contains logfile ''.gz'') logfile = Some (log_text (gs_file (fold (session_next C D maps) ss g)))"
  shows "\<exists>r'. DispatchEvents B P Q read_file logfile rth start C D duration r sock = (Inr (), r', sock\<lparr>zs_sent := zs_sent sock @
     replay_frames (concat (map (visit_messages C D \<circ> Visit_MarketData) (session_logged (ticker_symbol maps) ss)) @
       [(DATA_END, DATA_END)])\<rparr>)"
proof -
  let ?r = "r\<lparr>matchedRecords := 0, lines_read := 0, last_log_t := pt_default P, first_log_t := pt_default P,
              current_log_t := pt_default P\<rparr>"
  have r: "symbol_map ?r \<subseteq>\<^sub>m ticker_symbol maps" "{} \<subseteq> dom (symbol_map ?r)" using assms(4) by simp_all
  obtain ls r' where ls: "gs_file (fold (session_next C D maps) ss g) = ls" "\<forall>l \<in> set ls. l \<noteq> [] \<and> one_word l"
    "process_lines B P Q rth duration start ls ?r = (None, r')"
    "visits r' = visits r @ map Visit_MarketData (session_logged (ticker_symbol maps) ss)"
    using session_read [where C = C and D = D and g = g, OF assms(1-3) r] assms(5) by auto
  have "LogReader_Process B P Q read_file logfile rth duration start r = (Inr (matchedRecords r'), r')"
    using assms(7) ls by (simp add: LogReader_Process_def tokens_log_text Let_def)
  then show ?thesis
    using assms(6) ls(4) by (simp add: DispatchEvents_def dispatch_visits_send send_end)
qed


section \<open>Witnesses\<close>

definition demo_session :: "session_step list" where
  "demo_session =
     [Asked ''0x7f'' 1 2 3 2 (demo_stock ''IBM'' 2) ''236'' False,
      Heard 54000000000 54000000007 8 9 (EW_tickSize 2 0 300),
      Heard 54000000010 54000000019 20 21 (EW_tickPrice 2 4 141 1)]"

definition demo_gateway :: gateway_session where
  "demo_gateway = \<lparr>gs_requests = eclient_log_new,
     gs_events = \<lparr>al_lines = [], al_connection_id = 1, currentMicros = 0, varz_api_events = 0, varz_api_last_ts = 0,
       varz_api_event_interval_micros = 0, varz_api_event_marketdata_process_micros = 0\<rparr>,
     gs_file = [], gs_out = demo_dispatch\<rparr>"

definition demo_untimed_order :: "(int, int) pt_order" where
  "demo_untimed_order = \<lparr>pto_less = (<), pto_exceeds = (\<lambda>_ _ _. False)\<rparr>"

lemma demo_session_ok: "session_ok ref_boost int_ptime demo_untimed_order False 0 demo_maps {} demo_session"
proof -
  have d: "sint (54000000000 div 1000000 :: u64) = 54000" "uint (54000000000 mod 1000000 :: u64) = 0"
    "sint (54000000010 div 1000000 :: u64) = 54000" "uint (54000000010 mod 1000000 :: u64) = 10" by simp_all
  then have t: "time_ok int_ptime demo_untimed_order False 0 54000000000" "time_ok int_ptime demo_untimed_order False 0 54000000010"
    by (simp_all add: time_ok_def checkEXT_def as_ptime_def int_ptime_def demo_untimed_order_def EXT_START_def EXT_END_def
        micros_per_day_def)
  have "show_double 141 = show_nat 141" using show_double_of_nat [of 141] by simp
  then have p: "lexical_cast (bl_double ref_boost) (show_double 141) = Inr 141"
    using ref_boost.double_digits [of "show_nat 141"]
    by (simp add: lexical_cast_def all_digits_def show_nat_digits)
  have c: "plain_contract (demo_stock ''IBM'' 2)" "symbol_from_ib (demo_stock ''IBM'' 2) = ''IBM.STK''"
    by (simp_all add: plain_contract_def demo_stock_def blank_contract_def symbol_from_ib_def white_space_code)
  show ?thesis
    using t p c by (simp add: demo_session_def demo_maps_facts white_space_code)
qed


end
