(* ===== verification/Watcher.thy ===== *)
theory Watcher
  imports Log_Replay
begin

text \<open>
  The program that watches market data, \<^verbatim>\<open>main/watcher_main.cpp\<close>: a client of the message processor with one state per symbol,
  whose callbacks keep the quotes, derive figures from them and print a line. The state a callback is bound to is found under
  its symbol. Differences of times and the rounding of the processor's doubles are arguments.
\<close>

section \<open>State\<close>

datatype watch_event = WE_OTHER | WE_LAST | WE_TIME_CHECK

record 'pt watch =
  w_symbol :: string
  w_bid :: double
  w_ask :: double
  w_last :: double
  w_prev_last :: double
  w_mid :: double
  w_spread :: double
  w_bid_size :: i32
  w_ask_size :: i32
  w_last_size :: i32
  w_balance :: double
  w_ct :: 'pt
  w_last_timestamp :: u64
  w_count_drift :: i32
  w_count_lapse :: i32

record 'pt watch_env =
  we_time :: "'pt posix_time"
  we_lapsed :: "'pt \<Rightarrow> 'pt \<Rightarrow> bool"      \<comment> \<open>t - ct > milliseconds(max\_time\_lapse\_millis)\<close>
  we_drifted :: "'pt \<Rightarrow> 'pt \<Rightarrow> bool"     \<comment> \<open>t - ib\_time >= milliseconds(drift\_millis)\<close>
  we_rnd :: "double \<Rightarrow> double"
  we_show_time :: "'pt \<Rightarrow> string"
  we_last :: bool
  we_csv :: bool

definition watch_new :: "'pt watch_env \<Rightarrow> string \<Rightarrow> 'pt watch" where
  "watch_new E s =
     \<lparr>w_symbol = s, w_bid = 0, w_ask = 0, w_last = 0, w_prev_last = 0, w_mid = 0, w_spread = 0, w_bid_size = 0,
      w_ask_size = 0, w_last_size = 0, w_balance = 0, w_ct = pt_default (we_time E), w_last_timestamp = 0,
      w_count_drift = 0, w_count_lapse = 0\<rparr>"

section \<open>Updates\<close>

text \<open>The figures are computed after the new value is stored; sums and differences of sizes are those of \<^verbatim>\<open>int\<close>.\<close>

definition watch_balance :: "(double \<Rightarrow> double) \<Rightarrow> i32 \<Rightarrow> i32 \<Rightarrow> double" where
  "watch_balance rnd b a =
     (let total_top = of_int (sint (b + a))
      in if total_top \<noteq> 0 then rnd (rnd (100 * of_int (sint (b - a))) / total_top) else 0)"

definition watch_figures :: "(double \<Rightarrow> double) \<Rightarrow> 'pt watch \<Rightarrow> 'pt watch" where
  "watch_figures rnd s =
     s\<lparr>w_spread := rnd (w_ask s - w_bid s), w_mid := rnd (rnd (w_bid s + w_ask s) / 2),
       w_balance := watch_balance rnd (w_bid_size s) (w_ask_size s)\<rparr>"

text \<open>\<open>store\<close> stores the value in the field the callback is bound to; \<open>seconds\<close> is the value as a time.\<close>

definition watch_update ::
  "'pt watch_env \<Rightarrow> ('v \<Rightarrow> 'pt watch \<Rightarrow> 'pt watch) \<Rightarrow> ('v \<Rightarrow> u64) \<Rightarrow> 'pt \<Rightarrow> 'v :: zero \<Rightarrow> watch_event \<Rightarrow> 'pt watch \<Rightarrow>
     'pt watch" where
  "watch_update E store seconds t v e s =
     (if v = 0 then s else
      let s1 = (if e = WE_LAST then s\<lparr>w_prev_last := w_last s\<rparr> else s);
          s2 = (if we_lapsed E t (w_ct s1) then s1\<lparr>w_count_lapse := w_count_lapse s1 + 1\<rparr> else s1);
          s3 = store v (s2\<lparr>w_ct := t\<rparr>);
          s4 = watch_figures (we_rnd E) s3
      in if e = WE_TIME_CHECK \<and> we_drifted E t (as_ptime (we_time E) (seconds v * 1000000))
         then s4\<lparr>w_count_drift := w_count_drift s4 + 1\<rparr> else s4)"

section \<open>Output\<close>

definition console :: "string \<Rightarrow> string" where
  "console code = char_of (27 :: nat) # ''['' @ code @ ''m''"

definition CONSOLE_RED :: string where "CONSOLE_RED = console ''1;31''"
definition CONSOLE_GREEN :: string where "CONSOLE_GREEN = console ''1;32''"
definition CONSOLE_YELLOW :: string where "CONSOLE_YELLOW = console ''1;33''"
definition CONSOLE_MAGENTA :: string where "CONSOLE_MAGENTA = console ''1;35''"
definition CONSOLE_CYAN :: string where "CONSOLE_CYAN = console ''1;36''"
definition CONSOLE_WHITE :: string where "CONSOLE_WHITE = console ''1;37''"
definition CONSOLE_RESET :: string where "CONSOLE_RESET = console ''1;0''"
definition CONSOLE_UNDERLINE :: string where "CONSOLE_UNDERLINE = console ''1;4''"

definition quote_color :: "'pt watch \<Rightarrow> string" where
  "quote_color s =
     (if w_ask s \<le> w_last s then CONSOLE_GREEN @ (if w_last s = w_ask s then CONSOLE_UNDERLINE else [])
      else if w_last s \<le> w_bid s then CONSOLE_RED @ (if w_last s = w_bid s then CONSOLE_UNDERLINE else [])
      else if w_mid s < w_last s then CONSOLE_CYAN
      else if w_last s = w_mid s then CONSOLE_WHITE
      else if w_last s < w_mid s then CONSOLE_YELLOW
      else if w_ask s < w_bid s then CONSOLE_MAGENTA
      else CONSOLE_RESET)"

definition move_color :: "double \<Rightarrow> double \<Rightarrow> string" where
  "move_color x y = (if x = y then CONSOLE_WHITE else if y < x then CONSOLE_GREEN else CONSOLE_RED)"

text \<open>\<^verbatim>\<open>fixed\<close> with two digits, and \<^verbatim>\<open>setw(3)\<close>.\<close>

definition show_fixed2 :: "double \<Rightarrow> string" where
  "show_fixed2 x =
     (let m = nat (round_half_even (\<bar>x\<bar> * 100))
      in (if x < 0 then ''-'' else []) @ show_nat (m div 100) @ ''.'' @ pad_zeros 2 (show_nat (m mod 100)))"

definition show_signed2 :: "double \<Rightarrow> string" where
  "show_signed2 x = (if x < 0 then [] else ''+'') @ show_fixed2 x"

definition show_width3 :: "i32 \<Rightarrow> string" where
  "show_width3 n = pad_left 3 (show_int (sint n))"

definition watch_line :: "'pt watch_env \<Rightarrow> 'pt \<Rightarrow> 'pt watch \<Rightarrow> string" where
  "watch_line E t s =
     (let colored = (\<lambda>c. if we_csv E then [] else c);
          delim = (if we_csv E then '','' else ''  '');
          reset = colored CONSOLE_RESET
      in colored (quote_color s) @ we_show_time E (to_est (we_time E) t) @ delim @ w_symbol s @ delim @
         show_width3 (w_bid_size s) @ delim @ show_fixed2 (w_bid s) @ delim @ show_fixed2 (w_mid s) @ delim @
         show_fixed2 (w_ask s) @ delim @ show_width3 (w_ask_size s) @ delim @ reset @
         colored (move_color (w_last s) (w_prev_last s)) @ show_fixed2 (w_last s) @ delim @ show_width3 (w_last_size s) @
         delim @ reset @
         colored (move_color (w_balance s) 0) @ show_fixed2 (w_spread s) @ delim @
         show_width3 (w_bid_size s + w_ask_size s) @ delim @ pad_left 3 (show_signed2 (w_balance s)) @ reset)"

text \<open>The last two colors are never chosen: the color of a crossed market would need a price that compares with nothing.\<close>

lemma crossed_color_unused:
  "quote_color s \<in> {CONSOLE_GREEN, CONSOLE_GREEN @ CONSOLE_UNDERLINE, CONSOLE_RED, CONSOLE_RED @ CONSOLE_UNDERLINE,
     CONSOLE_CYAN, CONSOLE_WHITE, CONSOLE_YELLOW}"
  by (auto simp: quote_color_def)

section \<open>The program\<close>

record 'pt watcher =
  watches :: "string \<rightharpoonup> 'pt watch"
  console_lines :: "string list"

definition watch_print ::
  "'pt watch_env \<Rightarrow> string \<Rightarrow> ('v \<Rightarrow> 'pt watch \<Rightarrow> 'pt watch) \<Rightarrow> ('v \<Rightarrow> u64) \<Rightarrow> bool \<Rightarrow> watch_event \<Rightarrow> u64 \<Rightarrow> 'v :: zero \<Rightarrow>
     'pt watcher \<Rightarrow> unit cpp \<times> 'pt watcher" where
  "watch_print E key store seconds printing e ts v h =
     (case watches h key of
        None \<Rightarrow> (Inl NullDereference, h)
      | Some s \<Rightarrow>
          let t = as_ptime (we_time E) ts;
              s' = watch_update E store seconds t v e s;
              h' = h\<lparr>watches := (watches h)(key \<mapsto> s')\<rparr>
          in (Inr (), if printing then h'\<lparr>console_lines := console_lines h' @ [watch_line E t s']\<rparr> else h'))"

text \<open>The callbacks of a symbol. The check of the time is bound for the one value that is a time.\<close>

definition watch_updater :: "'pt watch_env \<Rightarrow> string \<Rightarrow> 'pt watcher value_updater" where
  "watch_updater E key =
     (let quotes = \<not> we_last E; u0 = \<lparr>int_dispatcher = Map.empty, double_dispatcher = Map.empty,
        string_dispatcher = Map.empty, timestamp_dispatcher = Map.empty\<rparr>
      in bind_timestamp ''LAST_TIMESTAMP''
           (watch_print E key (\<lambda>v s. s\<lparr>w_last_timestamp := v\<rparr>) id quotes WE_TIME_CHECK)
        (bind_int ''LAST_SIZE'' (watch_print E key (\<lambda>v s. s\<lparr>w_last_size := v\<rparr>) ucast True WE_OTHER)
        (bind_int ''ASK_SIZE'' (watch_print E key (\<lambda>v s. s\<lparr>w_ask_size := v\<rparr>) ucast quotes WE_OTHER)
        (bind_int ''BID_SIZE'' (watch_print E key (\<lambda>v s. s\<lparr>w_bid_size := v\<rparr>) ucast quotes WE_OTHER)
        (bind_double ''LAST'' (watch_print E key (\<lambda>v s. s\<lparr>w_last := v\<rparr>) (of_int \<circ> floor) True WE_LAST)
        (bind_double ''ASK'' (watch_print E key (\<lambda>v s. s\<lparr>w_ask := v\<rparr>) (of_int \<circ> floor) quotes WE_OTHER)
        (bind_double ''BID'' (watch_print E key (\<lambda>v s. s\<lparr>w_bid := v\<rparr>) (of_int \<circ> floor) quotes WE_OTHER) u0)))))))"

text \<open>
  What the main function sets up for the comma-separated symbols: a state and a handler for each, and the handler of the
  mark of the end. A symbol named twice gets a second state that nothing refers to.
\<close>

definition watcher_register ::
  "(MarketData, string) codec \<Rightarrow> 'pt watch_env \<Rightarrow> string \<Rightarrow> 'pt watcher handlers_map \<times> 'pt watcher \<Rightarrow>
     'pt watcher handlers_map \<times> 'pt watcher" where
  "watcher_register C E key = (\<lambda>(H, h).
     let (new, H1) = register_handler key (marketdata_handler C (watch_updater E key)) H;
         H2 = snd (register_handler DATA_END stop_function H1)
     in (H2, if new then h\<lparr>watches := (watches h)(key \<mapsto> watch_new E key)\<rparr> else h))"

definition watcher_main ::
  "(MarketData, string) codec \<Rightarrow> 'pt watch_env \<Rightarrow> string \<Rightarrow> 'pt watcher handlers_map \<times> 'pt watcher" where
  "watcher_main C E symbols =
     fold (watcher_register C E) (split_any '','' symbols)
       (\<lparr>handlers = Map.empty\<rparr>, \<lparr>watches = Map.empty, console_lines = []\<rparr>)"

section \<open>The figures\<close>

text \<open>A state whose derived figures are those of its quotes and sizes.\<close>

definition watch_ok :: "'pt watch_env \<Rightarrow> string \<Rightarrow> 'pt watch \<Rightarrow> bool" where
  "watch_ok E key s \<longleftrightarrow> w_symbol s = key \<and> w_spread s = we_rnd E (w_ask s - w_bid s) \<and>
     w_mid s = we_rnd E (we_rnd E (w_bid s + w_ask s) / 2) \<and>
     w_balance s = watch_balance (we_rnd E) (w_bid_size s) (w_ask_size s)"

definition watcher_ok :: "'pt watch_env \<Rightarrow> 'pt watcher \<Rightarrow> bool" where
  "watcher_ok E h \<longleftrightarrow> (\<forall>key s. watches h key = Some s \<longrightarrow> watch_ok E key s)"

definition keeps_symbol :: "('v \<Rightarrow> 'pt watch \<Rightarrow> 'pt watch) \<Rightarrow> bool" where
  "keeps_symbol store \<longleftrightarrow> (\<forall>v s. w_symbol (store v s) = w_symbol s)"

lemma watch_new_ok: "we_rnd E 0 = 0 \<Longrightarrow> watch_ok E key (watch_new E key)"
  by (simp add: watch_ok_def watch_new_def watch_balance_def)

lemma watch_update_ok:
  assumes "watch_ok E key s" "keeps_symbol store"
  shows "watch_ok E key (watch_update E store seconds t v e s)"
  using assms by (simp add: watch_ok_def watch_update_def watch_figures_def keeps_symbol_def Let_def)

lemma watch_print_ok:
  assumes "watcher_ok E h" "keeps_symbol store"
  shows "watcher_ok E (snd (watch_print E key store seconds printing e ts v h)) \<and>
     dom (watches (snd (watch_print E key store seconds printing e ts v h))) = dom (watches h)"
  using assms watch_update_ok [OF _ assms(2)]
  by (auto simp: watch_print_def watcher_ok_def Let_def split: option.splits)

lemma typed_dispatch_ok:
  assumes "I h" "\<And>cb. cb \<in> ran m \<Longrightarrow> I (snd (cb ts v h))"
  shows "I (snd (typed_dispatch m ev ts v h))"
proof (cases "m ev")
  case (Some cb)
  then have "I (snd (cb ts v h))" by (intro assms(2) ranI)
  then show ?thesis using Some by (auto simp: typed_dispatch_def split: sum.splits prod.splits)
qed (use assms(1) in \<open>simp add: typed_dispatch_def\<close>)

lemma value_updater_call_ok:
  assumes "I h"
    and "\<And>cb v. cb \<in> ran (int_dispatcher u) \<Longrightarrow> I (snd (cb ts v h))"
    and "\<And>cb v. cb \<in> ran (double_dispatcher u) \<Longrightarrow> I (snd (cb ts v h))"
    and "\<And>cb v. cb \<in> ran (string_dispatcher u) \<Longrightarrow> I (snd (cb ts v h))"
    and "\<And>cb v. cb \<in> ran (timestamp_dispatcher u) \<Longrightarrow> I (snd (cb ts v h))"
  shows "I (snd (value_updater_call u ts ev md h))"
proof -
  have "I (snd (typed_dispatch (int_dispatcher u) ev ts v h))" for v by (rule typed_dispatch_ok) (use assms in auto)
  moreover have "I (snd (typed_dispatch (double_dispatcher u) ev ts v h))" for v by (rule typed_dispatch_ok) (use assms in auto)
  moreover have "I (snd (typed_dispatch (string_dispatcher u) ev ts v h))" for v by (rule typed_dispatch_ok) (use assms in auto)
  moreover have "I (snd (typed_dispatch (timestamp_dispatcher u) ev ts v h))" for v by (rule typed_dispatch_ok) (use assms in auto)
  ultimately show ?thesis
    by (simp add: value_updater_call_def Let_def split: Value_Type.splits)
qed

lemma watch_updater_maps:
  "int_dispatcher (watch_updater E key) =
     [''BID_SIZE'' \<mapsto> watch_print E key (\<lambda>v s. s\<lparr>w_bid_size := v\<rparr>) ucast (\<not> we_last E) WE_OTHER,
      ''ASK_SIZE'' \<mapsto> watch_print E key (\<lambda>v s. s\<lparr>w_ask_size := v\<rparr>) ucast (\<not> we_last E) WE_OTHER,
      ''LAST_SIZE'' \<mapsto> watch_print E key (\<lambda>v s. s\<lparr>w_last_size := v\<rparr>) ucast True WE_OTHER]"
  "double_dispatcher (watch_updater E key) =
     [''BID'' \<mapsto> watch_print E key (\<lambda>v s. s\<lparr>w_bid := v\<rparr>) (of_int \<circ> floor) (\<not> we_last E) WE_OTHER,
      ''ASK'' \<mapsto> watch_print E key (\<lambda>v s. s\<lparr>w_ask := v\<rparr>) (of_int \<circ> floor) (\<not> we_last E) WE_OTHER,
      ''LAST'' \<mapsto> watch_print E key (\<lambda>v s. s\<lparr>w_last := v\<rparr>) (of_int \<circ> floor) True WE_LAST]"
  "string_dispatcher (watch_updater E key) = Map.empty"
  "timestamp_dispatcher (watch_updater E key) =
     [''LAST_TIMESTAMP'' \<mapsto> watch_print E key (\<lambda>v s. s\<lparr>w_last_timestamp := v\<rparr>) id (\<not> we_last E) WE_TIME_CHECK]"
  by (simp_all add: watch_updater_def bind_int_def bind_double_def bind_timestamp_def typed_bind_def map_insert_def Let_def)

lemma watch_call_ok:
  assumes "watcher_ok E h \<and> dom (watches h) = K"
  shows "watcher_ok E (snd (value_updater_call (watch_updater E key) ts ev md h)) \<and>
     dom (watches (snd (value_updater_call (watch_updater E key) ts ev md h))) = K"
proof -
  let ?I = "\<lambda>h. watcher_ok E h \<and> dom (watches h) = K"
  have cb: "?I (snd (watch_print E key store seconds printing e ts v h))"
    if "keeps_symbol store" for store :: "'v :: zero \<Rightarrow> 'a watch \<Rightarrow> 'a watch" and seconds printing e ts v
    using watch_print_ok [OF _ that, of E h] assms by blast
  show ?thesis
    by (rule value_updater_call_ok [where I = ?I, OF assms])
      (auto simp: watch_updater_maps ran_def keeps_symbol_def split: if_splits intro!: cb)
qed

section \<open>The loop\<close>

text \<open>What every handler keeps, the loop keeps, whatever arrives.\<close>

definition handlers_keep :: "('h \<Rightarrow> bool) \<Rightarrow> 'h handlers_map \<Rightarrow> bool" where
  "handlers_keep I H \<longleftrightarrow> (\<forall>k f topic data h. handlers H k = Some f \<longrightarrow> I h \<longrightarrow> I (snd (f topic data h)))"

lemma process_raw_message_keeps:
  assumes "handlers_keep I H" "I h"
  shows "I (snd (process_raw_message H i data h))"
proof (cases "handlers H i")
  case (Some f)
  then have "I (snd (f i data h))" using assms unfolding handlers_keep_def by blast
  then show ?thesis using Some by (auto simp: process_raw_message_def split: sum.splits prod.splits)
qed (use assms(2) in \<open>simp add: process_raw_message_def\<close>)

lemma processor_loop_keeps:
  assumes "handlers_keep I H" "I h"
  shows "I (snd (snd (processor_loop H ins h)))"
  using assms(2)
proof (induction "length ins" arbitrary: ins h rule: less_induct)
  case less
  have step: "I h'" if "process_raw_message H i data h = (b, h')" for i data b h'
    using process_raw_message_keeps [OF assms(1) less.prems, of i data] that by simp
  have next_loop: "I (snd (snd (processor_loop H rest h')))" if "length rest < length ins" "I h'" for rest h'
    using less.hyps that by blast
  have shorter: "length rest < length ins" if "zmq_receive ins = (x, rest)" "x \<noteq> Blocked" for x rest
    using zmq_receive_shorter [of ins] that by auto
  have shorter2: "length rest' < length ins" if "zmq_receive ins = (x, rest)" "x \<noteq> Blocked" "zmq_receive rest = (y, rest')" "y \<noteq> Blocked"
    for x rest y rest'
    using shorter [OF that(1,2)] zmq_receive_shorter [of rest] that(3,4) by auto
  show ?case
    using less.prems by (subst processor_loop.simps)
      (auto split: recv_result.splits prod.splits bool.splits dest: step intro!: next_loop intro: shorter shorter2)
qed

section \<open>Setting up\<close>

definition watcher_setup ::
  "(MarketData, string) codec \<Rightarrow> 'pt watch_env \<Rightarrow> string set \<Rightarrow> 'pt watcher handlers_map \<times> 'pt watcher \<Rightarrow> bool" where
  "watcher_setup C E keys = (\<lambda>(H, h).
     (\<forall>key f. handlers H key = Some f \<longrightarrow>
        f = stop_function \<and> key = DATA_END \<or> f = marketdata_handler C (watch_updater E key) \<and> watches h key \<noteq> None) \<and>
     (\<forall>key s. watches h key = Some s \<longrightarrow> s = watch_new E key \<and> handlers H key \<noteq> None \<and> key \<in> keys) \<and>
     (keys \<noteq> {} \<longrightarrow> handlers H DATA_END \<noteq> None) \<and> (\<forall>key \<in> keys. handlers H key \<noteq> None))"

lemma watcher_setupD:
  assumes "watcher_setup C E keys (H, h)"
  shows "handlers H k = Some f \<Longrightarrow>
      f = stop_function \<and> k = DATA_END \<or> f = marketdata_handler C (watch_updater E k) \<and> watches h k \<noteq> None"
    and "watches h k = Some s \<Longrightarrow> s = watch_new E k \<and> k \<in> keys"
    and "k \<in> keys \<Longrightarrow> handlers H k \<noteq> None"
    and "keys \<noteq> {} \<Longrightarrow> handlers H DATA_END \<noteq> None"
  using assms unfolding watcher_setup_def prod.case by (elim conjE; simp)+

lemma watcher_register_setup:
  "watcher_setup C E keys x \<Longrightarrow> watcher_setup C E (insert key keys) (watcher_register C E key x)"
  by (cases x)
    (auto simp: watcher_setup_def watcher_register_def register_handler_def map_insert_def Let_def split: option.splits prod.splits if_splits)

lemma watcher_main_setup: "watcher_setup C E (set (split_any '','' symbols)) (watcher_main C E symbols)"
proof -
  have "watcher_setup C E keys x \<Longrightarrow> watcher_setup C E (set ks \<union> keys) (fold (watcher_register C E) ks x)" for ks keys x
  proof (induction ks arbitrary: x keys)
    case (Cons k ks)
    then show ?case using Cons.IH [OF watcher_register_setup [OF Cons.prems]] by simp
  qed simp
  moreover have "watcher_setup C E {} (\<lparr>handlers = Map.empty\<rparr>, \<lparr>watches = Map.empty, console_lines = []\<rparr>)"
    by (simp add: watcher_setup_def)
  ultimately show ?thesis unfolding watcher_main_def by (metis Un_empty_right)
qed

lemma watcher_handlers_keep:
  assumes "watcher_setup C E keys (H, h0)"
  shows "handlers_keep (\<lambda>h. watcher_ok E h \<and> dom (watches h) = K) H"
proof -
  have "watcher_ok E (snd (f topic data h)) \<and> dom (watches (snd (f topic data h))) = K"
    if "handlers H k = Some f" "watcher_ok E h \<and> dom (watches h) = K" for k f topic data h
  proof -
    from assms that(1) consider "f = stop_function" | "f = marketdata_handler C (watch_updater E k)"
      unfolding watcher_setup_def by blast
    then show ?thesis
    proof cases
      case 2
      then show ?thesis
        using that(2) watch_call_ok [OF that(2)]
        by (simp add: marketdata_handler_true process_event_def split: option.split)
    qed (use that(2) in \<open>simp add: stop_function_def\<close>)
  qed
  then show ?thesis unfolding handlers_keep_def by blast
qed

text \<open>What is used of the arithmetic of doubles: it is monotone, and exact on the integers it can represent.\<close>

definition double_rounding :: "(double \<Rightarrow> double) \<Rightarrow> bool" where
  "double_rounding rnd \<longleftrightarrow> mono rnd \<and> (\<forall>i. \<bar>i\<bar> \<le> 2 ^ 53 \<longrightarrow> rnd (of_int i) = of_int i)"

lemma rounding_zero: "double_rounding rnd \<Longrightarrow> rnd 0 = 0"
  unfolding double_rounding_def by (metis abs_zero of_int_0 zero_le_numeral zero_le_power)

lemma watch_balance_bounded:
  assumes "double_rounding rnd" "0 \<le> sint b" "0 \<le> sint a" "sint b + sint a < 2 ^ 31"
  shows "\<bar>watch_balance rnd b a\<bar> \<le> 100"
proof (cases "sint b + sint a = 0")
  case True
  have "sint (b + a) = sint b + sint a" using assms(2-4) by (simp add: sint_word_ariths signed_take_bit_int_eq_self)
  then show ?thesis using True by (simp add: watch_balance_def)
next
  case False
  let ?t = "of_int (sint b + sint a) :: double" and ?d = "of_int (sint b - sint a) :: double"
  have sums: "sint (b + a) = sint b + sint a" "sint (b - a) = sint b - sint a"
    using assms(2-4) by (simp_all add: sint_word_ariths signed_take_bit_int_eq_self)
  have pos: "0 < ?t" using False assms(2,3) by (simp only: of_int_0_less_iff)
  have "\<bar>100 * (sint b - sint a)\<bar> \<le> 2 ^ 53" using assms(2-4) by simp
  then have "rnd (of_int (100 * (sint b - sint a))) = of_int (100 * (sint b - sint a))"
    using assms(1) unfolding double_rounding_def by blast
  then have val: "watch_balance rnd b a = rnd (100 * ?d / ?t)"
    using pos by (simp add: watch_balance_def sums)
  have d: "- ?t \<le> ?d" "?d \<le> ?t" using assms(2,3) by (simp_all only: of_int_le_iff of_int_minus [symmetric])
  then have "100 * ?d / ?t \<le> of_int 100" "of_int (- 100) \<le> 100 * ?d / ?t"
    using pos by (simp_all add: field_simps)
  then have "rnd (100 * ?d / ?t) \<le> rnd (of_int 100)" "rnd (of_int (- 100)) \<le> rnd (100 * ?d / ?t)"
    using assms(1) by (auto simp: double_rounding_def mono_def)
  moreover have "rnd (of_int i) = of_int i" if "\<bar>i\<bar> \<le> 100" for i
    using assms(1) that unfolding double_rounding_def by simp
  from this [of 100] this [of "- 100"] have "rnd (of_int 100) = of_int 100" "rnd (of_int (- 100)) = of_int (- 100)" by simp_all
  ultimately show ?thesis by (simp add: val abs_le_iff)
qed

text \<open>
  C14. The figures of the watcher. Whatever frames arrive, every state is that of a symbol the watcher was asked for, its
  spread, middle and balance are those of the quotes and sizes it shows, and the balance is a percentage as long as
  the sizes are not negative and their sum is an int.
\<close>

theorem watcher_figures_hold:
  assumes "double_rounding (we_rnd E)" and "watcher_main C E symbols = (H, h0)"
    and "processor_loop H ins h0 = (e, rest, h)" and "watches h key = Some s"
  shows "key \<in> set (split_any '','' symbols) \<and> w_symbol s = key \<and> w_spread s = we_rnd E (w_ask s - w_bid s) \<and>
    w_mid s = we_rnd E (we_rnd E (w_bid s + w_ask s) / 2) \<and>
    w_balance s = watch_balance (we_rnd E) (w_bid_size s) (w_ask_size s) \<and>
    (0 \<le> sint (w_bid_size s) \<longrightarrow> 0 \<le> sint (w_ask_size s) \<longrightarrow> sint (w_bid_size s) + sint (w_ask_size s) < 2 ^ 31 \<longrightarrow>
       \<bar>w_balance s\<bar> \<le> 100)"
proof -
  have su: "watcher_setup C E (set (split_any '','' symbols)) (H, h0)"
    using watcher_main_setup [of C E symbols] assms(2) by simp
  have "s = watch_new E key" if "watches h0 key = Some s" for key s
    using watcher_setupD(2) [OF su that] by simp
  then have "watcher_ok E h0 \<and> dom (watches h0) = dom (watches h0)"
    using watch_new_ok [OF rounding_zero [OF assms(1)]] unfolding watcher_ok_def by blast
  from processor_loop_keeps [OF watcher_handlers_keep [OF su] this, of ins]
  have "watcher_ok E h" "dom (watches h) = dom (watches h0)" using assms(3) by simp_all
  moreover have "dom (watches h0) \<subseteq> set (split_any '','' symbols)"
    using su by (auto simp: watcher_setup_def)
  ultimately have "key \<in> set (split_any '','' symbols)" "watch_ok E key s"
    using assms(4) unfolding watcher_ok_def by blast+
  then show ?thesis
    using watch_balance_bounded [OF assms(1)] by (simp add: watch_ok_def)
qed

section \<open>The quotes shown\<close>

text \<open>The prices of one kind that a message brings a symbol; a price of zero is not one.\<close>

definition quoted :: "string \<Rightarrow> string \<Rightarrow> MarketData \<Rightarrow> double list" where
  "quoted key ev md =
     (let x = get_double_value (get_md_value md)
      in if get_md_symbol md = key \<and> get_md_event md = ev \<and> get_value_type (get_md_value md) = Value_Type_DOUBLE \<and> x \<noteq> 0
         then [x] else [])"

definition watch_message :: "'pt watch_env \<Rightarrow> MarketData \<Rightarrow> 'pt watcher \<Rightarrow> 'pt watcher" where
  "watch_message E md h =
     snd (value_updater_call (watch_updater E (get_md_symbol md)) (get_md_timestamp md) (get_md_event md) md h)"

lemma watch_print_other:
  "key' \<noteq> key \<Longrightarrow> watches (snd (watch_print E key store seconds printing e ts v h)) key' = watches h key'"
  by (simp add: watch_print_def Let_def split: option.splits)

lemma watch_print_at:
  "watches h key = Some s \<Longrightarrow> watch_print E key store seconds printing e ts v h = (Inr (), h') \<Longrightarrow>
     watches h' key = Some (watch_update E store seconds (as_ptime (we_time E) ts) v e s)"
  by (auto simp: watch_print_def Let_def)

lemma watch_print_returns:
  "watches h key = Some s \<Longrightarrow> \<exists>h'. watch_print E key store seconds printing e ts v h = (Inr (), h')"
  by (simp add: watch_print_def Let_def)

definition quotes :: "'pt watch \<Rightarrow> double \<times> double \<times> double" where
  "quotes s = (w_bid s, w_ask s, w_last s)"

lemma watch_update_quotes:
  "quotes (watch_update E (\<lambda>v s. s\<lparr>w_bid := v\<rparr>) f t x e s) = (if x = 0 then w_bid s else x, w_ask s, w_last s)"
  "quotes (watch_update E (\<lambda>v s. s\<lparr>w_ask := v\<rparr>) f t x e s) = (w_bid s, if x = 0 then w_ask s else x, w_last s)"
  "quotes (watch_update E (\<lambda>v s. s\<lparr>w_last := v\<rparr>) f t x e s) = (w_bid s, w_ask s, if x = 0 then w_last s else x)"
  "quotes (watch_update E (\<lambda>v s. s\<lparr>w_bid_size := v\<rparr>) g t n e s) = (w_bid s, w_ask s, w_last s)"
  "quotes (watch_update E (\<lambda>v s. s\<lparr>w_ask_size := v\<rparr>) g t n e s) = (w_bid s, w_ask s, w_last s)"
  "quotes (watch_update E (\<lambda>v s. s\<lparr>w_last_size := v\<rparr>) g t n e s) = (w_bid s, w_ask s, w_last s)"
  "quotes (watch_update E (\<lambda>v s. s\<lparr>w_last_timestamp := v\<rparr>) i t u e s) = (w_bid s, w_ask s, w_last s)"
  by (simp_all add: quotes_def watch_update_def watch_figures_def Let_def)

definition quoted_in :: "string \<Rightarrow> MarketData \<Rightarrow> double \<times> double \<times> double \<Rightarrow> double \<times> double \<times> double" where
  "quoted_in key md = (\<lambda>(b, a, l). (last (b # quoted key ''BID'' md), last (a # quoted key ''ASK'' md), last (l # quoted key ''LAST'' md)))"

lemma watch_message_other:
  assumes "get_md_symbol md \<noteq> key"
  shows "watches (watch_message E md h) key = watches h key"
  unfolding watch_message_def
  by (rule value_updater_call_ok [where I = "\<lambda>h'. watches h' key = watches h key"])
    (use assms in \<open>auto simp: watch_updater_maps ran_def watch_print_other split: if_splits\<close>)

lemma dispatched_at:
  assumes "watches h key = Some s" "m ev = Some (watch_print E key store seconds printing e)"
  shows "watches (snd (typed_dispatch m ev ts v h)) key = Some (watch_update E store seconds (as_ptime (we_time E) ts) v e s)"
  using assms by (simp add: typed_dispatch_def watch_print_def Let_def)

lemma dispatched_none: "m ev = None \<Longrightarrow> snd (typed_dispatch m ev ts v h) = h"
  by (simp add: typed_dispatch_def)

lemma watch_message_at:
  assumes "watches h key = Some s"
  shows "\<exists>s'. watches (watch_message E md h) key = Some s' \<and> quotes s' = quoted_in key md (quotes s)"
proof (cases "get_md_symbol md = key")
  case False
  then have "watches (watch_message E md h) key = Some s" by (simp add: watch_message_other assms)
  with False show ?thesis by (simp add: quoted_in_def quoted_def quotes_def)
next
  case True
  let ?ev = "get_md_event md" and ?v = "get_md_value md"
  show ?thesis
  proof (cases "get_value_type ?v")
    case Value_Type_DOUBLE
    then have call: "watch_message E md h =
        snd (typed_dispatch (double_dispatcher (watch_updater E key)) ?ev (get_md_timestamp md) (get_double_value ?v) h)"
      by (simp add: watch_message_def value_updater_call_def True Let_def)
    consider "?ev = ''BID''" | "?ev = ''ASK''" | "?ev = ''LAST''" | "?ev \<notin> {''BID'', ''ASK'', ''LAST''}"
      by blast
    then show ?thesis
      by cases (use assms Value_Type_DOUBLE True in \<open>simp_all add: call dispatched_none watch_updater_maps dispatched_at watch_update_quotes
          quoted_in_def quoted_def Let_def quotes_def [of s]\<close>)
  next
    case Value_Type_INT
    then have call: "watch_message E md h =
        snd (typed_dispatch (int_dispatcher (watch_updater E key)) ?ev (get_md_timestamp md) (ucast (get_int_value ?v)) h)"
      by (simp add: watch_message_def value_updater_call_def True Let_def)
    consider "?ev = ''BID_SIZE''" | "?ev = ''ASK_SIZE''" | "?ev = ''LAST_SIZE''" | "?ev \<notin> {''BID_SIZE'', ''ASK_SIZE'', ''LAST_SIZE''}"
      by blast
    then show ?thesis
      by cases (use assms Value_Type_INT True in \<open>simp_all add: call dispatched_none watch_updater_maps dispatched_at watch_update_quotes
          quoted_in_def quoted_def quotes_def [of s]\<close>)
  next
    case Value_Type_STRING
    then show ?thesis
      using assms by (simp add: watch_message_def value_updater_call_def True Let_def dispatched_none watch_updater_maps quoted_in_def quoted_def quotes_def [of s])
  next
    case Value_Type_TIMESTAMP
    then have call: "watch_message E md h = snd (typed_dispatch (timestamp_dispatcher (watch_updater E key)) ?ev
        (get_md_timestamp md) (case_option 0 id (timestamp_value ?v)) h)"
      by (simp add: watch_message_def value_updater_call_def True Let_def)
    consider "?ev = ''LAST_TIMESTAMP''" | "?ev \<noteq> ''LAST_TIMESTAMP''"
      by blast
    then show ?thesis
      by cases (use assms Value_Type_TIMESTAMP True in \<open>simp_all add: call dispatched_none watch_updater_maps dispatched_at watch_update_quotes
          quoted_in_def quoted_def quotes_def [of s]\<close>)
  qed
qed

lemma last_after: "last (last (b # xs) # ys) = last (b # xs @ ys)"
  by (cases ys) simp_all

lemma watch_messages_at:
  assumes "watches h key = Some s"
  shows "\<exists>s'. watches (fold (watch_message E) mds h) key = Some s' \<and>
     quotes s' = (last (w_bid s # concat (map (quoted key ''BID'') mds)), last (w_ask s # concat (map (quoted key ''ASK'') mds)),
       last (w_last s # concat (map (quoted key ''LAST'') mds)))"
  using assms
proof (induction mds arbitrary: h s)
  case Nil
  then show ?case by (simp add: quotes_def)
next
  case (Cons md mds)
  obtain s1 where s1: "watches (watch_message E md h) key = Some s1" "quotes s1 = quoted_in key md (quotes s)"
    using watch_message_at [OF Cons.prems, of E md] by blast
  have "w_bid s1 = last (w_bid s # quoted key ''BID'' md)" "w_ask s1 = last (w_ask s # quoted key ''ASK'' md)"
    "w_last s1 = last (w_last s # quoted key ''LAST'' md)"
    using s1(2) by (simp_all only: quotes_def quoted_in_def prod.case prod.inject)
  then show ?case using Cons.IH [OF s1(1)] by (simp only: fold.simps o_apply list.map concat.simps last_after)
qed

lemma watch_messages_ok:
  "watcher_ok E h \<Longrightarrow> watcher_ok E (fold (watch_message E) mds h)"
  by (induction mds arbitrary: h) (simp_all add: watch_message_def watch_call_ok [where K = "dom _"])

text \<open>
  What the watcher does with a stream of complete messages of its symbols that ends with the mark of the end: each goes to
  the callbacks of its symbol, and the loop stops at the mark.
\<close>

lemma watcher_run:
  assumes "proto_codec marketdata_initialized C" "pb_parse C [] = None" "watcher_setup C E keys (H, h0)"
    and "\<forall>md \<in> set mds. marketdata_initialized md \<and> get_md_symbol md \<in> keys" "[] \<notin> keys" "DATA_END \<notin> keys" "keys \<noteq> {}"
  shows "processor_loop H (delivered (replay_frames (concat (map (visit_messages C D \<circ> Visit_MarketData) mds) @
      [(DATA_END, DATA_END)]))) h = (Stopped, [], fold (watch_message E) mds h)"
proof -
  have bound: "f = stop_function \<and> k = DATA_END \<or> f = marketdata_handler C (watch_updater E k) \<and> watches h0 k \<noteq> None"
    if "handlers H k = Some f" for k f
    using watcher_setupD(1) [OF assms(3) that] .
  have stop: "handlers H DATA_END = Some stop_function"
  proof -
    obtain f where f: "handlers H DATA_END = Some f" using watcher_setupD(4) [OF assms(3,7)] by blast
    moreover have "watches h0 DATA_END = None"
      using watcher_setupD(2) [OF assms(3), of DATA_END] assms(6) by (cases "watches h0 DATA_END") auto
    ultimately show ?thesis using bound [OF f] by simp
  qed
  have handler: "handlers H k = Some (marketdata_handler C (watch_updater E k))" if in_keys: "k \<in> keys" for k
  proof -
    obtain f where f: "handlers H k = Some f" using watcher_setupD(3) [OF assms(3) in_keys] by blast
    then show ?thesis using bound [OF f] assms(6) in_keys by auto
  qed
  have parts: "no_empty_part (concat (map (visit_messages C D \<circ> Visit_MarketData) mds) @ [(DATA_END, DATA_END)]) \<and>
    run_messages H (concat (map (visit_messages C D \<circ> Visit_MarketData) mds) @ [(DATA_END, DATA_END)]) h =
      (Stopped, [], fold (watch_message E) mds h)"
    using assms(4)
  proof (induction mds arbitrary: h)
    case Nil
    then show ?case by (simp add: no_empty_part_def DATA_END_def process_raw_message_def stop [unfolded DATA_END_def] stop_function_def)
  next
    case (Cons md mds)
    have md: "marketdata_initialized md" "get_md_symbol md \<in> keys" using Cons.prems by simp_all
    obtain b where b: "pb_serialize C md = (True, b)"
      using proto_codec.serialize_ok [OF assms(1) md(1)] by (cases "pb_serialize C md") auto
    have p: "pb_parse C b = Some md" using proto_codec.parse_serialize [OF assms(1) md(1)] b by simp
    then have "b \<noteq> []" using assms(2) by auto
    moreover have "get_md_symbol md \<noteq> []" using md(2) assms(5) by auto
    ultimately show ?case
      using Cons b p handler [OF md(2)]
      by (simp add: no_empty_part_def process_raw_message_def marketdata_handler_true process_event_def watch_message_def)
  qed
  then show ?thesis
    unfolding delivered_replay_frames by (simp only: processor_loop_run_messages) (simp add: Let_def)
qed

text \<open>
  C13. The watcher shows the last quotes. From a stream of messages of the symbols it watches that ends with the mark of the
  end, as a replay sends it, the watcher ends with, for every symbol, the last bid, ask and trade of the stream that was
  not zero, zero if there was none, and with the spread and the middle of these; it stops at the mark.
\<close>

theorem watcher_shows_last_quotes:
  assumes "double_rounding (we_rnd E)" and "proto_codec marketdata_initialized C" and "pb_parse C [] = None"
    and "watcher_main C E symbols = (H, h0)" and "keys = set (split_any '','' symbols)" and "[] \<notin> keys" and "DATA_END \<notin> keys"
    and "\<forall>md \<in> set mds. marketdata_initialized md \<and> get_md_symbol md \<in> keys" and "key \<in> keys"
  shows "\<exists>h s. processor_loop H (delivered (replay_frames (concat (map (visit_messages C D \<circ> Visit_MarketData) mds) @
        [(DATA_END, DATA_END)]))) h0 = (Stopped, [], h) \<and> watches h key = Some s \<and>
     w_bid s = last (0 # concat (map (quoted key ''BID'') mds)) \<and>
     w_ask s = last (0 # concat (map (quoted key ''ASK'') mds)) \<and>
     w_last s = last (0 # concat (map (quoted key ''LAST'') mds)) \<and>
     w_spread s = we_rnd E (w_ask s - w_bid s) \<and> w_mid s = we_rnd E (we_rnd E (w_bid s + w_ask s) / 2)"
proof -
  have su: "watcher_setup C E keys (H, h0)" using watcher_main_setup [of C E symbols] assms(4,5) by simp
  have run: "processor_loop H (delivered (replay_frames (concat (map (visit_messages C D \<circ> Visit_MarketData) mds) @
      [(DATA_END, DATA_END)]))) h0 = (Stopped, [], fold (watch_message E) mds h0)"
    by (rule watcher_run [OF assms(2,3) su assms(8,6,7)]) (use assms(9) in blast)
  have new: "s = watch_new E k" if "watches h0 k = Some s" for k s
    using watcher_setupD(2) [OF su that] by simp
  then have "watcher_ok E h0"
    using watch_new_ok [OF rounding_zero [OF assms(1)]] unfolding watcher_ok_def by blast
  then have ok: "watcher_ok E (fold (watch_message E) mds h0)" by (rule watch_messages_ok)
  have h0: "watches h0 key = Some (watch_new E key)"
  proof -
    obtain f where "handlers H key = Some f" using watcher_setupD(3) [OF su assms(9)] by blast
    then have "watches h0 key \<noteq> None" using watcher_setupD(1) [OF su] assms(7,9) by blast
    then show ?thesis using new by blast
  qed
  obtain s where s: "watches (fold (watch_message E) mds h0) key = Some s"
    "quotes s = (last (0 # concat (map (quoted key ''BID'') mds)), last (0 # concat (map (quoted key ''ASK'') mds)),
       last (0 # concat (map (quoted key ''LAST'') mds)))"
    using watch_messages_at [OF h0, of E mds] by (auto simp: watch_new_def)
  moreover have "watch_ok E key s" using ok s(1) unfolding watcher_ok_def by blast
  ultimately show ?thesis using run by (auto simp: quotes_def watch_ok_def)
qed

section \<open>Witnesses\<close>

text \<open>A rounding to multiples of 1/1024.\<close>

definition demo_rnd :: "double \<Rightarrow> double" where
  "demo_rnd x = of_int \<lfloor>x * 1024\<rfloor> / 1024"

definition demo_watch_env :: "int watch_env" where
  "demo_watch_env = \<lparr>we_time = int_ptime, we_lapsed = (\<lambda>t c. t - c > 10000000), we_drifted = (\<lambda>t i. t - i \<ge> 1500000),
     we_rnd = demo_rnd, we_show_time = show_int, we_last = False, we_csv = True\<rparr>"

lemma demo_rounding: "double_rounding (we_rnd demo_watch_env)"
proof -
  have "mono demo_rnd"
    by (rule monoI) (simp add: demo_rnd_def divide_right_mono floor_mono)
  moreover have "demo_rnd (of_int i) = of_int i" for i
  proof -
    have "(of_int i * 1024 :: double) = of_int (i * 1024)" by simp
    then show ?thesis unfolding demo_rnd_def by (simp only: floor_of_int)
  qed
  ultimately show ?thesis by (simp add: double_rounding_def demo_watch_env_def)
qed

definition demo_quote :: "string \<Rightarrow> double \<Rightarrow> MarketData" where
  "demo_quote ev x = \<lparr>md_timestamp = Some 1000000, md_symbol = Some ''SPY.STK'', md_event = Some ev,
     md_value = Some (set_as_double x Value_default), md_contract_id = Some 7\<rparr>"

lemma demo_quoted [simp]:
  "quoted key ev (demo_quote ev' x) = (if key = ''SPY.STK'' \<and> ev = ev' \<and> x \<noteq> 0 then [x] else [])"
  by (auto simp: quoted_def demo_quote_def get_md_symbol_def get_md_event_def get_md_value_def get_value_type_def
      get_double_value_def set_as_double_def set_field_double_def)

lemma demo_keys: "set (split_any '','' ''SPY.STK'') = {''SPY.STK''}"
  by simp

theorem watcher_shows_last_quotes_witness:
  "\<exists>H h0 h s. watcher_main md_codec demo_watch_env ''SPY.STK'' = (H, h0) \<and>
     processor_loop H (delivered (replay_frames (concat (map (visit_messages md_codec no_depth_codec \<circ> Visit_MarketData)
         [demo_quote ''BID'' 140, demo_quote ''ASK'' 142, demo_quote ''BID'' 141, demo_quote ''ASK'' 0]) @
        [(DATA_END, DATA_END)]))) h0 = (Stopped, [], h) \<and>
     watches h ''SPY.STK'' = Some s \<and> w_bid s = 141 \<and> w_ask s = 142"
proof -
  obtain H h0 where main: "watcher_main md_codec demo_watch_env ''SPY.STK'' = (H, h0)" by (rule prod.exhaust)
  have md_codec_empty: "pb_parse md_codec [] = None" by (simp add: md_codec_def)
  have init: "marketdata_initialized (demo_quote ev x) \<and> get_md_symbol (demo_quote ev x) = ''SPY.STK''" for ev x
    by (simp add: demo_quote_def marketdata_initialized_def value_initialized_def set_as_double_def set_field_double_def get_md_symbol_def)
  show ?thesis
    using watcher_shows_last_quotes [where D = no_depth_codec and key = "''SPY.STK''" and mds = "[demo_quote ''BID'' 140, demo_quote ''ASK'' 142,
        demo_quote ''BID'' 141, demo_quote ''ASK'' 0]", OF demo_rounding md_codec.proto_codec_axioms md_codec_empty main refl]
      init main
    unfolding demo_keys by (auto simp: DATA_END_def)
qed

theorem watcher_figures_hold_witness:
  "\<exists>H h0 h s. watcher_main md_codec demo_watch_env ''SPY.STK'' = (H, h0) \<and>
     processor_loop H (delivered (replay_frames (concat (map (visit_messages md_codec no_depth_codec \<circ> Visit_MarketData)
         [demo_quote ''BID'' 140, demo_quote ''ASK'' 142]) @ [(DATA_END, DATA_END)]))) h0 = (Stopped, [], h) \<and>
     watches h ''SPY.STK'' = Some s \<and> w_symbol s = ''SPY.STK'' \<and> w_bid s = 140 \<and> w_ask s = 142 \<and> w_spread s = 2"
proof -
  let ?mds = "[demo_quote ''BID'' 140, demo_quote ''ASK'' 142]"
  obtain H h0 where main: "watcher_main md_codec demo_watch_env ''SPY.STK'' = (H, h0)" by (rule prod.exhaust)
  have md_codec_empty: "pb_parse md_codec [] = None" by (simp add: md_codec_def)
  have init: "marketdata_initialized (demo_quote ev x) \<and> get_md_symbol (demo_quote ev x) = ''SPY.STK''" for ev x
    by (simp add: demo_quote_def marketdata_initialized_def value_initialized_def set_as_double_def set_field_double_def get_md_symbol_def)
  have su: "watcher_setup md_codec demo_watch_env {''SPY.STK''} (H, h0)"
    using watcher_main_setup [of md_codec demo_watch_env "''SPY.STK''"] main by simp
  have h0: "watches h0 ''SPY.STK'' = Some (watch_new demo_watch_env ''SPY.STK'')"
    using main by (auto simp: watcher_main_def watcher_register_def register_handler_def map_insert_def DATA_END_def)
  have run: "processor_loop H (delivered (replay_frames (concat (map (visit_messages md_codec no_depth_codec \<circ> Visit_MarketData) ?mds) @
      [(DATA_END, DATA_END)]))) h0 = (Stopped, [], fold (watch_message demo_watch_env) ?mds h0)"
    by (rule watcher_run [OF md_codec.proto_codec_axioms md_codec_empty su]) (use init in \<open>simp_all add: DATA_END_def\<close>)
  obtain s where s: "watches (fold (watch_message demo_watch_env) ?mds h0) ''SPY.STK'' = Some s" "quotes s = (140, 142, 0)"
    using watch_messages_at [OF h0, of demo_watch_env ?mds] by (auto simp: watch_new_def)
  have "we_rnd demo_watch_env 2 = 2" by (simp add: demo_watch_env_def demo_rnd_def)
  then show ?thesis
    using watcher_figures_hold [OF demo_rounding main run s(1)] s main run by (auto simp: quotes_def)
qed

end
