(* ===== verification/Spec2Isabelle.thy ===== *)
theory Spec2Isabelle
  imports Ohlc Pipeline Proto_Values Historian_Laws Ticker_Map Log_Reader_Laws Market_Feed Reactor_Laws Manager_Laws Api_Messages Connector
    Connector_Laws Gateway Initiator Subscriber Loader_Laws Log_Replay Log_Session Watcher
begin

text \<open>
  A verification library for the trading platform under \<^verbatim>\<open>src/src/cpp\<close>.

  \<^bold>\<open>The program and how its parts interact.\<close> Gateway programs (\<^verbatim>\<open>main/em.hpp\<close>, \<^verbatim>\<open>cm.hpp\<close>, \<^verbatim>\<open>fh.hpp\<close>) start an
  initiator, which opens one connector per session. A connector holds the connection to the broker (a driver with a
  listener thread), takes requests from a message socket and publishes what the broker reports, as pairs of a topic and a
  protocol buffer. Publishers relay these messages; message processors and market data handlers in client programs
  receive them and call typed callbacks, among them the moving windows and indicators. Order and contract managers send
  requests to a gateway and match the answers. The historian stores market data in LevelDB and answers queries, in
  process and as a service. The log reader replays the event log of a session as market data.

  \<^bold>\<open>Which theory models what.\<close> All paths are below \<^verbatim>\<open>src/src/cpp\<close>. Every definition has the name of the function or type
  it models unless HOL has that name.

    \<^item> \<open>Prelude\<close>: machine words, errors (\<open>cpp_error\<close>, \<open>'a cpp\<close>), decimal output, shared lemmas. \<open>Boost_Strings\<close>: the parts of
      Boost and of the standard streams used on text.
    \<^item> \<open>Time_Policy\<close>, \<open>Samplers\<close>, \<open>Ring_Buffer\<close>, \<open>Moving_Window\<close>, \<open>Window_Laws\<close>, \<open>Window_Bars\<close>, \<open>Ohlc\<close>, \<open>Pipeline\<close>: \<^verbatim>\<open>common/time_utils\<close>,
      \<^verbatim>\<open>moving_window*.hpp\<close>, \<^verbatim>\<open>ohlc.hpp\<close> and \<^verbatim>\<open>platform/indicator.hpp\<close>, \<^verbatim>\<open>pipeline.hpp\<close>. The state of a window is its ring buffer,
      the time and value of its current sample and its tree of derived series; an observation is a step on it.
    \<^item> \<open>Proto_Types\<close>, \<open>Proto_Values\<close>, \<open>Wire\<close>: the messages of \<^verbatim>\<open>proto/*.proto\<close> as records of optional fields, the typed views of
      \<^verbatim>\<open>proto/common.hpp\<close> and \<^verbatim>\<open>historian.hpp\<close>, and an executable serialisation used in witnesses.
    \<^item> \<open>Leveldb\<close>, \<open>Historian_Db\<close>, \<open>Historian_Laws\<close>, \<open>Historian_Reactor\<close>, \<open>Reactor_Laws\<close>: \<^verbatim>\<open>historian/\<close>, the database with its keys and
      index records, and the service with its client.
    \<^item> \<open>Ticker_Id\<close>, \<open>Contract_Symbol\<close>, \<open>Marshall\<close>, \<open>Ticker_Map\<close>: \<^verbatim>\<open>ib/ticker_id.cpp\<close>, \<^verbatim>\<open>platform/contract_symbol.cpp\<close>, \<^verbatim>\<open>ib/api966/marshall_*.cpp\<close>,
      \<^verbatim>\<open>ib/TickerMap.cpp\<close>: ids, symbols and contracts.
    \<^item> \<open>Log_Reader\<close>, \<open>Log_Reader_Laws\<close>: \<^verbatim>\<open>service/LogReader*.{cpp,hpp}\<close>.
    \<^item> \<open>Zmq\<close>, \<open>Handlers\<close>, \<open>Event_Dispatch\<close>, \<open>Market_Feed\<close>: frames and the publisher (\<^verbatim>\<open>zmq/\<close>, \<^verbatim>\<open>ZmqProtoBuffer.hpp\<close>), the handlers and the
      message processor (\<^verbatim>\<open>platform/\<close>), the broker's events (\<^verbatim>\<open>ib/*EventDispatcher*\<close>), and their composition.
    \<^item> \<open>Managers\<close>, \<open>Manager_Laws\<close>: \<^verbatim>\<open>service/OrderManager.cpp\<close>, \<^verbatim>\<open>ContractManager.cpp\<close>, \<^verbatim>\<open>common/async_response.hpp\<close>.
    \<^item> \<open>Api_Messages\<close>, \<open>Connector\<close>, \<open>Connector_Laws\<close>: the requests of a gateway and the inbound side of a connector
      (\<^verbatim>\<open>ib/api966/ApiMessages.hpp\<close>, \<^verbatim>\<open>ib/ProtoBufferApiMessage.hpp\<close>, \<^verbatim>\<open>ib/SocketConnectorBase.hpp\<close>, \<^verbatim>\<open>zmq/Reactor.cpp\<close>).
    \<^item> \<open>Eclient_Driver\<close>, \<open>Gateway\<close>, \<open>Initiator\<close>: the driver as a transition system (\<^verbatim>\<open>ib/AsioEClientDriver.cpp\<close>), connecting and the
      outbound channels, and \<^verbatim>\<open>ib/SocketInitiator.cpp\<close> with its settings.
    \<^item> \<open>Subscriber\<close>: \<^verbatim>\<open>service/ManagedAgent.hpp\<close> and \<^verbatim>\<open>MarketDataSubscriber.hpp\<close>, the loop that feeds market data agents.
    \<^item> \<open>Historian_Loader\<close>, \<open>Loader_Laws\<close>: \<^verbatim>\<open>main/historian_loader_main.cpp\<close>, the program that loads event logs into the database;
      its state is the table of ids, the table of sessions and the database.
    \<^item> \<open>Api_Log\<close>, \<open>Log_Replay\<close>, \<open>Log_Session\<close>: \<^verbatim>\<open>ib/api966/ApiImpl.cpp\<close> with \<^verbatim>\<open>ostream.cpp\<close>, the lines of the gateway's log, one constructor
      per event and call; \<^verbatim>\<open>service/LogReaderZmq.cpp\<close>, the replay of a log over a socket; and a session of the gateway composed
      with the replay of its log.
    \<^item> \<open>Watcher\<close>: \<^verbatim>\<open>main/watcher_main.cpp\<close>, a client of the processor that keeps the quotes of each symbol and prints them.

  \<^bold>\<open>Interfaces.\<close> What the program takes from libraries is an argument: \<open>boost_lib\<close> with \<open>boost_laws\<close>, \<open>leveldb\<close> with its laws,
  the codecs of protocol buffers with \<open>proto_codec\<close>, the ring buffer, the registry contract shared by the factory and the
  map of handlers. Each locale is interpreted on the model's definitions or, for a library, on an executable reference
  that the witnesses use. A socket is the list of frames and errors it will deliver, the list running out meaning
  that a receive waits, or the frames it has accepted and the faults to come. A double is a rational number with the rounding
  as an argument where the program computes; times and counters keep the width of their C++ types.

  \<^bold>\<open>What the lemmas show.\<close> The windows hold the right sample of every period and the fast copy equals the slow one. The
  database's index stays consistent and a query returns exactly the records of its range. The service gives the same answer
  as the database. A tick reaches its callback through registration, dispatch, frames and processor. The connector's loop
  implements an abstract server with one code per request; the listener of a driver starts and stops once; connecting ends.
  The replay of a session's log gives
  what the session published, and reaches a client that listens; the watcher shows the last quotes of such a stream. The loader asks nothing of the
  database but writes of admitted records. In all interleavings of an order manager answers stay with their orders. Ids, dates, flags and contracts survive their round
  trips. Where the code goes wrong the theorem says so, for example for unpadded keys, shared publishers, a listener that has
  ended, and answers that come before their registration.

  \<^bold>\<open>Termination, bounds and fuel.\<close> Loops over frames recurse on the frames that are left, which every receive shortens. The
  attempts to connect are a list of the length \<^verbatim>\<open>maxAttempts\<close>, and a channel's retries have the measure 5 minus the count.
  The decimal exponent of a double is searched with fuel 700, more than the range of the exponents of doubles (-324 to 308).
  A loop that may run forever in C++ ends in \<open>Waiting\<close> when nothing more arrives.

  \<^bold>\<open>Not modelled.\<close> The vendored parts of Boost (\<^verbatim>\<open>boost/iostreams\<close>), the legacy API of \<^verbatim>\<open>ib/api964\<close>, the printers of
  messages in \<^verbatim>\<open>proto/ostream.cpp\<close>, the R packages (\<^verbatim>\<open>raptor2\<close>, \<^verbatim>\<open>R-packages\<close>), \<^verbatim>\<open>couchdb\<close>, whose calls are HTTP requests of a library, the
  web server of \<^verbatim>\<open>varz\<close>, the other main programs, which wire components from flags, and the prototypes. Creation of threads and sockets, and
  the text of log messages, are left out throughout.
\<close>

end
